(* ===== verification/Prelude.thy ===== *)
theory Prelude
  imports Main "HOL-Library.Word" "HOL-Library.Char_ord" "HOL-Library.List_Lexorder"
begin

text \<open>
  Shared vocabulary of the development: Go's 64-bit arithmetic, the outcomes of a Go call
  (a value, an error value or a panic), programs that thread a state, and the rules that
  push a property through them.  Nothing here is specific to one component.

  \<^item> \<open>wrap64\<close> is the two's complement reading that Go gives to every \<open>int64\<close> and (on a
    64-bit target) \<open>int\<close> result; a value is kept as an \<open>int\<close> in the range.
  \<^item> \<open>outcome\<close> separates Go's error values (\<open>Failed\<close>) from panics (\<open>Panics\<close>): the idiom
    \<open>if err != nil\<close> sees the first and never the second.
  \<^item> \<open>bind\<close> is a call followed by \<open>if err != nil { return err }\<close>, \<open>attempt\<close> is
    \<open>x, err := f()\<close> where the caller inspects \<open>err\<close> itself, \<open>deferring\<close> is \<open>defer\<close>.
  \<^item> \<open>keeps\<close> (a state property no run of a program breaks) and its introduction rules
    \<open>keeps_intros\<close> carry the frame and invariant proofs of every component.
\<close>

named_theorems prog_defs "unfolding of the program combinators"
named_theorems keeps_intros "introduction rules for invariants of programs"
named_theorems int64_simps "rewriting of 64-bit arithmetic"

section \<open>64-bit integers\<close>

definition wrap64 :: "int \<Rightarrow> int" where
  "wrap64 n = signed_take_bit 63 n"

definition in_int64 :: "int \<Rightarrow> bool" where
  "in_int64 n \<longleftrightarrow> - (2 ^ 63) \<le> n \<and> n < 2 ^ 63"

lemma wrap64_id [int64_simps]: "in_int64 n \<Longrightarrow> wrap64 n = n"
  by (simp add: wrap64_def in_int64_def signed_take_bit_int_eq_self_iff)

lemma in_int64_wrap64 [simp]: "in_int64 (wrap64 n)"
  using signed_take_bit_int_greater_eq_minus_exp [of 63 n] signed_take_bit_int_less_exp [of 63 n]
  by (simp add: in_int64_def wrap64_def)

lemma wrap64_mod: "wrap64 n mod 2 ^ 64 = n mod 2 ^ 64"
proof -
  have "take_bit 64 (signed_take_bit 63 n) = take_bit 64 n"
    by (simp add: take_bit_signed_take_bit)
  then show ?thesis
    by (simp add: wrap64_def take_bit_eq_mod)
qed

lemma wrap64_idem [simp]: "wrap64 (wrap64 n) = wrap64 n"
  by (simp add: wrap64_id)

lemma in_int64_small: "\<bar>n\<bar> \<le> 2 ^ 62 \<Longrightarrow> in_int64 n"
  by (auto simp: in_int64_def abs_le_iff)

text \<open>Addition after wrapping agrees with addition before it.\<close>

lemma wrap64_eqI: "a mod 2 ^ 64 = b mod 2 ^ 64 \<Longrightarrow> wrap64 a = wrap64 b"
proof -
  assume "a mod 2 ^ 64 = b mod 2 ^ 64"
  then have "take_bit 64 a = take_bit 64 b" by (simp add: take_bit_eq_mod)
  then show ?thesis
    by (simp add: wrap64_def signed_take_bit_eq_iff_take_bit_eq)
qed

lemma wrap64_add_wrap64: "wrap64 (wrap64 a + b) = wrap64 (a + b)"
  by (rule wrap64_eqI) (metis mod_add_left_eq wrap64_mod)

lemma wrap64_add_wrap64_right: "wrap64 (a + wrap64 b) = wrap64 (a + b)"
  by (metis add.commute wrap64_add_wrap64)

lemma wrap64_minus_wrap64: "wrap64 (- wrap64 a) = wrap64 (- a)"
  by (rule wrap64_eqI) (metis mod_minus_eq wrap64_mod)

section \<open>Errors and outcomes\<close>

text \<open>
  \<open>Msg\<close> is \<open>errors.New\<close> or \<open>fmt.Errorf\<close> with the text the code gives; \<open>Wrap\<close> is an error
  wrapped with \<open>%w\<close>.  The other constructors are the sentinel errors the code tests for
  with \<open>errors.Is\<close> or \<open>==\<close>, and the errors of calls to external systems; \<open>NIPErr\<close> is the
  typed error \<open>utils.NIPError\<close> (code, message, cause).
\<close>

datatype go_err =
    Msg string
  | Wrap string go_err
  | NoRows
  | TxDone
  | DbErr
  | RedisNil
  | RedisErr
  | ExtErr string
  | NIPErr string string "go_err option"

datatype 'a outcome = Done 'a | Failed go_err | Panics string

type_synonym ('s, 'a) prog = "'s \<Rightarrow> 'a outcome \<times> 's"

definition ret :: "'a \<Rightarrow> ('s, 'a) prog" where
  "ret x s = (Done x, s)"

definition fail :: "go_err \<Rightarrow> ('s, 'a) prog" where
  "fail e s = (Failed e, s)"

definition panic :: "string \<Rightarrow> ('s, 'a) prog" where
  "panic p s = (Panics p, s)"

definition bind :: "('s, 'a) prog \<Rightarrow> ('a \<Rightarrow> ('s, 'b) prog) \<Rightarrow> ('s, 'b) prog" where
  "bind m k s = (case m s of
      (Done x, t) \<Rightarrow> k x t
    | (Failed e, t) \<Rightarrow> (Failed e, t)
    | (Panics p, t) \<Rightarrow> (Panics p, t))"

definition attempt :: "('s, 'a) prog \<Rightarrow> ('s, go_err + 'a) prog" where
  "attempt m s = (case m s of
      (Done x, t) \<Rightarrow> (Done (Inr x), t)
    | (Failed e, t) \<Rightarrow> (Done (Inl e), t)
    | (Panics p, t) \<Rightarrow> (Panics p, t))"

definition deferring :: "('s, 'a) prog \<Rightarrow> ('s \<Rightarrow> 's) \<Rightarrow> ('s, 'a) prog" where
  "deferring m cleanup s = (case m s of (r, t) \<Rightarrow> (r, cleanup t))"

definition gets :: "('s \<Rightarrow> 'a) \<Rightarrow> ('s, 'a) prog" where
  "gets f s = (Done (f s), s)"

definition modify :: "('s \<Rightarrow> 's) \<Rightarrow> ('s, unit) prog" where
  "modify f s = (Done (), f s)"

lemmas [prog_defs] =
  ret_def fail_def panic_def bind_def attempt_def deferring_def gets_def modify_def

lemma bind_ret [simp]: "bind (ret x) k = k x"
  by (rule ext) (simp add: bind_def ret_def)

lemma bind_fail [simp]: "bind (fail e) k = fail e"
  by (rule ext) (simp add: bind_def fail_def)

lemma bind_panic [simp]: "bind (panic p) k = panic p"
  by (rule ext) (simp add: bind_def panic_def)

lemma bind_assoc: "bind (bind m k) l = bind m (\<lambda>x. bind (k x) l)"
  by (rule ext) (auto simp: bind_def split: prod.splits outcome.splits)

lemma bind_Done_iff:
  "bind m k s = (Done y, u) \<longleftrightarrow> (\<exists>x t. m s = (Done x, t) \<and> k x t = (Done y, u))"
  by (auto simp: bind_def split: prod.splits outcome.splits)

lemma bind_DoneE:
  assumes "bind m k s = (Done y, u)"
  obtains x t where "m s = (Done x, t)" and "k x t = (Done y, u)"
  using assms by (auto simp: bind_Done_iff)

lemma fst_bind_Done: "m s = (Done x, t) \<Longrightarrow> bind m k s = k x t"
  by (simp add: bind_def)

section \<open>Properties no run breaks\<close>

text \<open>
  \<open>keeps P m\<close>: from a state with \<open>P\<close>, program \<open>m\<close> ends in a state with \<open>P\<close>, whatever its
  outcome.  A frame property is the special case where \<open>P\<close> fixes a field.
\<close>

definition keeps :: "('s \<Rightarrow> bool) \<Rightarrow> ('s, 'a) prog \<Rightarrow> bool" where
  "keeps P m \<longleftrightarrow> (\<forall>s. P s \<longrightarrow> P (snd (m s)))"

lemma keepsI: "(\<And>s. P s \<Longrightarrow> P (snd (m s))) \<Longrightarrow> keeps P m"
  by (simp add: keeps_def)

lemma keepsD: "keeps P m \<Longrightarrow> P s \<Longrightarrow> P (snd (m s))"
  by (simp add: keeps_def)

lemma keeps_ret [keeps_intros]: "keeps P (ret x)"
  by (simp add: keeps_def ret_def)

lemma keeps_fail [keeps_intros]: "keeps P (fail e)"
  by (simp add: keeps_def fail_def)

lemma keeps_panic [keeps_intros]: "keeps P (panic p)"
  by (simp add: keeps_def panic_def)

lemma keeps_gets [keeps_intros]: "keeps P (gets f)"
  by (simp add: keeps_def gets_def)

lemma keeps_bind [keeps_intros]:
  assumes "keeps P m" and "\<And>x. keeps P (k x)"
  shows "keeps P (bind m k)"
proof (rule keepsI)
  fix s assume "P s"
  with assms(1) have "P (snd (m s))" by (rule keepsD)
  then show "P (snd (bind m k s))"
    using assms(2) by (auto simp: bind_def keeps_def split: prod.splits outcome.splits)
qed

lemma keeps_attempt [keeps_intros]: "keeps P m \<Longrightarrow> keeps P (attempt m)"
  by (auto simp: keeps_def attempt_def split: prod.splits outcome.splits)

lemma keeps_deferring [keeps_intros]:
  "keeps P m \<Longrightarrow> (\<And>s. P s \<Longrightarrow> P (f s)) \<Longrightarrow> keeps P (deferring m f)"
  by (auto simp: keeps_def deferring_def split: prod.splits)

lemma keeps_modify [keeps_intros]: "(\<And>s. P s \<Longrightarrow> P (f s)) \<Longrightarrow> keeps P (modify f)"
  by (simp add: keeps_def modify_def)

lemma keeps_if [keeps_intros]:
  "(b \<Longrightarrow> keeps P m) \<Longrightarrow> (\<not> b \<Longrightarrow> keeps P n) \<Longrightarrow> keeps P (if b then m else n)"
  by simp

lemma keeps_case_option [keeps_intros]:
  "keeps P m \<Longrightarrow> (\<And>x. keeps P (k x)) \<Longrightarrow> keeps P (case v of None \<Rightarrow> m | Some x \<Rightarrow> k x)"
  by (simp split: option.split)

lemma keeps_case_sum [keeps_intros]:
  "(\<And>e. keeps P (h e)) \<Longrightarrow> (\<And>x. keeps P (k x)) \<Longrightarrow>
   keeps P (case v of Inl e \<Rightarrow> h e | Inr x \<Rightarrow> k x)"
  by (simp split: sum.split)

lemma keeps_case_prod [keeps_intros]:
  "(\<And>a b. keeps P (k a b)) \<Longrightarrow> keeps P (case v of (a, b) \<Rightarrow> k a b)"
  by (simp split: prod.split)

section \<open>Lists of rows\<close>

text \<open>
  A table with a unique column is a list of rows on which the column is injective.  The
  lemmas below read and write one row of such a list.
\<close>

lemma find_Some_unique:
  "distinct (map f xs) \<Longrightarrow> x \<in> set xs \<Longrightarrow> find (\<lambda>r. f r = f x) xs = Some x"
  by (induction xs) (auto simp: image_iff)

lemma find_SomeD: "find P xs = Some x \<Longrightarrow> x \<in> set xs \<and> P x"
  by (auto simp: find_Some_iff)

lemma sum_list_map_update:
  fixes g :: "'a \<Rightarrow> int"
  assumes "distinct (map f xs)" and "x \<in> set xs"
  shows "(\<Sum>r\<leftarrow>map (\<lambda>r. if f r = f x then h r else r) xs. g r)
       = (\<Sum>r\<leftarrow>xs. g r) - g x + g (h x)"
  using assms
proof (induction xs)
  case Nil
  then show ?case by simp
next
  case (Cons y ys)
  show ?case
  proof (cases "f y = f x")
    case True
    with Cons.prems have "x = y" by (auto simp: image_iff)
    with Cons.prems have "map (\<lambda>r. if f r = f x then h r else r) ys = ys"
      by (intro map_idI) (metis (mono_tags, lifting) \<open>x = y\<close> distinct.simps(2) imageI list.set_map list.simps(9))
    with \<open>x = y\<close> show ?thesis by simp
  next
    case False
    with Cons show ?thesis by auto
  qed
qed

text \<open>An update that leaves the key column alone leaves the list of keys alone.\<close>

lemma map_update_key:
  "(\<And>r. f (h r) = f r) \<Longrightarrow> map (f \<circ> (\<lambda>r. if P r then h r else r)) xs = map f xs"
  by (induction xs) auto

section \<open>Strings\<close>

definition is_prefix :: "string \<Rightarrow> string \<Rightarrow> bool" where
  "is_prefix p s \<longleftrightarrow> take (length p) s = p"

fun is_substring :: "string \<Rightarrow> string \<Rightarrow> bool" where
  "is_substring p [] \<longleftrightarrow> p = []"
| "is_substring p (c # s) \<longleftrightarrow> is_prefix p (c # s) \<or> is_substring p s"

definition is_digit :: "char \<Rightarrow> bool" where
  "is_digit c \<longleftrightarrow> CHR ''0'' \<le> c \<and> c \<le> CHR ''9''"

lemma is_prefix_iff: "is_prefix p s \<longleftrightarrow> (\<exists>t. s = p @ t)"
  by (metis append_eq_conv_conj append_take_drop_id is_prefix_def)

lemma is_substring_iff: "is_substring p s \<longleftrightarrow> (\<exists>a b. s = a @ p @ b)"
proof (induction s)
  case Nil
  then show ?case by simp
next
  case (Cons c s)
  have "is_substring p (c # s) \<longleftrightarrow> (\<exists>t. c # s = p @ t) \<or> (\<exists>a b. s = a @ p @ b)"
    by (simp add: is_prefix_iff Cons.IH)
  also have "\<dots> \<longleftrightarrow> (\<exists>a b. c # s = a @ p @ b)" (is "?l \<longleftrightarrow> ?r")
  proof
    assume ?l
    then show ?r by (metis append_Cons append_Nil)
  next
    assume ?r
    then obtain a b where ab: "c # s = a @ p @ b" by blast
    then show ?l by (cases a) auto
  qed
  finally show ?case .
qed

end
