(* ===== verification/Models.thy ===== *)
theory Models
  imports Prelude
begin

text \<open>
  The data of \<open>src/internal/models\<close>: one record per Go structure, one field per Go field
  (the prefix names the structure), in the source's order.

  \<^item> \<open>int64\<close> and \<open>int\<close> fields are \<open>int\<close>; a \<open>time.Time\<close> is its instant in nanoseconds; the named
    string types (\<open>PaymentMode\<close>, \<open>PaymentType\<close>, \<open>TransactionStatus\<close>) are strings; a pointer
    that may be nil is an option.
  \<^item> The coordinates of a \<open>Location\<close> (\<open>float64\<close>) are only printed, never computed with, and are
    kept as the text \<open>%v\<close> prints.
  \<^item> \<open>Metadata\<close> and \<open>map[string]any\<close> are maps to JSON values; a key bound to JSON null and an
    absent key are the same to the code, which compares the lookup with nil.
  \<^item> Field \<open>XMLName\<close>, used by the XML encoder only, is left out.
\<close>

datatype json = JNull | JBool bool | JInt int | JStr string | JArr "json list"
  | JObj "(string \<times> json) list"

type_synonym metadata = "string \<rightharpoonup> json"

text \<open>The value under a key; nil when absent or null.\<close>

definition meta_get :: "metadata \<Rightarrow> string \<Rightarrow> json" where
  "meta_get m k = (case m k of None \<Rightarrow> JNull | Some v \<Rightarrow> v)"

fun as_string :: "json \<Rightarrow> string option" where
  "as_string (JStr s) = Some s"
| "as_string _ = None"

section \<open>Requests, responses and events\<close>

record location =
  loc_Latitude :: string
  loc_Longitude :: string
  loc_Accuracy :: string
  loc_Address :: string

record voucher =
  vo_ID :: int
  vo_VoucherCode :: string
  vo_VoucherDescription :: string
  vo_VoucherDiscountAmount :: int
  vo_VoucherType :: string
  vo_VoucherAllowedServices :: "string list"

record payment_request =
  pr_TransactionID :: string
  pr_UserID :: string
  pr_FromAccount :: string
  pr_BeneficiaryAccountNumber :: string
  pr_BeneficiaryAccountName :: string
  pr_BeneficiaryBankName :: string
  pr_BeneficiaryBankCode :: string
  pr_Amount :: int
  pr_Currency :: string
  pr_Metadata :: metadata
  pr_Narration :: string
  pr_TxType :: string
  pr_PaymentMode :: string
  pr_SaveBeneficiary :: bool
  pr_OneTimeCode :: string
  pr_TwoFAType :: string
  pr_Location :: "location option"
  pr_IPAddress :: string

record funds_transfer_result =
  ft_SessionID :: string
  ft_Reference :: string
  ft_Status :: string
  ft_RejectReason :: string

record payment_response =
  rs_Success :: bool
  rs_TransactionID :: string
  rs_Reference :: string
  rs_Status :: string
  rs_Message :: string
  rs_Metadata :: metadata
  rs_PaymentMode :: string
  rs_Timestamp :: int

record airtime_data_request =
  ad_TransactionID :: string
  ad_DebitAccount :: string
  ad_PhoneNumber :: string
  ad_Network :: string
  ad_Service :: string
  ad_DataPlan :: string
  ad_Amount :: int
  ad_Narration :: string
  ad_PaymentMode :: string
  ad_Voucher :: voucher
  ad_OneTimeCode :: string
  ad_TwoFAType :: string
  ad_Location :: "location option"

record transaction_record =
  tr_ID :: int
  tr_TransactionID :: string
  tr_Reference :: string
  tr_OriginatorAccount :: string
  tr_BeneficiaryAccount :: string
  tr_Amount :: int
  tr_Fee :: int
  tr_TotalAmount :: int
  tr_Currency :: string
  tr_Status :: string
  tr_Narration :: string
  tr_Type :: string
  tr_Signature :: string
  tr_DeviceID :: string
  tr_Location :: location
  tr_SyncStatus :: string
  tr_ErrorMessage :: string
  tr_Metadata :: metadata
  tr_ToBankCode :: string
  tr_CreatedAt :: int
  tr_UpdatedAt :: int
  tr_SettledAt :: "int option"
  tr_ProcessedAt :: "int option"

record audit_event =
  ae_Timestamp :: int
  ae_EventType :: string
  ae_TxRequest :: payment_request
  ae_Error :: string
  ae_Details :: metadata

record activity_event =
  av_EventType :: string
  av_UserID :: string
  av_IPAddress :: string
  av_Details :: metadata
  av_Error :: string

record identification_response =
  iv_Verified :: bool
  iv_AccountName :: string
  iv_AccountNumber :: string
  iv_OriginalMsgId :: string
  iv_BVN :: string
  iv_RiskRating :: string

record ne_request =
  neq_SessionID :: string
  neq_DestinationInstitutionCode :: string
  neq_ChannelCode :: string
  neq_AccountNumber :: string

record ne_response =
  nes_SessionID :: string
  nes_DestinationInstitutionCode :: string
  nes_ChannelCode :: string
  nes_AccountNumber :: string
  nes_AccountName :: string
  nes_KYCLevel :: string
  nes_BankVerificationNumber :: string
  nes_ResponseCode :: string

record create_mandate_request =
  cm_DebitBankCode :: string
  cm_DebitAccountNumber :: string
  cm_DebitAccountName :: string
  cm_DebitBankName :: string
  cm_DebitBankVerificationNumber :: string
  cm_DebitKycLevel :: string
  cm_BeneficiaryAccountName :: string
  cm_BeneficiaryAccountNumber :: string
  cm_BeneficiaryBankVerificationNumber :: string
  cm_BeneficiaryKycLevel :: string

record mandate_advice_request =
  maq_SessionID :: string
  maq_DestinationInstitutionCode :: string
  maq_ChannelCode :: string
  maq_MandateReferenceNumber :: string
  maq_Amount :: string
  maq_DebitAccountName :: string
  maq_DebitAccountNumber :: string
  maq_BeneficiaryAccountName :: string
  maq_BeneficiaryAccountNumber :: string
  maq_BeneficiaryKYCLevel :: string
  maq_BeneficiaryBankVerificationNumber :: string
  maq_DebitBankVerificationNumber :: string
  maq_DebitKYCLevel :: string

record mandate_advice_response =
  mas_SessionID :: string
  mas_DestinationInstitutionCode :: string
  mas_ChannelCode :: string
  mas_MandateReferenceNumber :: string
  mas_Amount :: string
  mas_DebitAccountName :: string
  mas_DebitAccountNumber :: string
  mas_DebitBankVerificationNumber :: string
  mas_DebitKYCLevel :: string
  mas_BeneficiaryAccountName :: string
  mas_BeneficiaryAccountNumber :: string
  mas_BeneficiaryBankVerificationNumber :: string
  mas_BeneficiaryKYCLevel :: string
  mas_ResponseCode :: string

record balance_request =
  beq_SessionID :: string
  beq_DestinationInstitutionCode :: string
  beq_ChannelCode :: string
  beq_AuthorizationCode :: string
  beq_TargetAccountName :: string
  beq_TargetBankVerificationNumber :: string
  beq_TargetAccountNumber :: string

record balance_response =
  bes_SessionID :: string
  bes_DestinationInstitutionCode :: string
  bes_ChannelCode :: string
  bes_AuthorizationCode :: string
  bes_TargetAccountName :: string
  bes_TargetBankVerificationNumber :: string
  bes_TargetAccountNumber :: string
  bes_AvailableBalance :: string
  bes_ResponseCode :: string

record ft_debit_request =
  fdq_SessionID :: string
  fdq_NameEnquiryRef :: string
  fdq_DestinationInstitutionCode :: string
  fdq_ChannelCode :: string
  fdq_BeneficiaryAccountName :: string
  fdq_BeneficiaryAccountNumber :: string
  fdq_BeneficiaryBankVerificationNumber :: string
  fdq_BeneficiaryKYCLevel :: string
  fdq_DebitAccountName :: string
  fdq_DebitAccountNumber :: string
  fdq_DebitBankVerificationNumber :: string
  fdq_DebitKYCLevel :: string
  fdq_MandateReferenceNumber :: string
  fdq_TransactionLocation :: string
  fdq_TransactionFee :: string
  fdq_Narration :: string
  fdq_PaymentReference :: string
  fdq_Amount :: string

record ft_debit_response =
  fds_SessionID :: string
  fds_NameEnquiryRef :: string
  fds_DestinationInstitutionCode :: string
  fds_ChannelCode :: string
  fds_DebitAccountName :: string
  fds_DebitAccountNumber :: string
  fds_DebitBankVerificationNumber :: string
  fds_DebitKYCLevel :: string
  fds_BeneficiaryAccountName :: string
  fds_BeneficiaryAccountNumber :: string
  fds_BeneficiaryBankVerificationNumber :: string
  fds_BeneficiaryKYCLevel :: string
  fds_TransactionLocation :: string
  fds_Narration :: string
  fds_PaymentReference :: string
  fds_MandateReferenceNumber :: string
  fds_TransactionFee :: string
  fds_Amount :: string
  fds_ResponseCode :: string

record ft_credit_request =
  fcq_SessionID :: string
  fcq_NameEnquiryRef :: string
  fcq_DestinationInstitutionCode :: string
  fcq_ChannelCode :: string
  fcq_BeneficiaryAccountName :: string
  fcq_BeneficiaryAccountNumber :: string
  fcq_BeneficiaryBankVerificationNumber :: string
  fcq_BeneficiaryKYCLevel :: string
  fcq_OriginatorAccountName :: string
  fcq_OriginatorAccountNumber :: string
  fcq_OriginatorBankVerificationNumber :: string
  fcq_OriginatorKYCLevel :: string
  fcq_TransactionLocation :: string
  fcq_Narration :: string
  fcq_PaymentReference :: string
  fcq_Amount :: string

record ft_credit_response =
  fcs_SessionID :: string
  fcs_NameEnquiryRef :: string
  fcs_DestinationInstitutionCode :: string
  fcs_ChannelCode :: string
  fcs_BeneficiaryAccountName :: string
  fcs_BeneficiaryAccountNumber :: string
  fcs_BeneficiaryBankVerificationNumber :: string
  fcs_BeneficiaryKYCLevel :: string
  fcs_OriginatorAccountName :: string
  fcs_OriginatorAccountNumber :: string
  fcs_OriginatorBankVerificationNumber :: string
  fcs_OriginatorKYCLevel :: string
  fcs_TransactionLocation :: string
  fcs_Narration :: string
  fcs_PaymentReference :: string
  fcs_Amount :: string
  fcs_ResponseCode :: string

record tsq_request =
  tsq_SessionID :: string
  tsq_DestinationInstitutionCode :: string
  tsq_ChannelCode :: string
  tsq_OriginalSessionID :: string

record tsq_response =
  tss_SessionID :: string
  tss_DestinationInstitutionCode :: string
  tss_ChannelCode :: string
  tss_OriginalSessionID :: string
  tss_Amount :: string
  tss_BeneficiaryAccountName :: string
  tss_BeneficiaryAccountNumber :: string
  tss_DebitAccountName :: string
  tss_DebitAccountNumber :: string
  tss_ResponseCode :: string

record card_info =
  ci_EncryptedPAN :: string
  ci_EncryptedPIN :: string
  ci_ExpiryDate :: string
  ci_ATC :: int
  ci_CVR :: string
  ci_Cryptogram :: string
  ci_IssuerAppData :: string
  ci_CountryCode :: string
  ci_CurrencyCode :: string

record card_payment_request =
  cp_TransactionID :: string
  cp_TransactionDate :: int
  cp_MerchantID :: int
  cp_Amount :: int
  cp_PaymentMode :: string
  cp_CardInfo :: card_info
  cp_TxType :: string
  cp_Location :: "location option"

record bin_response =
  bn_BIN :: string
  bn_Scheme :: string
  bn_IssuerBank :: string
  bn_IssuerBankLogo :: string
  bn_Type :: string
  bn_Country :: string
  bn_Currency :: string
  bn_Source :: string

record session =
  se_UserID :: string
  se_DeviceID :: string
  se_RefreshHash :: string
  se_LastActivity :: int

section \<open>HTTP responses\<close>

text \<open>
  \<open>utils.SendErrorResponse\<close> and \<open>utils.SendSuccessResponse\<close>: the status code and the JSON body
  (\<open>errorMessage\<close> or \<open>message\<close>, \<open>success\<close>, \<open>details\<close>).
\<close>

record http_response =
  hr_status :: int
  hr_success :: bool
  hr_message :: string
  hr_details :: json

definition SendErrorResponse :: "string \<Rightarrow> int \<Rightarrow> http_response" where
  "SendErrorResponse message statusCode =
     \<lparr>hr_status = statusCode, hr_success = False, hr_message = message, hr_details = JNull\<rparr>"

definition SendSuccessResponse :: "string \<Rightarrow> json \<Rightarrow> int \<Rightarrow> http_response" where
  "SendSuccessResponse message details statusCode =
     \<lparr>hr_status = statusCode, hr_success = True, hr_message = message, hr_details = details\<rparr>"

lemma response_success [simp]:
  "\<not> hr_success (SendErrorResponse m c)" "hr_success (SendSuccessResponse m d c)"
  by (simp_all add: SendErrorResponse_def SendSuccessResponse_def)

text \<open>The constants of type \<open>ResponseMessage\<close>.\<close>

datatype response_message =
    InvalidCreds | AccountNotFoundError | UserNotFoundError | GenerateTokenError | TokenError
  | OTPError | PasswordResetError | ValidationError | MultiFactorAuthError | InvalidRequestError
  | UnauthorizedError | SingleObjectError | FetchTransaction | SingleLimitError | PaymentFailed
  | InvalidPaymentMode | ProcessingFailed | OTPGenerationError | InternalServiceError
  | NIPServiceUnavailable | UserCreated | AccountFound | LoginSuccess | ResetLinkSent | OTPSent
  | PasswordResetSuccess | TransactionFetched | PaymentInitiated | PaymentSuccessful

fun Response :: "response_message \<Rightarrow> string" where
  "Response InvalidCreds = ''Invalid Credentials''"
| "Response AccountNotFoundError = ''Account Not Found''"
| "Response UserNotFoundError = ''User Not Found''"
| "Response GenerateTokenError = ''Failed to Generate Token''"
| "Response TokenError = ''Invalid or Expired Reset Token''"
| "Response OTPError = ''Invalid or Expired OTP''"
| "Response PasswordResetError = ''Failed to Reset Password''"
| "Response ValidationError = ''Validation Failed''"
| "Response MultiFactorAuthError = ''Multi Factor Validation Failed''"
| "Response InvalidRequestError = ''Invalid Request Body''"
| "Response UnauthorizedError = ''Unauthorized User Access''"
| "Response SingleObjectError = ''Request Body Must Only Contain a Single JSON Object''"
| "Response FetchTransaction = ''Failed to Fetch Transaction''"
| "Response SingleLimitError = ''Single Transaction Limit Cannot Exceed Daily Limit''"
| "Response PaymentFailed = ''Payment Processing Failed''"
| "Response InvalidPaymentMode = ''Invalid Payment Mode''"
| "Response ProcessingFailed = ''Unable to Process Request at this time''"
| "Response OTPGenerationError = ''Failed to Generate OTP''"
| "Response InternalServiceError = ''Internal Service Error''"
| "Response NIPServiceUnavailable = ''Banking service is currently unavailable, please try again later''"
| "Response UserCreated = ''User Created Successfully''"
| "Response AccountFound = ''Account Found Successfully''"
| "Response LoginSuccess = ''Login Successful''"
| "Response ResetLinkSent = ''Password Reset Link Sent to your Email Address''"
| "Response OTPSent = ''OTP Sent to your Email Address''"
| "Response PasswordResetSuccess = ''Password Reset Successful''"
| "Response TransactionFetched = ''Transaction Data Fetched Successfully''"
| "Response PaymentInitiated = ''Payment Initiated Successfully''"
| "Response PaymentSuccessful = ''Payment Successful''"

section \<open>NIP response codes\<close>

definition nipResponseDescriptions :: "(string \<times> string) list" where
  "nipResponseDescriptions =
    [(''00'', ''Approved Or Completed Successfully''),
     (''01'', ''Status Unknown, Please Wait For Settlement Report''),
     (''03'', ''Invalid Sender''),
     (''05'', ''Do Not Honor''),
     (''06'', ''Dormant Account''),
     (''07'', ''Invalid Account''),
     (''08'', ''Account Name Mismatch''),
     (''09'', ''Request Processing In Progress''),
     (''12'', ''Invalid Transaction''),
     (''13'', ''Invalid Amount''),
     (''14'', ''Invalid Batch Number''),
     (''15'', ''Invalid Session Or Record ID''),
     (''16'', ''Unknown Bank Code''),
     (''17'', ''Invalid Channel''),
     (''18'', ''Wrong Method Call''),
     (''21'', ''No Action Taken''),
     (''25'', ''Unable To Locate Record''),
     (''26'', ''Duplicate Record''),
     (''30'', ''Format Error''),
     (''34'', ''Suspected Fraud''),
     (''35'', ''Contact Sending Bank''),
     (''51'', ''No Sufficient Funds''),
     (''57'', ''Transaction Not Permitted To Sender''),
     (''58'', ''Transaction Not Permitted On Channel''),
     (''61'', ''Transfer Limit Exceeded''),
     (''63'', ''Security Violation''),
     (''65'', ''Exceeds Withdrawal Frequency''),
     (''68'', ''Response Received Too Late''),
     (''69'', ''Unsuccessful Account/Amount Block''),
     (''70'', ''Unsuccessful Account/Amount Unblock''),
     (''71'', ''Empty Mandate Reference Number''),
     (''91'', ''Beneficiary Bank Not Available''),
     (''92'', ''Routing Error''),
     (''94'', ''Duplicate Transaction''),
     (''96'', ''System Malfunction''),
     (''97'', ''Timeout Waiting For Response From Destination''),
     (''99'', ''Error Occurred While Sending Request'')]"

definition Description :: "string \<Rightarrow> string" where
  "Description c = (case map_of nipResponseDescriptions c of
       Some desc \<Rightarrow> desc
     | None \<Rightarrow> ''Unknown NIP response code: '' @ c)"

text \<open>\<open>NIPError\<close>: a response code, a message that overrides its description, and a cause.\<close>

definition NIPError_Error :: "string \<Rightarrow> string \<Rightarrow> string" where
  "NIPError_Error code message = (if message \<noteq> [] then message else Description code)"

definition NewNIPError :: "string \<Rightarrow> go_err option \<Rightarrow> go_err" where
  "NewNIPError code cause = NIPErr code [] cause"

definition NewNIPErrorMsg :: "string \<Rightarrow> string \<Rightarrow> go_err" where
  "NewNIPErrorMsg code msg = NIPErr code msg None"

text \<open>The text of an error, \<open>err.Error()\<close>.\<close>

fun err_text :: "go_err \<Rightarrow> string" where
  "err_text (Msg s) = s"
| "err_text (Wrap s e) = s @ err_text e"
| "err_text NoRows = ''sql: no rows in result set''"
| "err_text TxDone = ''sql: transaction has already been committed or rolled back''"
| "err_text DbErr = ''pq: statement failed''"
| "err_text RedisNil = ''redis: nil''"
| "err_text RedisErr = ''redis: connection error''"
| "err_text (ExtErr s) = s"
| "err_text (NIPErr code message cause) = NIPError_Error code message"

end
