(* ===== verification/Store.thy ===== *)
theory Store
  imports Models
begin

text \<open>
  The external state the services share: the SQL tables (package \<open>database/sql\<close> over
  PostgreSQL), the Redis keys, the clock and the calls sent to the NIBSS switch.

  \<^item> A table is a list of rows in insertion order, with the columns that the modelled
    statements read or write; the row types follow \<open>src/internal/models\<close> and the
    statements in the services.
  \<^item> A transaction (\<open>db.Begin\<close>) is a working copy of the tables.  \<open>tx.Commit\<close> makes it the
    committed state; \<open>tx.Rollback\<close>, deferred by every handler, drops it.  After a statement
    fails inside a transaction PostgreSQL refuses the later ones until the rollback.
  \<^item> Every call to an external system takes one bit of \<open>faults\<close>: \<open>True\<close> makes it fail.
    Theorems are proved for any \<open>faults\<close>, so they cover any statement failing at any point;
    the empty list is the run without failures.
  \<^item> SQL integer arithmetic is checked: a \<open>BIGINT\<close> or \<open>INTEGER\<close> result out of range is a
    failed statement, unlike the wrap-around of Go's \<open>int64\<close>.
  \<^item> \<open>now\<close> is the clock in nanoseconds; it stands still during one operation.
\<close>

section \<open>Rows\<close>

text \<open>\<open>models.Account\<close> and the further columns of table \<open>accounts\<close>.\<close>

record account =
  acct_id :: string
  acct_balance :: int
  acct_version :: int
  acct_status :: string
  acct_user :: "int option"
  acct_name :: string
  acct_bank_name :: string
  acct_bank_code :: string
  acct_mandate :: string
  acct_primary :: bool

datatype payment_type = DebitPayment | CreditPayment | WithdrawalPayment

text \<open>\<open>models.LedgerEntry\<close>.\<close>

record ledger_entry =
  le_txid :: string
  le_account :: string
  le_amount :: int
  le_type :: payment_type
  le_balance :: int

record txn_row =
  txn_id :: string
  txn_debit :: string
  txn_credit :: "string option"
  txn_amount :: int
  txn_total :: int
  txn_mode :: string
  txn_status :: string
  txn_user :: string

record audit_row =
  aud_txid :: string
  aud_amount :: int
  aud_longitude :: string
  aud_latitude :: string
  aud_ip :: string
  aud_twofa :: string
  aud_signature :: string
  aud_event :: string

record ussd_row =
  uc_txid :: string
  uc_hash :: string
  uc_type :: string
  uc_user :: string
  uc_amount :: int
  uc_expires :: int
  uc_used :: bool
  uc_used_at :: "int option"

record limits_row =
  lim_user :: int
  lim_daily :: int
  lim_single :: int
  lim_kyc_status :: string
  lim_kyc_level :: int

record user_row =
  usr_id :: int
  usr_bvn :: string
  usr_email :: string
  usr_phone :: string
  usr_first_name :: string

text \<open>The further columns of table \<open>users\<close>, which only the authentication reads, by the same id.\<close>

record login_row =
  lg_user :: int
  lg_username :: string
  lg_last_name :: string
  lg_account :: string
  lg_password :: string
  lg_status :: string
  lg_deleted :: bool

record preference_row =
  pf_user :: int
  pf_push :: bool
  pf_sms :: bool
  pf_email :: bool

record merchant_row =
  mer_id :: string
  mer_name :: string
  mer_status :: string
  mer_account :: "string option"
  mer_user :: int

record db =
  accounts :: "account list"
  ledger_entries :: "ledger_entry list"
  payment_states :: "(string \<times> string) list"
  transactions :: "txn_row list"
  audit_events :: "audit_row list"
  ussd_codes :: "ussd_row list"
  user_limits :: "limits_row list"
  users :: "user_row list"
  merchants :: "merchant_row list"
  logins :: "login_row list"
  preferences :: "preference_row list"
  admins :: "int list"
  feedback :: "string list list"

text \<open>
  A Redis value is the JSON text or string the code stores; a value that is the encoding of
  a structure is kept as that structure, so that unmarshalling is a case distinction.
\<close>

record qr_data =
  qr_user :: string
  qr_merchant :: string
  qr_timestamp :: int
  qr_expires :: int
  qr_nonce :: string

text \<open>\<open>VirtualAccountData\<close> of \<open>services/virtual_account_helper.go\<close>.\<close>

record va_data =
  va_number :: string
  va_name :: string
  va_bank :: string
  va_merchant :: string
  va_amount :: int
  va_expires :: int

text \<open>The session that \<open>UserLogin\<close> stores.\<close>

record session_data =
  ss_user :: string
  ss_device :: string
  ss_expires :: string
  ss_preference :: json

datatype rvalue = RStr string | RInt int | RQr qr_data | RVa va_data | RUser user_row
  | RSession session_data
  | RHash "(string \<times> string) list"

text \<open>The messages that services send to the NIP switch, in the order of the posts.\<close>

datatype nip_call = NipNameEnquiry ne_request | NipMandate mandate_advice_request
  | NipBalance balance_request | NipDebit ft_debit_request | NipCredit ft_credit_request
  | NipTsq tsq_request

record world =
  committed :: db
  tx :: "(db \<times> bool) option"
  redis :: "string \<rightharpoonup> rvalue \<times> int"
  now :: int
  faults :: "bool list"
  nip_log :: "nip_call list"

type_synonym 'a go = "(world, 'a) prog"

definition second :: int where
  "second = 10 ^ 9"

definition unix_time :: "world \<Rightarrow> int" where
  "unix_time w = now w div second"

section \<open>External calls\<close>

definition next_fault :: "world \<Rightarrow> bool" where
  "next_fault w = (case faults w of [] \<Rightarrow> False | f # _ \<Rightarrow> f)"

definition used_fault :: "world \<Rightarrow> world" where
  "used_fault w = w\<lparr>faults := tl (faults w)\<rparr>"

text \<open>
  A statement is a function on the tables: \<open>None\<close> is a statement the database refuses,
  \<open>Some (x, d)\<close> its answer and the tables after it.
\<close>

type_synonym 'a stmt = "db \<Rightarrow> ('a \<times> db) option"

definition db_run :: "'a stmt \<Rightarrow> 'a go" where
  "db_run st w =
     (if next_fault w then (Failed DbErr, used_fault w)
      else case st (committed w) of
             None \<Rightarrow> (Failed DbErr, used_fault w)
           | Some (x, d) \<Rightarrow> (Done x, (used_fault w)\<lparr>committed := d\<rparr>))"

definition tx_begin :: "unit go" where
  "tx_begin w =
     (if next_fault w then (Failed DbErr, used_fault w)
      else (Done (), (used_fault w)\<lparr>tx := Some (committed w, False)\<rparr>))"

definition tx_run :: "'a stmt \<Rightarrow> 'a go" where
  "tx_run st w = (case tx w of
       None \<Rightarrow> (Failed TxDone, w)
     | Some (d, aborted) \<Rightarrow>
         if aborted \<or> next_fault w then (Failed DbErr, (used_fault w)\<lparr>tx := Some (d, True)\<rparr>)
         else case st d of
                None \<Rightarrow> (Failed DbErr, (used_fault w)\<lparr>tx := Some (d, True)\<rparr>)
              | Some (x, d') \<Rightarrow> (Done x, (used_fault w)\<lparr>tx := Some (d', False)\<rparr>))"

definition tx_commit :: "unit go" where
  "tx_commit w = (case tx w of
       None \<Rightarrow> (Failed TxDone, w)
     | Some (d, aborted) \<Rightarrow>
         if aborted \<or> next_fault w then (Failed DbErr, (used_fault w)\<lparr>tx := None\<rparr>)
         else (Done (), (used_fault w)\<lparr>tx := None, committed := d\<rparr>))"

definition tx_rollback :: "world \<Rightarrow> world" where
  "tx_rollback w = w\<lparr>tx := None\<rparr>"

lemmas [prog_defs] =
  db_run_def tx_begin_def tx_run_def tx_commit_def tx_rollback_def
  next_fault_def used_fault_def

lemma used_fault_sel [simp]:
  "committed (used_fault w) = committed w" "tx (used_fault w) = tx w"
  "redis (used_fault w) = redis w" "now (used_fault w) = now w"
  "nip_log (used_fault w) = nip_log w"
  by (simp_all add: used_fault_def)

lemma tx_rollback_sel [simp]:
  "committed (tx_rollback w) = committed w" "tx (tx_rollback w) = None"
  "redis (tx_rollback w) = redis w" "now (tx_rollback w) = now w"
  "nip_log (tx_rollback w) = nip_log w" "faults (tx_rollback w) = faults w"
  by (simp_all add: tx_rollback_def)

text \<open>One answer row, or \<open>sql.ErrNoRows\<close> from \<open>Scan\<close>.\<close>

definition scan_one :: "'a option \<Rightarrow> 'a go" where
  "scan_one r = (case r of None \<Rightarrow> fail NoRows | Some x \<Rightarrow> ret x)"

lemmas [prog_defs] = scan_one_def

section \<open>Redis\<close>

definition redis_live :: "string \<Rightarrow> world \<Rightarrow> rvalue option" where
  "redis_live k w = (case redis w k of
       None \<Rightarrow> None
     | Some (v, expires) \<Rightarrow> if now w < expires then Some v else None)"

definition redis_put :: "string \<Rightarrow> rvalue \<Rightarrow> int \<Rightarrow> world \<Rightarrow> world" where
  "redis_put k v ttl w = w\<lparr>redis := (redis w)(k \<mapsto> (v, now w + ttl))\<rparr>"

definition redis_drop :: "string \<Rightarrow> world \<Rightarrow> world" where
  "redis_drop k w = w\<lparr>redis := (redis w)(k := None)\<rparr>"

definition redis_get :: "string \<Rightarrow> rvalue go" where
  "redis_get k w =
     (if next_fault w then (Failed RedisErr, used_fault w)
      else case redis_live k w of
             None \<Rightarrow> (Failed RedisNil, used_fault w)
           | Some v \<Rightarrow> (Done v, used_fault w))"

definition redis_exists :: "string \<Rightarrow> bool go" where
  "redis_exists k w =
     (if next_fault w then (Failed RedisErr, used_fault w)
      else (Done (redis_live k w \<noteq> None), used_fault w))"

definition redis_set :: "string \<Rightarrow> rvalue \<Rightarrow> int \<Rightarrow> unit go" where
  "redis_set k v ttl w =
     (if next_fault w then (Failed RedisErr, used_fault w)
      else (Done (), redis_put k v ttl (used_fault w)))"

definition redis_del :: "string \<Rightarrow> unit go" where
  "redis_del k w =
     (if next_fault w then (Failed RedisErr, used_fault w)
      else (Done (), redis_drop k (used_fault w)))"

text \<open>A call whose error the code ignores.\<close>

definition ignoring :: "'a go \<Rightarrow> unit go" where
  "ignoring m = bind (attempt m) (\<lambda>_. ret ())"

text \<open>
  Hashes: \<open>HGETALL\<close> (an absent key is the empty hash), \<open>HSET\<close> (fields are added to those there,
  the lifetime stays) and \<open>EXPIRE\<close>.  A hash stored without a lifetime is kept until the last
  instant that Go's nanosecond clock can name.
\<close>

definition redis_hgetall :: "string \<Rightarrow> (string \<times> string) list go" where
  "redis_hgetall k w =
     (if next_fault w then (Failed RedisErr, used_fault w)
      else case redis_live k w of
             None \<Rightarrow> (Done [], used_fault w)
           | Some (RHash h) \<Rightarrow> (Done h, used_fault w)
           | Some _ \<Rightarrow> (Failed (ExtErr ''WRONGTYPE''), used_fault w))"

definition redis_forever :: int where
  "redis_forever = 2 ^ 63"

definition redis_hset :: "string \<Rightarrow> (string \<times> string) list \<Rightarrow> unit go" where
  "redis_hset k fs w =
     (if next_fault w then (Failed RedisErr, used_fault w)
      else case redis_live k w of
             None \<Rightarrow> (Done (), (used_fault w)\<lparr>redis := (redis w)(k \<mapsto> (RHash fs, redis_forever))\<rparr>)
           | Some (RHash h) \<Rightarrow>
               (Done (), (used_fault w)\<lparr>redis := (redis w)(k \<mapsto> (RHash (fs @ filter (\<lambda>p. fst p \<notin> fst ` set fs) h),
                  snd (the (redis w k))))\<rparr>)
           | Some _ \<Rightarrow> (Failed (ExtErr ''WRONGTYPE''), used_fault w))"

definition redis_expire :: "string \<Rightarrow> int \<Rightarrow> unit go" where
  "redis_expire k ttl w =
     (if next_fault w then (Failed RedisErr, used_fault w)
      else case redis_live k w of
             None \<Rightarrow> (Done (), used_fault w)
           | Some v \<Rightarrow> (Done (), redis_put k v ttl (used_fault w)))"

lemmas [prog_defs] =
  redis_get_def redis_exists_def redis_set_def redis_del_def ignoring_def redis_hgetall_def
  redis_hset_def redis_expire_def

lemma redis_frame [simp]:
  "committed (redis_put k v t w) = committed w" "committed (redis_drop k w) = committed w"
  "tx (redis_put k v t w) = tx w" "tx (redis_drop k w) = tx w"
  "now (redis_put k v t w) = now w" "now (redis_drop k w) = now w"
  "nip_log (redis_put k v t w) = nip_log w" "nip_log (redis_drop k w) = nip_log w"
  by (simp_all add: redis_put_def redis_drop_def)

lemma redis_live_used_fault [simp]: "redis_live k (used_fault w) = redis_live k w"
  by (simp add: redis_live_def split: option.split)

lemma redis_live_sub [simp]:
  "redis_live k (w\<lparr>committed := d\<rparr>) = redis_live k w"
  "redis_live k (w\<lparr>tx := t\<rparr>) = redis_live k w"
  "redis_live k (tx_rollback w) = redis_live k w"
  by (simp_all add: redis_live_def split: option.split)

subsection \<open>The key-value contract\<close>

text \<open>
  What the services rely on when they keep a one-time code, a QR token or an idempotency
  mark in Redis: a value just stored with a positive lifetime is read back, other keys are
  not touched, and a deleted key stays absent until somebody stores it again.
\<close>

locale kv_store =
  fixes look :: "'k \<Rightarrow> 's \<Rightarrow> 'v option"
    and put :: "'k \<Rightarrow> 'v \<Rightarrow> int \<Rightarrow> 's \<Rightarrow> 's"
    and drop_key :: "'k \<Rightarrow> 's \<Rightarrow> 's"
  assumes look_put: "0 < ttl \<Longrightarrow> look k (put k v ttl s) = Some v"
    and look_put_other: "k' \<noteq> k \<Longrightarrow> look k' (put k v ttl s) = look k' s"
    and look_drop: "look k (drop_key k s) = None"
    and look_drop_other: "k' \<noteq> k \<Longrightarrow> look k' (drop_key k s) = look k' s"
begin

text \<open>Writes to other keys: stores and deletions, in any order.\<close>

fun writes :: "('k \<times> ('v \<times> int) option) list \<Rightarrow> 's \<Rightarrow> 's" where
  "writes [] s = s"
| "writes ((k, Some (v, ttl)) # ws) s = writes ws (put k v ttl s)"
| "writes ((k, None) # ws) s = writes ws (drop_key k s)"

lemma look_writes_other: "k \<notin> fst ` set ws \<Longrightarrow> look k (writes ws s) = look k s"
  by (induction ws s rule: writes.induct) (auto simp: look_put_other look_drop_other)

lemma consumed_stays_absent:
  "k \<notin> fst ` set ws \<Longrightarrow> look k (writes ws (drop_key k s)) = None"
  by (simp add: look_writes_other look_drop)

lemma stored_stays:
  "0 < ttl \<Longrightarrow> k \<notin> fst ` set ws \<Longrightarrow> look k (writes ws (put k v ttl s)) = Some v"
  by (simp add: look_writes_other look_put)

end

interpretation rkv: kv_store redis_live redis_put redis_drop
  by unfold_locales (auto simp: redis_live_def redis_put_def redis_drop_def split: option.splits)

lemmas [simp] = rkv.look_put rkv.look_put_other rkv.look_drop rkv.look_drop_other

section \<open>Frame rules\<close>

text \<open>
  Between \<open>tx_begin\<close> and \<open>tx_commit\<close> no statement of the transaction touches the committed
  tables; Redis calls never touch a table.
\<close>

definition committed_is :: "db \<Rightarrow> world \<Rightarrow> bool" where
  "committed_is d w \<longleftrightarrow> committed w = d"

lemma committed_is_tx_run [keeps_intros]: "keeps (committed_is d) (tx_run st)"
  by (rule keepsI) (auto simp: committed_is_def tx_run_def split: option.splits prod.splits)

lemma committed_is_tx_begin [keeps_intros]: "keeps (committed_is d) tx_begin"
  by (rule keepsI) (auto simp: committed_is_def tx_begin_def)

lemma committed_is_rollback: "committed_is d w \<Longrightarrow> committed_is d (tx_rollback w)"
  by (simp add: committed_is_def)

lemma committed_is_scan [keeps_intros]: "keeps P (scan_one r)"
  by (auto simp: scan_one_def intro: keeps_intros split: option.split)

lemma keeps_ignoring [keeps_intros]: "keeps P m \<Longrightarrow> keeps P (ignoring m)"
  unfolding ignoring_def by (intro keeps_intros)

lemma committed_is_redis [keeps_intros]:
  "keeps (committed_is d) (redis_get k)" "keeps (committed_is d) (redis_exists k)"
  "keeps (committed_is d) (redis_set k v t)" "keeps (committed_is d) (redis_del k)"
  by (rule keepsI; auto simp: committed_is_def redis_get_def redis_exists_def redis_set_def
      redis_del_def split: option.splits)+

lemma committed_is_db_read:
  "(\<And>d x d'. st d = Some (x, d') \<Longrightarrow> d' = d) \<Longrightarrow> keeps (committed_is d) (db_run st)"
  by (rule keepsI) (auto simp: committed_is_def db_run_def split: option.splits prod.splits)

section \<open>SQL statements on accounts\<close>

definition in_int4 :: "int \<Rightarrow> bool" where
  "in_int4 n \<longleftrightarrow> - (2 ^ 31) \<le> n \<and> n < 2 ^ 31"

definition find_account :: "string \<Rightarrow> db \<Rightarrow> account option" where
  "find_account a d = find (\<lambda>r. acct_id r = a) (accounts d)"

definition balance_of :: "string \<Rightarrow> db \<Rightarrow> int" where
  "balance_of a d = (case find_account a d of None \<Rightarrow> 0 | Some r \<Rightarrow> acct_balance r)"

definition total_balance :: "db \<Rightarrow> int" where
  "total_balance d = (\<Sum>r\<leftarrow>accounts d. acct_balance r)"

text \<open>\<open>account_id\<close> is unique, balances and versions are within their columns.\<close>

definition accounts_ok :: "db \<Rightarrow> bool" where
  "accounts_ok d \<longleftrightarrow> distinct (map acct_id (accounts d)) \<and>
     (\<forall>r \<in> set (accounts d). in_int64 (acct_balance r) \<and> in_int4 (acct_version r))"

text \<open>\<open>UPDATE accounts SET balance = balance + delta WHERE account_id = a\<close>.\<close>

definition sql_add_balance :: "int \<Rightarrow> string \<Rightarrow> unit stmt" where
  "sql_add_balance delta a d =
     (if \<forall>r \<in> set (accounts d). acct_id r = a \<longrightarrow> in_int64 (acct_balance r + delta)
      then Some ((), d\<lparr>accounts := map (\<lambda>r. if acct_id r = a
             then r\<lparr>acct_balance := acct_balance r + delta\<rparr> else r) (accounts d)\<rparr>)
      else None)"

text \<open>\<open>INSERT INTO transactions\<close>: \<open>transaction_id\<close> is the primary key.\<close>

definition sql_insert_transaction :: "txn_row \<Rightarrow> unit stmt" where
  "sql_insert_transaction t d =
     (if txn_id t \<in> txn_id ` set (transactions d) then None
      else Some ((), d\<lparr>transactions := transactions d @ [t]\<rparr>))"

definition transactions_ok :: "db \<Rightarrow> bool" where
  "transactions_ok d \<longleftrightarrow> distinct (map txn_id (transactions d))"

lemma find_account_mem:
  "find_account a d = Some r \<Longrightarrow> r \<in> set (accounts d) \<and> acct_id r = a"
  by (auto simp: find_account_def dest: find_SomeD)

lemma find_account_unique:
  "accounts_ok d \<Longrightarrow> r \<in> set (accounts d) \<Longrightarrow> find_account (acct_id r) d = Some r"
  by (simp add: accounts_ok_def find_account_def find_Some_unique)

lemma find_map_id:
  "(\<And>r. acct_id (f r) = acct_id r) \<Longrightarrow>
   find (\<lambda>r. acct_id r = a) (map f xs) = map_option f (find (\<lambda>r. acct_id r = a) xs)"
  by (induction xs) auto

lemma sql_add_balance_find:
  assumes "sql_add_balance delta a d = Some (u, d')"
  shows "find_account b d' = map_option (\<lambda>r. if acct_id r = a
           then r\<lparr>acct_balance := acct_balance r + delta\<rparr> else r) (find_account b d)"
  using assms by (auto simp: sql_add_balance_def find_account_def find_map_id split: if_splits)

lemma sql_add_balance_ok:
  assumes "sql_add_balance delta a d = Some (u, d')" and "accounts_ok d"
  shows "accounts_ok d'"
  using assms by (auto simp: sql_add_balance_def accounts_ok_def map_update_key split: if_splits)

lemma sql_add_balance_total:
  assumes "sql_add_balance delta a d = Some (u, d')" and "accounts_ok d"
    and "find_account a d = Some r"
  shows "total_balance d' = total_balance d + delta"
proof -
  have mem: "r \<in> set (accounts d)" and id: "acct_id r = a"
    using find_account_mem assms(3) by blast+
  have "distinct (map acct_id (accounts d))" using assms(2) by (simp add: accounts_ok_def)
  from sum_list_map_update [OF this mem, where g = acct_balance
      and h = "\<lambda>r. r\<lparr>acct_balance := acct_balance r + delta\<rparr>"] assms(1) id
  show ?thesis by (auto simp: sql_add_balance_def total_balance_def split: if_splits)
qed

lemma sql_add_balance_absent:
  assumes "sql_add_balance delta a d = Some (u, d')" and "find_account a d = None"
  shows "d' = d"
proof -
  have "map (\<lambda>r. if acct_id r = a then r\<lparr>acct_balance := acct_balance r + delta\<rparr> else r)
          (accounts d) = accounts d"
    using assms(2) by (intro map_idI) (auto simp: find_account_def find_None_iff)
  with assms(1) show ?thesis by (auto simp: sql_add_balance_def split: if_splits)
qed

lemma sql_add_balance_frame:
  assumes "sql_add_balance delta a d = Some (u, d')"
  shows "transactions d' = transactions d" "ledger_entries d' = ledger_entries d"
    "ussd_codes d' = ussd_codes d" "payment_states d' = payment_states d"
    "audit_events d' = audit_events d" "user_limits d' = user_limits d"
  using assms by (auto simp: sql_add_balance_def split: if_splits)

lemma sql_insert_transaction_frame:
  assumes "sql_insert_transaction t d = Some (u, d')"
  shows "accounts d' = accounts d" "ledger_entries d' = ledger_entries d"
    "ussd_codes d' = ussd_codes d" "transactions d' = transactions d @ [t]"
    "txn_id t \<notin> txn_id ` set (transactions d)"
  using assms by (auto simp: sql_insert_transaction_def split: if_splits)

section \<open>A small database\<close>

text \<open>The concrete state on which the witnesses of the development are evaluated.\<close>

definition mk_account :: "string \<Rightarrow> int \<Rightarrow> int option \<Rightarrow> account" where
  "mk_account a b u = \<lparr>acct_id = a, acct_balance = b, acct_version = 1, acct_status = ''ACTIVE'',
     acct_user = u, acct_name = ''ADA'', acct_bank_name = ''STANBIC'',
     acct_bank_code = ''221'', acct_mandate = ''M1'', acct_primary = False\<rparr>"

definition sample_db :: db where
  "sample_db = \<lparr>accounts = [mk_account ''1000000001'' 500 (Some 7), mk_account ''1000000002'' 40 (Some 8),
       mk_account ''0000000001'' 0 None],
     ledger_entries = [], payment_states = [], transactions = [], audit_events = [],
     ussd_codes = [], user_limits = [\<lparr>lim_user = 7, lim_daily = 1000, lim_single = 400,
       lim_kyc_status = ''VERIFIED'', lim_kyc_level = 2\<rparr>],
     users = [\<lparr>usr_id = 7, usr_bvn = ''22'', usr_email = ''a@b.ng'', usr_phone = ''080'',
       usr_first_name = ''ADA''\<rparr>], merchants = [],
     logins = [\<lparr>lg_user = 7, lg_username = ''ada'', lg_last_name = ''OBI'', lg_account = ''080'',
       lg_password = ''c2FsdA==$c2VjcmV0c2FsdA=='', lg_status = ''active'', lg_deleted = False\<rparr>],
     preferences = [], admins = [], feedback = []\<rparr>"

definition sample_world :: world where
  "sample_world = \<lparr>committed = sample_db, tx = None, redis = Map.empty, now = 10 ^ 18,
     faults = [], nip_log = []\<rparr>"

lemmas sample_defs = sample_world_def sample_db_def mk_account_def

end
