(* ===== verification/Tx.thy ===== *)
theory Tx
  imports Store
begin

text \<open>
  Programs that run inside one SQL transaction, and what a whole transaction does.

  \<^item> \<open>implements m f\<close>: program \<open>m\<close>, run in an open transaction, does to the working copy what
    the statement \<open>f\<close> says, or fails; without faults it fails only where \<open>f\<close> refuses.
    The rules \<open>implements_intros\<close> follow the structure of a program, so a handler's
    transaction body is shown to implement one function on the tables.
  \<^item> \<open>with_tx m\<close> is the frame of every handler: begin, deferred rollback, body, commit.
    \<open>with_tx_cases\<close> is all-or-nothing: a run that does not return \<open>Done\<close> leaves the
    committed tables as they were.
  \<^item> Locale \<open>tx_request\<close> is the contract of a request handler with respect to an invariant of
    the tables; its lemmas extend it to any sequence of requests.
\<close>

named_theorems implements_intros "a program implements a statement"

definition same_outside :: "world \<Rightarrow> world \<Rightarrow> bool" where
  "same_outside w w' \<longleftrightarrow> committed w' = committed w \<and> redis w' = redis w \<and> now w' = now w
     \<and> nip_log w' = nip_log w \<and> (faults w = [] \<longrightarrow> faults w' = [])"

lemma same_outside_refl [simp]: "same_outside w w"
  by (simp add: same_outside_def)

lemma same_outside_trans: "same_outside u v \<Longrightarrow> same_outside v w \<Longrightarrow> same_outside u w"
  by (auto simp: same_outside_def)

definition implements :: "'a go \<Rightarrow> 'a stmt \<Rightarrow> bool" where
  "implements m f \<longleftrightarrow> (\<forall>w d. tx w = Some (d, False) \<longrightarrow> (case m w of
      (Done x, w') \<Rightarrow> \<exists>d'. f d = Some (x, d') \<and> tx w' = Some (d', False) \<and> same_outside w w'
    | (Failed e, w') \<Rightarrow> (faults w = [] \<longrightarrow> f d = None) \<and> same_outside w w'
    | (Panics p, w') \<Rightarrow> False))"

definition stmt_ret :: "'a \<Rightarrow> 'a stmt" where
  "stmt_ret x d = Some (x, d)"

definition stmt_fail :: "'a stmt" where
  "stmt_fail d = None"

definition stmt_bind :: "'a stmt \<Rightarrow> ('a \<Rightarrow> 'b stmt) \<Rightarrow> 'b stmt" where
  "stmt_bind f g d = (case f d of None \<Rightarrow> None | Some (x, d') \<Rightarrow> g x d')"

lemma implements_Done:
  "implements m f \<Longrightarrow> tx w = Some (d, False) \<Longrightarrow> m w = (Done x, w') \<Longrightarrow>
   \<exists>d'. f d = Some (x, d') \<and> tx w' = Some (d', False) \<and> same_outside w w'"
  unfolding implements_def by fastforce

lemma implements_Failed:
  "implements m f \<Longrightarrow> tx w = Some (d, False) \<Longrightarrow> m w = (Failed e, w') \<Longrightarrow>
   (faults w = [] \<longrightarrow> f d = None) \<and> same_outside w w'"
  unfolding implements_def by fastforce

lemma implements_Panics:
  "implements m f \<Longrightarrow> tx w = Some (d, False) \<Longrightarrow> m w \<noteq> (Panics p, w')"
  unfolding implements_def by fastforce

lemma implementsI:
  fixes m :: "'a go"
  assumes "\<And>w d x w'. tx w = Some (d, False) \<Longrightarrow> m w = (Done x, w') \<Longrightarrow>
      \<exists>d'. f d = Some (x, d') \<and> tx w' = Some (d', False) \<and> same_outside w w'"
    and "\<And>w d e w'. tx w = Some (d, False) \<Longrightarrow> m w = (Failed e, w') \<Longrightarrow>
      (faults w = [] \<longrightarrow> f d = None) \<and> same_outside w w'"
    and "\<And>w d p w'. tx w = Some (d, False) \<Longrightarrow> m w = (Panics p, w') \<Longrightarrow> False"
  shows "implements m f"
  unfolding implements_def
proof (intro allI impI)
  fix w :: world and d assume t: "tx w = Some (d, False)"
  obtain r w' where mw: "m w = (r, w')" by (cases "m w")
  show "case m w of
      (Done x, w') \<Rightarrow> \<exists>d'. f d = Some (x, d') \<and> tx w' = Some (d', False) \<and> same_outside w w'
    | (Failed e, w') \<Rightarrow> (faults w = [] \<longrightarrow> f d = None) \<and> same_outside w w'
    | (Panics p, w') \<Rightarrow> False"
    using assms [OF t] mw by (cases r) auto
qed

lemma implements_tx_run [implements_intros]: "implements (tx_run st) st"
  by (rule implementsI)
     (auto simp: tx_run_def same_outside_def next_fault_def used_fault_def
       split: option.splits prod.splits if_splits list.splits)

lemma implements_ret [implements_intros]: "implements (ret x) (stmt_ret x)"
  by (rule implementsI) (auto simp: ret_def stmt_ret_def)

lemma implements_fail [implements_intros]: "implements (fail e) stmt_fail"
  by (rule implementsI) (auto simp: fail_def stmt_fail_def)

lemma implements_scan_one [implements_intros]:
  "implements (scan_one r) (case r of None \<Rightarrow> stmt_fail | Some x \<Rightarrow> stmt_ret x)"
  by (auto simp: scan_one_def intro: implements_intros split: option.split)

lemma implements_bind [implements_intros]:
  assumes m: "implements m f" and k: "\<And>x. implements (k x) (g x)"
  shows "implements (bind m k) (stmt_bind f g)"
proof (rule implementsI)
  fix w :: world and d y w' assume t: "tx w = Some (d, False)" and "bind m k w = (Done y, w')"
  then obtain x v where mx: "m w = (Done x, v)" and kx: "k x v = (Done y, w')"
    by (blast elim: bind_DoneE)
  from implements_Done [OF m t mx] obtain d1 where
    f: "f d = Some (x, d1)" and t1: "tx v = Some (d1, False)" and s1: "same_outside w v" by blast
  from implements_Done [OF k t1 kx] obtain d2 where
    "g x d1 = Some (y, d2)" "tx w' = Some (d2, False)" "same_outside v w'" by blast
  with f s1 show "\<exists>d'. stmt_bind f g d = Some (y, d') \<and> tx w' = Some (d', False) \<and> same_outside w w'"
    by (auto simp: stmt_bind_def intro: same_outside_trans)
next
  fix w :: world and d e w' assume t: "tx w = Some (d, False)" and b: "bind m k w = (Failed e, w')"
  show "(faults w = [] \<longrightarrow> stmt_bind f g d = None) \<and> same_outside w w'"
  proof (cases "m w")
    case (Pair r v)
    show ?thesis
    proof (cases r)
      case (Done x)
      with implements_Done [OF m t] Pair obtain d1 where
        f: "f d = Some (x, d1)" and t1: "tx v = Some (d1, False)" and s1: "same_outside w v" by blast
      from b Pair Done have "k x v = (Failed e, w')" by (simp add: bind_def)
      from implements_Failed [OF k t1 this] f s1 show ?thesis
        by (auto simp: stmt_bind_def same_outside_def)
    next
      case (Failed e')
      with implements_Failed [OF m t] Pair b show ?thesis
        by (fastforce simp: bind_def stmt_bind_def)
    next
      case (Panics p)
      with implements_Panics [OF m t] Pair show ?thesis by blast
    qed
  qed
next
  fix w :: world and d p w' assume t: "tx w = Some (d, False)" and b: "bind m k w = (Panics p, w')"
  show False
  proof (cases "m w")
    case (Pair r v)
    with b t m k show False
      by (cases r) (auto simp: bind_def dest: implements_Done implements_Panics)
  qed
qed

lemma implements_if [implements_intros]:
  "(b \<Longrightarrow> implements m f) \<Longrightarrow> (\<not> b \<Longrightarrow> implements n g) \<Longrightarrow>
   implements (if b then m else n) (if b then f else g)"
  by simp

lemma implements_case_option [implements_intros]:
  "implements m f \<Longrightarrow> (\<And>x. implements (k x) (g x)) \<Longrightarrow>
   implements (case v of None \<Rightarrow> m | Some x \<Rightarrow> k x) (case v of None \<Rightarrow> f | Some x \<Rightarrow> g x)"
  by (simp split: option.split)

text \<open>
  The idiom \<open>if err := f(); err != nil { cleanup; return err }\<close>: the error branch ends in a
  failure whatever its own statements do.
\<close>

definition fails_inside :: "'a go \<Rightarrow> bool" where
  "fails_inside m \<longleftrightarrow> (\<forall>w. \<exists>e w'. m w = (Failed e, w') \<and> same_outside w w')"

lemma implements_on_error:
  assumes m: "implements m f" and k: "\<And>x. implements (k x) (g x)"
    and h: "\<And>e. fails_inside (h e)"
  shows "implements (bind (attempt m) (\<lambda>r. case r of Inl e \<Rightarrow> h e | Inr x \<Rightarrow> k x)) (stmt_bind f g)"
proof -
  let ?n = "bind (attempt m) (\<lambda>r. case r of Inl e \<Rightarrow> h e | Inr x \<Rightarrow> k x)"
  have eq: "?n w = bind m k w" if "\<And>e v. m w \<noteq> (Failed e, v)" for w
    using that by (auto simp: bind_def attempt_def split: prod.splits outcome.splits)
  have err: "\<exists>e' w'. ?n w = (Failed e', w') \<and> same_outside v w'" if "m w = (Failed e, v)" for w e v
    using h [of e] that by (auto simp: bind_def attempt_def fails_inside_def)
  have b: "implements (bind m k) (stmt_bind f g)" by (rule implements_bind [OF m k])
  show ?thesis
  proof (rule implementsI)
    fix w :: world and d x w' assume t: "tx w = Some (d, False)" and n: "?n w = (Done x, w')"
    with err have "\<And>e v. m w \<noteq> (Failed e, v)" by fastforce
    with eq n have "bind m k w = (Done x, w')" by simp
    from implements_Done [OF b t this]
    show "\<exists>d'. stmt_bind f g d = Some (x, d') \<and> tx w' = Some (d', False) \<and> same_outside w w'" .
  next
    fix w :: world and d e w' assume t: "tx w = Some (d, False)" and n: "?n w = (Failed e, w')"
    show "(faults w = [] \<longrightarrow> stmt_bind f g d = None) \<and> same_outside w w'"
    proof (cases "\<exists>e v. m w = (Failed e, v)")
      case True
      then obtain e1 v where mw: "m w = (Failed e1, v)" by blast
      from err [OF mw] n have "same_outside v w'" by auto
      with implements_Failed [OF m t mw] show ?thesis
        by (auto simp: stmt_bind_def intro: same_outside_trans)
    next
      case False
      with eq n have "bind m k w = (Failed e, w')" by simp
      from implements_Failed [OF b t this] show ?thesis .
    qed
  next
    fix w :: world and d p w' assume t: "tx w = Some (d, False)" and n: "?n w = (Panics p, w')"
    with err have "\<And>e v. m w \<noteq> (Failed e, v)" by fastforce
    with eq n have "bind m k w = (Panics p, w')" by simp
    with implements_Panics [OF b t] show False by blast
  qed
qed

lemma tx_run_same_outside: "tx w = Some d \<Longrightarrow> tx_run st w = (r, w') \<Longrightarrow> same_outside w w'"
  by (auto simp: tx_run_def same_outside_def used_fault_def
      split: option.splits prod.splits if_splits)

lemma tx_run_same_outside': "tx_run st w = (r, w') \<Longrightarrow> same_outside w w'"
  by (cases "tx w") (auto simp: tx_run_def tx_run_same_outside)

lemma tx_run_no_panic: "tx_run st w \<noteq> (Panics p, w')"
  by (auto simp: tx_run_def split: option.splits prod.splits if_splits)

lemma fails_inside_fail: "fails_inside (fail e)"
  by (simp add: fails_inside_def fail_def)

lemma fails_inside_after_run:
  "fails_inside m \<Longrightarrow> fails_inside (bind (attempt (tx_run st)) (\<lambda>_. m))"
  unfolding fails_inside_def
proof
  fix w assume m: "\<forall>w. \<exists>e w'. m w = (Failed e, w') \<and> same_outside w w'"
  obtain r v where rv: "tx_run st w = (r, v)" by (cases "tx_run st w")
  with m obtain e w' where "m v = (Failed e, w')" "same_outside v w'" by blast
  with rv tx_run_same_outside' [OF rv] tx_run_no_panic [of st w]
  show "\<exists>e w'. bind (attempt (tx_run st)) (\<lambda>_. m) w = (Failed e, w') \<and> same_outside w w'"
    by (cases r) (auto simp: bind_def attempt_def intro: same_outside_trans)
qed

section \<open>Whole transactions\<close>

definition with_tx :: "'a go \<Rightarrow> 'a go" where
  "with_tx m = deferring (bind tx_begin (\<lambda>_. bind m (\<lambda>x. bind tx_commit (\<lambda>_. ret x)))) tx_rollback"

lemma tx_begin_cases:
  "(\<exists>v. tx_begin w = (Done (), v) \<and> tx v = Some (committed w, False) \<and> same_outside w v)
   \<or> (faults w \<noteq> [] \<and> tx_begin w = (Failed DbErr, used_fault w))"
  by (cases "faults w") (auto simp: tx_begin_def next_fault_def used_fault_def same_outside_def)

lemma tx_commit_cases:
  assumes "tx w = Some (d, False)"
  shows "tx_commit w = (Done (), (used_fault w)\<lparr>tx := None, committed := d\<rparr>)
       \<or> (faults w \<noteq> [] \<and> tx_commit w = (Failed DbErr, (used_fault w)\<lparr>tx := None\<rparr>))"
  using assms by (cases "faults w") (auto simp: tx_commit_def next_fault_def)

text \<open>
  All or nothing.  The three outcomes of a transaction whose body implements \<open>f\<close>.
\<close>

lemma with_tx_Done:
  assumes m: "implements m f" and r: "with_tx m w = (Done x, w')"
  shows "f (committed w) = Some (x, committed w') \<and> tx w' = None \<and> redis w' = redis w \<and>
         now w' = now w \<and> nip_log w' = nip_log w \<and> (faults w = [] \<longrightarrow> faults w' = [])"
proof -
  from r obtain u where
    b: "bind tx_begin (\<lambda>_. bind m (\<lambda>x. bind tx_commit (\<lambda>_. ret x))) w = (Done x, u)"
    and w': "w' = tx_rollback u"
    by (auto simp: with_tx_def deferring_def split: prod.splits)
  from b obtain a v where v: "tx_begin w = (Done a, v)"
    and b1: "bind m (\<lambda>x. bind tx_commit (\<lambda>_. ret x)) v = (Done x, u)" by (rule bind_DoneE)
  from b1 obtain y v1 where mv: "m v = (Done y, v1)"
    and b2: "bind tx_commit (\<lambda>_. ret y) v1 = (Done x, u)" by (rule bind_DoneE)
  from b2 have c: "tx_commit v1 = (Done (), u)" and xy: "x = y"
    by (auto simp: bind_def ret_def split: prod.splits outcome.splits)
  from tx_begin_cases [of w] v have tv: "tx v = Some (committed w, False)"
    and s0: "same_outside w v" by auto
  from implements_Done [OF m tv mv] obtain d' where
    f: "f (committed w) = Some (y, d')" and t1: "tx v1 = Some (d', False)"
    and s1: "same_outside v v1" by blast
  from tx_commit_cases [OF t1] c have u: "u = (used_fault v1)\<lparr>tx := None, committed := d'\<rparr>" by auto
  from f xy w' u s0 s1 show ?thesis
    by (auto simp: same_outside_def used_fault_def)
qed

lemma with_tx_not_Done:
  assumes m: "implements m f" and r: "with_tx m w = (res, w')" and nd: "\<forall>x. res \<noteq> Done x"
  shows "same_outside w w' \<and> tx w' = None \<and> (\<exists>e. res = Failed e) \<and>
         (faults w = [] \<longrightarrow> f (committed w) = None)"
proof -
  let ?b = "bind tx_begin (\<lambda>_. bind m (\<lambda>x. bind tx_commit (\<lambda>_. ret x)))"
  obtain u where b: "?b w = (res, u)" and w': "w' = tx_rollback u"
    using r by (auto simp: with_tx_def deferring_def split: prod.splits)
  have "same_outside w u \<and> (\<exists>e. res = Failed e) \<and> (faults w = [] \<longrightarrow> f (committed w) = None)"
  proof (cases "\<exists>v. tx_begin w = (Done (), v)")
    case False
    with tx_begin_cases [of w] b show ?thesis
      by (auto simp: bind_def same_outside_def used_fault_def)
  next
    case True
    then obtain v where v: "tx_begin w = (Done (), v)" by blast
    with tx_begin_cases [of w] have tv: "tx v = Some (committed w, False)"
      and s0: "same_outside w v" by auto
    obtain r1 v1 where mv: "m v = (r1, v1)" by (cases "m v")
    show ?thesis
    proof (cases r1)
      case (Done y)
      from implements_Done [OF m tv] mv Done obtain d' where
        f: "f (committed w) = Some (y, d')" and t1: "tx v1 = Some (d', False)"
        and s1: "same_outside v v1" by blast
      from tx_commit_cases [OF t1] b v mv Done nd s0 s1 show ?thesis
        by (auto simp: bind_def ret_def same_outside_def used_fault_def)
    next
      case (Failed e)
      with implements_Failed [OF m tv] mv b v s0 show ?thesis
        by (fastforce simp: bind_def same_outside_def)
    next
      case (Panics p)
      with implements_Panics [OF m tv] mv show ?thesis by blast
    qed
  qed
  with w' show ?thesis by (auto simp: same_outside_def)
qed

lemma with_tx_fault_free:
  assumes m: "implements m f" and ff: "faults w = []" and s: "f (committed w) = Some (x, d')"
  shows "\<exists>w'. with_tx m w = (Done x, w') \<and> committed w' = d' \<and> tx w' = None"
proof -
  obtain res w' where r: "with_tx m w = (res, w')" by (cases "with_tx m w")
  from with_tx_not_Done [OF m r] ff s obtain y where "res = Done y" by (cases res) auto
  with with_tx_Done [OF m] r s show ?thesis by fastforce
qed

text \<open>The invariant form: what every successful statement keeps, every run keeps.\<close>

lemma with_tx_keeps:
  assumes m: "implements m f" and inv: "I (committed w)"
    and step: "\<And>x d'. f (committed w) = Some (x, d') \<Longrightarrow> I d'"
  shows "I (committed (snd (with_tx m w)))"
proof -
  obtain res w' where r: "with_tx m w = (res, w')" by (cases "with_tx m w")
  show ?thesis
  proof (cases "\<exists>x. res = Done x")
    case True
    with with_tx_Done [OF m] r step show ?thesis by fastforce
  next
    case False
    with with_tx_not_Done [OF m r] r inv show ?thesis by (auto simp: same_outside_def)
  qed
qed

section \<open>Handlers that keep an invariant of the tables\<close>

text \<open>A request handler keeps an invariant, whatever it returns.\<close>

text \<open>Requests served one after the other, whatever each of them returns.\<close>

fun run_all :: "('req \<Rightarrow> 'resp go) \<Rightarrow> 'req list \<Rightarrow> world \<Rightarrow> world" where
  "run_all handle [] w = w"
| "run_all handle (r # rs) w = run_all handle rs (snd (handle r w))"

locale tx_request =
  fixes handle :: "'req \<Rightarrow> 'resp go"
    and inv :: "db \<Rightarrow> bool"
  assumes handle_inv: "inv (committed w) \<Longrightarrow> inv (committed (snd (handle req w)))"
begin

lemma serve_inv: "inv (committed w) \<Longrightarrow> inv (committed (run_all handle rs w))"
  by (induction rs arbitrary: w) (auto intro: handle_inv)

end

section \<open>Operations that work at most once\<close>

text \<open>
  The contract of operations under a one-time key (a code, a transaction id): a successful
  operation leaves its key spent, a spent key is refused, and no operation makes a spent key
  fresh again.
\<close>

text \<open>The successful operations under key \<open>k\<close> in a sequence of attempts.\<close>

fun count_done :: "('op \<Rightarrow> 'a go) \<Rightarrow> ('op \<Rightarrow> 'k) \<Rightarrow> 'k \<Rightarrow> 'op list \<Rightarrow> world \<Rightarrow> nat" where
  "count_done f key k [] w = 0"
| "count_done f key k (a # as) w = (case f a w of
      (Done x, w') \<Rightarrow> (if key a = k then 1 else 0) + count_done f key k as w'
    | (Failed e, w') \<Rightarrow> count_done f key k as w'
    | (Panics p, w') \<Rightarrow> count_done f key k as w')"

locale single_use =
  fixes apply_op :: "'op \<Rightarrow> 'a go"
    and key :: "'op \<Rightarrow> 'k"
    and spent :: "'k \<Rightarrow> world \<Rightarrow> bool"
  assumes Done_spends: "apply_op c w = (Done x, w') \<Longrightarrow> spent (key c) w'"
    and spent_refused: "spent (key c) w \<Longrightarrow> apply_op c w \<noteq> (Done x, w')"
    and spent_stays: "spent k w \<Longrightarrow> spent k (snd (apply_op c w))"
begin

lemma spent_no_success: "spent k w \<Longrightarrow> count_done apply_op key k as w = 0"
proof (induction as arbitrary: w)
  case (Cons a as)
  then have "spent k (snd (apply_op a w))" by (intro spent_stays)
  with Cons show ?case
    by (auto dest: spent_refused split: prod.splits outcome.splits)
qed simp

lemma at_most_once: "count_done apply_op key k as w \<le> 1"
proof (induction as arbitrary: w)
  case (Cons a as)
  show ?case
  proof (cases "apply_op a w")
    case (Pair r w')
    show ?thesis
    proof (cases "\<exists>x. r = Done x \<and> key a = k")
      case True
      then have "spent k w'" using Pair Done_spends by blast
      with Pair True show ?thesis by (auto simp: spent_no_success)
    next
      case False
      with Pair Cons.IH [of w'] show ?thesis by (auto split: outcome.splits)
    qed
  qed
qed simp

end

end
