(* ===== verification/Ledger.thy ===== *)
theory Ledger
  imports Tx
begin

text \<open>
  The double-entry ledger, \<open>src/internal/services/ledger_service.go\<close>.

  Each operation is translated statement by statement (\<open>Transfer\<close>, \<open>Reverse\<close>, \<open>TransferTx\<close>
  and the four private helpers).  \<open>transfer_body\<close> and \<open>reverse_body\<close> are what they do to
  the tables in one step; \<open>implements\<close> relates the two, so a property of the tables is
  proved about the one-step functions and holds for every run, with any statement failing.
  The abstract contract and the properties are in theory \<open>Ledger_Spec\<close>.
\<close>

section \<open>The statements\<close>

definition appendPaymentState :: "string \<Rightarrow> string \<Rightarrow> unit go" where
  "appendPaymentState transactionId state =
     tx_run (\<lambda>d. Some ((), d\<lparr>payment_states := payment_states d @ [(transactionId, state)]\<rparr>))"

definition lockAccount :: "string \<Rightarrow> account go" where
  "lockAccount accountID = bind (tx_run (\<lambda>d. Some (find_account accountID d, d))) scan_one"

definition createLedgerEntry ::
  "string \<Rightarrow> string \<Rightarrow> int \<Rightarrow> payment_type \<Rightarrow> int \<Rightarrow> unit go" where
  "createLedgerEntry transactionId accountID amount entryType balance =
     tx_run (\<lambda>d. Some ((), d\<lparr>ledger_entries := ledger_entries d @
       [\<lparr>le_txid = transactionId, le_account = accountID, le_amount = amount,
         le_type = entryType, le_balance = balance\<rparr>]\<rparr>))"

text \<open>\<open>UPDATE accounts SET balance, version + 1 WHERE account_id AND version\<close>; the rows hit.\<close>

definition sql_set_balance :: "string \<Rightarrow> int \<Rightarrow> int \<Rightarrow> nat stmt" where
  "sql_set_balance a newBalance version d =
     (let hit = (\<lambda>r. acct_id r = a \<and> acct_version r = version)
      in if \<forall>r \<in> set (accounts d). hit r \<longrightarrow> in_int4 (acct_version r + 1)
         then Some (length (filter hit (accounts d)),
                d\<lparr>accounts := map (\<lambda>r. if hit r
                     then r\<lparr>acct_balance := newBalance, acct_version := acct_version r + 1\<rparr>
                     else r) (accounts d)\<rparr>)
         else None)"

definition updateAccountBalance :: "string \<Rightarrow> int \<Rightarrow> int \<Rightarrow> unit go" where
  "updateAccountBalance accountID newBalance version =
     bind (tx_run (sql_set_balance accountID newBalance version)) (\<lambda>rowsAffected.
       if rowsAffected = 0
       then fail (Msg (''optimistic lock failed for account '' @ accountID))
       else ret ())"

section \<open>Transfers\<close>

definition TransferTx :: "string \<Rightarrow> string \<Rightarrow> string \<Rightarrow> string \<Rightarrow> int \<Rightarrow> unit go" where
  "TransferTx systemFeeAccount fromAccountID toAccountID transactionId amount =
     bind (tx_run (\<lambda>d. Some (find_account toAccountID d \<noteq> None, d))) (\<lambda>exists.
     let localCreditID = (if exists then toAccountID else systemFeeAccount);
         swap = (localCreditID < fromAccountID);
         firstLock = (if swap then localCreditID else fromAccountID);
         secondLock = (if swap then fromAccountID else localCreditID)
     in bind (lockAccount firstLock) (\<lambda>a1.
        bind (lockAccount secondLock) (\<lambda>a2.
        let fromAccount = (if firstLock \<noteq> fromAccountID then a2 else a1);
            toAccount = (if firstLock \<noteq> fromAccountID then a1 else a2);
            fromBalance = wrap64 (acct_balance fromAccount - amount);
            toBalance = wrap64 (acct_balance toAccount + amount)
        in bind (createLedgerEntry transactionId (acct_id fromAccount) (wrap64 (- amount))
                   DebitPayment fromBalance) (\<lambda>_.
           bind (createLedgerEntry transactionId (acct_id toAccount) amount
                   CreditPayment toBalance) (\<lambda>_.
           bind (updateAccountBalance (acct_id fromAccount) fromBalance
                   (acct_version fromAccount)) (\<lambda>_.
           updateAccountBalance (acct_id toAccount) toBalance (acct_version toAccount)))))))"

definition Transfer :: "string \<Rightarrow> string \<Rightarrow> string \<Rightarrow> string \<Rightarrow> int \<Rightarrow> unit go" where
  "Transfer systemFeeAccount fromAccountID toAccountID transactionId amount =
     with_tx
      (bind (appendPaymentState transactionId ''PENDING'') (\<lambda>_.
       bind (attempt (TransferTx systemFeeAccount fromAccountID toAccountID transactionId amount))
         (\<lambda>r. case r of
            Inl err \<Rightarrow> bind (attempt (appendPaymentState transactionId ''FAILED'')) (\<lambda>_. fail err)
          | Inr _ \<Rightarrow> appendPaymentState transactionId ''SUCCESS'')))"

section \<open>Reversals\<close>

definition reversed :: "payment_type \<Rightarrow> payment_type" where
  "reversed entryType = (if entryType = CreditPayment then DebitPayment else CreditPayment)"

fun reverseEntries :: "string \<Rightarrow> ledger_entry list \<Rightarrow> unit go" where
  "reverseEntries transactionId [] = ret ()"
| "reverseEntries transactionId (e # es) =
     bind (lockAccount (le_account e)) (\<lambda>account.
     let reversalAmount = wrap64 (- le_amount e);
         newBalance = wrap64 (acct_balance account + reversalAmount)
     in bind (createLedgerEntry (transactionId @ ''_REVERSAL'') (le_account e) reversalAmount
                (reversed (le_type e)) newBalance) (\<lambda>_.
        bind (updateAccountBalance (acct_id account) newBalance (acct_version account)) (\<lambda>_.
        reverseEntries transactionId es)))"

definition Reverse :: "string \<Rightarrow> unit go" where
  "Reverse transactionId =
     with_tx
      (bind (tx_run (\<lambda>d. Some (filter (\<lambda>e. le_txid e = transactionId) (ledger_entries d), d)))
         (\<lambda>entries.
       if length entries = 0
       then fail (Msg (''[Ledger] No Entries Found for transaction '' @ transactionId))
       else bind (reverseEntries transactionId entries) (\<lambda>_.
            appendPaymentState transactionId ''REVERSED'')))"

section \<open>What one operation does to the tables\<close>

definition add_state :: "string \<Rightarrow> string \<Rightarrow> unit stmt" where
  "add_state t st d = Some ((), d\<lparr>payment_states := payment_states d @ [(t, st)]\<rparr>)"

text \<open>
  One leg of a posting: an entry of \<open>amount\<close> on the account of row \<open>r\<close>, whose balance was read
  as \<open>bal\<close>, and the row's new balance, guarded by the version that was read.
\<close>

definition add_entry :: "string \<Rightarrow> string \<Rightarrow> int \<Rightarrow> payment_type \<Rightarrow> int \<Rightarrow> unit stmt" where
  "add_entry t a amount ty bal d = Some ((), d\<lparr>ledger_entries := ledger_entries d @
     [\<lparr>le_txid = t, le_account = a, le_amount = amount, le_type = ty, le_balance = bal\<rparr>]\<rparr>)"

definition set_balance :: "string \<Rightarrow> int \<Rightarrow> int \<Rightarrow> unit stmt" where
  "set_balance a nb ver = stmt_bind (sql_set_balance a nb ver)
     (\<lambda>n. if n = 0 then stmt_fail else stmt_ret ())"

definition read_account :: "string \<Rightarrow> account stmt" where
  "read_account a = stmt_bind (\<lambda>d. Some (find_account a d, d))
     (\<lambda>r. case r of None \<Rightarrow> stmt_fail | Some x \<Rightarrow> stmt_ret x)"

lemma implements_lock [implements_intros]: "implements (lockAccount a) (read_account a)"
  unfolding lockAccount_def read_account_def by (intro implements_intros)

lemma implements_update [implements_intros]:
  "implements (updateAccountBalance a nb v) (set_balance a nb v)"
  unfolding updateAccountBalance_def set_balance_def by (intro implements_intros)

lemma implements_entry [implements_intros]:
  "implements (createLedgerEntry t a x ty b) (add_entry t a x ty b)"
  unfolding createLedgerEntry_def add_entry_def by (rule implements_tx_run)

lemma implements_state [implements_intros]:
  "implements (appendPaymentState t st) (add_state t st)"
  unfolding appendPaymentState_def add_state_def by (rule implements_tx_run)

definition transfer_stmt :: "string \<Rightarrow> string \<Rightarrow> string \<Rightarrow> string \<Rightarrow> int \<Rightarrow> unit stmt" where
  "transfer_stmt sys from to t amount =
     stmt_bind (\<lambda>d. Some (find_account to d \<noteq> None, d)) (\<lambda>exists.
     let credit = (if exists then to else sys);
         swap = (credit < from);
         l1 = (if swap then credit else from);
         l2 = (if swap then from else credit)
     in stmt_bind (read_account l1) (\<lambda>a1. stmt_bind (read_account l2) (\<lambda>a2.
        let fa = (if l1 \<noteq> from then a2 else a1); ta = (if l1 \<noteq> from then a1 else a2);
            fb = wrap64 (acct_balance fa - amount); tb = wrap64 (acct_balance ta + amount)
        in stmt_bind (add_entry t (acct_id fa) (wrap64 (- amount)) DebitPayment fb) (\<lambda>_.
           stmt_bind (add_entry t (acct_id ta) amount CreditPayment tb) (\<lambda>_.
           stmt_bind (set_balance (acct_id fa) fb (acct_version fa)) (\<lambda>_.
           set_balance (acct_id ta) tb (acct_version ta)))))))"

lemma implements_TransferTx [implements_intros]:
  "implements (TransferTx sys from to t amount) (transfer_stmt sys from to t amount)"
  unfolding TransferTx_def transfer_stmt_def Let_def by (intro implements_intros)

definition transfer_body :: "string \<Rightarrow> string \<Rightarrow> string \<Rightarrow> string \<Rightarrow> int \<Rightarrow> unit stmt" where
  "transfer_body sys from to t amount =
     stmt_bind (add_state t ''PENDING'') (\<lambda>_.
     stmt_bind (transfer_stmt sys from to t amount) (\<lambda>_. add_state t ''SUCCESS''))"

lemma fails_inside_log_failed:
  "fails_inside (bind (attempt (appendPaymentState t st)) (\<lambda>_. fail e))"
  unfolding appendPaymentState_def by (intro fails_inside_after_run fails_inside_fail)

lemma implements_Transfer_body:
  "implements (bind (appendPaymentState t ''PENDING'') (\<lambda>_.
       bind (attempt (TransferTx sys from to t amount))
         (\<lambda>r. case r of
            Inl err \<Rightarrow> bind (attempt (appendPaymentState t ''FAILED'')) (\<lambda>_. fail err)
          | Inr _ \<Rightarrow> appendPaymentState t ''SUCCESS'')))
     (transfer_body sys from to t amount)"
  unfolding transfer_body_def
  by (intro implements_bind implements_on_error implements_intros fails_inside_log_failed)

fun reverse_stmt :: "string \<Rightarrow> ledger_entry list \<Rightarrow> unit stmt" where
  "reverse_stmt t [] = stmt_ret ()"
| "reverse_stmt t (e # es) =
     stmt_bind (read_account (le_account e)) (\<lambda>r.
     let x = wrap64 (- le_amount e); nb = wrap64 (acct_balance r + x)
     in stmt_bind (add_entry (t @ ''_REVERSAL'') (le_account e) x (reversed (le_type e)) nb) (\<lambda>_.
        stmt_bind (set_balance (acct_id r) nb (acct_version r)) (\<lambda>_. reverse_stmt t es)))"

lemma implements_reverseEntries [implements_intros]:
  "implements (reverseEntries t es) (reverse_stmt t es)"
  by (induction t es rule: reverseEntries.induct)
     (auto simp: Let_def intro!: implements_intros)

definition reverse_body :: "string \<Rightarrow> unit stmt" where
  "reverse_body t =
     stmt_bind (\<lambda>d. Some (filter (\<lambda>e. le_txid e = t) (ledger_entries d), d)) (\<lambda>es.
       if length es = 0 then stmt_fail
       else stmt_bind (reverse_stmt t es) (\<lambda>_. add_state t ''REVERSED''))"

lemma implements_Reverse_body:
  "implements (bind (tx_run (\<lambda>d. Some (filter (\<lambda>e. le_txid e = t) (ledger_entries d), d)))
         (\<lambda>entries.
       if length entries = 0
       then fail (Msg (''[Ledger] No Entries Found for transaction '' @ t))
       else bind (reverseEntries t entries) (\<lambda>_. appendPaymentState t ''REVERSED'')))
     (reverse_body t)"
  unfolding reverse_body_def by (intro implements_intros)

lemmas Transfer_Done = with_tx_Done [OF implements_Transfer_body, folded Transfer_def]
lemmas Transfer_not_Done = with_tx_not_Done [OF implements_Transfer_body, folded Transfer_def]
lemmas Transfer_fault_free = with_tx_fault_free [OF implements_Transfer_body, folded Transfer_def]
lemmas Transfer_keeps = with_tx_keeps [OF implements_Transfer_body, folded Transfer_def]
lemmas Reverse_Done = with_tx_Done [OF implements_Reverse_body, folded Reverse_def]
lemmas Reverse_not_Done = with_tx_not_Done [OF implements_Reverse_body, folded Reverse_def]
lemmas Reverse_fault_free = with_tx_fault_free [OF implements_Reverse_body, folded Reverse_def]
lemmas Reverse_keeps = with_tx_keeps [OF implements_Reverse_body, folded Reverse_def]

end
