(* ===== verification/Ledger_Spec.thy ===== *)
theory Ledger_Spec
  imports Ledger
begin

text \<open>
  What the ledger of theory \<open>Ledger\<close> promises.

  \<^item> The abstract ledger is a map from account ids to balances: \<open>move\<close> is a transfer,
    \<open>undo\<close> the reversal of a list of entries.  \<open>transfer_body_eq\<close> and \<open>reverse_stmt_spec\<close>
    are the simulation of both by the code's statements.
  \<^item> \<open>books_ok\<close> is the double-entry invariant: each transaction's entries sum to zero and
    the last entry of an account carries its balance.  \<open>drift\<close> (balance less the sum of the
    entries) and the total balance never change.  All of it modulo \<open>2 ^ 64\<close>, since balances
    are Go's wrapping \<open>int64\<close>.
  \<^item> Locale \<open>tx_request\<close> is interpreted on the ledger's requests, which extends the
    invariants to every sequence of transfers and reversals with every pattern of faults.
\<close>

section \<open>Rows and statements\<close>

definition with_account :: "string \<Rightarrow> (account \<Rightarrow> account) \<Rightarrow> db \<Rightarrow> db" where
  "with_account a f d = d\<lparr>accounts := map (\<lambda>r. if acct_id r = a then f r else r) (accounts d)\<rparr>"

definition balances :: "db \<Rightarrow> string \<rightharpoonup> int" where
  "balances d a = map_option acct_balance (find_account a d)"

definition sum_entries :: "(ledger_entry \<Rightarrow> bool) \<Rightarrow> db \<Rightarrow> int" where
  "sum_entries P d = (\<Sum>e\<leftarrow>filter P (ledger_entries d). le_amount e)"

lemma with_account_frame [simp]:
  "ledger_entries (with_account a f d) = ledger_entries d"
  "payment_states (with_account a f d) = payment_states d"
  "transactions (with_account a f d) = transactions d"
  by (simp_all add: with_account_def)

lemma find_with_account:
  "(\<And>r. acct_id (f r) = acct_id r) \<Longrightarrow> find_account b (with_account a f d) =
   (if a = b then map_option f (find_account b d) else find_account b d)"
  by (auto simp: find_account_def with_account_def find_map_id split: option.splits
      dest!: find_SomeD intro!: option.map_cong map_option_idI)

lemma find_account_sub [simp]:
  "find_account a (d\<lparr>ledger_entries := x\<rparr>) = find_account a d"
  "find_account a (d\<lparr>payment_states := y\<rparr>) = find_account a d"
  by (simp_all add: find_account_def)

lemma balances_sub [simp]:
  "balances (d\<lparr>ledger_entries := x\<rparr>) = balances d"
  "balances (d\<lparr>payment_states := y\<rparr>) = balances d"
  by (rule ext, simp add: balances_def)+

lemma accounts_ok_sub [simp]:
  "accounts_ok (d\<lparr>ledger_entries := x\<rparr>) = accounts_ok d"
  "accounts_ok (d\<lparr>payment_states := y\<rparr>) = accounts_ok d"
  by (simp_all add: accounts_ok_def)

lemma balance_of_balances: "balance_of a d = (case balances d a of None \<Rightarrow> 0 | Some b \<Rightarrow> b)"
  by (simp add: balance_of_def balances_def split: option.split)

lemma balances_in_int64: "accounts_ok d \<Longrightarrow> balances d a = Some b \<Longrightarrow> in_int64 b"
  by (auto simp: balances_def accounts_ok_def dest: find_account_mem)

lemma accounts_ok_with_account:
  assumes "accounts_ok d" and "\<And>r. acct_id (f r) = acct_id r"
    and "\<And>r. r \<in> set (accounts d) \<Longrightarrow> acct_id r = a \<Longrightarrow>
      in_int64 (acct_balance (f r)) \<and> in_int4 (acct_version (f r))"
  shows "accounts_ok (with_account a f d)"
  using assms by (auto simp: accounts_ok_def with_account_def map_update_key)

lemma total_with_account:
  assumes "accounts_ok d" and "find_account a d = Some r"
  shows "total_balance (with_account a f d)
       = total_balance d - acct_balance r + acct_balance (f r)"
proof -
  have mem: "r \<in> set (accounts d)" and id: "acct_id r = a"
    using find_account_mem assms(2) by blast+
  have "distinct (map acct_id (accounts d))" using assms(1) by (simp add: accounts_ok_def)
  from sum_list_map_update [OF this mem, where g = acct_balance and h = f] id
  show ?thesis by (simp add: total_balance_def with_account_def)
qed

text \<open>The optimistic lock: the row's version must be the one that was read.\<close>

definition posted :: "int \<Rightarrow> account \<Rightarrow> account" where
  "posted nb r = r\<lparr>acct_balance := nb, acct_version := acct_version r + 1\<rparr>"

lemma posted_sel [simp]:
  "acct_id (posted nb r) = acct_id r" "acct_balance (posted nb r) = nb"
  "acct_version (posted nb r) = acct_version r + 1"
  by (simp_all add: posted_def)

lemma row_unique:
  "accounts_ok d \<Longrightarrow> find_account a d = Some r \<Longrightarrow> x \<in> set (accounts d) \<Longrightarrow> acct_id x = a \<Longrightarrow> x = r"
  using find_account_unique by fastforce

lemma accounts_ok_posted:
  assumes "accounts_ok d" and "find_account a d = Some r" and "in_int4 (acct_version r + 1)"
    and "in_int64 nb"
  shows "accounts_ok (with_account a (posted nb) d)"
  using assms row_unique [OF assms(1,2)] by (intro accounts_ok_with_account) auto

lemma set_balance_eq:
  assumes ok: "accounts_ok d"
  shows "set_balance a nb v d = (case find_account a d of
      None \<Rightarrow> None
    | Some r \<Rightarrow> if acct_version r = v \<and> in_int4 (v + 1) then Some ((), with_account a (posted nb) d)
                else None)"
proof (cases "find_account a d")
  case None
  then have "\<And>r. r \<in> set (accounts d) \<Longrightarrow> acct_id r \<noteq> a"
    by (auto simp: find_account_def find_None_iff)
  then have "filter (\<lambda>r. acct_id r = a \<and> acct_version r = v) (accounts d) = []"
    by (auto simp: filter_empty_conv)
  with None show ?thesis
    by (simp add: set_balance_def sql_set_balance_def stmt_bind_def stmt_fail_def Let_def)
next
  case (Some r)
  have mem: "r \<in> set (accounts d)" "acct_id r = a" using find_account_mem Some by blast+
  have u: "\<And>x. x \<in> set (accounts d) \<Longrightarrow> acct_id x = a \<Longrightarrow> x = r"
    using row_unique ok Some by blast
  let ?hit = "\<lambda>x. acct_id x = a \<and> acct_version x = v"
  have none: "filter ?hit (accounts d) = []" if "acct_version r \<noteq> v"
    using u that by (auto simp: filter_empty_conv)
  have some: "length (filter ?hit (accounts d)) \<noteq> 0" if "acct_version r = v"
    using mem that by (auto simp: filter_empty_conv)
  have guard: "(\<forall>x \<in> set (accounts d). ?hit x \<longrightarrow> in_int4 (acct_version x + 1)) \<longleftrightarrow>
      (acct_version r = v \<longrightarrow> in_int4 (v + 1))"
    using u mem by blast
  have upd: "map (\<lambda>x. if ?hit x then x\<lparr>acct_balance := nb, acct_version := acct_version x + 1\<rparr>
        else x) (accounts d) = map (\<lambda>x. if acct_id x = a then posted nb x else x) (accounts d)"
    if v: "acct_version r = v"
  proof (rule map_cong [OF refl])
    fix x assume "x \<in> set (accounts d)"
    with u v show "(if ?hit x then x\<lparr>acct_balance := nb, acct_version := acct_version x + 1\<rparr>
        else x) = (if acct_id x = a then posted nb x else x)"
      by (cases "acct_id x = a") (auto simp: posted_def)
  qed
  show ?thesis
  proof (cases "acct_version r = v")
    case True
    have "sql_set_balance a nb v d = (if in_int4 (v + 1)
        then Some (length (filter ?hit (accounts d)), with_account a (posted nb) d) else None)"
      by (simp only: sql_set_balance_def Let_def guard upd [OF True] True with_account_def simp_thms)
    with True Some some [OF True] show ?thesis
      by (simp add: set_balance_def stmt_bind_def stmt_ret_def)
  next
    case False
    then have "\<exists>d'. sql_set_balance a nb v d = Some (0, d')"
      by (simp only: sql_set_balance_def Let_def guard none [OF False]) simp
    with False Some show ?thesis
      by (auto simp: set_balance_def stmt_bind_def stmt_fail_def)
  qed
qed

lemma read_account_eq:
  "read_account a d = (case find_account a d of None \<Rightarrow> None | Some r \<Rightarrow> Some (r, d))"
  by (simp add: read_account_def stmt_bind_def stmt_fail_def stmt_ret_def split: option.split)

section \<open>The abstract ledger\<close>

text \<open>The account that is credited: the beneficiary when it is local, else the transit account.\<close>

definition credit_account :: "string \<Rightarrow> string \<Rightarrow> db \<Rightarrow> string" where
  "credit_account sys to d = (if find_account to d \<noteq> None then to else sys)"

definition move :: "string \<Rightarrow> string \<Rightarrow> int \<Rightarrow> (string \<rightharpoonup> int) \<rightharpoonup> (string \<rightharpoonup> int)" where
  "move from to amount m = (case (m from, m to) of
      (Some x, Some y) \<Rightarrow> if from = to then None
         else Some (m(from \<mapsto> wrap64 (x - amount), to \<mapsto> wrap64 (y + amount)))
    | _ \<Rightarrow> None)"

text \<open>The two entries of a transfer, with the balances they leave.\<close>

definition debit_entry :: "string \<Rightarrow> string \<Rightarrow> int \<Rightarrow> int \<Rightarrow> ledger_entry" where
  "debit_entry t a x amount = \<lparr>le_txid = t, le_account = a, le_amount = wrap64 (- amount),
     le_type = DebitPayment, le_balance = wrap64 (x - amount)\<rparr>"

definition credit_entry :: "string \<Rightarrow> string \<Rightarrow> int \<Rightarrow> int \<Rightarrow> ledger_entry" where
  "credit_entry t a y amount = \<lparr>le_txid = t, le_account = a, le_amount = amount,
     le_type = CreditPayment, le_balance = wrap64 (y + amount)\<rparr>"

lemmas entry_defs = debit_entry_def credit_entry_def

definition versions_fit :: "db \<Rightarrow> string \<Rightarrow> bool" where
  "versions_fit d a \<longleftrightarrow>
     (case find_account a d of None \<Rightarrow> True | Some r \<Rightarrow> in_int4 (acct_version r + 1))"

definition after_transfer :: "string \<Rightarrow> string \<Rightarrow> string \<Rightarrow> int \<Rightarrow> account \<Rightarrow> account \<Rightarrow> db \<Rightarrow> db" where
  "after_transfer t from credit amount f c d =
     with_account credit (posted (wrap64 (acct_balance c + amount)))
      (with_account from (posted (wrap64 (acct_balance f - amount)))
        (d\<lparr>ledger_entries := ledger_entries d @
            [debit_entry t from (acct_balance f) amount, credit_entry t credit (acct_balance c) amount]\<rparr>))"

lemma post_both_eq:
  assumes ok: "accounts_ok d" and f: "find_account from d = Some f"
    and c: "find_account credit d = Some c"
  shows "stmt_bind (add_entry t (acct_id f) (wrap64 (- amount)) DebitPayment
             (wrap64 (acct_balance f - amount))) (\<lambda>_.
         stmt_bind (add_entry t (acct_id c) amount CreditPayment (wrap64 (acct_balance c + amount))) (\<lambda>_.
         stmt_bind (set_balance (acct_id f) (wrap64 (acct_balance f - amount)) (acct_version f)) (\<lambda>_.
         set_balance (acct_id c) (wrap64 (acct_balance c + amount)) (acct_version c)))) d
       = (if from \<noteq> credit \<and> in_int4 (acct_version f + 1) \<and> in_int4 (acct_version c + 1)
          then Some ((), after_transfer t from credit amount f c d) else None)"
proof -
  have ids: "acct_id f = from" "acct_id c = credit" using f c find_account_mem by blast+
  let ?e = "d\<lparr>ledger_entries := ledger_entries d @
      [debit_entry t from (acct_balance f) amount, credit_entry t credit (acct_balance c) amount]\<rparr>"
  let ?e1 = "with_account from (posted (wrap64 (acct_balance f - amount))) ?e"
  have ok_e: "accounts_ok ?e" using ok by simp
  have first: "set_balance from (wrap64 (acct_balance f - amount)) (acct_version f) ?e
      = (if in_int4 (acct_version f + 1) then Some ((), ?e1) else None)"
    using f by (simp add: set_balance_eq [OF ok_e])
  have second: "set_balance credit (wrap64 (acct_balance c + amount)) (acct_version c) ?e1
      = (if from \<noteq> credit \<and> in_int4 (acct_version c + 1)
         then Some ((), after_transfer t from credit amount f c d) else None)"
    if v: "in_int4 (acct_version f + 1)"
  proof -
    have "accounts_ok ?e1" using v f by (intro accounts_ok_posted) (auto simp: ok)
    from set_balance_eq [OF this] f c show ?thesis
      by (auto simp: find_with_account after_transfer_def)
  qed
  show ?thesis
    using first second
    by (simp add: stmt_bind_def add_entry_def ids debit_entry_def credit_entry_def)
qed

lemma transfer_stmt_eq:
  assumes ok: "accounts_ok d" and credit_def: "credit = credit_account sys to d"
  shows "transfer_stmt sys from to t amount d =
     (case (find_account from d, find_account credit d) of
        (Some f, Some c) \<Rightarrow>
          if from \<noteq> credit \<and> in_int4 (acct_version f + 1) \<and> in_int4 (acct_version c + 1)
          then Some ((), after_transfer t from credit amount f c d) else None
      | _ \<Rightarrow> None)"
proof (cases "find_account from d")
  case None
  then show ?thesis
    by (auto simp: transfer_stmt_def stmt_bind_def read_account_eq credit_def credit_account_def
        Let_def split: option.splits)
next
  case (Some f)
  show ?thesis
  proof (cases "find_account credit d")
    case None
    with Some show ?thesis
      by (auto simp: transfer_stmt_def stmt_bind_def read_account_eq credit_def credit_account_def
          Let_def split: option.splits)
  next
    case c: (Some c)
    note b = post_both_eq [OF ok Some c, of t amount]
    have cr: "(if find_account to d \<noteq> None then to else sys) = credit"
      by (simp add: credit_def credit_account_def)
    have "transfer_stmt sys from to t amount d =
       stmt_bind (add_entry t (acct_id f) (wrap64 (- amount)) DebitPayment
             (wrap64 (acct_balance f - amount))) (\<lambda>_.
         stmt_bind (add_entry t (acct_id c) amount CreditPayment (wrap64 (acct_balance c + amount))) (\<lambda>_.
         stmt_bind (set_balance (acct_id f) (wrap64 (acct_balance f - amount)) (acct_version f)) (\<lambda>_.
         set_balance (acct_id c) (wrap64 (acct_balance c + amount)) (acct_version c)))) d"
      unfolding transfer_stmt_def Let_def
      using Some c cr
      by (cases "credit < from") (auto simp: stmt_bind_def read_account_eq)
    with b Some c show ?thesis by simp
  qed
qed

text \<open>The whole body: states before and after the posting.\<close>

definition with_states :: "(string \<times> string) list \<Rightarrow> db \<Rightarrow> db" where
  "with_states ss d = d\<lparr>payment_states := payment_states d @ ss\<rparr>"

lemma with_states_sel [simp]:
  "accounts (with_states ss d) = accounts d"
  "ledger_entries (with_states ss d) = ledger_entries d"
  "payment_states (with_states ss d) = payment_states d @ ss"
  "find_account a (with_states ss d) = find_account a d"
  "accounts_ok (with_states ss d) = accounts_ok d"
  "balances (with_states ss d) = balances d"
  by (simp_all add: with_states_def)

lemma add_state_alt: "add_state t st d = Some ((), with_states [(t, st)] d)"
  by (simp add: add_state_def with_states_def)

lemma transfer_body_eq:
  assumes ok: "accounts_ok d" and credit_def: "credit = credit_account sys to d"
  shows "transfer_body sys from to t amount d =
     (case (find_account from d, find_account credit d) of
        (Some f, Some c) \<Rightarrow>
          if from \<noteq> credit \<and> in_int4 (acct_version f + 1) \<and> in_int4 (acct_version c + 1)
          then Some ((), with_states [(t, ''SUCCESS'')] (after_transfer t from credit amount f c
                 (with_states [(t, ''PENDING'')] d)))
          else None
      | _ \<Rightarrow> None)"
proof -
  have cr: "credit = credit_account sys to (with_states [(t, ''PENDING'')] d)"
    by (simp add: credit_def credit_account_def)
  have "accounts_ok (with_states [(t, ''PENDING'')] d)" using ok by simp
  from transfer_stmt_eq [OF this cr, of "from" t amount] have "transfer_stmt sys from to t amount (with_states [(t, ''PENDING'')] d) =
     (case (find_account from d, find_account credit d) of
        (Some f, Some c) \<Rightarrow>
          if from \<noteq> credit \<and> in_int4 (acct_version f + 1) \<and> in_int4 (acct_version c + 1)
          then Some ((), after_transfer t from credit amount f c (with_states [(t, ''PENDING'')] d))
          else None
      | _ \<Rightarrow> None)"
    by simp
  then show ?thesis
    by (simp add: transfer_body_def stmt_bind_def add_state_alt split: option.splits)
qed

lemma after_transfer_sel [simp]:
  "ledger_entries (after_transfer t from credit amount f c d) = ledger_entries d @
     [debit_entry t from (acct_balance f) amount, credit_entry t credit (acct_balance c) amount]"
  "payment_states (after_transfer t from credit amount f c d) = payment_states d"
  by (simp_all add: after_transfer_def)

lemma find_after_transfer:
  "find_account a (after_transfer t from credit amount f c d) =
    (if a = credit then map_option (posted (wrap64 (acct_balance c + amount)))
        (if a = from then map_option (posted (wrap64 (acct_balance f - amount))) (find_account a d)
         else find_account a d)
     else if a = from then map_option (posted (wrap64 (acct_balance f - amount))) (find_account a d)
     else find_account a d)"
  by (auto simp: after_transfer_def find_with_account)

lemma balances_after_transfer:
  assumes "find_account from d = Some f" and "find_account credit d = Some c" and "from \<noteq> credit"
  shows "move from credit amount (balances d)
       = Some (balances (after_transfer t from credit amount f c d))"
  using assms by (auto simp: move_def balances_def find_after_transfer intro!: ext)

lemma accounts_ok_after_transfer:
  assumes ok: "accounts_ok d" and f: "find_account from d = Some f"
    and c: "find_account credit d = Some c" and ne: "from \<noteq> credit"
    and v: "in_int4 (acct_version f + 1)" "in_int4 (acct_version c + 1)"
  shows "accounts_ok (after_transfer t from credit amount f c d)"
proof -
  let ?e = "d\<lparr>ledger_entries := ledger_entries d @
      [debit_entry t from (acct_balance f) amount, credit_entry t credit (acct_balance c) amount]\<rparr>"
  let ?e1 = "with_account from (posted (wrap64 (acct_balance f - amount))) ?e"
  have e1: "accounts_ok ?e1" using v(1) f by (intro accounts_ok_posted) (auto simp: ok)
  moreover have "find_account credit ?e1 = Some c"
    using c ne by (simp add: find_with_account)
  ultimately show ?thesis
    unfolding after_transfer_def using v(2) by (auto intro: accounts_ok_posted)
qed

lemma transfer_body_cases:
  assumes ok: "accounts_ok d" and step: "transfer_body sys from to t amount d = Some (u, d')"
    and credit: "credit = credit_account sys to d"
  obtains f c where "find_account from d = Some f" and "find_account credit d = Some c"
    and "from \<noteq> credit" and "in_int4 (acct_version f + 1)" and "in_int4 (acct_version c + 1)"
    and "d' = with_states [(t, ''SUCCESS'')] (after_transfer t from credit amount f c
                 (with_states [(t, ''PENDING'')] d))"
  using step unfolding transfer_body_eq [OF ok credit]
  by (auto split: option.splits if_splits)

section \<open>Reversal on the tables\<close>

definition undo1 :: "ledger_entry \<Rightarrow> (string \<rightharpoonup> int) \<Rightarrow> (string \<rightharpoonup> int)" where
  "undo1 e m = (case m (le_account e) of None \<Rightarrow> m
     | Some x \<Rightarrow> m(le_account e \<mapsto> wrap64 (x + wrap64 (- le_amount e))))"

definition undo :: "ledger_entry list \<Rightarrow> (string \<rightharpoonup> int) \<Rightarrow> (string \<rightharpoonup> int)" where
  "undo es m = fold undo1 es m"

definition reversal_entry :: "string \<Rightarrow> ledger_entry \<Rightarrow> int \<Rightarrow> ledger_entry" where
  "reversal_entry t e x = \<lparr>le_txid = t @ ''_REVERSAL'', le_account = le_account e,
     le_amount = wrap64 (- le_amount e), le_type = reversed (le_type e),
     le_balance = wrap64 (x + wrap64 (- le_amount e))\<rparr>"

fun reversal_entries :: "string \<Rightarrow> ledger_entry list \<Rightarrow> (string \<rightharpoonup> int) \<Rightarrow> ledger_entry list" where
  "reversal_entries t [] m = []"
| "reversal_entries t (e # es) m =
     reversal_entry t e (the (m (le_account e))) # reversal_entries t es (undo1 e m)"

definition reversal_step :: "string \<Rightarrow> ledger_entry \<Rightarrow> account \<Rightarrow> db \<Rightarrow> db" where
  "reversal_step t e r d = with_account (le_account e)
     (posted (wrap64 (acct_balance r + wrap64 (- le_amount e))))
     (d\<lparr>ledger_entries := ledger_entries d @ [reversal_entry t e (acct_balance r)]\<rparr>)"

lemma reversal_step_sel [simp]:
  "ledger_entries (reversal_step t e r d) = ledger_entries d @ [reversal_entry t e (acct_balance r)]"
  "payment_states (reversal_step t e r d) = payment_states d"
  by (simp_all add: reversal_step_def)

lemma accounts_ok_reversal_step:
  assumes "accounts_ok d" and "find_account (le_account e) d = Some r" and "in_int4 (acct_version r + 1)"
  shows "accounts_ok (reversal_step t e r d)"
  using assms unfolding reversal_step_def by (intro accounts_ok_posted) auto

lemma balances_reversal_step:
  "find_account (le_account e) d = Some r \<Longrightarrow>
   balances (reversal_step t e r d) = undo1 e (balances d)"
  by (intro ext) (auto simp: balances_def undo1_def find_with_account reversal_step_def)

lemma reverse_stmt_Cons:
  assumes ok: "accounts_ok d"
  shows "reverse_stmt t (e # es) d = (case find_account (le_account e) d of
      None \<Rightarrow> None
    | Some r \<Rightarrow> if in_int4 (acct_version r + 1)
        then reverse_stmt t es (reversal_step t e r d) else None)"
proof (cases "find_account (le_account e) d")
  case None
  then show ?thesis by (simp add: stmt_bind_def read_account_eq)
next
  case (Some r)
  then have id: "acct_id r = le_account e" using find_account_mem by blast
  have "accounts_ok (d\<lparr>ledger_entries := ledger_entries d @ [reversal_entry t e (acct_balance r)]\<rparr>)"
    using ok by simp
  from set_balance_eq [OF this] Some id show ?thesis
    by (simp add: stmt_bind_def read_account_eq add_entry_def reversal_entry_def reversal_step_def
        Let_def)
qed

lemma reverse_stmt_ConsE:
  assumes "accounts_ok d" and "reverse_stmt t (e # es) d = Some (u, d')"
  obtains r where "find_account (le_account e) d = Some r" and "in_int4 (acct_version r + 1)"
    and "accounts_ok (reversal_step t e r d)"
    and "reverse_stmt t es (reversal_step t e r d) = Some (u, d')"
  using assms(2) accounts_ok_reversal_step [OF assms(1)] unfolding reverse_stmt_Cons [OF assms(1)]
  by (auto split: option.splits if_splits)

lemma reverse_stmt_spec:
  assumes "accounts_ok d" and "reverse_stmt t es d = Some (u, d')"
  shows "accounts_ok d' \<and> balances d' = undo es (balances d) \<and>
    ledger_entries d' = ledger_entries d @ reversal_entries t es (balances d) \<and>
    payment_states d' = payment_states d \<and>
    (\<forall>e \<in> set es. balances d (le_account e) \<noteq> None)"
  using assms
proof (induction es arbitrary: d)
  case Nil
  then show ?case by (simp add: stmt_ret_def undo_def)
next
  case (Cons e es)
  from Cons.prems obtain r where r: "find_account (le_account e) d = Some r"
    and ok1: "accounts_ok (reversal_step t e r d)"
    and step: "reverse_stmt t es (reversal_step t e r d) = Some (u, d')" by (rule reverse_stmt_ConsE)
  note b1 = balances_reversal_step [OF r]
  have dom: "balances (reversal_step t e r d) a \<noteq> None \<longleftrightarrow> balances d a \<noteq> None" for a
    using r by (auto simp: balances_def find_with_account reversal_step_def)
  have x: "balances d (le_account e) = Some (acct_balance r)" using r by (simp add: balances_def)
  from Cons.IH [OF ok1 step] show ?case
    unfolding dom unfolding b1 by (simp add: undo_def x)
qed

section \<open>The double-entry invariant\<close>

definition drift :: "string \<Rightarrow> db \<Rightarrow> int" where
  "drift a d = balance_of a d - sum_entries (\<lambda>e. le_account e = a) d"

definition tips_ok :: "db \<Rightarrow> bool" where
  "tips_ok d \<longleftrightarrow> (\<forall>a b. balances d a = Some b \<longrightarrow>
     (let es = filter (\<lambda>e. le_account e = a) (ledger_entries d)
      in es \<noteq> [] \<longrightarrow> le_balance (last es) = b))"

definition entries_balanced :: "db \<Rightarrow> bool" where
  "entries_balanced d \<longleftrightarrow> (\<forall>t. sum_entries (\<lambda>e. le_txid e = t) d mod 2 ^ 64 = 0)"

definition books_ok :: "db \<Rightarrow> bool" where
  "books_ok d \<longleftrightarrow> accounts_ok d \<and> tips_ok d \<and> entries_balanced d"

text \<open>Congruence modulo \<open>2 ^ 64\<close>, in the form the accounting proofs use.\<close>

definition eq64 :: "int \<Rightarrow> int \<Rightarrow> bool" where
  "eq64 x y \<longleftrightarrow> 2 ^ 64 dvd (x - y)"

lemma eq64_iff: "eq64 x y \<longleftrightarrow> x mod 2 ^ 64 = y mod 2 ^ 64"
  by (simp add: eq64_def mod_eq_dvd_iff)

lemma eq64_refl [simp]: "eq64 x x"
  by (simp add: eq64_def)

lemma eq64_wrap64 [simp]: "eq64 (wrap64 x) x"
  unfolding eq64_iff by (rule wrap64_mod)

lemma eq64_trans: "eq64 x y \<Longrightarrow> eq64 y z \<Longrightarrow> eq64 x z"
  by (simp add: eq64_iff)

lemma eq64_sym: "eq64 x y \<Longrightarrow> eq64 y x"
  by (simp add: eq64_iff)

lemma eq64_add: "eq64 a b \<Longrightarrow> eq64 c d \<Longrightarrow> eq64 (a + c) (b + d)"
  unfolding eq64_iff by (rule mod_add_cong)

lemma eq64_diff: "eq64 a b \<Longrightarrow> eq64 c d \<Longrightarrow> eq64 (a - c) (b - d)"
  unfolding eq64_iff by (rule mod_diff_cong)

lemmas eq64_intros = eq64_add eq64_diff eq64_refl eq64_wrap64

subsection \<open>Transfers\<close>

lemma sum_entries_append:
  "ledger_entries d' = ledger_entries d @ es \<Longrightarrow>
   sum_entries P d' = sum_entries P d + (\<Sum>e\<leftarrow>filter P es. le_amount e)"
  by (simp add: sum_entries_def)

lemma after_transfer_drift:
  assumes "find_account from d = Some f" and "find_account credit d = Some c" and "from \<noteq> credit"
  shows "eq64 (drift a (after_transfer t from credit amount f c d)) (drift a d)"
proof -
  let ?d' = "after_transfer t from credit amount f c d"
  have e: "sum_entries (\<lambda>e. le_account e = a) ?d' = sum_entries (\<lambda>e. le_account e = a) d
      + (if a = from then wrap64 (- amount) else 0) + (if a = credit then amount else 0)"
    using assms(3) by (simp add: sum_entries_append [of ?d' d] entry_defs)
  have b: "balance_of a ?d' = (if a = credit then wrap64 (balance_of a d + amount)
      else if a = from then wrap64 (balance_of a d - amount) else balance_of a d)"
    using assms by (auto simp: balance_of_def find_after_transfer split: option.split)
  have "eq64 (wrap64 (x - amount) - (s + wrap64 (- amount))) (x - s)" for x s
    using eq64_diff [OF eq64_wrap64 [of "x - amount"] eq64_add [OF eq64_refl [of s] eq64_wrap64 [of "- amount"]]]
    by simp
  moreover have "eq64 (wrap64 (x + amount) - (s + amount)) (x - s)" for x s
    using eq64_diff [OF eq64_wrap64 [of "x + amount"] eq64_refl [of "s + amount"]] by simp
  ultimately show ?thesis
    using assms(3) by (simp add: drift_def b e)
qed

lemma after_transfer_total:
  assumes ok: "accounts_ok d" and f: "find_account from d = Some f"
    and c: "find_account credit d = Some c" and ne: "from \<noteq> credit"
    and v: "in_int4 (acct_version f + 1)"
  shows "eq64 (total_balance (after_transfer t from credit amount f c d)) (total_balance d)"
proof -
  let ?e = "d\<lparr>ledger_entries := ledger_entries d @
      [debit_entry t from (acct_balance f) amount, credit_entry t credit (acct_balance c) amount]\<rparr>"
  let ?e1 = "with_account from (posted (wrap64 (acct_balance f - amount))) ?e"
  have ok_e: "accounts_ok ?e" using ok by simp
  have ok1: "accounts_ok ?e1" using v f by (intro accounts_ok_posted) (auto simp: ok)
  have t0: "total_balance ?e = total_balance d" by (simp add: total_balance_def)
  have t1: "total_balance ?e1 = total_balance d - acct_balance f + wrap64 (acct_balance f - amount)"
    using total_with_account [OF ok_e, of "from" f] f t0 by simp
  have "total_balance (after_transfer t from credit amount f c d)
      = total_balance d + (wrap64 (acct_balance f - amount) - acct_balance f)
          + (wrap64 (acct_balance c + amount) - acct_balance c)"
    unfolding after_transfer_def
    using total_with_account [OF ok1, of credit c] c ne t1 by (simp add: find_with_account)
  moreover have "eq64 (total_balance d + (wrap64 (acct_balance f - amount) - acct_balance f)
          + (wrap64 (acct_balance c + amount) - acct_balance c))
      (total_balance d + ((acct_balance f - amount) - acct_balance f)
          + ((acct_balance c + amount) - acct_balance c))"
    by (intro eq64_intros)
  ultimately show ?thesis by simp
qed

lemma after_transfer_tips:
  assumes f: "find_account from d = Some f" and c: "find_account credit d = Some c"
    and ne: "from \<noteq> credit" and t: "tips_ok d"
  shows "tips_ok (after_transfer t from credit amount f c d)"
  unfolding tips_ok_def
proof (intro allI impI)
  fix a b assume b: "balances (after_transfer t from credit amount f c d) a = Some b"
  show "let es = filter (\<lambda>e. le_account e = a) (ledger_entries (after_transfer t from credit amount f c d))
      in es \<noteq> [] \<longrightarrow> le_balance (last es) = b"
    using b f c ne t by (auto simp: tips_ok_def balances_def find_after_transfer entry_defs Let_def)
qed

lemma after_transfer_balanced:
  assumes "entries_balanced d"
  shows "entries_balanced (after_transfer t from credit amount f c d)"
proof -
  let ?d' = "after_transfer t from credit amount f c d"
  have "eq64 (sum_entries (\<lambda>e. le_txid e = u) ?d') (sum_entries (\<lambda>e. le_txid e = u) d)" for u
  proof -
    have "eq64 (s + (wrap64 (- amount) + amount)) (s + (- amount + amount))" for s
      by (intro eq64_intros)
    then show ?thesis by (simp add: sum_entries_append [of ?d' d] entry_defs)
  qed
  with assms show ?thesis by (simp add: entries_balanced_def eq64_iff)
qed

subsection \<open>Reversals\<close>

lemma reverse_stmt_keeps:
  assumes "accounts_ok d" and "reverse_stmt t es d = Some (u, d')" and "I d"
    and step: "\<And>d e r. accounts_ok d \<Longrightarrow> find_account (le_account e) d = Some r \<Longrightarrow> I d \<Longrightarrow>
        I (reversal_step t e r d)"
  shows "I d'"
  using assms(1-3)
proof (induction es arbitrary: d)
  case Nil
  then show ?case by (simp add: stmt_ret_def)
next
  case (Cons e es)
  from Cons.prems(1,2) obtain r where r: "find_account (le_account e) d = Some r"
    and ok1: "accounts_ok (reversal_step t e r d)"
    and st: "reverse_stmt t es (reversal_step t e r d) = Some (u, d')" by (rule reverse_stmt_ConsE)
  show ?case by (rule Cons.IH [OF ok1 st step [OF Cons.prems(1) r Cons.prems(3)]])
qed

lemma reversal_step_drift:
  assumes "find_account (le_account e) d = Some r"
  shows "eq64 (drift a (reversal_step t e r d)) (drift a d)"
proof -
  let ?d' = "reversal_step t e r d" and ?x = "wrap64 (- le_amount e)"
  have en: "sum_entries (\<lambda>e. le_account e = a) ?d' = sum_entries (\<lambda>e. le_account e = a) d
      + (if a = le_account e then ?x else 0)"
    by (simp add: sum_entries_append [of ?d' d] reversal_entry_def)
  have b: "balance_of a ?d' = (if a = le_account e then wrap64 (balance_of a d + ?x)
      else balance_of a d)"
    using assms by (auto simp: balance_of_def reversal_step_def find_with_account split: option.split)
  have "eq64 (wrap64 (y + ?x) - (s + ?x)) (y - s)" for y s
    using eq64_diff [OF eq64_wrap64 [of "y + ?x"] eq64_refl [of "s + ?x"]] by simp
  then show ?thesis by (simp add: drift_def b en)
qed

lemma reversal_step_tips:
  assumes "find_account (le_account e) d = Some r" and "tips_ok d"
  shows "tips_ok (reversal_step t e r d)"
  unfolding tips_ok_def
proof (intro allI impI)
  fix a b assume b: "balances (reversal_step t e r d) a = Some b"
  show "let es = filter (\<lambda>e. le_account e = a) (ledger_entries (reversal_step t e r d))
      in es \<noteq> [] \<longrightarrow> le_balance (last es) = b"
    using b assms unfolding balances_reversal_step [OF assms(1)]
    by (auto simp: tips_ok_def undo1_def reversal_entry_def Let_def balances_def split: if_splits)
qed

lemma reverse_stmt_total:
  assumes "accounts_ok d" and "reverse_stmt t es d = Some (u, d')"
  shows "eq64 (total_balance d') (total_balance d - (\<Sum>e\<leftarrow>es. le_amount e))"
  using assms
proof (induction es arbitrary: d)
  case Nil
  then show ?case by (simp add: stmt_ret_def)
next
  case (Cons e es)
  from Cons.prems obtain r where r: "find_account (le_account e) d = Some r"
    and ok1: "accounts_ok (reversal_step t e r d)"
    and step: "reverse_stmt t es (reversal_step t e r d) = Some (u, d')" by (rule reverse_stmt_ConsE)
  let ?e = "d\<lparr>ledger_entries := ledger_entries d @ [reversal_entry t e (acct_balance r)]\<rparr>"
  have "total_balance (reversal_step t e r d) = total_balance d
      + (wrap64 (acct_balance r + wrap64 (- le_amount e)) - acct_balance r)"
    unfolding reversal_step_def using total_with_account [of ?e "le_account e" r] Cons.prems(1) r
    by (simp add: total_balance_def)
  moreover have "eq64 (wrap64 (x + wrap64 (- y))) (x + (- y))" for x y
    by (rule eq64_trans [OF eq64_wrap64]) (intro eq64_intros)
  then have "eq64 (T + (wrap64 (x + wrap64 (- y)) - x)) (T + ((x + (- y)) - x))" for T x y
    by (intro eq64_add eq64_diff eq64_refl)
  ultimately have s1: "eq64 (total_balance (reversal_step t e r d)) (total_balance d - le_amount e)"
    by simp
  have "eq64 (total_balance d') (total_balance (reversal_step t e r d) - (\<Sum>e\<leftarrow>es. le_amount e))"
    by (rule Cons.IH [OF ok1 step])
  then have "eq64 (total_balance d') (total_balance d - le_amount e - (\<Sum>e\<leftarrow>es. le_amount e))"
    by (rule eq64_trans) (intro eq64_diff s1 eq64_refl)
  then show ?case by (simp add: algebra_simps)
qed

lemma reversal_entries_txid:
  "\<forall>x \<in> set (reversal_entries t es m). le_txid x = t @ ''_REVERSAL''"
  by (induction t es m rule: reversal_entries.induct) (auto simp: reversal_entry_def)

lemma reversal_entries_sum:
  "eq64 (\<Sum>x\<leftarrow>reversal_entries t es m. le_amount x) (- (\<Sum>e\<leftarrow>es. le_amount e))"
proof (induction t es m rule: reversal_entries.induct)
  case (2 t e es m)
  have "eq64 (wrap64 (- le_amount e) + (\<Sum>x\<leftarrow>reversal_entries t es (undo1 e m). le_amount x))
     (- le_amount e + - (\<Sum>e\<leftarrow>es. le_amount e))"
    by (intro eq64_add eq64_wrap64 2)
  then show ?case by (simp add: reversal_entry_def)
qed simp

definition entries_of :: "string \<Rightarrow> db \<Rightarrow> ledger_entry list" where
  "entries_of t d = filter (\<lambda>e. le_txid e = t) (ledger_entries d)"

lemma reverse_body_cases:
  assumes "reverse_body t d = Some (u, d')"
  obtains d1 where "entries_of t d \<noteq> []" and "reverse_stmt t (entries_of t d) d = Some ((), d1)"
    and "d' = with_states [(t, ''REVERSED'')] d1"
  using assms
  by (auto simp: reverse_body_def stmt_bind_def stmt_fail_def add_state_alt entries_of_def
      split: if_splits option.splits prod.splits)

lemma reverse_stmt_balanced:
  assumes ok: "accounts_ok d" and step: "reverse_stmt t (entries_of t d) d = Some (u, d')"
    and b: "entries_balanced d"
  shows "entries_balanced d'"
  unfolding entries_balanced_def
proof
  fix v
  let ?rs = "reversal_entries t (entries_of t d) (balances d)"
  have "ledger_entries d' = ledger_entries d @ ?rs" using reverse_stmt_spec [OF ok step] by blast
  then have s: "sum_entries (\<lambda>e. le_txid e = v) d' = sum_entries (\<lambda>e. le_txid e = v) d
      + (\<Sum>e\<leftarrow>filter (\<lambda>e. le_txid e = v) ?rs. le_amount e)"
    by (rule sum_entries_append)
  have z: "eq64 (sum_entries (\<lambda>e. le_txid e = w) d) 0" for w
    using b by (simp add: entries_balanced_def eq64_iff)
  have "eq64 (\<Sum>e\<leftarrow>filter (\<lambda>e. le_txid e = v) ?rs. le_amount e) 0"
  proof (cases "v = t @ ''_REVERSAL''")
    case True
    then have "filter (\<lambda>e. le_txid e = v) ?rs = ?rs"
      using reversal_entries_txid by (auto simp: filter_id_conv)
    moreover have "eq64 (- (\<Sum>e\<leftarrow>entries_of t d. le_amount e)) 0"
      using eq64_diff [OF eq64_refl [of 0] z [of t]] by (simp add: sum_entries_def entries_of_def)
    ultimately show ?thesis using reversal_entries_sum eq64_trans by metis
  next
    case False
    then have "filter (\<lambda>e. le_txid e = v) ?rs = []"
      using reversal_entries_txid by (fastforce simp: filter_empty_conv)
    then show ?thesis by simp
  qed
  from eq64_add [OF z [of v] this] show "sum_entries (\<lambda>e. le_txid e = v) d' mod 2 ^ 64 = 0"
    unfolding s eq64_iff by simp
qed

section \<open>Requests to the ledger\<close>

datatype ledger_req = TransferReq string string string int | ReverseReq string

fun ledger_handle :: "string \<Rightarrow> ledger_req \<Rightarrow> unit go" where
  "ledger_handle sys (TransferReq from to t amount) = Transfer sys from to t amount"
| "ledger_handle sys (ReverseReq t) = Reverse t"

text \<open>What one committed operation of either kind keeps, and what it leaves congruent.\<close>

lemma transfer_body_keeps_books:
  assumes b: "books_ok d" and s: "transfer_body sys from to t amount d = Some (u, d')"
  shows "books_ok d' \<and> eq64 (total_balance d') (total_balance d) \<and>
         eq64 (drift a d') (drift a d) \<and>
         payment_states d' = payment_states d @ [(t, ''PENDING''), (t, ''SUCCESS'')]"
proof -
  have ok: "accounts_ok d" using b by (simp add: books_ok_def)
  let ?d = "with_states [(t, ''PENDING'')] d"
  obtain f c where f: "find_account from d = Some f"
    and c: "find_account (credit_account sys to d) d = Some c"
    and ne: "from \<noteq> credit_account sys to d"
    and v: "in_int4 (acct_version f + 1)" "in_int4 (acct_version c + 1)"
    and d': "d' = with_states [(t, ''SUCCESS'')]
       (after_transfer t from (credit_account sys to d) amount f c ?d)"
    by (rule transfer_body_cases [OF ok s refl])
  let ?d1 = "after_transfer t from (credit_account sys to d) amount f c ?d"
  have fr: "drift v (with_states ss x) = drift v x" "total_balance (with_states ss x) = total_balance x"
    "tips_ok (with_states ss x) = tips_ok x" "entries_balanced (with_states ss x) = entries_balanced x"
    for v ss x
    by (simp_all add: drift_def balance_of_balances sum_entries_def total_balance_def tips_ok_def
        entries_balanced_def)
  have hyps: "accounts_ok ?d" "find_account from ?d = Some f"
    "find_account (credit_account sys to d) ?d = Some c"
    using ok f c by simp_all
  from accounts_ok_after_transfer [OF hyps ne v] after_transfer_tips [OF hyps(2,3) ne]
    after_transfer_balanced [of ?d] after_transfer_total [OF hyps ne v(1)]
    after_transfer_drift [OF hyps(2,3) ne] b
  show ?thesis by (simp add: d' fr books_ok_def)
qed

lemma reverse_body_keeps_books:
  assumes b: "books_ok d" and s: "reverse_body t d = Some (u, d')"
  shows "books_ok d' \<and> eq64 (total_balance d') (total_balance d) \<and>
         eq64 (drift a d') (drift a d) \<and>
         payment_states d' = payment_states d @ [(t, ''REVERSED'')]"
proof -
  have ok: "accounts_ok d" and tips: "tips_ok d" and bal: "entries_balanced d"
    using b by (simp_all add: books_ok_def)
  obtain d1 where st: "reverse_stmt t (entries_of t d) d = Some ((), d1)"
    and d': "d' = with_states [(t, ''REVERSED'')] d1"
    using s by (rule reverse_body_cases)
  have fr: "drift v (with_states ss x) = drift v x" "total_balance (with_states ss x) = total_balance x"
    "tips_ok (with_states ss x) = tips_ok x" "entries_balanced (with_states ss x) = entries_balanced x"
    for v ss x
    by (simp_all add: drift_def balance_of_balances sum_entries_def total_balance_def tips_ok_def
        entries_balanced_def)
  have "eq64 (drift a d1) (drift a d)"
    using ok st
    by (rule reverse_stmt_keeps [where I = "\<lambda>x. eq64 (drift a x) (drift a d)"])
      (auto intro: reversal_step_drift eq64_trans)
  moreover have "tips_ok d1"
    using ok st tips by (rule reverse_stmt_keeps) (rule reversal_step_tips)
  moreover have "entries_balanced d1" by (rule reverse_stmt_balanced [OF ok st bal])
  moreover have "eq64 (total_balance d1) (total_balance d)"
  proof -
    have "eq64 (\<Sum>e\<leftarrow>entries_of t d. le_amount e) 0"
      using bal by (simp add: entries_balanced_def eq64_iff sum_entries_def entries_of_def)
    from eq64_trans [OF reverse_stmt_total [OF ok st] eq64_diff [OF eq64_refl this]]
    show ?thesis by simp
  qed
  ultimately show ?thesis
    using reverse_stmt_spec [OF ok st] by (simp add: d' fr books_ok_def)
qed

text \<open>The invariant of a run of the ledger that began with tables \<open>d0\<close>.\<close>

definition books_from :: "db \<Rightarrow> db \<Rightarrow> bool" where
  "books_from d0 d \<longleftrightarrow> books_ok d \<and> eq64 (total_balance d) (total_balance d0) \<and>
     (\<forall>a. eq64 (drift a d) (drift a d0)) \<and>
     (\<exists>ss. payment_states d = payment_states d0 @ ss \<and>
        snd ` set ss \<subseteq> {''PENDING'', ''SUCCESS'', ''REVERSED''})"

lemma books_from_step:
  assumes "books_from d0 d" and "books_ok d'" and "eq64 (total_balance d') (total_balance d)"
    and "\<And>a. eq64 (drift a d') (drift a d)" and "payment_states d' = payment_states d @ ss"
    and "snd ` set ss \<subseteq> {''PENDING'', ''SUCCESS'', ''REVERSED''}"
  shows "books_from d0 d'"
  unfolding books_from_def
proof (intro conjI allI)
  show "books_ok d'" by (rule assms)
  show "eq64 (total_balance d') (total_balance d0)" "eq64 (drift a d') (drift a d0)" for a
    using assms(1,3,4) by (auto simp: books_from_def intro: eq64_trans)
  from assms(1) obtain s1 where "payment_states d = payment_states d0 @ s1"
    and "snd ` set s1 \<subseteq> {''PENDING'', ''SUCCESS'', ''REVERSED''}"
    by (auto simp: books_from_def)
  with assms(5,6) have "payment_states d' = payment_states d0 @ (s1 @ ss)"
    "snd ` set (s1 @ ss) \<subseteq> {''PENDING'', ''SUCCESS'', ''REVERSED''}" by auto
  then show "\<exists>ss. payment_states d' = payment_states d0 @ ss \<and>
      snd ` set ss \<subseteq> {''PENDING'', ''SUCCESS'', ''REVERSED''}" by blast
qed

interpretation ledger: tx_request "ledger_handle sys" "books_from d0" for sys d0
proof
  fix w :: world and req assume inv: "books_from d0 (committed w)"
  then have ok: "books_ok (committed w)" by (simp add: books_from_def)
  show "books_from d0 (committed (snd (ledger_handle sys req w)))"
  proof (cases req)
    case (TransferReq a b t x)
    have "books_from d0 (committed (snd (Transfer sys a b t x w)))"
      using inv
    proof (rule Transfer_keeps)
      fix y d' assume "transfer_body sys a b t x (committed w) = Some (y, d')"
      from transfer_body_keeps_books [OF ok this]
      show "books_from d0 d'" by (intro books_from_step [OF inv]) auto
    qed
    with TransferReq show ?thesis by simp
  next
    case (ReverseReq t)
    have "books_from d0 (committed (snd (Reverse t w)))"
      using inv
    proof (rule Reverse_keeps)
      fix y d' assume "reverse_body t (committed w) = Some (y, d')"
      from reverse_body_keeps_books [OF ok this]
      show "books_from d0 d'" by (intro books_from_step [OF inv]) auto
    qed
    with ReverseReq show ?thesis by simp
  qed
qed

end
