(* ===== verification/Ledger_Props.thy ===== *)
theory Ledger_Props
  imports Ledger_Spec
begin

text \<open>
  The properties of the ledger: refinement of the abstract ledger, atomicity, the
  double-entry invariant over any sequence of requests, reversals, and what the code does
  not promise (a limit on the debit, idempotent reversals, a record of failures).
\<close>

lemma books_ok_sample: "books_ok sample_db"
  by (simp add: books_ok_def accounts_ok_def tips_ok_def entries_balanced_def sample_defs
      in_int64_def in_int4_def sum_entries_def)

lemma accounts_ok_sample: "accounts_ok sample_db"
  using books_ok_sample by (simp add: books_ok_def)

lemma committed_sample [simp]: "committed sample_world = sample_db" "faults sample_world = []"
  by (simp_all add: sample_world_def)

text \<open>The first transfer of the witnesses, and the tables it leaves.\<close>

definition sample_transfer :: "unit outcome \<times> world" where
  "sample_transfer = Transfer ''0000000001'' ''1000000001'' ''1000000002'' ''T1'' 30 sample_world"

lemma sample_transfer_done: "fst sample_transfer = Done ()"
  by code_simp

lemma balances_sample_2: "balances sample_db ''1000000002'' = Some 40"
  by (simp add: balances_def find_account_def sample_defs)

lemma transfer_refines_lemma:
  assumes "accounts_ok (committed w)"
    and "Transfer sys from to t amount w = (Done (), w')"
  shows "\<exists>x y. balances (committed w) from = Some x \<and>
     balances (committed w) (credit_account sys to (committed w)) = Some y \<and>
     move from (credit_account sys to (committed w)) amount (balances (committed w))
       = Some (balances (committed w')) \<and>
     ledger_entries (committed w') = ledger_entries (committed w) @
       [debit_entry t from x amount, credit_entry t (credit_account sys to (committed w)) y amount] \<and>
     payment_states (committed w') = payment_states (committed w) @ [(t, ''PENDING''), (t, ''SUCCESS'')]"
proof -
  let ?d = "committed w" and ?d1 = "with_states [(t, ''PENDING'')] (committed w)"
  have "transfer_body sys from to t amount ?d = Some ((), committed w')"
    using Transfer_Done [OF assms(2)] by simp
  then obtain f c where f: "find_account from ?d = Some f"
    and c: "find_account (credit_account sys to ?d) ?d = Some c"
    and ne: "from \<noteq> credit_account sys to ?d"
    and d': "committed w' = with_states [(t, ''SUCCESS'')]
       (after_transfer t from (credit_account sys to ?d) amount f c ?d1)"
    by (rule transfer_body_cases [OF assms(1) _ refl])
  have "move from (credit_account sys to ?d) amount (balances ?d) = Some (balances (committed w'))"
    using balances_after_transfer [where d = ?d1 and t = t and amount = amount, OF _ _ ne] f c
    by (simp add: d')
  with f c show ?thesis by (simp add: d' balances_def)
qed

lemma Transfer_accounts_ok:
  assumes "accounts_ok (committed w)"
    and "Transfer sys from to t amount w = (Done (), w')"
  shows "accounts_ok (committed w')"
proof -
  let ?d = "committed w"
  have "transfer_body sys from to t amount ?d = Some ((), committed w')"
    using Transfer_Done [OF assms(2)] by simp
  then show ?thesis
    by (rule transfer_body_cases [OF assms(1) _ refl])
       (simp add: assms(1) accounts_ok_after_transfer)
qed

lemma reverse_refines_lemma:
  assumes "accounts_ok (committed w)" and "Reverse t w = (Done (), w')"
  shows "entries_of t (committed w) \<noteq> [] \<and> accounts_ok (committed w') \<and>
     balances (committed w') = undo (entries_of t (committed w)) (balances (committed w)) \<and>
     ledger_entries (committed w') = ledger_entries (committed w) @
       reversal_entries t (entries_of t (committed w)) (balances (committed w)) \<and>
     payment_states (committed w') = payment_states (committed w) @ [(t, ''REVERSED'')]"
proof -
  have "reverse_body t (committed w) = Some ((), committed w')"
    using Reverse_Done [OF assms(2)] by simp
  then obtain d1 where "entries_of t (committed w) \<noteq> []"
    and "reverse_stmt t (entries_of t (committed w)) (committed w) = Some ((), d1)"
    and "committed w' = with_states [(t, ''REVERSED'')] d1" by (rule reverse_body_cases)
  with reverse_stmt_spec [OF assms(1)] show ?thesis by simp
qed

lemma Reverse_accounts_ok:
  "accounts_ok (committed w) \<Longrightarrow> Reverse t w = (Done (), w') \<Longrightarrow> accounts_ok (committed w')"
  using reverse_refines_lemma by blast

text \<open>C1: a transfer that returns without error has moved exactly the amount between the two
  accounts of the abstract ledger (the beneficiary's account when it is local, the transit
  account otherwise), has appended one debit and one credit entry carrying the new balances and
  the states PENDING and SUCCESS, and has touched no other account.\<close>

theorem transfer_refines:
  assumes "accounts_ok (committed w)"
    and "Transfer sys from to t amount w = (Done (), w')"
  shows "\<exists>x y. balances (committed w) from = Some x \<and>
     balances (committed w) (credit_account sys to (committed w)) = Some y \<and>
     move from (credit_account sys to (committed w)) amount (balances (committed w))
       = Some (balances (committed w')) \<and>
     ledger_entries (committed w') = ledger_entries (committed w) @
       [debit_entry t from x amount, credit_entry t (credit_account sys to (committed w)) y amount] \<and>
     payment_states (committed w') = payment_states (committed w) @ [(t, ''PENDING''), (t, ''SUCCESS'')]"
  using assms by (rule transfer_refines_lemma)

lemma transfer_refines_witness:
  "\<exists>x y. balances sample_db ''1000000001'' = Some x \<and>
     balances sample_db (credit_account ''0000000001'' ''1000000002'' sample_db) = Some y \<and>
     move ''1000000001'' (credit_account ''0000000001'' ''1000000002'' sample_db) 30
       (balances sample_db) = Some (balances (committed (snd sample_transfer))) \<and>
     ledger_entries (committed (snd sample_transfer)) = ledger_entries sample_db @
       [debit_entry ''T1'' ''1000000001'' x 30,
        credit_entry ''T1'' (credit_account ''0000000001'' ''1000000002'' sample_db) y 30] \<and>
     payment_states (committed (snd sample_transfer)) = payment_states sample_db @
       [(''T1'', ''PENDING''), (''T1'', ''SUCCESS'')]"
  using transfer_refines [of sample_world "''0000000001''" "''1000000001''" "''1000000002''" "''T1''" 30
      "snd sample_transfer"] sample_transfer_done accounts_ok_sample
  by (simp add: sample_transfer_def [symmetric] prod_eq_iff)



text \<open>C3: a ledger request never panics, and one that returns an error, whatever statement
  failed, leaves every table as it was.\<close>

theorem ledger_all_or_nothing:
  "case ledger_handle sys req w of
     (Done u, w') \<Rightarrow> tx w' = None
   | (Failed e, w') \<Rightarrow> committed w' = committed w \<and> tx w' = None
   | (Panics p, w') \<Rightarrow> False"
proof (cases req)
  case (TransferReq a b t x)
  then show ?thesis
    using Transfer_Done [of sys a b t x w] Transfer_not_Done [of sys a b t x w]
    by (cases "Transfer sys a b t x w")
       (auto simp: same_outside_def split: outcome.split)
next
  case (ReverseReq t)
  then show ?thesis
    using Reverse_Done [of t w] Reverse_not_Done [of t w]
    by (cases "Reverse t w") (auto simp: same_outside_def split: outcome.split)
qed

text \<open>C4: the double-entry invariant.  From tables in which every transaction's entries sum to
  zero and the last entry of each account carries its balance, any sequence of transfers and
  reversals, with any faults, leads to such tables, and keeps the total of all balances and,
  for each account, the difference between its balance and its entries (modulo 2 ^ 64).\<close>

theorem ledger_books_invariant:
  assumes "books_ok (committed w)"
  shows "let d = committed (run_all (ledger_handle sys) reqs w) in books_ok d \<and>
     total_balance d mod 2 ^ 64 = total_balance (committed w) mod 2 ^ 64 \<and>
     (\<forall>a. drift a d mod 2 ^ 64 = drift a (committed w) mod 2 ^ 64)"
proof -
  have "books_from (committed w) (committed w)"
    using assms by (auto simp: books_from_def)
  from ledger.serve_inv [OF this, of sys reqs] show ?thesis
    by (simp add: books_from_def eq64_iff Let_def)
qed

lemma ledger_books_invariant_witness:
  "let d = committed (run_all (ledger_handle ''0000000001'') [TransferReq ''1000000001'' ''9'' ''T1'' 5,
        ReverseReq ''T1'', ReverseReq ''T7''] sample_world)
   in books_ok d \<and> total_balance d mod 2 ^ 64 = total_balance (committed sample_world) mod 2 ^ 64 \<and>
     (\<forall>a. drift a d mod 2 ^ 64 = drift a (committed sample_world) mod 2 ^ 64)"
  by (rule ledger_books_invariant) (simp add: books_ok_sample)



text \<open>C6: a reversal that returns without error has applied the negation of every entry of the
  transaction to its account, in order, and recorded each under the reversal's id.\<close>

theorem reverse_refines:
  assumes "accounts_ok (committed w)" and "Reverse t w = (Done (), w')"
  shows "entries_of t (committed w) \<noteq> [] \<and>
     balances (committed w') = undo (entries_of t (committed w)) (balances (committed w)) \<and>
     ledger_entries (committed w') = ledger_entries (committed w) @
       reversal_entries t (entries_of t (committed w)) (balances (committed w)) \<and>
     payment_states (committed w') = payment_states (committed w) @ [(t, ''REVERSED'')]"
  using reverse_refines_lemma [OF assms] by blast

lemma sample_reverse_done: "fst (Reverse ''T1'' (snd sample_transfer)) = Done ()"
  by code_simp

lemma accounts_ok_sample_transfer: "accounts_ok (committed (snd sample_transfer))"
  by code_simp

lemma reverse_refines_witness:
  "balances (committed (snd (Reverse ''T1'' (snd sample_transfer)))) =
     undo (entries_of ''T1'' (committed (snd sample_transfer)))
       (balances (committed (snd sample_transfer)))"
  using reverse_refines [of "snd sample_transfer" "''T1''" "snd (Reverse ''T1'' (snd sample_transfer))"]
    accounts_ok_sample_transfer sample_reverse_done
  by (simp add: prod_eq_iff)

section \<open>Reversing a transfer\<close>

lemma undo_append: "undo (es @ fs) m = undo fs (undo es m)"
  by (simp add: undo_def)

lemma move_undo:
  assumes "move from to amount m = Some m'" and "m from = Some x" and "m to = Some y"
    and "in_int64 x" and "in_int64 y"
  shows "undo [debit_entry t from x amount, credit_entry t to y amount] m' = m"
proof -
  have m': "m' = m(from \<mapsto> wrap64 (x - amount), to \<mapsto> wrap64 (y + amount))" and ne: "from \<noteq> to"
    using assms(1-3) by (auto simp: move_def split: if_splits)
  have "wrap64 (wrap64 (x - amount) + wrap64 (- wrap64 (- amount))) = x"
    using assms(4) by (simp add: wrap64_minus_wrap64 wrap64_add_wrap64 wrap64_add_wrap64_right wrap64_id)
  moreover have "wrap64 (wrap64 (y + amount) + wrap64 (- amount)) = y"
    using assms(5) wrap64_add_wrap64 [of "y + amount" "- amount"]
    by (simp only: wrap64_add_wrap64_right) (simp add: wrap64_id)
  ultimately show ?thesis
    using assms(2,3) ne by (auto simp: undo_def undo1_def m' entry_defs)
qed

text \<open>C7: reversing a transfer that was the only one under its id gives every account its old
  balance back.\<close>

theorem transfer_then_reverse:
  assumes "accounts_ok (committed w)" and "entries_of t (committed w) = []"
    and "Transfer sys from to t amount w = (Done (), w1)"
    and "committed w2 = committed w1" and "Reverse t w2 = (Done (), w3)"
  shows "balances (committed w3) = balances (committed w)"
proof -
  let ?d = "committed w" and ?cr = "credit_account sys to (committed w)"
  obtain x y where x: "balances ?d from = Some x" and y: "balances ?d ?cr = Some y"
    and m: "move from ?cr amount (balances ?d) = Some (balances (committed w1))"
    and e: "ledger_entries (committed w1) = ledger_entries ?d @
       [debit_entry t from x amount, credit_entry t ?cr y amount]"
    using transfer_refines_lemma [OF assms(1,3)] by blast
  have ok1: "accounts_ok (committed w2)"
    unfolding assms(4) by (rule Transfer_accounts_ok [OF assms(1,3)])
  have "entries_of t (committed w1) = [debit_entry t from x amount, credit_entry t ?cr y amount]"
    using assms(2) e by (simp add: entries_of_def entry_defs)
  moreover have "balances (committed w3) = undo (entries_of t (committed w2)) (balances (committed w2))"
    using reverse_refines_lemma [OF ok1 assms(5)] by blast
  ultimately show ?thesis
    using move_undo [OF m x y] balances_in_int64 [OF assms(1)] x y by (simp add: assms(4))
qed

lemma transfer_then_reverse_witness:
  "balances (committed (snd (Reverse ''T1'' (snd sample_transfer)))) = balances sample_db"
  using transfer_then_reverse [of sample_world "''T1''" "''0000000001''" "''1000000001''"
      "''1000000002''" 30 "snd sample_transfer" "snd sample_transfer"
      "snd (Reverse ''T1'' (snd sample_transfer))"]
    accounts_ok_sample sample_transfer_done sample_reverse_done
  by (simp add: prod_eq_iff sample_transfer_def [symmetric] entries_of_def sample_db_def)

text \<open>A reversal is not idempotent.  Reversing a transaction that was already reversed is
  not refused while the version columns have room: it moves the money once more.\<close>

theorem reverse_again:
  assumes "accounts_ok (committed w)" and "Reverse t w = (Done (), w1)"
    and "committed w2 = committed w1" and "Reverse t w2 = (Done (), w3)"
  shows "balances (committed w3) =
     undo (entries_of t (committed w)) (undo (entries_of t (committed w)) (balances (committed w)))"
proof -
  note r1 = reverse_refines_lemma [OF assms(1,2)]
  have ok1: "accounts_ok (committed w2)"
    unfolding assms(3) by (rule Reverse_accounts_ok [OF assms(1,2)])
  have "filter (\<lambda>e. le_txid e = t) (reversal_entries t es m) = []" for es m
    using reversal_entries_txid by (fastforce simp: filter_empty_conv)
  with r1 have "entries_of t (committed w1) = entries_of t (committed w)"
    by (simp add: entries_of_def)
  with r1 reverse_refines_lemma [OF ok1 assms(4)] show ?thesis by (simp add: assms(3))
qed

definition sample_reverse_twice :: "unit outcome \<times> world" where
  "sample_reverse_twice = Reverse ''T1'' (snd (Reverse ''T1'' (snd sample_transfer)))"

lemma sample_reverse_twice_done: "fst sample_reverse_twice = Done ()"
  by code_simp

lemma reverse_again_witness:
  "balances (committed (snd sample_reverse_twice)) =
     undo (entries_of ''T1'' (committed (snd sample_transfer)))
       (undo (entries_of ''T1'' (committed (snd sample_transfer)))
         (balances (committed (snd sample_transfer))))"
  using reverse_again [of "snd sample_transfer" "''T1''" "snd (Reverse ''T1'' (snd sample_transfer))"
      "snd (Reverse ''T1'' (snd sample_transfer))" "snd sample_reverse_twice"]
    accounts_ok_sample_transfer sample_reverse_done sample_reverse_twice_done
  by (simp add: prod_eq_iff sample_reverse_twice_def)

text \<open>A transfer whose debited account is also the credited one never succeeds: the second
  update misses the version the first one bumped.\<close>

theorem self_transfer_fails:
  assumes "accounts_ok (committed w)" and "from = credit_account sys to (committed w)"
  shows "fst (Transfer sys from to t amount w) \<noteq> Done ()"
proof
  assume "fst (Transfer sys from to t amount w) = Done ()"
  then have "Transfer sys from to t amount w = (Done (), snd (Transfer sys from to t amount w))"
    by (simp add: prod_eq_iff)
  from Transfer_Done [OF this] assms(2) show False
    by (auto simp: transfer_body_eq [OF assms(1) refl] split: option.splits)
qed

lemma self_transfer_fails_witness:
  "fst (Transfer ''0000000001'' ''1000000001'' ''1000000001'' ''T3'' 1 sample_world) \<noteq> Done ()"
  by (rule self_transfer_fails)
    (simp add: accounts_ok_sample, simp add: credit_account_def find_account_def sample_defs)

text \<open>Nothing stops an overdraft: a successful transfer of more than the balance leaves the
  debited account negative.\<close>

theorem transfer_overdraws:
  assumes "accounts_ok (committed w)" and "Transfer sys from to t amount w = (Done (), w')"
    and "balances (committed w) from = Some x" and "0 \<le> x" and "x < amount" and "amount < 2 ^ 63"
  shows "\<exists>b. balances (committed w') from = Some b \<and> b = x - amount \<and> b < 0"
proof -
  let ?cr = "credit_account sys to (committed w)"
  obtain y where "balances (committed w) ?cr = Some y"
    and "move from ?cr amount (balances (committed w)) = Some (balances (committed w'))"
    using transfer_refines_lemma [OF assms(1,2)] by blast
  with assms(3) have "from \<noteq> ?cr" and "balances (committed w') = (balances (committed w))
      (from \<mapsto> wrap64 (x - amount), ?cr \<mapsto> wrap64 (y + amount))"
    by (auto simp: move_def split: if_splits)
  then have "balances (committed w') from = Some (wrap64 (x - amount))" by simp
  moreover have "in_int64 (x - amount)" using assms(4-6) by (simp add: in_int64_def)
  ultimately show ?thesis using assms(5) by (simp add: wrap64_id)
qed

lemma sample_overdraft_done:
  "fst (Transfer ''0000000001'' ''1000000002'' ''1000000001'' ''T2'' 900 sample_world) = Done ()"
  by code_simp

lemma transfer_overdraws_witness:
  "\<exists>b. balances (committed (snd (Transfer ''0000000001'' ''1000000002'' ''1000000001'' ''T2'' 900
      sample_world))) ''1000000002'' = Some b \<and> b = 40 - 900 \<and> b < 0"
proof (rule transfer_overdraws)
  show "accounts_ok (committed sample_world)" by (simp add: accounts_ok_sample)
  show "Transfer ''0000000001'' ''1000000002'' ''1000000001'' ''T2'' 900 sample_world =
     (Done (), snd (Transfer ''0000000001'' ''1000000002'' ''1000000001'' ''T2'' 900 sample_world))"
    using sample_overdraft_done by (simp add: prod_eq_iff)
  show "balances (committed sample_world) ''1000000002'' = Some 40" by (simp add: balances_sample_2)
qed simp_all

end
