(* ===== verification/Ledger_Locks.thy ===== *)
theory Ledger_Locks
  imports Ledger_Spec
begin

text \<open>
  Concurrent transfers: the row locks of \<open>src/internal/services/ledger_service.go\<close>.

  Theory \<open>Ledger\<close> runs one transaction at a time.  Here any number of them run at once, one
  statement at a time in any order, as PostgreSQL runs them at its default isolation:

  \<^item> \<open>SELECT ... FOR UPDATE\<close> waits while another transaction has the row locked, takes the lock
    and reads the committed row (or the transaction's own change of it); an \<open>UPDATE\<close> needs the
    lock too; locks are held until the commit or the rollback.
  \<^item> A transaction is the list of the statements it still has to run that touch a row of
    \<open>accounts\<close>; the ledger entries and payment states are insertions, which wait for nobody.
  \<^item> A refused statement, or a fault at any moment, ends the transaction and frees its locks.
  \<^item> The server's own deadlock detector, which kills one of the waiting transactions after a
    timeout, is left out: the question is whether it is ever needed.
\<close>

section \<open>Statements on account rows\<close>

datatype action = LockRow string | Post string int | CommitTx

text \<open>The balance and the version of each row.\<close>

type_synonym rows = "string \<rightharpoonup> int \<times> int"

text \<open>
  What a statement does for a transaction that has read \<open>rd\<close> and written \<open>wr\<close> over the
  committed rows \<open>R\<close>: \<open>lockAccount\<close>, and \<open>updateAccountBalance\<close> with the balance and the version
  that were read.  \<open>None\<close>: no such row, a version that moved, or a version out of range.
\<close>

fun act :: "rows \<Rightarrow> action \<Rightarrow> rows \<times> rows \<Rightarrow> (rows \<times> rows) option" where
  "act R (LockRow a) (rd, wr) = (case (R ++ wr) a of None \<Rightarrow> None | Some x \<Rightarrow> Some (rd(a \<mapsto> x), wr))"
| "act R (Post a delta) (rd, wr) = (case (rd a, (R ++ wr) a) of
      (Some (b, v), Some (b', v')) \<Rightarrow> if v' = v \<and> in_int4 (v + 1)
        then Some (rd, wr(a \<mapsto> (wrap64 (b + delta), v + 1))) else None
    | _ \<Rightarrow> None)"
| "act R CommitTx s = Some s"

fun acts :: "rows \<Rightarrow> action list \<Rightarrow> rows \<times> rows \<Rightarrow> (rows \<times> rows) option" where
  "acts R [] s = Some s"
| "acts R (x # xs) s = (case act R x s of None \<Rightarrow> None | Some s' \<Rightarrow> acts R xs s')"

text \<open>One transaction on its own, from the committed rows to the committed rows.\<close>

definition run_alone :: "action list \<Rightarrow> rows \<Rightarrow> rows" where
  "run_alone job R = (case acts R job (Map.empty, Map.empty) of None \<Rightarrow> R | Some (rd, wr) \<Rightarrow> R ++ wr)"

section \<open>The transactions of the ledger\<close>

text \<open>\<open>TransferTx\<close>: both rows locked in the order of their identifiers, then both updated.\<close>

definition transfer_script :: "string \<Rightarrow> rows \<Rightarrow> string \<times> string \<times> int \<Rightarrow> action list" where
  "transfer_script systemFeeAccount R = (\<lambda>(fromAccountID, toAccountID, amount).
     let localCreditID = (if R toAccountID \<noteq> None then toAccountID else systemFeeAccount);
         swap = (localCreditID < fromAccountID);
         firstLock = (if swap then localCreditID else fromAccountID);
         secondLock = (if swap then fromAccountID else localCreditID)
     in [LockRow firstLock, LockRow secondLock, Post fromAccountID (- amount),
         Post localCreditID amount, CommitTx])"

text \<open>\<open>Reverse\<close>: the entries in the order they were written, each row locked and updated in turn.\<close>

definition reverse_script :: "(string \<times> int) list \<Rightarrow> action list" where
  "reverse_script entries =
     concat (map (\<lambda>(accountID, amount). [LockRow accountID, Post accountID (wrap64 (- amount))]) entries)
     @ [CommitTx]"

section \<open>Running them together\<close>

record process =
  pc_todo :: "action list"
  pc_read :: rows
  pc_written :: rows

text \<open>\<open>ls_log\<close> lists the committed transactions in the order of their commits.\<close>

record lock_state =
  ls_rows :: rows
  ls_owner :: "string \<rightharpoonup> nat"
  ls_procs :: "process list"
  ls_log :: "nat list"

definition done_process :: process where
  "done_process = \<lparr>pc_todo = [], pc_read = Map.empty, pc_written = Map.empty\<rparr>"

definition fresh_process :: "action list \<Rightarrow> process" where
  "fresh_process job = \<lparr>pc_todo = job, pc_read = Map.empty, pc_written = Map.empty\<rparr>"

definition begin_all :: "rows \<Rightarrow> action list list \<Rightarrow> lock_state" where
  "begin_all R jobs = \<lparr>ls_rows = R, ls_owner = Map.empty, ls_procs = map fresh_process jobs, ls_log = []\<rparr>"

definition finished :: "nat \<Rightarrow> lock_state \<Rightarrow> lock_state" where
  "finished i s = s\<lparr>ls_procs := (ls_procs s)[i := done_process],
     ls_owner := (\<lambda>a. if ls_owner s a = Some i then None else ls_owner s a)\<rparr>"

definition advance :: "nat \<Rightarrow> process \<Rightarrow> lock_state \<Rightarrow> lock_state" where
  "advance i p s = s\<lparr>ls_procs := (ls_procs s)[i := p]\<rparr>"

text \<open>The rows a statement needs to have locked, and whether it may take the lock itself.\<close>

fun may_run :: "(string \<rightharpoonup> nat) \<Rightarrow> nat \<Rightarrow> action \<Rightarrow> bool" where
  "may_run owner i (LockRow a) \<longleftrightarrow> owner a = None \<or> owner a = Some i"
| "may_run owner i (Post a delta) \<longleftrightarrow> owner a = Some i"
| "may_run owner i CommitTx \<longleftrightarrow> True"

fun take_lock :: "nat \<Rightarrow> action \<Rightarrow> (string \<rightharpoonup> nat) \<Rightarrow> (string \<rightharpoonup> nat)" where
  "take_lock i (LockRow a) owner = owner(a \<mapsto> i)"
| "take_lock i x owner = owner"

text \<open>The next statement of transaction \<open>i\<close>: \<open>None\<close> when it is finished or has to wait.\<close>

definition proc_step :: "nat \<Rightarrow> lock_state \<Rightarrow> lock_state option" where
  "proc_step i s = (if length (ls_procs s) \<le> i then None else
     let p = ls_procs s ! i in case pc_todo p of
       [] \<Rightarrow> None
     | x # todo \<Rightarrow>
         if \<not> may_run (ls_owner s) i x then None
         else case act (ls_rows s) x (pc_read p, pc_written p) of
           None \<Rightarrow> Some (finished i s)
         | Some (rd, wr) \<Rightarrow>
             if x = CommitTx
             then Some (finished i (s\<lparr>ls_rows := ls_rows s ++ wr, ls_log := ls_log s @ [i]\<rparr>))
             else Some (advance i \<lparr>pc_todo = todo, pc_read = rd, pc_written = wr\<rparr>
                    (s\<lparr>ls_owner := take_lock i x (ls_owner s)\<rparr>)))"

definition running :: "nat \<Rightarrow> lock_state \<Rightarrow> bool" where
  "running i s \<longleftrightarrow> i < length (ls_procs s) \<and> pc_todo (ls_procs s ! i) \<noteq> []"

text \<open>A statement of some transaction, or the end of one by a fault.\<close>

inductive lock_step :: "lock_state \<Rightarrow> lock_state \<Rightarrow> bool" where
  statement: "proc_step i s = Some s' \<Longrightarrow> lock_step s s'"
| fault: "running i s \<Longrightarrow> lock_step s (finished i s)"

inductive lock_reach :: "lock_state \<Rightarrow> nat \<Rightarrow> lock_state \<Rightarrow> bool" for s0 where
  start: "lock_reach s0 0 s0"
| more: "lock_reach s0 n s \<Longrightarrow> lock_step s s' \<Longrightarrow> lock_reach s0 (Suc n) s'"

inductive_cases lock_stepE: "lock_step s s'"

section \<open>Strict two-phase locking\<close>

text \<open>Every update is of a row locked before it, and the commit is the last statement.\<close>

fun two_phase :: "string set \<Rightarrow> action list \<Rightarrow> bool" where
  "two_phase L [] \<longleftrightarrow> False"
| "two_phase L (LockRow a # xs) \<longleftrightarrow> two_phase (insert a L) xs"
| "two_phase L (Post a delta # xs) \<longleftrightarrow> a \<in> L \<and> two_phase L xs"
| "two_phase L (CommitTx # xs) \<longleftrightarrow> xs = []"

fun locked :: "action list \<Rightarrow> string set" where
  "locked [] = {}"
| "locked (LockRow a # xs) = insert a (locked xs)"
| "locked (x # xs) = locked xs"

lemma locked_append [simp]: "locked (xs @ ys) = locked xs \<union> locked ys"
  by (induction xs rule: locked.induct) auto

lemma acts_append: "acts R (xs @ ys) s = (case acts R xs s of None \<Rightarrow> None | Some s' \<Rightarrow> acts R ys s')"
  by (induction xs arbitrary: s) (auto split: option.split)

lemma act_dom:
  "act R x (rd, wr) = Some (rd', wr') \<Longrightarrow> dom wr \<subseteq> dom rd \<Longrightarrow>
   dom rd' = dom rd \<union> locked [x] \<and> dom wr' \<subseteq> dom rd'"
  by (cases x) (auto simp: subset_iff domIff split: option.splits prod.splits if_splits)

lemma acts_dom:
  "acts R xs (rd, wr) = Some (rd', wr') \<Longrightarrow> dom wr \<subseteq> dom rd \<Longrightarrow>
   dom rd' = dom rd \<union> locked xs \<and> dom wr' \<subseteq> dom rd'"
proof (induction xs arbitrary: rd wr)
  case (Cons x xs)
  from Cons.prems(1) obtain rd1 wr1 where
    1: "act R x (rd, wr) = Some (rd1, wr1)" "acts R xs (rd1, wr1) = Some (rd', wr')"
    by (auto split: option.splits)
  from act_dom [OF 1(1) Cons.prems(2)] have d: "dom rd1 = dom rd \<union> locked [x]" "dom wr1 \<subseteq> dom rd1"
    by blast+
  have l: "locked (x # xs) = locked [x] \<union> locked xs" using locked_append [of "[x]" xs] by simp
  from Cons.IH [OF 1(2) d(2)] show ?case using d(1) l by blast
qed simp

text \<open>A statement looks only at rows that it locks or that were locked before.\<close>

lemma act_cong:
  assumes "\<forall>a \<in> dom rd \<union> locked [x]. R' a = R a"
  shows "act R' x (rd, wr) = act R x (rd, wr)"
proof (cases x)
  case (Post a delta)
  show ?thesis
  proof (cases "rd a")
    case (Some y)
    with assms have "R' a = R a" by (simp add: domI)
    with Post Some show ?thesis by (simp add: map_add_def split: option.split)
  qed (simp add: Post)
qed (use assms in \<open>auto simp: map_add_def split: option.split\<close>)

lemma acts_cong:
  "dom wr \<subseteq> dom rd \<Longrightarrow> \<forall>a \<in> dom rd \<union> locked xs. R' a = R a \<Longrightarrow>
   acts R' xs (rd, wr) = acts R xs (rd, wr)"
proof (induction xs arbitrary: rd wr)
  case (Cons x xs)
  have l: "locked (x # xs) = locked [x] \<union> locked xs" using locked_append [of "[x]" xs] by simp
  with Cons.prems(2) have "act R' x (rd, wr) = act R x (rd, wr)" by (intro act_cong) auto
  moreover have "acts R' xs (rd', wr') = acts R xs (rd', wr')" if "act R x (rd, wr) = Some (rd', wr')" for rd' wr'
  proof (rule Cons.IH)
    note d = act_dom [OF that Cons.prems(1)]
    from d show "dom wr' \<subseteq> dom rd'" by blast
    from d Cons.prems(2) l show "\<forall>a \<in> dom rd' \<union> locked xs. R' a = R a" by blast
  qed
  ultimately show ?case by (auto split: option.split)
qed simp

section \<open>The invariant\<close>

definition held :: "lock_state \<Rightarrow> nat \<Rightarrow> string set" where
  "held s i = {a. ls_owner s a = Some i}"

text \<open>What a running transaction has read and written is what it would have alone on the rows as
  they are now committed, and it holds exactly the locks of the statements it has run.\<close>

definition process_ok :: "action list list \<Rightarrow> lock_state \<Rightarrow> nat \<Rightarrow> bool" where
  "process_ok jobs s i \<longleftrightarrow> two_phase (held s i) (pc_todo (ls_procs s ! i)) \<and>
     (\<exists>pre. jobs ! i = pre @ pc_todo (ls_procs s ! i) \<and> locked pre = held s i \<and>
        acts (ls_rows s) pre (Map.empty, Map.empty) =
          Some (pc_read (ls_procs s ! i), pc_written (ls_procs s ! i)))"

definition serial_rows :: "rows \<Rightarrow> action list list \<Rightarrow> nat list \<Rightarrow> rows" where
  "serial_rows R jobs order = fold (\<lambda>i. run_alone (jobs ! i)) order R"

definition locks_inv :: "rows \<Rightarrow> action list list \<Rightarrow> lock_state \<Rightarrow> bool" where
  "locks_inv R jobs s \<longleftrightarrow> length (ls_procs s) = length jobs \<and>
     (\<forall>a i. ls_owner s a = Some i \<longrightarrow> running i s) \<and>
     (\<forall>i. running i s \<longrightarrow> process_ok jobs s i) \<and>
     ls_rows s = serial_rows R jobs (ls_log s)"

lemma running_finished: "running j (finished i s) \<longleftrightarrow> running j s \<and> j \<noteq> i"
  by (cases "j = i") (auto simp: running_def finished_def done_process_def)

lemma held_finished: "held (finished i s) j = (if j = i then {} else held s j)"
  by (auto simp: held_def finished_def)

lemma finished_sel [simp]:
  "ls_rows (finished i s) = ls_rows s" "ls_log (finished i s) = ls_log s"
  "length (ls_procs (finished i s)) = length (ls_procs s)"
  by (simp_all add: finished_def)

lemma procs_finished_other: "j \<noteq> i \<Longrightarrow> ls_procs (finished i s) ! j = ls_procs s ! j"
  by (simp add: finished_def)

lemma proc_stepE:
  assumes "proc_step i s = Some s'"
  obtains (abort) x todo where "running i s" "pc_todo (ls_procs s ! i) = x # todo"
      "act (ls_rows s) x (pc_read (ls_procs s ! i), pc_written (ls_procs s ! i)) = None"
      "s' = finished i s"
  | (commit) todo where "running i s" "pc_todo (ls_procs s ! i) = CommitTx # todo"
      "s' = finished i (s\<lparr>ls_rows := ls_rows s ++ pc_written (ls_procs s ! i), ls_log := ls_log s @ [i]\<rparr>)"
  | (going) x todo rd wr where "running i s" "pc_todo (ls_procs s ! i) = x # todo" "x \<noteq> CommitTx"
      "may_run (ls_owner s) i x"
      "act (ls_rows s) x (pc_read (ls_procs s ! i), pc_written (ls_procs s ! i)) = Some (rd, wr)"
      "s' = advance i \<lparr>pc_todo = todo, pc_read = rd, pc_written = wr\<rparr>
              (s\<lparr>ls_owner := take_lock i x (ls_owner s)\<rparr>)"
  using assms
  by (auto simp: proc_step_def running_def Let_def split: if_splits list.splits option.splits prod.splits)

lemma process_ok_other:
  assumes "process_ok jobs s j" and "held s' j = held s j" and "ls_procs s' ! j = ls_procs s ! j"
    and "\<forall>a \<in> held s j. ls_rows s' a = ls_rows s a"
  shows "process_ok jobs s' j"
proof -
  obtain pre where pre: "jobs ! j = pre @ pc_todo (ls_procs s ! j)" "locked pre = held s j"
    "acts (ls_rows s) pre (Map.empty, Map.empty) = Some (pc_read (ls_procs s ! j), pc_written (ls_procs s ! j))"
    using assms(1) by (auto simp: process_ok_def)
  have "acts (ls_rows s') pre (Map.empty, Map.empty) = acts (ls_rows s) pre (Map.empty, Map.empty)"
    using assms(4) pre(2) by (intro acts_cong) auto
  with pre assms show ?thesis by (auto simp: process_ok_def)
qed

lemma locks_inv_finished:
  assumes "locks_inv R jobs s" and "ls_rows s' = serial_rows R jobs (ls_log s')"
    and "ls_procs s' = ls_procs s" and "ls_owner s' = ls_owner s"
    and "\<forall>a. a \<notin> held s i \<longrightarrow> ls_rows s' a = ls_rows s a"
  shows "locks_inv R jobs (finished i s')"
proof -
  have run: "running j s' = running j s" "held s' j = held s j" for j
    using assms(3,4) by (simp_all add: running_def held_def)
  have "process_ok jobs (finished i s') j" if j: "running j s" "j \<noteq> i" for j
  proof (rule process_ok_other)
    show "process_ok jobs s j" using assms(1) j by (simp add: locks_inv_def)
    show "\<forall>a \<in> held s j. ls_rows (finished i s') a = ls_rows s a"
      using assms(5) j(2) by (auto simp: held_def)
  qed (use j in \<open>simp_all add: held_finished procs_finished_other run assms(3)\<close>)
  then show ?thesis
    using assms(1-4) by (auto simp: locks_inv_def running_finished run) (auto simp: finished_def split: if_splits)
qed

lemma locks_inv_fault:
  assumes "locks_inv R jobs s" shows "locks_inv R jobs (finished i s)"
  using assms by (intro locks_inv_finished [OF assms]) (simp_all add: locks_inv_def)

lemma locks_inv_step:
  assumes inv: "locks_inv R jobs s" and "proc_step i s = Some s'"
  shows "locks_inv R jobs s'"
  using assms(2)
proof (cases rule: proc_stepE)
  case (abort x todo)
  show ?thesis unfolding abort(4) by (rule locks_inv_fault [OF inv])
next
  case (commit todo)
  have "process_ok jobs s i" using inv commit(1) by (simp add: locks_inv_def)
  then obtain pre where pre: "jobs ! i = pre @ CommitTx # todo" "locked pre = held s i" "todo = []"
    "acts (ls_rows s) pre (Map.empty, Map.empty) = Some (pc_read (ls_procs s ! i), pc_written (ls_procs s ! i))"
    using commit(2) by (auto simp: process_ok_def)
  have w: "dom (pc_written (ls_procs s ! i)) \<subseteq> held s i"
    using acts_dom [OF pre(4)] pre(2) by (metis Un_empty_left dom_empty empty_subsetI)
  have "run_alone (jobs ! i) (ls_rows s) = ls_rows s ++ pc_written (ls_procs s ! i)"
    using pre by (simp add: run_alone_def acts_append)
  then have eq: "ls_rows s ++ pc_written (ls_procs s ! i) = serial_rows R jobs (ls_log s @ [i])"
    using inv by (simp add: locks_inv_def serial_rows_def)
  have out: "\<forall>a. a \<notin> held s i \<longrightarrow> (ls_rows s ++ pc_written (ls_procs s ! i)) a = ls_rows s a"
    using w by (meson map_add_dom_app_simps(3) subsetD)
  show ?thesis
    unfolding commit(3) by (rule locks_inv_finished [OF inv]) (use eq out in \<open>simp_all add: held_def\<close>)
next
  case (going x todo rd wr)
  let ?p = "ls_procs s ! i"
  have ok: "process_ok jobs s i" using inv going(1) by (simp add: locks_inv_def)
  then obtain pre where pre: "jobs ! i = pre @ x # todo" "locked pre = held s i"
    "acts (ls_rows s) pre (Map.empty, Map.empty) = Some (pc_read ?p, pc_written ?p)"
    and tp: "two_phase (held s i) (x # todo)"
    using going(2) by (auto simp: process_ok_def)
  have i: "i < length (ls_procs s)" using going(1) by (simp add: running_def)
  have held: "held s' j = (if j = i then held s i \<union> locked [x] else held s j)" for j
    using going(4) unfolding going(6) by (cases x) (auto simp: held_def advance_def)
  have todo: "two_phase (held s' i) todo" "todo \<noteq> []"
    using tp going(3) unfolding held by (cases x; auto)+
  have mine: "process_ok jobs s' i"
    unfolding process_ok_def
  proof (intro conjI exI [of _ "pre @ [x]"])
    show "two_phase (held s' i) (pc_todo (ls_procs s' ! i))"
      using todo(1) i by (simp add: going(6) advance_def)
    show "jobs ! i = (pre @ [x]) @ pc_todo (ls_procs s' ! i)"
      using pre(1) i by (simp add: going(6) advance_def)
    show "locked (pre @ [x]) = held s' i" using pre(2) by (simp add: held)
    show "acts (ls_rows s') (pre @ [x]) (Map.empty, Map.empty) =
        Some (pc_read (ls_procs s' ! i), pc_written (ls_procs s' ! i))"
      using pre(3) going(5) i by (simp add: going(6) advance_def acts_append)
  qed
  have other: "process_ok jobs s' j" if "running j s" "j \<noteq> i" for j
  proof (rule process_ok_other)
    show "process_ok jobs s j" using inv that by (simp add: locks_inv_def)
    show "held s' j = held s j" using held that by simp
    show "ls_procs s' ! j = ls_procs s ! j" using that by (simp add: going(6) advance_def)
    show "\<forall>a \<in> held s j. ls_rows s' a = ls_rows s a" by (simp add: going(6) advance_def)
  qed
  have run: "running j s' \<longleftrightarrow> running j s" for j
    using todo(2) i going(1) by (cases "j = i") (auto simp: going(6) advance_def running_def)
  have own: "ls_owner s' a = Some j \<Longrightarrow> running j s" for a j
    using inv held going(1) by (metis (mono_tags, lifting) held_def locks_inv_def mem_Collect_eq)
  have "length (ls_procs s') = length jobs" "ls_rows s' = serial_rows R jobs (ls_log s')"
    using inv by (simp_all add: locks_inv_def going(6) advance_def)
  with mine other run own show ?thesis unfolding locks_inv_def by metis
qed

lemma locks_inv_begin:
  assumes "\<forall>job \<in> set jobs. two_phase {} job"
  shows "locks_inv R jobs (begin_all R jobs)"
  using assms
  by (auto simp: locks_inv_def begin_all_def serial_rows_def process_ok_def running_def fresh_process_def
      held_def intro!: exI [of _ "[]"])

lemma locks_inv_reach:
  assumes "lock_reach (begin_all R jobs) n s" and "\<forall>job \<in> set jobs. two_phase {} job"
  shows "locks_inv R jobs s"
  using assms
proof (induction rule: lock_reach.induct)
  case start
  then show ?case by (rule locks_inv_begin)
next
  case (more n s s')
  from more.hyps(2) more.IH [OF more.prems] show ?case
    by (auto elim!: lock_stepE intro: locks_inv_step locks_inv_fault)
qed

section \<open>Locks in a fixed order\<close>

text \<open>
  The contract of ordered locking: whatever is waited for lies above everything held.  Then some
  transaction waits for nobody.
\<close>

locale ordered_locking =
  fixes inv :: "'s \<Rightarrow> bool" and active :: "'s \<Rightarrow> 'p set"
    and wants :: "'s \<Rightarrow> 'p \<Rightarrow> ('a :: linorder) option" and holds :: "'s \<Rightarrow> 'p \<Rightarrow> 'a set"
  assumes finite_active: "inv s \<Longrightarrow> finite (active s)"
    and upward: "inv s \<Longrightarrow> p \<in> active s \<Longrightarrow> wants s p = Some a \<Longrightarrow> b \<in> holds s p \<Longrightarrow> b < a"
begin

definition waits_for :: "'s \<Rightarrow> 'p \<Rightarrow> 'p \<Rightarrow> bool" where
  "waits_for s p q \<longleftrightarrow> (\<exists>a. wants s p = Some a \<and> a \<in> holds s q)"

lemma no_deadlock:
  assumes "inv s" and "active s \<noteq> {}"
  shows "\<exists>p \<in> active s. \<forall>q \<in> active s. \<not> waits_for s p q"
proof (rule ccontr)
  assume "\<not> ?thesis"
  then have w: "\<exists>q \<in> active s. waits_for s p q" if "p \<in> active s" for p using that by blast
  let ?A = "{a. \<exists>p \<in> active s. wants s p = Some a}"
  have "?A \<subseteq> (\<lambda>p. the (wants s p)) ` active s" by force
  then have fin: "finite ?A" using finite_active [OF assms(1)] finite_surj by blast
  have "?A \<noteq> {}" using assms(2) w by (force simp: waits_for_def)
  with fin have "Max ?A \<in> ?A" by (rule Max_in)
  then obtain p where p: "p \<in> active s" "wants s p = Some (Max ?A)" by blast
  then obtain q where q: "q \<in> active s" "Max ?A \<in> holds s q" using w by (force simp: waits_for_def)
  then obtain b where b: "wants s q = Some b" using w by (force simp: waits_for_def)
  then have "Max ?A < b" using upward [OF assms(1) q(1)] q(2) by blast
  moreover have "b \<le> Max ?A" using fin q(1) b by (intro Max_ge) auto
  ultimately show False by simp
qed

end

fun ordered :: "string set \<Rightarrow> action list \<Rightarrow> bool" where
  "ordered L [] \<longleftrightarrow> True"
| "ordered L (LockRow a # xs) \<longleftrightarrow> (\<forall>b \<in> L. b \<le> a) \<and> ordered (insert a L) xs"
| "ordered L (x # xs) \<longleftrightarrow> ordered L xs"

definition wanted :: "lock_state \<Rightarrow> nat \<Rightarrow> string option" where
  "wanted s i = (case pc_todo (ls_procs s ! i) of
     LockRow a # _ \<Rightarrow> if a \<in> held s i then None else Some a | _ \<Rightarrow> None)"

definition ordered_inv :: "lock_state \<Rightarrow> bool" where
  "ordered_inv s \<longleftrightarrow> (\<forall>i. running i s \<longrightarrow> ordered (held s i) (pc_todo (ls_procs s ! i)))"

interpretation row_locks: ordered_locking ordered_inv "\<lambda>s. {i. running i s}" wanted held
proof unfold_locales
  show "finite {i. running i s}" for s by (rule finite_subset [of _ "{..< length (ls_procs s)}"]) (auto simp: running_def)
next
  fix s p a b
  assume "ordered_inv s" "p \<in> {i. running i s}" "wanted s p = Some a" "b \<in> held s p"
  then have "b \<le> a" "b \<noteq> a"
    by (auto simp: ordered_inv_def wanted_def split: list.splits action.splits if_splits)
  then show "b < a" by simp
qed

lemma ordered_inv_finished:
  "ordered_inv s \<Longrightarrow> ls_procs s' = ls_procs s \<Longrightarrow> ls_owner s' = ls_owner s \<Longrightarrow> ordered_inv (finished i s')"
  by (auto simp: ordered_inv_def running_finished held_finished procs_finished_other)
     (auto simp: running_def held_def)

lemma ordered_inv_step:
  assumes inv: "ordered_inv s" and "proc_step i s = Some s'"
  shows "ordered_inv s'"
  using assms(2)
proof (cases rule: proc_stepE)
  case (going x todo rd wr)
  have i: "i < length (ls_procs s)" using going(1) by (simp add: running_def)
  have held: "held s' j = (if j = i then held s i \<union> locked [x] else held s j)" for j
    using going(4) unfolding going(6) by (cases x) (auto simp: held_def advance_def)
  have "ordered (held s i) (x # todo)" using inv going(1,2) by (metis ordered_inv_def)
  then have "ordered (held s' i) todo" using going(3) unfolding held by (cases x) auto
  moreover have "pc_todo (ls_procs s' ! j) = (if j = i then todo else pc_todo (ls_procs s ! j))" for j
    using i by (auto simp: going(6) advance_def)
  moreover have "running j s' \<Longrightarrow> j \<noteq> i \<Longrightarrow> running j s" for j
    using i by (auto simp: going(6) advance_def running_def)
  ultimately show ?thesis using inv held unfolding ordered_inv_def by auto
qed (auto intro: ordered_inv_finished inv)

lemma ordered_inv_reach:
  assumes "lock_reach (begin_all R jobs) n s" and "\<forall>job \<in> set jobs. ordered {} job"
  shows "ordered_inv s"
  using assms
proof (induction rule: lock_reach.induct)
  case start
  then show ?case by (auto simp: ordered_inv_def begin_all_def running_def fresh_process_def held_def)
next
  case (more n s s')
  from more.hyps(2) more.IH [OF more.prems] show ?case
    by (auto elim!: lock_stepE intro: ordered_inv_step ordered_inv_finished)
qed

text \<open>Some unfinished transaction can always run its next statement.\<close>

lemma some_can_run:
  assumes inv: "locks_inv R jobs s" and ord: "ordered_inv s" and "running k s"
  shows "\<exists>i s'. proc_step i s = Some s'"
proof -
  from row_locks.no_deadlock [OF ord] assms(3) obtain i where
    i: "running i s" and free: "\<And>j. running j s \<Longrightarrow> \<not> row_locks.waits_for s i j" by auto
  then obtain x todo where todo: "pc_todo (ls_procs s ! i) = x # todo"
    by (auto simp: running_def neq_Nil_conv)
  have "process_ok jobs s i" using inv i by (simp add: locks_inv_def)
  then have tp: "two_phase (held s i) (x # todo)" by (simp add: process_ok_def todo)
  have "may_run (ls_owner s) i x"
  proof (cases x)
    case (LockRow a)
    show ?thesis
    proof (cases "ls_owner s a")
      case (Some j)
      then have "running j s" using inv by (simp add: locks_inv_def)
      from free [OF this] Some LockRow todo have "a \<in> held s i"
        by (auto simp: row_locks.waits_for_def wanted_def held_def split: if_splits)
      with Some LockRow show ?thesis by (simp add: held_def)
    qed (simp add: LockRow)
  qed (use tp in \<open>auto simp: held_def\<close>)
  then have "proc_step i s \<noteq> None"
    using i todo by (auto simp: proc_step_def running_def Let_def split: option.split prod.split)
  then show ?thesis by blast
qed

end
