(* ===== verification/Lock_Props.thy ===== *)
theory Lock_Props
  imports Ledger_Locks
begin

text \<open>
  Properties of concurrent transfers: they always finish, they amount to running them one after
  another in the order of their commits, the version check never fails between them, and what
  goes wrong when two reversals run at once.
\<close>

section \<open>The transfer as a transaction\<close>

abbreviation transfers :: "string \<Rightarrow> rows \<Rightarrow> (string \<times> string \<times> int) list \<Rightarrow> action list list" where
  "transfers sys R ts \<equiv> map (transfer_script sys R) ts"

text \<open>The account a transfer credits.\<close>

definition credited :: "string \<Rightarrow> rows \<Rightarrow> string \<Rightarrow> string" where
  "credited sys R to = (if R to \<noteq> None then to else sys)"

lemma transfer_script_eq:
  assumes "c = credited sys R to"
  shows "transfer_script sys R (from, to, amount) =
    [LockRow (if c < from then c else from), LockRow (if c < from then from else c),
     Post from (- amount), Post c amount, CommitTx]"
  unfolding assms transfer_script_def credited_def Let_def by (simp only: prod.case)

lemma transfer_script_phases:
  "two_phase {} (transfer_script sys R t)" "ordered {} (transfer_script sys R t)"
  "length (transfer_script sys R t) = 5"
proof -
  obtain a to amount where t: "t = (a, to, amount)" by (cases t)
  define c where "c = credited sys R to"
  show "two_phase {} (transfer_script sys R t)" "ordered {} (transfer_script sys R t)"
    "length (transfer_script sys R t) = 5"
    unfolding t transfer_script_eq [OF c_def] by (cases "c < a"; simp)+
qed

lemma transfer_acts_two:
  assumes "a \<noteq> c" and that: "l1 = a \<and> l2 = c \<or> l1 = c \<and> l2 = a"
  shows "acts R [LockRow l1, LockRow l2, Post a (- amount), Post c amount, CommitTx] (Map.empty, Map.empty) =
    (case (R a, R c) of
       (Some (x, v), Some (y, u)) \<Rightarrow>
         if in_int4 (v + 1) \<and> in_int4 (u + 1)
         then Some ([a \<mapsto> (x, v), c \<mapsto> (y, u)], [a \<mapsto> (wrap64 (x - amount), v + 1), c \<mapsto> (wrap64 (y + amount), u + 1)])
         else None
     | _ \<Rightarrow> None)"
  using that assms
  by (elim disjE conjE; cases "R a"; cases "R c"; simp add: map_add_def fun_upd_twist split: prod.split)

lemma transfer_script_acts:
  assumes "c = credited sys R0 to"
  shows "acts R (transfer_script sys R0 (a, to, amount)) (Map.empty, Map.empty) =
    (case (R a, R c) of
       (Some (x, v), Some (y, u)) \<Rightarrow>
         if a \<noteq> c \<and> in_int4 (v + 1) \<and> in_int4 (u + 1)
         then Some ([a \<mapsto> (x, v), c \<mapsto> (y, u)], [a \<mapsto> (wrap64 (x - amount), v + 1), c \<mapsto> (wrap64 (y + amount), u + 1)])
         else None
     | _ \<Rightarrow> None)"
proof (cases "a = c")
  case True
  then show ?thesis
    unfolding transfer_script_eq [OF assms]
    by (cases "R c") (simp_all add: map_add_def split: prod.split)
next
  case False
  then show ?thesis
    unfolding transfer_script_eq [OF assms] by (subst transfer_acts_two) (auto split: option.split prod.split)
qed

section \<open>The tables as rows\<close>

definition rows_of :: "db \<Rightarrow> rows" where
  "rows_of d a = map_option (\<lambda>r. (acct_balance r, acct_version r)) (find_account a d)"

text \<open>\<open>TransferTx\<close> of theory \<open>Ledger\<close>, on its own, in a transaction that is committed when it succeeds.\<close>

definition transfer_alone :: "string \<Rightarrow> string \<Rightarrow> string \<times> string \<times> int \<Rightarrow> db \<Rightarrow> db" where
  "transfer_alone sys t = (\<lambda>(from, to, amount) d.
     case transfer_stmt sys from to t amount d of None \<Rightarrow> d | Some (_, d') \<Rightarrow> d')"

lemma dom_rows_of: "dom (rows_of d) = {a. find_account a d \<noteq> None}"
  by (auto simp: rows_of_def dom_def)

lemma rows_of_after_transfer:
  assumes "find_account a d = Some f" and "find_account b d = Some c" and "a \<noteq> b"
  shows "rows_of (after_transfer t a b amount f c d) =
    (rows_of d)(a \<mapsto> (wrap64 (acct_balance f - amount), acct_version f + 1),
                b \<mapsto> (wrap64 (acct_balance c + amount), acct_version c + 1))"
  using assms by (intro ext) (simp add: rows_of_def find_after_transfer)

lemma transfer_alone_run:
  assumes ok: "accounts_ok d" and dom: "dom (rows_of d) = dom R0"
  shows "accounts_ok (transfer_alone sys t tr d) \<and> dom (rows_of (transfer_alone sys t tr d)) = dom R0 \<and>
    rows_of (transfer_alone sys t tr d) = run_alone (transfer_script sys R0 tr) (rows_of d)"
proof -
  obtain "from" to amount where tr: "tr = (from, to, amount)" by (cases tr)
  let ?c = "credited sys R0 to"
  have "R0 to = None \<longleftrightarrow> rows_of d to = None" using dom by (metis domIff)
  then have c: "?c = credit_account sys to d"
    by (simp add: credited_def credit_account_def rows_of_def)
  note eq = transfer_stmt_eq [OF ok c, of "from" t amount]
  show ?thesis
  proof (cases "\<exists>f g. find_account from d = Some f \<and> find_account ?c d = Some g \<and> from \<noteq> ?c \<and>
      in_int4 (acct_version f + 1) \<and> in_int4 (acct_version g + 1)")
    case True
    then obtain f g where f: "find_account from d = Some f" "find_account ?c d = Some g" "from \<noteq> ?c"
      "in_int4 (acct_version f + 1)" "in_int4 (acct_version g + 1)" by blast
    then have d': "transfer_alone sys t tr d = after_transfer t from ?c amount f g d"
      by (simp add: transfer_alone_def tr eq)
    have r: "run_alone (transfer_script sys R0 tr) (rows_of d) = rows_of (after_transfer t from ?c amount f g d)"
      unfolding rows_of_after_transfer [OF f(1-3)] tr run_alone_def transfer_script_acts [OF refl]
      using f by (intro ext) (simp add: rows_of_def map_add_def)
    have "dom (rows_of (transfer_alone sys t tr d)) = dom (rows_of d)"
      unfolding d' rows_of_after_transfer [OF f(1-3)] using f(1,2) by (auto simp: rows_of_def)
    with r dom accounts_ok_after_transfer [OF ok f] show ?thesis by (simp add: d')
  next
    case False
    then have "transfer_alone sys t tr d = d"
      by (auto simp: transfer_alone_def tr eq split: option.splits)
    moreover have "run_alone (transfer_script sys R0 tr) (rows_of d) = rows_of d"
      using False unfolding tr run_alone_def transfer_script_acts [OF refl]
      by (auto simp: rows_of_def split: option.split)
    ultimately show ?thesis using ok dom by simp
  qed
qed

text \<open>Transfers \<open>ts\<close>, the ones in \<open>order\<close>, one after another.\<close>

definition transfers_alone ::
  "string \<Rightarrow> (string \<times> string \<times> string \<times> int) list \<Rightarrow> nat list \<Rightarrow> db \<Rightarrow> db" where
  "transfers_alone sys ts order = fold (\<lambda>i. transfer_alone sys (fst (ts ! i)) (snd (ts ! i))) order"

lemma transfers_alone_rows:
  assumes "accounts_ok d" and "dom (rows_of d) = dom R0" and "\<forall>i \<in> set order. i < length ts"
  shows "rows_of (transfers_alone sys ts order d) = serial_rows (rows_of d) (transfers sys R0 (map snd ts)) order"
  using assms
proof (induction order arbitrary: d)
  case Nil
  then show ?case by (simp add: transfers_alone_def serial_rows_def)
next
  case (Cons i order)
  let ?d = "transfer_alone sys (fst (ts ! i)) (snd (ts ! i)) d"
  note step = transfer_alone_run [OF Cons.prems(1,2), of sys "fst (ts ! i)" "snd (ts ! i)"]
  from Cons.IH [of ?d] step Cons.prems(3)
  have "rows_of (transfers_alone sys ts order ?d)
      = serial_rows (rows_of ?d) (transfers sys R0 (map snd ts)) order" by auto
  with step Cons.prems(3) show ?case by (simp add: transfers_alone_def serial_rows_def)
qed

lemma log_in_range:
  assumes "lock_reach (begin_all R jobs) n s"
  shows "length (ls_procs s) = length jobs \<and> (\<forall>i \<in> set (ls_log s). i < length jobs)"
  using assms
proof (induction rule: lock_reach.induct)
  case (more n s s')
  from more.hyps(2) show ?case
  proof (cases rule: lock_step.cases)
    case (statement i)
    then show ?thesis using more.IH
      by (cases rule: proc_stepE) (auto simp: advance_def running_def finished_def)
  qed (use more.IH in \<open>auto simp: finished_def\<close>)
qed (simp add: begin_all_def)

text \<open>C8: any interleaving of any number of transfers, with faults at any moment, leaves in the
  account rows what \<open>TransferTx\<close> leaves when the transfers that committed are run one at a time in
  the order of their commits.\<close>

theorem concurrent_transfers_serial:
  assumes "accounts_ok d"
    and "lock_reach (begin_all (rows_of d) (transfers sys (rows_of d) (map snd ts))) n s"
  shows "ls_rows s = rows_of (transfers_alone sys ts (ls_log s) d)"
proof -
  have "locks_inv (rows_of d) (transfers sys (rows_of d) (map snd ts)) s"
    by (rule locks_inv_reach [OF assms(2)]) (auto simp: transfer_script_phases)
  then have "ls_rows s = serial_rows (rows_of d) (transfers sys (rows_of d) (map snd ts)) (ls_log s)"
    by (simp add: locks_inv_def)
  with transfers_alone_rows [OF assms(1), of "rows_of d" "ls_log s" ts sys] log_in_range [OF assms(2)]
  show ?thesis by simp
qed

section \<open>Every schedule ends\<close>

definition remaining :: "lock_state \<Rightarrow> nat" where
  "remaining s = (\<Sum>p\<leftarrow>ls_procs s. length (pc_todo p))"

lemma sum_list_update_less:
  fixes f :: "'a \<Rightarrow> nat"
  assumes "i < length xs" and "f y < f (xs ! i)"
  shows "(\<Sum>x\<leftarrow>xs[i := y]. f x) < (\<Sum>x\<leftarrow>xs. f x)"
  using assms
proof (induction xs arbitrary: i)
  case (Cons x xs)
  then show ?case by (cases i) auto
qed simp

lemma remaining_finished: "running i s \<Longrightarrow> ls_procs s' = ls_procs s \<Longrightarrow> remaining (finished i s') < remaining s"
  unfolding remaining_def finished_def running_def
  by (auto simp: done_process_def intro!: sum_list_update_less)

lemma remaining_step: "lock_step s s' \<Longrightarrow> remaining s' < remaining s"
proof (induction rule: lock_step.induct)
  case (statement i s s')
  then show ?case
  proof (cases rule: proc_stepE)
    case (going x todo rd wr)
    then show ?thesis
      unfolding going(6) remaining_def advance_def running_def
      by (auto intro!: sum_list_update_less)
  qed (auto intro: remaining_finished)
qed (auto intro: remaining_finished)

lemma remaining_reach: "lock_reach s0 n s \<Longrightarrow> n + remaining s \<le> remaining s0"
  by (induction rule: lock_reach.induct) (auto dest!: remaining_step)

lemma remaining_begin: "remaining (begin_all R (transfers sys R' ts)) = 5 * length ts"
  unfolding remaining_def begin_all_def
  by (induction ts) (simp_all add: fresh_process_def transfer_script_phases(3))

text \<open>C9: concurrent transfers cannot deadlock and always finish: a schedule has at most five row
  statements per transfer, and while a transfer is unfinished some transfer can run its next
  statement, so a schedule that can go no further has finished them all and freed every lock.\<close>

theorem transfers_always_finish:
  assumes "lock_reach (begin_all R (transfers sys R ts)) n s"
  shows "n \<le> 5 * length ts \<and> ((\<exists>i s'. proc_step i s = Some s') \<or>
    (\<forall>i. \<not> running i s) \<and> ls_owner s = Map.empty)"
proof -
  have inv: "locks_inv R (transfers sys R ts) s"
    by (rule locks_inv_reach [OF assms]) (auto simp: transfer_script_phases)
  have ord: "ordered_inv s"
    by (rule ordered_inv_reach [OF assms]) (auto simp: transfer_script_phases)
  have "n \<le> 5 * length ts" using remaining_reach [OF assms] remaining_begin by (metis add_leD1)
  moreover have "ls_owner s = Map.empty" if "\<forall>i. \<not> running i s"
    using that inv unfolding locks_inv_def by (intro ext) (metis not_None_eq)
  ultimately show ?thesis using some_can_run [OF inv ord] by blast
qed

section \<open>The version check\<close>

lemma act_of_whole_job:
  assumes "locks_inv R jobs s" and "running i s" and "acts (ls_rows s) (jobs ! i) (Map.empty, Map.empty) \<noteq> None"
    and "pc_todo (ls_procs s ! i) = x # todo"
  shows "act (ls_rows s) x (pc_read (ls_procs s ! i), pc_written (ls_procs s ! i)) \<noteq> None"
proof -
  have "process_ok jobs s i" using assms(1,2) by (simp add: locks_inv_def)
  then obtain pre where "jobs ! i = pre @ x # todo"
    "acts (ls_rows s) pre (Map.empty, Map.empty) = Some (pc_read (ls_procs s ! i), pc_written (ls_procs s ! i))"
    using assms(4) by (auto simp: process_ok_def)
  with assms(3) show ?thesis by (auto simp: acts_append split: option.splits)
qed

text \<open>Under any interleaving the statements of a transfer between two different existing accounts
  are never refused: the version read under the row lock is still there at the update, so short of
  a fault the transfer goes on or has committed (its version numbers within their column).\<close>

theorem optimistic_lock_never_fails:
  assumes "lock_reach (begin_all R (transfers sys R ts)) n s" and "running i s"
    and "ts ! i = (a, to, amount)" and "a \<noteq> credited sys R to"
    and "ls_rows s a = Some (x, v)" and "ls_rows s (credited sys R to) = Some (y, u)"
    and "in_int4 (v + 1)" and "in_int4 (u + 1)" and "proc_step i s = Some s'"
  shows "running i s' \<or> ls_log s' = ls_log s @ [i]"
proof -
  let ?jobs = "transfers sys R ts"
  have inv: "locks_inv R ?jobs s"
    by (rule locks_inv_reach [OF assms(1)]) (auto simp: transfer_script_phases)
  have "i < length ts" using assms(2) inv by (simp add: locks_inv_def running_def)
  then have whole: "acts (ls_rows s) (?jobs ! i) (Map.empty, Map.empty) \<noteq> None"
    using assms(3-8) by (simp add: transfer_script_acts [OF refl])
  from assms(9) show ?thesis
  proof (cases rule: proc_stepE)
    case (abort z todo)
    with act_of_whole_job [OF inv assms(2) whole] show ?thesis by blast
  next
    case (going z todo rd wr)
    have "two_phase (held s i) (z # todo)" using inv going(1,2) by (metis locks_inv_def process_ok_def)
    then have "todo \<noteq> []" using going(3) by (cases z) auto
    then show ?thesis using going(1,6) by (simp add: running_def advance_def)
  qed simp
qed

section \<open>Reversals\<close>

definition two_rows :: rows where
  "two_rows = [''A'' \<mapsto> (100, 1), ''B'' \<mapsto> (100, 1)]"

text \<open>Two transfers in opposite directions, as the ledger recorded them, both to be reversed.\<close>

definition two_reversals :: "action list list" where
  "two_reversals = [reverse_script [(''A'', -10), (''B'', 10)], reverse_script [(''B'', -5), (''A'', 5)]]"

fun run_schedule :: "nat list \<Rightarrow> lock_state \<Rightarrow> lock_state option" where
  "run_schedule [] s = Some s"
| "run_schedule (i # is) s = (case proc_step i s of None \<Rightarrow> None | Some s' \<Rightarrow> run_schedule is s')"

lemma run_schedule_reach:
  "lock_reach s0 n s \<Longrightarrow> run_schedule is s = Some s' \<Longrightarrow> lock_reach s0 (n + length is) s'"
proof (induction "is" arbitrary: n s)
  case (Cons i "is")
  then obtain u where u: "proc_step i s = Some u" "run_schedule is u = Some s'" by (auto split: option.splits)
  have "lock_reach s0 (Suc n) u" using Cons.prems(1) u(1) by (auto intro: lock_reach.more lock_step.statement)
  from Cons.IH [OF this u(2)] show ?case by simp
qed simp

definition stuck :: lock_state where
  "stuck = the (run_schedule [0, 0, 1, 1] (begin_all two_rows two_reversals))"


section \<open>Two transfers at once\<close>

definition crossing :: "(string \<times> string \<times> int) list" where
  "crossing = [(''1000000001'', ''1000000002'', 10), (''1000000002'', ''1000000001'', 5)]"

definition crossing_schedule :: "nat list" where
  "crossing_schedule = [0, 0, 0, 0, 0, 1, 1, 1]"

definition crossed :: lock_state where
  "crossed = the (run_schedule crossing_schedule
     (begin_all (rows_of sample_db) (transfers ''0000000001'' (rows_of sample_db) crossing)))"

lemma crossed_reach:
  "lock_reach (begin_all (rows_of sample_db) (transfers ''0000000001'' (rows_of sample_db) crossing)) 8 crossed"
proof -
  have "run_schedule crossing_schedule
     (begin_all (rows_of sample_db) (transfers ''0000000001'' (rows_of sample_db) crossing)) = Some crossed"
    unfolding crossed_def by (rule option.collapse [symmetric]) code_simp
  from run_schedule_reach [OF lock_reach.start this] show ?thesis by (simp add: crossing_schedule_def eval_nat_numeral)
qed

lemma concurrent_transfers_serial_witness:
  "ls_rows crossed ''1000000001'' = Some (490, 2) \<and>
   ls_rows crossed = rows_of (transfers_alone ''0000000001'' [(''T1'', ''1000000001'', ''1000000002'', 10),
     (''T2'', ''1000000002'', ''1000000001'', 5)] [0] sample_db)"
proof -
  have ok: "accounts_ok sample_db" by code_simp
  have c: "crossing = map snd [(''T1'', ''1000000001'', ''1000000002'', 10 :: int),
     (''T2'', ''1000000002'', ''1000000001'', 5)]" by (simp add: crossing_def)
  have l: "ls_log crossed = [0]" by code_simp
  have r: "ls_rows crossed ''1000000001'' = Some (490, 2)" by code_simp
  from concurrent_transfers_serial [OF ok crossed_reach [unfolded c]] l r show ?thesis by simp
qed

lemma transfers_always_finish_witness:
  "(8 :: nat) \<le> 5 * length crossing \<and> (\<exists>i s'. proc_step i crossed = Some s')"
proof -
  have "running 1 crossed" by code_simp
  with transfers_always_finish [OF crossed_reach] show ?thesis by blast
qed

lemma optimistic_lock_never_fails_witness:
  "running 1 (the (proc_step 1 crossed)) \<or> ls_log (the (proc_step 1 crossed)) = ls_log crossed @ [1]"
proof (rule optimistic_lock_never_fails [OF crossed_reach])
  show "running 1 crossed" by code_simp
  show "crossing ! 1 = (''1000000002'', ''1000000001'', 5)" by (simp add: crossing_def)
  show "''1000000002'' \<noteq> credited ''0000000001'' (rows_of sample_db) ''1000000001''" by code_simp
  show "ls_rows crossed ''1000000002'' = Some (50, 2)" by code_simp
  show "ls_rows crossed (credited ''0000000001'' (rows_of sample_db) ''1000000001'') = Some (490, 2)" by code_simp
  show "in_int4 (2 + 1)" "in_int4 (2 + 1)" by (simp_all add: in_int4_def)
  show "proc_step 1 crossed = Some (the (proc_step 1 crossed))"
    by (rule option.collapse [symmetric]) code_simp
qed

end
