(* ===== verification/Text.thy ===== *)
theory Text
  imports Prelude
begin

text \<open>
  Decimal text as \<open>strconv\<close> and \<open>fmt\<close> print and read it, and the string functions of package
  \<open>strings\<close> the services use.  Strings are byte strings; \<open>ToLower\<close> and \<open>TrimSpace\<close> are exact on
  ASCII, the case the code is written for.
\<close>

section \<open>Decimal numerals\<close>

definition digit_char :: "nat \<Rightarrow> char" where
  "digit_char d = char_of (48 + d :: nat)"

definition digit_val :: "char \<Rightarrow> nat" where
  "digit_val c = of_char c - 48"

fun show_nat :: "nat \<Rightarrow> string" where
  "show_nat n = (if n < 10 then [digit_char n] else show_nat (n div 10) @ [digit_char (n mod 10)])"

declare show_nat.simps [simp del]

definition show_int :: "int \<Rightarrow> string" where
  "show_int i = (if i < 0 then ''-'' @ show_nat (nat (- i)) else show_nat (nat i))"

definition read_nat :: "string \<Rightarrow> nat" where
  "read_nat s = foldl (\<lambda>n c. 10 * n + digit_val c) 0 s"

text \<open>\<open>strconv.Atoi\<close>/\<open>ParseInt\<close> in base 10 with 64 bits: an optional sign, then digits only.\<close>

definition parse_int :: "string \<Rightarrow> int option" where
  "parse_int s =
     (let neg = (s \<noteq> [] \<and> hd s = CHR ''-'');
          ds = (if s \<noteq> [] \<and> (hd s = CHR ''-'' \<or> hd s = CHR ''+'') then tl s else s);
          v = (if neg then - int (read_nat ds) else int (read_nat ds))
      in if ds \<noteq> [] \<and> list_all is_digit ds \<and> in_int64 v then Some v else None)"

text \<open>\<open>v, _ := strconv.Atoi(s)\<close>: 0 on a syntax error, the nearest bound when out of range.\<close>

definition atoi0 :: "string \<Rightarrow> int" where
  "atoi0 s =
     (let neg = (s \<noteq> [] \<and> hd s = CHR ''-'');
          ds = (if s \<noteq> [] \<and> (hd s = CHR ''-'' \<or> hd s = CHR ''+'') then tl s else s);
          v = (if neg then - int (read_nat ds) else int (read_nat ds))
      in if ds \<noteq> [] \<and> list_all is_digit ds then max (- (2 ^ 63)) (min (2 ^ 63 - 1) v) else 0)"

lemma atoi0_parse: "parse_int s = Some v \<Longrightarrow> atoi0 s = v"
  by (auto simp: parse_int_def atoi0_def Let_def in_int64_def split: if_splits)

lemma digit_val_char: "d < 10 \<Longrightarrow> digit_val (digit_char d) = d"
  by (simp add: digit_val_def digit_char_def)

lemma is_digit_char: "d < 10 \<Longrightarrow> is_digit (digit_char d)"
proof -
  assume "d < 10"
  then have "d \<in> {0, 1, 2, 3, 4, 5, 6, 7, 8, 9}" by auto
  then show ?thesis by (auto simp: is_digit_def digit_char_def less_eq_char_def)
qed

lemma read_nat_snoc: "read_nat (s @ [c]) = 10 * read_nat s + digit_val c"
  by (simp add: read_nat_def)

lemma read_show_nat [simp]: "read_nat (show_nat n) = n"
proof (induction n rule: show_nat.induct)
  case (1 n)
  then show ?case
    by (subst show_nat.simps) (auto simp: read_nat_snoc digit_val_char read_nat_def)
qed

lemma show_nat_digits: "list_all is_digit (show_nat n)"
proof (induction n rule: show_nat.induct)
  case (1 n)
  then show ?case by (subst show_nat.simps) (auto simp: is_digit_char)
qed

lemma show_nat_nonempty [simp]: "show_nat n \<noteq> []"
  by (subst show_nat.simps) simp

lemma show_nat_inject [simp]: "show_nat a = show_nat b \<longleftrightarrow> a = b"
  by (metis read_show_nat)

lemma not_digit_sign: "\<not> is_digit (CHR ''-'')" "\<not> is_digit (CHR ''+'')"
  by (simp_all add: is_digit_def less_eq_char_def)

lemma hd_show_nat: "hd (show_nat n) \<noteq> CHR ''-'' \<and> hd (show_nat n) \<noteq> CHR ''+''"
proof -
  have "is_digit (hd (show_nat n))"
    using show_nat_digits [of n] by (cases "show_nat n") auto
  then show ?thesis using not_digit_sign by metis
qed

lemma parse_show_int: "in_int64 i \<Longrightarrow> parse_int (show_int i) = Some i"
  using hd_show_nat [of "nat i"] show_nat_digits
  by (auto simp: parse_int_def show_int_def Let_def)

lemma show_int_inject: "show_int a = show_int b \<longleftrightarrow> a = b"
proof
  assume e: "show_int a = show_int b"
  show "a = b"
    using e hd_show_nat [of "nat a"] hd_show_nat [of "nat b"]
    by (cases "a < 0"; cases "b < 0") (auto simp: show_int_def; metis list.sel(1))+
qed simp

text \<open>\<open>%0kd\<close> of a natural number: at least \<open>k\<close> digits, padded with zeros on the left.\<close>

definition pad_zero :: "nat \<Rightarrow> string \<Rightarrow> string" where
  "pad_zero k s = replicate (k - length s) (CHR ''0'') @ s"

definition show_pad :: "nat \<Rightarrow> nat \<Rightarrow> string" where
  "show_pad k n = pad_zero k (show_nat n)"

lemma read_nat_zeros: "read_nat (replicate k (CHR ''0'') @ s) = read_nat s"
  by (induction k) (simp_all add: read_nat_def digit_val_def)

lemma read_show_pad [simp]: "read_nat (show_pad k n) = n"
  by (simp add: show_pad_def pad_zero_def read_nat_zeros)

lemma show_pad_digits: "list_all is_digit (show_pad k n)"
  using show_nat_digits by (auto simp: show_pad_def pad_zero_def list_all_iff is_digit_def less_eq_char_def)

lemma length_show_nat_less: "n < 10 ^ k \<Longrightarrow> 0 < k \<Longrightarrow> length (show_nat n) \<le> k"
proof (induction n arbitrary: k rule: show_nat.induct)
  case (1 n)
  show ?case
  proof (cases "n < 10")
    case True
    with 1 show ?thesis by (subst show_nat.simps) simp
  next
    case False
    then obtain j where k: "k = Suc j" "0 < j"
      using 1(2,3) by (cases k) (auto simp: not_less, metis neq0_conv not_less power_0 mult.right_neutral)
    with 1(2) have "n div 10 < 10 ^ j" by (simp add: less_mult_imp_div_less mult.commute)
    from 1(1) [OF False this k(2)] k False show ?thesis by (subst show_nat.simps) simp
  qed
qed

lemma length_show_pad: "n < 10 ^ k \<Longrightarrow> 0 < k \<Longrightarrow> length (show_pad k n) = k"
  using length_show_nat_less [of n k] by (simp add: show_pad_def pad_zero_def)

section \<open>Package strings\<close>

definition is_space :: "char \<Rightarrow> bool" where
  "is_space c \<longleftrightarrow> c \<in> {CHR '' '', CHR 0x09, CHR 0x0A, CHR 0x0B, CHR 0x0C, CHR 0x0D}"

definition TrimSpace :: "string \<Rightarrow> string" where
  "TrimSpace s = rev (dropWhile is_space (rev (dropWhile is_space s)))"

definition to_lower :: "char \<Rightarrow> char" where
  "to_lower c = (if CHR ''A'' \<le> c \<and> c \<le> CHR ''Z'' then char_of (of_char c + 32 :: nat) else c)"

definition to_upper :: "char \<Rightarrow> char" where
  "to_upper c = (if CHR ''a'' \<le> c \<and> c \<le> CHR ''z'' then char_of (of_char c - 32 :: nat) else c)"

definition ToLower :: "string \<Rightarrow> string" where
  "ToLower s = map to_lower s"

definition ToUpper :: "string \<Rightarrow> string" where
  "ToUpper s = map to_upper s"

definition is_alnum :: "char \<Rightarrow> bool" where
  "is_alnum c \<longleftrightarrow> is_digit c \<or> (CHR ''A'' \<le> c \<and> c \<le> CHR ''Z'') \<or> (CHR ''a'' \<le> c \<and> c \<le> CHR ''z'')"

lemma set_TrimSpace: "set (TrimSpace s) \<subseteq> set s"
  unfolding TrimSpace_def using set_dropWhileD by (metis set_rev subsetI)

lemma TrimSpace_idem: "TrimSpace (TrimSpace s) = TrimSpace s"
proof -
  let ?a = "dropWhile is_space s" and ?t = "TrimSpace s"
  have t: "?t = rev (dropWhile is_space (rev ?a))" by (simp add: TrimSpace_def)
  have "?t = [] \<or> \<not> is_space (hd ?t)"
  proof (cases "dropWhile is_space (rev ?a) = []")
    case False
    then have "takeWhile is_space (rev ?a) \<noteq> rev ?a"
      by (metis takeWhile_eq_all_conv dropWhile_eq_Nil_conv)
    then obtain x where "x \<in> set ?a" "\<not> is_space x" by (auto simp: takeWhile_eq_all_conv)
    then have ne: "?a \<noteq> []" by (metis empty_iff list.set(1))
    have "hd ?t = hd ?a"
      using False ne unfolding t
      by (metis hd_append2 rev_append rev_is_Nil_conv rev_rev_ident takeWhile_dropWhile_id)
    moreover have "\<not> is_space (hd ?a)" using ne hd_dropWhile by blast
    ultimately show ?thesis by simp
  qed (simp add: t)
  then have d1: "dropWhile is_space ?t = ?t" by (cases ?t) auto
  have "rev ?t = dropWhile is_space (rev ?a)" by (simp add: t)
  then have "dropWhile is_space (rev ?t) = rev ?t" by simp
  with d1 show ?thesis by (simp add: TrimSpace_def)
qed

lemma dropWhile_none: "(\<forall>c \<in> set s. \<not> P c) \<Longrightarrow> dropWhile P s = s"
  by (cases s) auto

lemma TrimSpace_id: "(\<forall>c \<in> set s. \<not> is_space c) \<Longrightarrow> TrimSpace s = s"
  by (simp add: TrimSpace_def dropWhile_none)

lemma alnum_not_space: "is_alnum c \<Longrightarrow> \<not> is_space c"
  by (auto simp: is_alnum_def is_digit_def is_space_def less_eq_char_def)

text \<open>The characters of UTF-8 text: its bytes without the continuation bytes.\<close>

definition rune_count :: "string \<Rightarrow> nat" where
  "rune_count s = length (filter (\<lambda>c. of_char c div 64 \<noteq> (2 :: nat)) s)"

text \<open>\<open>strings.Split\<close> at a one-character separator: always at least one piece.\<close>

fun split_char :: "char \<Rightarrow> string \<Rightarrow> string list" where
  "split_char sep [] = [[]]"
| "split_char sep (c # s) = (if c = sep then [] # split_char sep s
     else (case split_char sep s of [] \<Rightarrow> [[c]] | p # ps \<Rightarrow> (c # p) # ps))"

lemma split_char_none: "sep \<notin> set s \<Longrightarrow> split_char sep s = [s]"
  by (induction s) auto

lemma split_char_once: "sep \<notin> set s \<Longrightarrow> split_char sep (s @ sep # t) = s # split_char sep t"
  by (induction s) (auto split: list.split)

end
