(* ===== verification/Handlers.thy ===== *)
theory Handlers
  imports Tx Text
begin

text \<open>
  How a handler turns errors into answers.

  \<^item> \<open>catching m h k\<close> is \<open>x, err := m(); if err != nil { return h(err) }; k(x)\<close>.
  \<^item> \<open>reports ok m p\<close>: program \<open>p\<close> never returns an error; it does to the database what \<open>m\<close>
    does and its answer says (by \<open>ok\<close>) whether \<open>m\<close> succeeded.  The rules \<open>reports_intros\<close>
    follow the chain of \<open>catching\<close> steps, so a handler that runs a transaction is related to
    one \<open>with_tx\<close> of theory \<open>Tx\<close>.
\<close>

named_theorems reports_intros "a handler reports the outcome of a program"

definition catching :: "('s, 'a) prog \<Rightarrow> (go_err \<Rightarrow> ('s, 'b) prog) \<Rightarrow> ('a \<Rightarrow> ('s, 'b) prog) \<Rightarrow> ('s, 'b) prog" where
  "catching m h k = bind (attempt m) (\<lambda>r. case r of Inl e \<Rightarrow> h e | Inr x \<Rightarrow> k x)"

lemma catching_simps:
  "m w = (Done x, t) \<Longrightarrow> catching m h k w = k x t"
  "m w = (Failed e, t) \<Longrightarrow> catching m h k w = h e t"
  "m w = (Panics p, t) \<Longrightarrow> catching m h k w = (Panics p, t)"
  by (simp_all add: catching_def bind_def attempt_def)

lemma catching_ret [simp]: "catching (ret x) h k = k x"
  by (rule ext) (simp add: catching_def bind_def attempt_def ret_def)

lemma catching_fail [simp]: "catching (fail e) h k = h e"
  by (rule ext) (simp add: catching_def bind_def attempt_def fail_def)

lemma keeps_catching [keeps_intros]:
  assumes "keeps P m" and "\<And>e. keeps P (h e)" and "\<And>x. keeps P (k x)"
  shows "keeps P (catching m h k)"
  unfolding catching_def using assms by (intro keeps_intros) auto

definition same_db :: "world \<Rightarrow> world \<Rightarrow> bool" where
  "same_db u v \<longleftrightarrow> committed u = committed v \<and> tx u = tx v"

lemma same_db_refl [simp]: "same_db u u"
  by (simp add: same_db_def)

lemma same_db_trans: "same_db u v \<Longrightarrow> same_db v w \<Longrightarrow> same_db u w"
  by (simp add: same_db_def)

definition answers :: "('b \<Rightarrow> bool) \<Rightarrow> 'a outcome \<times> world \<Rightarrow> 'b outcome \<times> world \<Rightarrow> bool" where
  "answers ok a b \<longleftrightarrow> same_db (snd a) (snd b) \<and> (case fst a of
      Done x \<Rightarrow> \<exists>r. fst b = Done r \<and> ok r
    | Failed e \<Rightarrow> \<exists>r. fst b = Done r \<and> \<not> ok r
    | Panics q \<Rightarrow> fst b = Panics q)"

definition reports :: "('b \<Rightarrow> bool) \<Rightarrow> 'a go \<Rightarrow> 'b go \<Rightarrow> bool" where
  "reports ok m p \<longleftrightarrow> (\<forall>w. answers ok (m w) (p w))"

lemma reportsD: "reports ok m p \<Longrightarrow> answers ok (m w) (p w)"
  by (simp add: reports_def)

text \<open>Steps after the last database statement that touch no table.\<close>

definition only_outside :: "'a go \<Rightarrow> bool" where
  "only_outside m \<longleftrightarrow> (\<forall>w. \<exists>x t. m w = (Done x, t) \<and> same_db w t)"

lemma only_outside_ret [reports_intros]: "only_outside (ret x)"
  by (simp add: only_outside_def ret_def)

lemma only_outside_ignoring_redis [reports_intros]:
  "only_outside (ignoring (redis_set k v t))" "only_outside (ignoring (redis_del k))"
  by (auto simp: only_outside_def same_db_def prog_defs split: option.splits)

lemma only_outside_bind:
  "only_outside m \<Longrightarrow> (\<And>x. only_outside (k x)) \<Longrightarrow> only_outside (bind m k)"
  unfolding only_outside_def
proof
  fix w assume m: "\<forall>w. \<exists>x t. m w = (Done x, t) \<and> same_db w t"
    and k: "\<And>x. \<forall>w. \<exists>y t. k x w = (Done y, t) \<and> same_db w t"
  from m obtain x t where "m w = (Done x, t)" "same_db w t" by blast
  moreover from k obtain y u where "k x t = (Done y, u)" "same_db t u" by blast
  ultimately show "\<exists>x t. bind m k w = (Done x, t) \<and> same_db w t"
    by (auto simp: bind_def intro: same_db_trans)
qed

lemma reports_ret: "ok r \<Longrightarrow> reports ok (ret x) (ret r)"
  by (simp add: reports_def answers_def ret_def)

lemma reports_ret_after:
  assumes q: "only_outside q" and "ok r"
  shows "reports ok (ret x) (bind q (\<lambda>_. ret r))"
  unfolding reports_def
proof
  fix w
  from q obtain y t where "q w = (Done y, t)" "same_db w t" unfolding only_outside_def by blast
  with assms(2) show "answers ok (ret x w) (bind q (\<lambda>_. ret r) w)"
    by (simp add: answers_def ret_def bind_def)
qed

lemma reports_fail: "\<not> ok r \<Longrightarrow> reports ok (fail e) (ret r)"
  by (simp add: reports_def answers_def ret_def fail_def)

lemma reports_catching:
  assumes k: "\<And>x. reports ok (k x) (p x)" and h: "\<And>e. \<not> ok (h e)"
  shows "reports ok (bind m k) (catching m (\<lambda>e. ret (h e)) p)"
  unfolding reports_def
proof
  fix w
  obtain r t where mw: "m w = (r, t)" by (cases "m w")
  show "answers ok (bind m k w) (catching m (\<lambda>e. ret (h e)) p w)"
    using reportsD [OF k, of _ t] h
    by (cases r) (simp_all add: bind_def catching_def attempt_def mw answers_def ret_def)
qed

lemma reports_deferring_rollback:
  assumes "reports ok m p"
  shows "reports ok (deferring m tx_rollback) (deferring p tx_rollback)"
  unfolding reports_def
proof
  fix w
  from reportsD [OF assms, of w]
  show "answers ok (deferring m tx_rollback w) (deferring p tx_rollback w)"
    by (cases "m w"; cases "p w") (auto simp: answers_def deferring_def same_db_def split: outcome.splits)
qed

text \<open>
  The shape of a handler's transaction: begin, statements, commit, each step answering its own
  error, then steps outside the database.
\<close>

lemma reports_with_tx:
  assumes "\<And>x. reports ok (bind m (\<lambda>x. bind tx_commit (\<lambda>_. ret x))) (p x)" and "\<And>e. \<not> ok (h e)"
  shows "reports ok (with_tx m) (deferring (catching tx_begin (\<lambda>e. ret (h e)) p) tx_rollback)"
  unfolding with_tx_def
  by (intro reports_deferring_rollback reports_catching assms)

lemma reports_Done:
  assumes "reports ok m p" and "implements f g" and "m = with_tx f" and "p w = (r, w')"
  shows "tx w' = None \<and>
    ((\<exists>x y. r = Done x \<and> ok x \<and> g (committed w) = Some (y, committed w')) \<or>
     (\<exists>x. r = Done x \<and> \<not> ok x \<and> committed w' = committed w \<and>
       (faults w = [] \<longrightarrow> g (committed w) = None)))"
proof -
  obtain q t where mw: "m w = (q, t)" by (cases "m w")
  have rep: "answers ok (q, t) (r, w')"
    using reportsD [OF assms(1), of w] mw assms(4) by simp
  show ?thesis
  proof (cases q)
    case (Done x)
    with with_tx_Done [OF assms(2)] mw assms(3) have "g (committed w) = Some (x, committed t) \<and> tx t = None"
      by blast
    with rep Done show ?thesis by (auto simp: same_db_def answers_def)
  next
    case (Failed e)
    with with_tx_not_Done [OF assms(2), of w q t] mw assms(3)
    have "same_outside w t \<and> tx t = None \<and> (faults w = [] \<longrightarrow> g (committed w) = None)" by simp
    with rep Failed show ?thesis by (auto simp: same_db_def same_outside_def answers_def)
  next
    case (Panics p')
    with with_tx_not_Done [OF assms(2), of w q t] mw assms(3) show ?thesis by simp
  qed
qed

end
