(* ===== verification/Commons.thy ===== *)
theory Commons
  imports Handlers
begin

text \<open>
  The helpers every service calls: \<open>src/internal/utils/commons.go\<close> and \<open>mask.go\<close>, and the format
  checks of \<open>src/internal/services/validation.go\<close>.

  \<^item> Values of the configuration (\<open>viper\<close>), of the request context and of random generators are
    arguments; the text of the clock in a layout (\<open>time.Now().Format\<close>) is an argument.
  \<^item> A slice out of range is a panic, so the maskers return an \<open>outcome\<close>.
\<close>

section \<open>Errors, timeouts, addresses\<close>

text \<open>\<open>times_out\<close> is the method \<open>Timeout()\<close> of errors that have one.\<close>

definition IsNetworkError :: "(go_err \<Rightarrow> bool) \<Rightarrow> go_err \<Rightarrow> bool" where
  "IsNetworkError times_out err \<longleftrightarrow> times_out err \<or>
     list_ex (\<lambda>p. is_substring p (err_text err))
       [''i/o timeout'', ''connection refused'', ''no such host'', ''dial tcp'']"

text \<open>The key read as a whole number of seconds, read as a duration, and the default.\<close>

definition GetTimeout :: "int \<Rightarrow> int \<Rightarrow> int \<Rightarrow> int" where
  "GetTimeout secs val defaultSecs =
     (if 0 < secs then wrap64 (secs * second)
      else if second \<le> val then val
      else wrap64 (defaultSecs * second))"

text \<open>The two headers and the host part of the peer address.\<close>

definition RealIP :: "string \<Rightarrow> string \<Rightarrow> string \<Rightarrow> string" where
  "RealIP forwardedFor realIP remoteHost =
     (if forwardedFor \<noteq> [] then takeWhile (\<lambda>c. c \<noteq> CHR '','') forwardedFor
      else if realIP \<noteq> [] then realIP else remoteHost)"

section \<open>The request context\<close>

text \<open>The values that the authentication middleware stored; an absent key is \<open>None\<close>.\<close>

record request_context =
  ctx_userID :: "string option"
  ctx_merchantID :: "string option"
  ctx_isAdmin :: "bool option"

text \<open>
  The user and merchant numbers, and the answer that is written when there is no user: the
  code writes 401 and then goes on with the number 0.
\<close>

definition ExtractUserMerchantInfoFromContext ::
  "request_context \<Rightarrow> http_response option \<times> int \<times> int" where
  "ExtractUserMerchantInfoFromContext c =
     (let userIDStr = (case ctx_userID c of None \<Rightarrow> [] | Some s \<Rightarrow> s);
          merchantIDStr = (case ctx_merchantID c of None \<Rightarrow> [] | Some s \<Rightarrow> s)
      in (if userIDStr = [] then Some (SendErrorResponse (Response UnauthorizedError) 401) else None,
          atoi0 userIDStr, atoi0 merchantIDStr))"

definition ExtractIsAdminFromContext :: "request_context \<Rightarrow> go_err + bool" where
  "ExtractIsAdminFromContext c =
     (if ctx_isAdmin c = Some True then Inr True else Inl (Msg ''isAdmin not found in context''))"

section \<open>Random texts\<close>

text \<open>Four random bytes give eight decimal digits.\<close>

definition GenerateOTP :: "nat \<Rightarrow> nat \<Rightarrow> nat \<Rightarrow> nat \<Rightarrow> string" where
  "GenerateOTP b0 b1 b2 b3 =
     show_pad 8 ((b0 * 2 ^ 24 + b1 * 2 ^ 16 + b2 * 2 ^ 8 + b3) mod 100000000)"

definition charset :: string where
  "charset = ''ABCDEFGHIJKLMNOPQRSTUVWXYZ0123456789''"

text \<open>The random numbers of the loop, one per character.\<close>

definition GenerateImageIdentityToken :: "nat list \<Rightarrow> string" where
  "GenerateImageIdentityToken draws = map (\<lambda>n. charset ! (n mod length charset)) (take 32 draws)"

definition generateRandomNumericString :: "nat list \<Rightarrow> nat \<Rightarrow> string" where
  "generateRandomNumericString draws k = map (\<lambda>n. digit_char (n mod 10)) (take k draws)"

definition GenerateNIPSessionId :: "string \<Rightarrow> nat list \<Rightarrow> string \<Rightarrow> string" where
  "GenerateNIPSessionId stamp draws nipBankCode =
     nipBankCode @ stamp @ generateRandomNumericString draws 12"

definition GenerateISO20022MsgId :: "string \<Rightarrow> nat list \<Rightarrow> string \<Rightarrow> string" where
  "GenerateISO20022MsgId stamp draws bankCode =
     bankCode @ stamp @ generateRandomNumericString draws 15"

definition GenerateMandateRef :: "string \<Rightarrow> nat list \<Rightarrow> string \<Rightarrow> string" where
  "GenerateMandateRef stamp draws prefix =
     (if prefix = [] then ''RYLPAY'' else prefix) @ ''/'' @ stamp @ ''/'' @
     generateRandomNumericString draws 8"

section \<open>Masking\<close>

definition last4 :: "string \<Rightarrow> string" where
  "last4 s = drop (length s - 4) s"

definition MaskPAN :: "string \<Rightarrow> string" where
  "MaskPAN pan = (if length pan < 10 then ''****'' else take 6 pan @ ''****'' @ last4 pan)"

definition MaskPhone :: "string \<Rightarrow> string" where
  "MaskPhone phone = (if length phone < 8 then ''***''
     else take 3 phone @ ''***'' @ drop (length phone - 2) phone)"

definition MaskEmail :: "string \<Rightarrow> string outcome" where
  "MaskEmail email =
     (if length email < 5 then Done ''**''
      else let i = length (takeWhile (\<lambda>c. c \<noteq> CHR ''@'') email)
        in if i = length email then Done ''**''
           else if i < 2 then Panics ''slice bounds out of range''
           else Done (take 2 email @ ''***'' @ drop (i - 2) email))"

definition MaskAccountNumber :: "string \<Rightarrow> string outcome" where
  "MaskAccountNumber a =
     (if length a < 4 then Panics ''slice bounds out of range''
      else Done (take 4 a @ ''****'' @ last4 a))"

section \<open>Format checks\<close>

definition IsValidAccountId :: "string \<Rightarrow> bool" where
  "IsValidAccountId s \<longleftrightarrow> 10 \<le> length s \<and> length s \<le> 20 \<and> list_all is_digit s"

definition IsValidBankCode :: "string \<Rightarrow> bool" where
  "IsValidBankCode s \<longleftrightarrow> 3 \<le> length s \<and> length s \<le> 6 \<and> list_all is_alnum s"

section \<open>Properties\<close>

text \<open>A masked card number or phone number shows only its ends: two numbers that agree on the
  six and four (three and two) characters at the ends have the same mask, whatever lies between
  them and however long it is.\<close>

theorem masks_hide_the_middle:
  assumes "length a = 6" and "length z = 4" and "length b = 3" and "length y = 2"
    and "3 \<le> length n" and "3 \<le> length n'"
  shows "MaskPAN (a @ m @ z) = MaskPAN (a @ m' @ z) \<and>
    MaskPhone (b @ n @ y) = MaskPhone (b @ n' @ y)"
  using assms by (simp add: MaskPAN_def MaskPhone_def last4_def)

lemma masks_hide_the_middle_witness:
  "MaskPAN (''539983'' @ ''123456'' @ ''0011'') = MaskPAN (''539983'' @ ''9'' @ ''0011'') \<and>
   MaskPhone (''080'' @ ''12345'' @ ''78'') = MaskPhone (''080'' @ ''999'' @ ''78'')"
  by (rule masks_hide_the_middle) simp_all

text \<open>\<open>MaskEmail\<close> panics on every address of at least five characters whose first at sign is
  its first or second character, \<open>MaskAccountNumber\<close> on every number shorter than four.\<close>

theorem masks_panic_iff:
  "((\<exists>p. MaskEmail e = Panics p) \<longleftrightarrow> 5 \<le> length e \<and> CHR ''@'' \<in> set (take 2 e)) \<and>
   ((\<exists>p. MaskAccountNumber a = Panics p) \<longleftrightarrow> length a < 4)"
proof
  show "(\<exists>p. MaskEmail e = Panics p) \<longleftrightarrow> 5 \<le> length e \<and> CHR ''@'' \<in> set (take 2 e)"
  proof (cases e)
    case (Cons x xs)
    then show ?thesis
      by (cases xs) (auto simp: MaskEmail_def Let_def)
  qed (simp add: MaskEmail_def)
  show "(\<exists>p. MaskAccountNumber a = Panics p) \<longleftrightarrow> length a < 4"
    by (simp add: MaskAccountNumber_def)
qed

text \<open>A one-time code is always eight decimal digits, whatever the four random bytes.\<close>

theorem otp_eight_digits:
  "length (GenerateOTP b0 b1 b2 b3) = 8 \<and> list_all is_digit (GenerateOTP b0 b1 b2 b3)"
  unfolding GenerateOTP_def
  by (auto simp del: One_nat_def intro!: length_show_pad show_pad_digits)

end
