(* ===== verification/NIP.thy ===== *)
theory NIP
  imports Commons
begin

text \<open>
  The client of the NIP switch, \<open>src/internal/services/nibss_nip_service.go\<close>: three SOAP posts per
  call (encrypt, the call itself, decrypt), and the operations built on them.

  \<^item> HTTP and the XML library are a parameter, the record \<open>nip_net\<close>: what a post answers, the text
    of a request, the request that a text decodes to.  The \<open>n\<close>-th post may answer differently
    from the \<open>m\<close>-th; nothing is assumed of the answers.
  \<^item> \<open>nip_log\<close> in the world records each message when it is posted to the switch, whether or not
    an answer comes back.
\<close>

section \<open>Configuration\<close>

record nip_config =
  nc_BankCode :: string
  nc_PaymentPrefix :: string
  nc_CryptoURL :: string
  nc_CoreURL :: string
  nc_EncryptionBaseURL :: string
  nc_BaseURL :: string
  nc_TsqBaseURL :: string
  nc_TimeoutSeconds :: int

definition nameEnquiryURL :: "nip_config \<Rightarrow> string" where
  "nameEnquiryURL c = nc_BaseURL c @ ''/NIPWS/NIPInterface/nameenquirysingleitem''"

definition balanceEnquiryURL :: "nip_config \<Rightarrow> string" where
  "balanceEnquiryURL c = nc_BaseURL c @ ''/NIPWS/NIPInterface/balanceenquiry''"

definition mandateAdviceURL :: "nip_config \<Rightarrow> string" where
  "mandateAdviceURL c = nc_BaseURL c @ ''/NIPWS/NIPInterface/mandateadvice''"

definition ftDebitURL :: "nip_config \<Rightarrow> string" where
  "ftDebitURL c = nc_BaseURL c @ ''/NIPWS/NIPInterface/fundtransfersingleitem_dd''"

definition ftCreditURL :: "nip_config \<Rightarrow> string" where
  "ftCreditURL c = nc_BaseURL c @ ''/NIPWS/NIPInterface/fundtransfersingleitem_dc''"

definition tsqURL :: "nip_config \<Rightarrow> string" where
  "tsqURL c = nc_TsqBaseURL c @ ''/NIPWS/NIPTSQInterface/txnstatusquerysingleitem''"

definition encryptURL :: "nip_config \<Rightarrow> string" where
  "encryptURL c = nc_EncryptionBaseURL c @ ''/nip/crypto/encrypt''"

definition decryptURL :: "nip_config \<Rightarrow> string" where
  "decryptURL c = nc_EncryptionBaseURL c @ ''/nip/crypto/decrypt''"

section \<open>Envelopes\<close>

definition quoted :: "string \<Rightarrow> string" where
  "quoted s = [CHR 0x22] @ s @ [CHR 0x22]"

definition soap_open :: string where
  "soap_open = ''<soapenv:Envelope xmlns:soapenv='' @
     quoted ''http://schemas.xmlsoap.org/soap/envelope/''"

definition buildEncryptEnvelope :: "nip_config \<Rightarrow> string \<Rightarrow> string" where
  "buildEncryptEnvelope c xmlPayload = soap_open @ '' xmlns:ws='' @ quoted (nc_CryptoURL c) @
     ''><soapenv:Header/><soapenv:Body><ws:Encrypt><BankCode>'' @ nc_BankCode c @
     ''</BankCode><EncryptValue><![CDATA['' @ xmlPayload @
     '']]></EncryptValue></ws:Encrypt></soapenv:Body></soapenv:Envelope>''"

definition buildDecryptEnvelope :: "nip_config \<Rightarrow> string \<Rightarrow> string" where
  "buildDecryptEnvelope c ciphertext = soap_open @ '' xmlns:ws='' @ quoted (nc_CryptoURL c) @
     ''><soapenv:Header/><soapenv:Body><ws:Decrypt><BankCode>'' @ nc_BankCode c @
     ''</BankCode><DecryptValue>'' @ ciphertext @
     ''</DecryptValue></ws:Decrypt></soapenv:Body></soapenv:Envelope>''"

text \<open>\<open>strings.Replace(parentElement, "<", "</", 1)\<close>.\<close>

fun closing_tag :: "string \<Rightarrow> string" where
  "closing_tag [] = []"
| "closing_tag (c # s) = (if c = CHR ''<'' then ''</'' @ s else c # closing_tag s)"

definition buildNipEnvelope :: "nip_config \<Rightarrow> string \<Rightarrow> string \<Rightarrow> string" where
  "buildNipEnvelope c ciphertext parentElement = soap_open @ '' xmlns:core='' @ quoted (nc_CoreURL c) @
     ''><soapenv:Header/><soapenv:Body>'' @ parentElement @ ''<request>'' @ ciphertext @
     ''</request>'' @ closing_tag parentElement @ ''</soapenv:Body></soapenv:Envelope>''"

section \<open>The answer's text\<close>

text \<open>
  The tokens of the XML decoder: a start tag carries its raw inner text when the element can be
  decoded as a whole.  The end of the list is the decoder's end or its error.
\<close>

datatype xml_token = StartElement string "string option" | EndElement string | OtherToken

fun soap_return :: "(string \<Rightarrow> string) \<Rightarrow> nat \<Rightarrow> bool \<Rightarrow> xml_token list \<Rightarrow> string" where
  "soap_return unescape depth inBody [] = []"
| "soap_return unescape depth inBody (StartElement name inner # ts) =
     (let local = ToLower name
      in if local = ''body'' then soap_return unescape depth True ts
         else if inBody
           then if Suc depth = 2 \<and> local = ''return'' \<and> inner \<noteq> None
                then unescape (TrimSpace (the inner))
                else soap_return unescape (Suc depth) inBody ts
           else soap_return unescape depth inBody ts)"
| "soap_return unescape depth inBody (EndElement name # ts) =
     (if ToLower name = ''body'' then []
      else soap_return unescape (if inBody \<and> 0 < depth then depth - 1 else depth) inBody ts)"
| "soap_return unescape depth inBody (OtherToken # ts) = soap_return unescape depth inBody ts"

definition extractSoapBodyInnerText :: "(string \<Rightarrow> string) \<Rightarrow> xml_token list \<Rightarrow> string" where
  "extractSoapBodyInnerText unescape tokens = soap_return unescape 0 False tokens"

section \<open>Posts\<close>

text \<open>An answer has a status, the tokens of its body and the text of its fault element.\<close>

datatype http_result = BadRequest go_err | NoAnswer go_err | BadBody go_err
  | Answer int "xml_token list" string

record nip_net =
  net_post :: "nat \<Rightarrow> string \<Rightarrow> string \<Rightarrow> http_result"
  net_unescape :: "string \<Rightarrow> string"
  net_encode :: "nip_call \<Rightarrow> go_err + string"
  net_ne :: "string \<Rightarrow> go_err + ne_response"
  net_mandate :: "string \<Rightarrow> go_err + mandate_advice_response"
  net_balance :: "string \<Rightarrow> go_err + balance_response"
  net_debit :: "string \<Rightarrow> go_err + ft_debit_response"
  net_credit :: "string \<Rightarrow> go_err + ft_credit_response"
  net_tsq :: "string \<Rightarrow> go_err + tsq_response"

definition of_sum :: "go_err + 'a \<Rightarrow> 'a go" where
  "of_sum r = (case r of Inl e \<Rightarrow> fail e | Inr x \<Rightarrow> ret x)"

text \<open>\<open>sent\<close> is what happens in the world once the request is on its way.\<close>

definition post :: "nip_net \<Rightarrow> unit go \<Rightarrow> string \<Rightarrow> string \<Rightarrow> string go" where
  "post net sent url envelope =
     bind (gets (\<lambda>w. net_post net (length (nip_log w)) url envelope)) (\<lambda>r. case r of
        BadRequest e \<Rightarrow> fail (Wrap ''failed to create request: '' e)
      | NoAnswer e \<Rightarrow> bind sent (\<lambda>_. fail (Wrap (''http request failed to '' @ url @ '': '') e))
      | BadBody e \<Rightarrow> bind sent (\<lambda>_. fail (Wrap ''failed to read response body: '' e))
      | Answer status tokens faultString \<Rightarrow>
          bind sent (\<lambda>_.
          if status \<noteq> 200 then fail (NewNIPErrorMsg ''99'' faultString)
          else ret (extractSoapBodyInnerText (net_unescape net) tokens)))"

definition log_call :: "nip_call \<Rightarrow> unit go" where
  "log_call c = modify (\<lambda>w. w\<lparr>nip_log := nip_log w @ [c]\<rparr>)"

definition nip99 :: "go_err \<Rightarrow> 'a go" where
  "nip99 err = fail (NewNIPError ''99'' (Some err))"

definition soap_execute ::
  "nip_net \<Rightarrow> nip_config \<Rightarrow> string \<Rightarrow> string \<Rightarrow> nip_call \<Rightarrow> string go" where
  "soap_execute net c url parentElement req =
     catching (of_sum (net_encode net req)) nip99 (\<lambda>xmlMsg.
     catching (post net (ret ()) (encryptURL c) (buildEncryptEnvelope c xmlMsg)) nip99 (\<lambda>encrypted.
     catching (post net (log_call req) url (buildNipEnvelope c encrypted parentElement)) nip99 (\<lambda>nipResp.
     catching (post net (ret ()) (decryptURL c) (buildDecryptEnvelope c nipResp)) nip99 ret)))"

section \<open>The operations of the switch\<close>

fun is_nip_error :: "go_err \<Rightarrow> bool" where
  "is_nip_error (NIPErr code message cause) = True"
| "is_nip_error _ = False"

definition wrapErr :: "go_err \<Rightarrow> go_err" where
  "wrapErr err = (if is_nip_error err then err else NewNIPError ''99'' (Some err))"

definition checkResponseCode :: "string \<Rightarrow> string \<Rightarrow> unit go" where
  "checkResponseCode code action =
     (if code = ''00'' then ret ()
      else if code = [] then fail (NewNIPErrorMsg ''99'' (action @ '' returned empty response code''))
      else fail (NewNIPError code None))"

text \<open>What all six operations do before they look at the response code.\<close>

definition call_switch ::
  "nip_net \<Rightarrow> nip_config \<Rightarrow> string \<Rightarrow> string \<Rightarrow> nip_call \<Rightarrow> (string \<Rightarrow> go_err + 'a) \<Rightarrow> 'a go" where
  "call_switch net c url parentElement req decode =
     catching (soap_execute net c url parentElement req) (\<lambda>err. fail (wrapErr err)) (\<lambda>decrypted.
     catching (of_sum (decode decrypted)) nip99 ret)"

definition ExecuteNameEnquiry :: "nip_net \<Rightarrow> nip_config \<Rightarrow> ne_request \<Rightarrow> ne_response go" where
  "ExecuteNameEnquiry net c req = call_switch net c (nameEnquiryURL c)
     ''<core:nameenquirysingleitem>'' (NipNameEnquiry req) (net_ne net)"

definition ExecuteMandateAdvice ::
  "nip_net \<Rightarrow> nip_config \<Rightarrow> mandate_advice_request \<Rightarrow> mandate_advice_response go" where
  "ExecuteMandateAdvice net c req = call_switch net c (mandateAdviceURL c)
     ''<core:mandateadvice>'' (NipMandate req) (net_mandate net)"

definition ExecuteBalanceEnquiry ::
  "nip_net \<Rightarrow> nip_config \<Rightarrow> balance_request \<Rightarrow> balance_response go" where
  "ExecuteBalanceEnquiry net c req = call_switch net c (balanceEnquiryURL c)
     ''<core:balanceenquiry>'' (NipBalance req) (net_balance net)"

definition ExecuteFundsTransferDebit ::
  "nip_net \<Rightarrow> nip_config \<Rightarrow> ft_debit_request \<Rightarrow> ft_debit_response go" where
  "ExecuteFundsTransferDebit net c req =
     bind (call_switch net c (ftDebitURL c) ''<core:fundtransfersingleitem_dd>'' (NipDebit req)
             (net_debit net)) (\<lambda>resp.
     bind (checkResponseCode (fds_ResponseCode resp) ''funds transfer debit'') (\<lambda>_. ret resp))"

definition ExecuteFundsTransferCredit ::
  "nip_net \<Rightarrow> nip_config \<Rightarrow> ft_credit_request \<Rightarrow> ft_credit_response go" where
  "ExecuteFundsTransferCredit net c req =
     bind (call_switch net c (ftCreditURL c) ''<core:fundtransfersingleitem_dc>'' (NipCredit req)
             (net_credit net)) (\<lambda>resp.
     bind (checkResponseCode (fcs_ResponseCode resp) ''funds transfer credit'') (\<lambda>_. ret resp))"

definition ExecuteTransactionStatusQuery ::
  "nip_net \<Rightarrow> nip_config \<Rightarrow> tsq_request \<Rightarrow> tsq_response go" where
  "ExecuteTransactionStatusQuery net c req =
     bind (call_switch net c (tsqURL c) ''<core:txnstatusquerysingleitem>'' (NipTsq req)
             (net_tsq net)) (\<lambda>resp.
     bind (checkResponseCode (tss_ResponseCode resp) ''transaction status query'') (\<lambda>_. ret resp))"

section \<open>What a call does to the world\<close>

text \<open>
  A call to the switch changes nothing but the log, to which it adds its own message at most
  once; every error it returns is a \<open>NIPError\<close>, and a value it returns was decoded after the
  message went out.
\<close>

definition with_log :: "nip_call list \<Rightarrow> world \<Rightarrow> world" where
  "with_log cs w = w\<lparr>nip_log := nip_log w @ cs\<rparr>"

lemma with_log_Nil [simp]: "with_log [] w = w"
  by (simp add: with_log_def)

lemma with_log_append [simp]: "with_log ds (with_log cs w) = with_log (cs @ ds) w"
  by (simp add: with_log_def)

lemma with_log_sel [simp]:
  "committed (with_log cs w) = committed w" "tx (with_log cs w) = tx w"
  "redis (with_log cs w) = redis w" "now (with_log cs w) = now w"
  "faults (with_log cs w) = faults w" "nip_log (with_log cs w) = nip_log w @ cs"
  "redis_live k (with_log cs w) = redis_live k w"
  by (simp_all add: with_log_def redis_live_def split: option.split)

lemma post_quiet:
  "post net (ret ()) url env w = (r, w') \<Longrightarrow> w' = w \<and> (\<forall>p. r \<noteq> Panics p)"
  by (auto simp: post_def bind_def gets_def fail_def ret_def split: http_result.splits if_splits)

lemma post_logged:
  "post net (log_call c) url env w = (r, w') \<Longrightarrow>
   (\<exists>x. r = Done x \<and> w' = with_log [c] w) \<or> (\<exists>e. r = Failed e \<and> (w' = w \<or> w' = with_log [c] w))"
  by (auto simp: post_def bind_def gets_def fail_def ret_def log_call_def modify_def with_log_def
      split: http_result.splits if_splits)

lemma soap_execute_world:
  assumes "soap_execute net c url parent req w = (r, w')"
  shows "(\<exists>x. r = Done x \<and> w' = with_log [req] w) \<or>
     (\<exists>e. r = Failed e \<and> is_nip_error e \<and> (w' = w \<or> w' = with_log [req] w))"
  using assms
  by (auto simp: soap_execute_def catching_def bind_def attempt_def of_sum_def nip99_def fail_def ret_def
      NewNIPError_def split: outcome.splits prod.splits sum.splits dest!: post_quiet post_logged)

lemma call_switch_world:
  assumes "call_switch net c url parent req decode w = (r, w')"
  shows "(\<exists>x. r = Done x \<and> w' = with_log [req] w) \<or>
     (\<exists>e. r = Failed e \<and> is_nip_error e \<and> (w' = w \<or> w' = with_log [req] w))"
  using assms
  by (auto simp: call_switch_def catching_def bind_def attempt_def of_sum_def nip99_def fail_def ret_def
      NewNIPError_def wrapErr_def split: outcome.splits prod.splits sum.splits if_splits
      dest!: soap_execute_world)

lemma checkResponseCode_cases:
  "checkResponseCode code action w = (r, w') \<Longrightarrow>
   w' = w \<and> (r = Done () \<and> code = ''00'' \<or> (\<exists>e. r = Failed e \<and> is_nip_error e) \<and> code \<noteq> ''00'')"
  by (auto simp: checkResponseCode_def ret_def fail_def NewNIPError_def NewNIPErrorMsg_def split: if_splits)

text \<open>An operation that also checks the response code succeeds on code 00 only.\<close>

lemma ExecuteFundsTransferDebit_world:
  assumes "ExecuteFundsTransferDebit net c req w = (r, w')"
  shows "(\<exists>x. r = Done x \<and> fds_ResponseCode x = ''00'' \<and> w' = with_log [NipDebit req] w) \<or>
     (\<exists>e. r = Failed e \<and> is_nip_error e \<and> (w' = w \<or> w' = with_log [NipDebit req] w))"
  using assms
  by (auto simp: ExecuteFundsTransferDebit_def bind_def ret_def split: outcome.splits prod.splits
      dest!: call_switch_world checkResponseCode_cases)

lemma ExecuteFundsTransferCredit_world:
  assumes "ExecuteFundsTransferCredit net c req w = (r, w')"
  shows "(\<exists>x. r = Done x \<and> fcs_ResponseCode x = ''00'' \<and> w' = with_log [NipCredit req] w) \<or>
     (\<exists>e. r = Failed e \<and> is_nip_error e \<and> (w' = w \<or> w' = with_log [NipCredit req] w))"
  using assms
  by (auto simp: ExecuteFundsTransferCredit_def bind_def ret_def split: outcome.splits prod.splits
      dest!: call_switch_world checkResponseCode_cases)

lemma ExecuteNameEnquiry_world:
  assumes "ExecuteNameEnquiry net c req w = (r, w')"
  shows "(\<exists>x. r = Done x \<and> w' = with_log [NipNameEnquiry req] w) \<or>
     (\<exists>e. r = Failed e \<and> is_nip_error e \<and> (w' = w \<or> w' = with_log [NipNameEnquiry req] w))"
  using assms unfolding ExecuteNameEnquiry_def by (rule call_switch_world)

end
