(* ===== verification/NIP_Services.thy ===== *)
theory NIP_Services
  imports NIP
begin

text \<open>
  The services on top of the switch: name enquiry with its Redis cache
  (\<open>src/internal/services/name_enquiry.go\<close>), balance enquiry and mandates (\<open>balance_enquiry.go\<close>,
  \<open>mandate_advice.go\<close>) and the NIP funds transfer (\<open>funds_transfer.go\<close>): name enquiry, lookup of
  the debit account, debit message, credit message.

  \<^item> A session id is built from the clock's text and random digits, which are arguments.
  \<^item> \<open>amount_text\<close> is \<open>fmt.Sprintf("%.2f", float64(amount))\<close>: the conversion rounds to 53
    significant bits, ties to even; the result is a whole number and prints exactly.
\<close>

section \<open>Amounts as floating point text\<close>

fun bit_count :: "nat \<Rightarrow> nat" where
  "bit_count n = (if n = 0 then 0 else Suc (bit_count (n div 2)))"

declare bit_count.simps [simp del]

text \<open>The whole number nearest to \<open>p / q\<close>, ties to even.\<close>

definition round_even :: "nat \<Rightarrow> nat \<Rightarrow> nat" where
  "round_even p q = (let d = p div q; r = p mod q
     in if q < 2 * r \<or> (2 * r = q \<and> odd d) then d + 1 else d)"

definition float64_nat :: "nat \<Rightarrow> nat" where
  "float64_nat n = (let e = bit_count n - 53 in round_even n (2 ^ e) * 2 ^ e)"

definition float64_int :: "int \<Rightarrow> int" where
  "float64_int a = sgn a * int (float64_nat (nat \<bar>a\<bar>))"

definition amount_text :: "int \<Rightarrow> string" where
  "amount_text a = show_int (float64_int a) @ ''.00''"

lemma bit_count_le: "n < 2 ^ k \<Longrightarrow> bit_count n \<le> k"
proof (induction n arbitrary: k rule: bit_count.induct)
  case (1 n)
  show ?case
  proof (cases "n = 0")
    case True
    then show ?thesis by (simp add: bit_count.simps)
  next
    case False
    then obtain j where "k = Suc j" using 1(2) by (cases k) auto
    with 1 False show ?thesis by (subst bit_count.simps) (simp add: less_mult_imp_div_less mult.commute)
  qed
qed

lemma float64_int_exact: "\<bar>a\<bar> < 2 ^ 53 \<Longrightarrow> float64_int a = a"
proof -
  assume "\<bar>a\<bar> < 2 ^ 53"
  then have "nat \<bar>a\<bar> < 2 ^ 53" by (simp add: nat_less_iff)
  then have "bit_count (nat \<bar>a\<bar>) - 53 = 0" using bit_count_le by simp
  then show ?thesis by (simp add: float64_int_def float64_nat_def round_even_def Let_def sgn_mult_abs)
qed

section \<open>Name enquiry\<close>

record ne_result =
  nr_AccountName :: string
  nr_AccountNumber :: string
  nr_BankCode :: string
  nr_BankName :: string
  nr_NameEnquirySessionId :: string
  nr_BankVerificationNumber :: string
  nr_KYCLevel :: string

definition name_key :: "string \<Rightarrow> string \<Rightarrow> string" where
  "name_key accountNumber bankCode = ''NameEnquiryTxMetadata/'' @ accountNumber @ ''/'' @ bankCode"

definition hash_field :: "(string \<times> string) list \<Rightarrow> string \<Rightarrow> string" where
  "hash_field h k = (case map_of h k of None \<Rightarrow> [] | Some v \<Rightarrow> v)"

definition cachedNameEnquiry :: "string \<Rightarrow> string \<Rightarrow> ne_result option go" where
  "cachedNameEnquiry accountNumber bankCode =
     catching (redis_hgetall (name_key accountNumber bankCode)) (\<lambda>_. ret None) (\<lambda>data.
       if data = [] then ret None
       else ret (Some \<lparr>nr_AccountName = hash_field data ''AccountName'',
              nr_AccountNumber = hash_field data ''AccountNumber'',
              nr_BankCode = hash_field data ''BankCode'', nr_BankName = [],
              nr_NameEnquirySessionId = hash_field data ''NameEnquirySessionId'',
              nr_BankVerificationNumber = hash_field data ''BankVerificationNumber'',
              nr_KYCLevel = hash_field data ''KYCLevel''\<rparr>))"

definition cache_fields :: "ne_response \<Rightarrow> (string \<times> string) list" where
  "cache_fields resp = [(''AccountName'', nes_AccountName resp), (''AccountNumber'', nes_AccountNumber resp),
     (''BankCode'', nes_DestinationInstitutionCode resp),
     (''BankVerificationNumber'', nes_BankVerificationNumber resp),
     (''KYCLevel'', nes_KYCLevel resp), (''NameEnquirySessionId'', nes_SessionID resp)]"

text \<open>The environment of the services: the switch, its configuration, the clock's text, the
  random digits and the configured lifetime of a cached name.\<close>

record nip_env =
  en_net :: nip_net
  en_cfg :: nip_config
  en_stamp :: string
  en_draws :: "nat list"
  en_cache_ttl :: int

definition en_session :: "nip_env \<Rightarrow> string" where
  "en_session env = GenerateNIPSessionId (en_stamp env) (en_draws env) (nc_BankCode (en_cfg env))"

definition cache_name :: "nip_env \<Rightarrow> string \<Rightarrow> string \<Rightarrow> ne_response \<Rightarrow> unit go" where
  "cache_name env accountNumber bankCode resp =
     catching (redis_hset (name_key accountNumber bankCode) (cache_fields resp)) (\<lambda>_. ret ())
       (\<lambda>_. ignoring (redis_expire (name_key accountNumber bankCode) (en_cache_ttl env)))"

definition enquire_switch :: "nip_env \<Rightarrow> string \<Rightarrow> string \<Rightarrow> ne_result go" where
  "enquire_switch env accountNumber bankCode =
     catching (ExecuteNameEnquiry (en_net env) (en_cfg env)
         \<lparr>neq_SessionID = en_session env, neq_DestinationInstitutionCode = bankCode,
          neq_ChannelCode = ''1'', neq_AccountNumber = accountNumber\<rparr>)
       (\<lambda>err. fail (Wrap (''NIP Name Enquiry Failed For Account -> ['' @ accountNumber
          @ ''] And Bank Code -> ['' @ bankCode @ '']: '') err))
       (\<lambda>resp.
         if nes_ResponseCode resp \<noteq> ''00'' then fail (NewNIPError (nes_ResponseCode resp) None)
         else bind (cache_name env accountNumber bankCode resp)
           (\<lambda>_. ret \<lparr>nr_AccountName = nes_AccountName resp, nr_AccountNumber = nes_AccountNumber resp,
               nr_BankCode = bankCode, nr_BankName = [],
               nr_NameEnquirySessionId = nes_SessionID resp,
               nr_BankVerificationNumber = nes_BankVerificationNumber resp,
               nr_KYCLevel = nes_KYCLevel resp\<rparr>))"

definition EnquireName :: "nip_env \<Rightarrow> string \<Rightarrow> string \<Rightarrow> ne_result go" where
  "EnquireName env accountNumber bankCode =
     bind (cachedNameEnquiry accountNumber bankCode) (\<lambda>cached. case cached of
       Some r \<Rightarrow> ret r
     | None \<Rightarrow> enquire_switch env accountNumber bankCode)"

section \<open>Balances and mandates\<close>

record balance_result =
  br_AccountNumber :: string
  br_AccountName :: string
  br_BankCode :: string
  br_AvailableBalance :: string
  br_SessionID :: string

definition GetBalance ::
  "nip_env \<Rightarrow> string \<Rightarrow> string \<Rightarrow> string \<Rightarrow> string \<Rightarrow> string \<Rightarrow> balance_result go" where
  "GetBalance env accountNumber accountName bankCode bvn mandateCode =
     catching (ExecuteBalanceEnquiry (en_net env) (en_cfg env)
         \<lparr>beq_SessionID = en_session env, beq_DestinationInstitutionCode = bankCode,
          beq_ChannelCode = ''1'', beq_AuthorizationCode = mandateCode,
          beq_TargetAccountName = accountName, beq_TargetBankVerificationNumber = bvn,
          beq_TargetAccountNumber = accountNumber\<rparr>)
       (\<lambda>err. fail (Wrap ''NIP balance enquiry failed: '' err))
       (\<lambda>resp. catching (checkResponseCode (bes_ResponseCode resp) ''balance enquiry'')
         (\<lambda>_. fail (NewNIPError (bes_ResponseCode resp) None))
         (\<lambda>_. ret \<lparr>br_AccountNumber = bes_TargetAccountNumber resp,
             br_AccountName = bes_TargetAccountName resp, br_BankCode = bankCode,
             br_AvailableBalance = (if bes_AvailableBalance resp = [] then ''0''
                else bes_AvailableBalance resp),
             br_SessionID = bes_SessionID resp\<rparr>))"

record mandate_result =
  mr_AccountName :: string
  mr_BankName :: string
  mr_MandateCode :: string
  mr_SessionID :: string

definition CreateMandate :: "nip_env \<Rightarrow> create_mandate_request \<Rightarrow> mandate_result go" where
  "CreateMandate env req =
     catching (ExecuteMandateAdvice (en_net env) (en_cfg env)
         \<lparr>maq_SessionID = en_session env, maq_DestinationInstitutionCode = cm_DebitBankCode req,
          maq_ChannelCode = ''1'',
          maq_MandateReferenceNumber = GenerateMandateRef (en_stamp env) (drop 12 (en_draws env))
            (nc_PaymentPrefix (en_cfg env)),
          maq_Amount = ''100'', maq_DebitAccountName = cm_DebitAccountName req,
          maq_DebitAccountNumber = cm_DebitAccountNumber req,
          maq_BeneficiaryAccountName = cm_BeneficiaryAccountName req,
          maq_BeneficiaryAccountNumber = cm_BeneficiaryAccountNumber req,
          maq_BeneficiaryKYCLevel = cm_BeneficiaryKycLevel req,
          maq_BeneficiaryBankVerificationNumber = cm_BeneficiaryBankVerificationNumber req,
          maq_DebitBankVerificationNumber = cm_DebitBankVerificationNumber req,
          maq_DebitKYCLevel = cm_DebitKycLevel req\<rparr>)
       (\<lambda>err. fail (Wrap ''NIP Mandate Advice Failed: '' err))
       (\<lambda>resp. if mas_ResponseCode resp \<noteq> ''00'' then fail (NewNIPError (mas_ResponseCode resp) None)
         else ret \<lparr>mr_AccountName = mas_DebitAccountName resp, mr_BankName = cm_DebitBankName req,
             mr_MandateCode = mas_MandateReferenceNumber resp, mr_SessionID = mas_SessionID resp\<rparr>)"

section \<open>The debit account\<close>

record debit_info =
  di_AccountName :: string
  di_BVN :: string
  di_MandateCode :: string
  di_BankCode :: string
  di_KYCLevel :: string

definition debit_row :: "string \<Rightarrow> db \<Rightarrow> debit_info option" where
  "debit_row a d = (case find (\<lambda>r. acct_id r = a \<and> acct_status r = ''ACTIVE'' \<and>
         (\<exists>u \<in> set (users d). acct_user r = Some (usr_id u))) (accounts d) of
       None \<Rightarrow> None
     | Some r \<Rightarrow>
         (case find (\<lambda>u. acct_user r = Some (usr_id u)) (users d) of
            None \<Rightarrow> None
          | Some u \<Rightarrow> Some \<lparr>di_AccountName = acct_name r, di_BVN = usr_bvn u,
              di_MandateCode = acct_mandate r, di_BankCode = acct_bank_code r,
              di_KYCLevel = (case find (\<lambda>l. lim_user l = usr_id u) (user_limits d) of
                 None \<Rightarrow> ''1'' | Some l \<Rightarrow> show_int (lim_kyc_level l))\<rparr>))"

definition GetDebitAccountInfo :: "string \<Rightarrow> debit_info go" where
  "GetDebitAccountInfo accountNumber =
     catching (bind (db_run (\<lambda>d. Some (debit_row accountNumber d, d))) scan_one)
       (\<lambda>err. fail (Wrap ''GetDebitAccountInfo: '' err)) ret"


section \<open>Funds transfer\<close>

definition place :: "location \<Rightarrow> string" where
  "place loc = loc_Latitude loc @ '','' @ loc_Longitude loc"

definition debit_request ::
  "string \<Rightarrow> payment_request \<Rightarrow> ne_result \<Rightarrow> debit_info \<Rightarrow> location \<Rightarrow> ft_debit_request" where
  "debit_request sessionId req ne di loc =
     \<lparr>fdq_SessionID = sessionId, fdq_NameEnquiryRef = nr_NameEnquirySessionId ne,
      fdq_DestinationInstitutionCode = pad_zero 6 (nr_BankCode ne), fdq_ChannelCode = ''1'',
      fdq_BeneficiaryAccountName = nr_AccountName ne,
      fdq_BeneficiaryAccountNumber = nr_AccountNumber ne,
      fdq_BeneficiaryBankVerificationNumber = nr_BankVerificationNumber ne,
      fdq_BeneficiaryKYCLevel = nr_KYCLevel ne,
      fdq_DebitAccountName = di_AccountName di, fdq_DebitAccountNumber = pr_FromAccount req,
      fdq_DebitBankVerificationNumber = di_BVN di, fdq_DebitKYCLevel = di_KYCLevel di,
      fdq_MandateReferenceNumber = di_MandateCode di, fdq_TransactionLocation = place loc,
      fdq_TransactionFee = ''0.00'', fdq_Narration = pr_Narration req,
      fdq_PaymentReference = di_MandateCode di, fdq_Amount = amount_text (pr_Amount req)\<rparr>"

definition credit_request ::
  "string \<Rightarrow> payment_request \<Rightarrow> ne_result \<Rightarrow> debit_info \<Rightarrow> location \<Rightarrow> ft_credit_request" where
  "credit_request sessionId req ne di loc =
     \<lparr>fcq_SessionID = sessionId, fcq_NameEnquiryRef = nr_NameEnquirySessionId ne,
      fcq_DestinationInstitutionCode = pad_zero 6 (nr_BankCode ne), fcq_ChannelCode = ''1'',
      fcq_BeneficiaryAccountName = nr_AccountName ne,
      fcq_BeneficiaryAccountNumber = nr_AccountNumber ne,
      fcq_BeneficiaryBankVerificationNumber = nr_BankVerificationNumber ne,
      fcq_BeneficiaryKYCLevel = nr_KYCLevel ne,
      fcq_OriginatorAccountName = di_AccountName di, fcq_OriginatorAccountNumber = pr_FromAccount req,
      fcq_OriginatorBankVerificationNumber = di_BVN di, fcq_OriginatorKYCLevel = di_KYCLevel di,
      fcq_TransactionLocation = place loc, fcq_Narration = pr_Narration req,
      fcq_PaymentReference = di_MandateCode di, fcq_Amount = amount_text (pr_Amount req)\<rparr>"

text \<open>
  The result and the error that \<open>DoTransaction\<close> returns together.  \<open>has_db\<close> says whether the
  service was built with a database; without one the debit fields stay empty.
\<close>

definition empty_debit_info :: debit_info where
  "empty_debit_info = \<lparr>di_AccountName = [], di_BVN = [], di_MandateCode = [], di_BankCode = [],
     di_KYCLevel = []\<rparr>"

definition ft_result :: "string \<Rightarrow> string \<Rightarrow> string \<Rightarrow> funds_transfer_result" where
  "ft_result sessionId reference status = \<lparr>ft_SessionID = sessionId, ft_Reference = reference,
     ft_Status = status, ft_RejectReason = []\<rparr>"

definition DoTransaction ::
  "nip_env \<Rightarrow> bool \<Rightarrow> string \<Rightarrow> payment_request \<Rightarrow> (funds_transfer_result option \<times> go_err option) go" where
  "DoTransaction env has_db sessionId req =
     catching (EnquireName env (pr_BeneficiaryAccountNumber req) (pr_BeneficiaryBankCode req))
       (\<lambda>err. ret (None, Some (Wrap ''funds_transfer.name_enquiry_failed: '' err))) (\<lambda>ne.
     catching (if has_db then GetDebitAccountInfo (pr_FromAccount req) else ret empty_debit_info)
       (\<lambda>err. ret (None, Some (Wrap ''funds_transfer.debit_account_lookup_failed: '' err))) (\<lambda>di.
     case pr_Location req of
       None \<Rightarrow> panic ''nil pointer dereference: req.Location''
     | Some loc \<Rightarrow>
       catching (ExecuteFundsTransferDebit (en_net env) (en_cfg env) (debit_request sessionId req ne di loc))
         (\<lambda>err. ret (None, Some err)) (\<lambda>debit.
       if fds_ResponseCode debit = ''00''
       then catching (ExecuteFundsTransferCredit (en_net env) (en_cfg env)
                        (credit_request sessionId req ne di loc))
              (\<lambda>err. ret (None, Some err)) (\<lambda>credit.
            if fcs_ResponseCode credit \<noteq> ''00''
            then ret (None, Some (Msg (''credit failed with response code: '' @ fcs_ResponseCode credit)))
            else ret (Some (ft_result sessionId (fds_SessionID debit) ''SUCCESS''), None))
       else ret (Some (ft_result sessionId (fds_SessionID debit) ''FAILED''),
              Some (Msg (''funds transfer failed with response code: '' @ fds_ResponseCode debit))))))"

end
