(* ===== verification/NIP_Props.thy ===== *)
theory NIP_Props
  imports NIP_Services
begin

text \<open>
  Properties of the NIP services: which messages a transfer sends and in which order, what is
  left at the switch when a transfer fails, and what the name cache returns.
\<close>

section \<open>What the parts do to the log\<close>

definition name_calls :: "nip_call list \<Rightarrow> bool" where
  "name_calls cs \<longleftrightarrow> length cs \<le> 1 \<and> (\<forall>c \<in> set cs. \<exists>r. c = NipNameEnquiry r)"

text \<open>What a step leaves of the tables and the log.\<close>

definition logs :: "nip_call list \<Rightarrow> world \<Rightarrow> world \<Rightarrow> bool" where
  "logs cs w w' \<longleftrightarrow> committed w' = committed w \<and> tx w' = tx w \<and> now w' = now w \<and>
     nip_log w' = nip_log w @ cs"

lemma logs_refl [simp]: "logs [] w w"
  by (simp add: logs_def)

lemma logs_with_log [simp]: "logs cs w (with_log cs w)"
  by (simp add: logs_def)

lemma logs_trans: "logs cs u v \<Longrightarrow> logs ds v w \<Longrightarrow> logs (cs @ ds) u w"
  by (simp add: logs_def)

lemma cachedNameEnquiry_logs:
  "cachedNameEnquiry a b w = (r, w') \<Longrightarrow> logs [] w w' \<and> (\<exists>x. r = Done x)"
  by (auto simp: cachedNameEnquiry_def catching_def bind_def attempt_def redis_hgetall_def ret_def logs_def
      split: option.splits rvalue.splits if_splits)

lemma ignoring_Done: "\<exists>w'. ignoring m w = (Done (), w') \<or> (\<exists>p. ignoring m w = (Panics p, w'))"
  by (auto simp: ignoring_def bind_def attempt_def ret_def split: outcome.splits prod.splits)

lemma cache_name_logs: "cache_name env a b resp w = (r, w') \<Longrightarrow> logs [] w w' \<and> r = Done ()"
  by (auto simp: cache_name_def catching_def bind_def attempt_def redis_hset_def redis_expire_def ret_def
      ignoring_def logs_def split: option.splits rvalue.splits if_splits)

lemma enquire_switch_logs:
  assumes "enquire_switch env a b w = (r, w')"
  shows "(\<exists>cs. name_calls cs \<and> logs cs w w') \<and> (\<forall>p. r \<noteq> Panics p)"
proof -
  let ?q = "\<lparr>neq_SessionID = en_session env, neq_DestinationInstitutionCode = b,
      neq_ChannelCode = ''1'', neq_AccountNumber = a\<rparr>"
  obtain s w2 where s: "ExecuteNameEnquiry (en_net env) (en_cfg env) ?q w = (s, w2)"
    by (meson surj_pair)
  have "\<exists>cs. name_calls cs \<and> logs cs w w2 \<and> (\<forall>p. s \<noteq> Panics p)"
    using ExecuteNameEnquiry_world [OF s]
    by (auto simp: name_calls_def intro: exI [of _ "[]"] exI [of _ "[NipNameEnquiry ?q]"])
  then obtain cs where cs: "name_calls cs" "logs cs w w2" "\<forall>p. s \<noteq> Panics p" by blast
  have "logs cs w w' \<and> (\<forall>p. r \<noteq> Panics p)"
  proof (cases s)
    case (Done resp)
    obtain u w3 where n: "cache_name env a b resp w2 = (u, w3)" by (meson surj_pair)
    from cache_name_logs [OF n] show ?thesis
      using assms Done s n cs(2)
      by (auto simp: enquire_switch_def catching_simps fail_def bind_def ret_def logs_def split: if_splits)
  next
    case (Failed err)
    then show ?thesis using assms s cs(2) by (auto simp: enquire_switch_def catching_simps fail_def)
  qed (use cs in auto)
  with cs(1) show ?thesis by blast
qed

lemma EnquireName_logs:
  assumes "EnquireName env a b w = (r, w')"
  shows "(\<exists>cs. name_calls cs \<and> logs cs w w') \<and> (\<forall>p. r \<noteq> Panics p)"
proof -
  obtain c w1 where c: "cachedNameEnquiry a b w = (Done c, w1)" and l1: "logs [] w w1"
    using cachedNameEnquiry_logs by (metis surj_pair)
  show ?thesis
  proof (cases c)
    case (Some x)
    with assms c l1 show ?thesis
      by (auto simp: EnquireName_def bind_def ret_def name_calls_def intro!: exI [of _ "[]"])
  next
    case None
    with assms c have "enquire_switch env a b w1 = (r, w')" by (simp add: EnquireName_def bind_def)
    from enquire_switch_logs [OF this] l1 show ?thesis by (auto simp: logs_def)
  qed
qed

lemma GetDebitAccountInfo_logs:
  "GetDebitAccountInfo a w = (r, w') \<Longrightarrow> logs [] w w' \<and> (\<forall>p. r \<noteq> Panics p)"
  by (auto simp: GetDebitAccountInfo_def catching_def bind_def attempt_def db_run_def scan_one_def
      ret_def fail_def logs_def split: option.splits if_splits)


section \<open>The messages of a transfer\<close>

text \<open>The part of \<open>DoTransaction\<close> that sends money messages.\<close>

definition send_transfer ::
  "nip_env \<Rightarrow> string \<Rightarrow> payment_request \<Rightarrow> ne_result \<Rightarrow> debit_info \<Rightarrow> location \<Rightarrow>
     (funds_transfer_result option \<times> go_err option) go" where
  "send_transfer env sessionId req ne di loc =
     catching (ExecuteFundsTransferDebit (en_net env) (en_cfg env) (debit_request sessionId req ne di loc))
       (\<lambda>err. ret (None, Some err)) (\<lambda>debit.
     if fds_ResponseCode debit = ''00''
     then catching (ExecuteFundsTransferCredit (en_net env) (en_cfg env)
                      (credit_request sessionId req ne di loc))
            (\<lambda>err. ret (None, Some err)) (\<lambda>credit.
          if fcs_ResponseCode credit \<noteq> ''00''
          then ret (None, Some (Msg (''credit failed with response code: '' @ fcs_ResponseCode credit)))
          else ret (Some (ft_result sessionId (fds_SessionID debit) ''SUCCESS''), None))
     else ret (Some (ft_result sessionId (fds_SessionID debit) ''FAILED''),
            Some (Msg (''funds transfer failed with response code: '' @ fds_ResponseCode debit))))"

lemma DoTransaction_steps:
  "DoTransaction env has_db sessionId req =
     catching (EnquireName env (pr_BeneficiaryAccountNumber req) (pr_BeneficiaryBankCode req))
       (\<lambda>err. ret (None, Some (Wrap ''funds_transfer.name_enquiry_failed: '' err))) (\<lambda>ne.
     catching (if has_db then GetDebitAccountInfo (pr_FromAccount req) else ret empty_debit_info)
       (\<lambda>err. ret (None, Some (Wrap ''funds_transfer.debit_account_lookup_failed: '' err))) (\<lambda>di.
     case pr_Location req of
       None \<Rightarrow> panic ''nil pointer dereference: req.Location''
     | Some loc \<Rightarrow> send_transfer env sessionId req ne di loc))"
  unfolding DoTransaction_def send_transfer_def ..

text \<open>What \<open>send_transfer\<close> may send: nothing, the debit, or the debit and then the credit; the
  credit only after the debit was approved, and both exactly when the transfer succeeds.\<close>

lemma send_transfer_world:
  assumes "send_transfer env sid req ne di loc w = (r, w')"
  shows "\<exists>ms. w' = with_log ms w \<and>
    ms \<in> {[], [NipDebit (debit_request sid req ne di loc)],
         [NipDebit (debit_request sid req ne di loc), NipCredit (credit_request sid req ne di loc)]} \<and>
    ((\<exists>ref. r = Done (Some (ft_result sid ref ''SUCCESS''), None) \<and> length ms = 2) \<or>
     (\<exists>e. r = Done (None, Some e)))"
proof -
  let ?d = "debit_request sid req ne di loc" and ?c = "credit_request sid req ne di loc"
  obtain s w1 where s: "ExecuteFundsTransferDebit (en_net env) (en_cfg env) ?d w = (s, w1)"
    by (meson surj_pair)
  show ?thesis
  proof (cases s)
    case (Done deb)
    with ExecuteFundsTransferDebit_world [OF s] have ok: "fds_ResponseCode deb = ''00''"
      and w1: "w1 = with_log [NipDebit ?d] w" by auto
    obtain u w2 where u: "ExecuteFundsTransferCredit (en_net env) (en_cfg env) ?c w1 = (u, w2)"
      by (meson surj_pair)
    from assms s Done ok have a: "catching (ExecuteFundsTransferCredit (en_net env) (en_cfg env) ?c)
            (\<lambda>err. ret (None, Some err)) (\<lambda>credit.
          if fcs_ResponseCode credit \<noteq> ''00''
          then ret (None, Some (Msg (''credit failed with response code: '' @ fcs_ResponseCode credit)))
          else ret (Some (ft_result sid (fds_SessionID deb) ''SUCCESS''), None)) w1 = (r, w')"
      by (simp add: send_transfer_def catching_simps)
    from ExecuteFundsTransferCredit_world [OF u]
    consider (ok) cr where "u = Done cr" "fcs_ResponseCode cr = ''00''" "w2 = with_log [NipCredit ?c] w1"
      | (bad) e where "u = Failed e" "w2 = w1 \<or> w2 = with_log [NipCredit ?c] w1" by auto
    then show ?thesis
    proof cases
      case ok
      with a u have "r = Done (Some (ft_result sid (fds_SessionID deb) ''SUCCESS''), None)" "w' = w2"
        by (simp_all add: catching_simps ret_def)
      with ok w1 show ?thesis by (auto simp: ft_result_def)
    next
      case bad
      with a u have "r = Done (None, Some e)" "w' = w2" by (simp_all add: catching_simps ret_def)
      with bad w1 show ?thesis by auto
    qed
  next
    case (Failed err)
    with assms s have "r = Done (None, Some err)" "w' = w1"
      by (simp_all add: send_transfer_def catching_simps ret_def)
    with Failed ExecuteFundsTransferDebit_world [OF s] show ?thesis
      by (auto intro: exI [of _ "[]"])
  next
    case (Panics p)
    with ExecuteFundsTransferDebit_world [OF s] show ?thesis by auto
  qed
qed

text \<open>The money messages of one transfer under one session: none, a debit, or a debit and then
  a credit of the same amount.\<close>

definition transfer_messages :: "string \<Rightarrow> payment_request \<Rightarrow> nip_call list \<Rightarrow> bool" where
  "transfer_messages sid req ms \<longleftrightarrow> (\<exists>ne di loc. ms \<in> {[], [NipDebit (debit_request sid req ne di loc)],
     [NipDebit (debit_request sid req ne di loc), NipCredit (credit_request sid req ne di loc)]})"

definition transferred :: "(funds_transfer_result option \<times> go_err option) outcome \<Rightarrow> bool" where
  "transferred r \<longleftrightarrow> (\<exists>x. r = Done (Some x, None))"

lemma DoTransaction_world:
  assumes "DoTransaction env has_db sid req w = (r, w')"
  shows "committed w' = committed w \<and> tx w' = tx w \<and> (\<exists>cs ms. name_calls cs \<and> nip_log w' = nip_log w @ cs @ ms \<and>
      transfer_messages sid req ms \<and> (transferred r \<longrightarrow> length ms = 2)) \<and>
    (transferred r \<or> (\<exists>e. r = Done (None, Some e)) \<or> (\<exists>p. r = Panics p \<and> pr_Location req = None))"
proof -
  obtain s w1 where s: "EnquireName env (pr_BeneficiaryAccountNumber req) (pr_BeneficiaryBankCode req) w = (s, w1)"
    by (meson surj_pair)
  obtain cs where cs: "name_calls cs" "logs cs w w1" and np: "\<forall>p. s \<noteq> Panics p"
    using EnquireName_logs [OF s] by blast
  have none: "transfer_messages sid req []" by (simp add: transfer_messages_def)
  show ?thesis
  proof (cases s)
    case (Done ne)
    let ?look = "if has_db then GetDebitAccountInfo (pr_FromAccount req) else ret empty_debit_info"
    obtain u w2 where u: "?look w1 = (u, w2)" by (meson surj_pair)
    have l2: "logs [] w1 w2" and nq: "\<forall>p. u \<noteq> Panics p"
      using u GetDebitAccountInfo_logs [of "pr_FromAccount req" w1 u w2]
      by (auto simp: ret_def split: if_splits)
    show ?thesis
    proof (cases u)
      case (Done di)
      have go: "(case pr_Location req of
           None \<Rightarrow> panic ''nil pointer dereference: req.Location''
         | Some loc \<Rightarrow> send_transfer env sid req ne di loc) w2 = (r, w')"
        using assms s u Done \<open>s = Done ne\<close> by (simp add: DoTransaction_steps catching_simps)
      show ?thesis
      proof (cases "pr_Location req")
        case None
        with go cs l2 none show ?thesis by (auto simp: panic_def logs_def transferred_def)
      next
        case (Some loc)
        with go have "send_transfer env sid req ne di loc w2 = (r, w')" by simp
        from send_transfer_world [OF this] obtain ms where
          ms: "ms \<in> {[], [NipDebit (debit_request sid req ne di loc)],
             [NipDebit (debit_request sid req ne di loc), NipCredit (credit_request sid req ne di loc)]}"
             "w' = with_log ms w2"
          and r: "(\<exists>ref. r = Done (Some (ft_result sid ref ''SUCCESS''), None) \<and> length ms = 2)
             \<or> (\<exists>e. r = Done (None, Some e))"
          by blast
        have "transfer_messages sid req ms" using ms(1) by (auto simp: transfer_messages_def)
        with ms(2) r cs l2 show ?thesis by (auto simp: logs_def transferred_def)
      qed
    next
      case (Failed e)
      with assms s \<open>s = Done ne\<close> u cs l2 none show ?thesis
        by (auto simp: DoTransaction_steps catching_simps ret_def logs_def transferred_def)
    qed (use nq in auto)
  next
    case (Failed e)
    with assms s cs none show ?thesis
      by (auto simp: DoTransaction_steps catching_simps ret_def logs_def transferred_def)
  qed (use np in auto)
qed


text \<open>A transfer through the switch sends a debit message at most once and a credit message at
  most once, the credit only after an approved debit, both for the requested amount and under the
  given session; it succeeds only after both, and it changes no table.\<close>

theorem transfer_message_order:
  assumes "DoTransaction env has_db sid req w = (r, w')"
  shows "committed w' = committed w \<and>
    (\<exists>cs ms. name_calls cs \<and> nip_log w' = nip_log w @ cs @ ms \<and> transfer_messages sid req ms \<and>
       (transferred r \<longrightarrow> length ms = 2))"
  using DoTransaction_world [OF assms] by blast

text \<open>C17: when the debit was approved and the credit then fails, the transfer is reported as failed
  and the debit stands: no message follows that would undo it.\<close>

theorem failed_credit_keeps_debit:
  assumes "EnquireName env (pr_BeneficiaryAccountNumber req) (pr_BeneficiaryBankCode req) w = (Done ne, w1)"
    and "GetDebitAccountInfo (pr_FromAccount req) w1 = (Done di, w2)" and "pr_Location req = Some loc"
    and "ExecuteFundsTransferDebit (en_net env) (en_cfg env) (debit_request sid req ne di loc) w2 = (Done deb, w3)"
    and "ExecuteFundsTransferCredit (en_net env) (en_cfg env) (credit_request sid req ne di loc) w3 = (Failed e, w4)"
  shows "DoTransaction env True sid req w = (Done (None, Some e), w4) \<and>
    nip_log w3 = nip_log w2 @ [NipDebit (debit_request sid req ne di loc)] \<and>
    (nip_log w4 = nip_log w3 \<or> nip_log w4 = nip_log w3 @ [NipCredit (credit_request sid req ne di loc)])"
proof -
  from ExecuteFundsTransferDebit_world [OF assms(4)]
  have "fds_ResponseCode deb = ''00''" and w3: "w3 = with_log [NipDebit (debit_request sid req ne di loc)] w2"
    by auto
  then have "DoTransaction env True sid req w = (Done (None, Some e), w4)"
    using assms by (simp add: DoTransaction_def catching_simps ret_def)
  with w3 ExecuteFundsTransferCredit_world [OF assms(5)] show ?thesis by auto
qed

section \<open>The name cache\<close>

lemma cached_read:
  assumes "redis_live (name_key a b) w = Some (RHash h)" and "h \<noteq> []" and "\<not> next_fault w"
  shows "cachedNameEnquiry a b w = (Done (Some \<lparr>nr_AccountName = hash_field h ''AccountName'',
      nr_AccountNumber = hash_field h ''AccountNumber'', nr_BankCode = hash_field h ''BankCode'', nr_BankName = [],
      nr_NameEnquirySessionId = hash_field h ''NameEnquirySessionId'',
      nr_BankVerificationNumber = hash_field h ''BankVerificationNumber'',
      nr_KYCLevel = hash_field h ''KYCLevel''\<rparr>), used_fault w)"
  using assms by (simp add: cachedNameEnquiry_def catching_def bind_def attempt_def redis_hgetall_def ret_def)

lemma cache_name_stores:
  assumes "cache_name env a b resp w = (r, w')" and "redis_live (name_key a b) w = None"
    and "faults w = []" and "0 < en_cache_ttl env" and "now w < redis_forever"
  shows "redis_live (name_key a b) w' = Some (RHash (cache_fields resp)) \<and> faults w' = []"
  using assms
  by (auto simp: cache_name_def catching_def bind_def attempt_def redis_hset_def redis_expire_def ret_def
      ignoring_def next_fault_def used_fault_def redis_live_def redis_put_def split: if_splits)

text \<open>The cache of names.  After an enquiry answered by the switch, a second one for the same
  account and bank, within the lifetime and without faults, sends no message and gives the same
  result, except for the bank code, which is then the one the switch answered with.\<close>

theorem name_cache_round_trip:
  assumes "redis_live (name_key a b) w = None" and "faults w = []" and "0 < en_cache_ttl env"
    and "now w < redis_forever" and "EnquireName env a b w = (Done x, w1)"
  shows "\<exists>code w2. EnquireName env' a b w1 = (Done (x\<lparr>nr_BankCode := code\<rparr>), w2) \<and>
    nip_log w2 = nip_log w1 \<and> nr_BankCode x = b"
proof -
  let ?q = "\<lparr>neq_SessionID = en_session env, neq_DestinationInstitutionCode = b,
      neq_ChannelCode = ''1'', neq_AccountNumber = a\<rparr>"
  have "cachedNameEnquiry a b w = (Done None, w)"
    using assms(1,2) by (simp add: cachedNameEnquiry_def catching_def bind_def attempt_def
        redis_hgetall_def ret_def next_fault_def used_fault_def)
  with assms(5) have sw: "enquire_switch env a b w = (Done x, w1)"
    by (simp add: EnquireName_def bind_def)
  obtain s w2 where s: "ExecuteNameEnquiry (en_net env) (en_cfg env) ?q w = (s, w2)" by (meson surj_pair)
  with sw ExecuteNameEnquiry_world [OF s] obtain resp where resp: "s = Done resp"
    and w2: "w2 = with_log [NipNameEnquiry ?q] w"
    by (auto simp: enquire_switch_def catching_simps fail_def)
  obtain u w3 where n: "cache_name env a b resp w2 = (u, w3)" by (meson surj_pair)
  have "redis_live (name_key a b) w3 = Some (RHash (cache_fields resp)) \<and> faults w3 = []"
    using assms(1-4) w2 by (intro cache_name_stores [OF n]) simp_all
  moreover have x: "x = \<lparr>nr_AccountName = nes_AccountName resp, nr_AccountNumber = nes_AccountNumber resp,
      nr_BankCode = b, nr_BankName = [], nr_NameEnquirySessionId = nes_SessionID resp,
      nr_BankVerificationNumber = nes_BankVerificationNumber resp, nr_KYCLevel = nes_KYCLevel resp\<rparr>"
    and "w1 = w3"
    using sw s resp n cache_name_logs [OF n]
    by (auto simp: enquire_switch_def catching_simps fail_def bind_def ret_def split: if_splits)
  ultimately have "EnquireName env' a b w1 =
      (Done (x\<lparr>nr_BankCode := nes_DestinationInstitutionCode resp\<rparr>), w1)"
    by (simp add: EnquireName_def bind_def cached_read next_fault_def used_fault_def cache_fields_def
        hash_field_def ret_def)
  then show ?thesis by (simp add: x)
qed


section \<open>A small switch\<close>

text \<open>A switch that approves everything, and one whose credit service does not answer.\<close>

definition sample_ne :: ne_response where
  "sample_ne = \<lparr>nes_SessionID = ''S1'', nes_DestinationInstitutionCode = ''044'', nes_ChannelCode = ''1'',
     nes_AccountNumber = ''2000000001'', nes_AccountName = ''OBI'', nes_KYCLevel = ''2'',
     nes_BankVerificationNumber = ''33'', nes_ResponseCode = ''00''\<rparr>"

definition sample_debit :: ft_debit_response where
  "sample_debit = \<lparr>fds_SessionID = ''S2'', fds_NameEnquiryRef = [], fds_DestinationInstitutionCode = [],
     fds_ChannelCode = [], fds_DebitAccountName = [], fds_DebitAccountNumber = [],
     fds_DebitBankVerificationNumber = [], fds_DebitKYCLevel = [], fds_BeneficiaryAccountName = [],
     fds_BeneficiaryAccountNumber = [], fds_BeneficiaryBankVerificationNumber = [],
     fds_BeneficiaryKYCLevel = [], fds_TransactionLocation = [], fds_Narration = [],
     fds_PaymentReference = [], fds_MandateReferenceNumber = [], fds_TransactionFee = [],
     fds_Amount = [], fds_ResponseCode = ''00''\<rparr>"

definition sample_credit :: ft_credit_response where
  "sample_credit = \<lparr>fcs_SessionID = ''S2'', fcs_NameEnquiryRef = [], fcs_DestinationInstitutionCode = [],
     fcs_ChannelCode = [], fcs_BeneficiaryAccountName = [], fcs_BeneficiaryAccountNumber = [],
     fcs_BeneficiaryBankVerificationNumber = [], fcs_BeneficiaryKYCLevel = [],
     fcs_OriginatorAccountName = [], fcs_OriginatorAccountNumber = [],
     fcs_OriginatorBankVerificationNumber = [], fcs_OriginatorKYCLevel = [],
     fcs_TransactionLocation = [], fcs_Narration = [], fcs_PaymentReference = [], fcs_Amount = [],
     fcs_ResponseCode = ''00''\<rparr>"

definition sample_net :: "bool \<Rightarrow> nip_net" where
  "sample_net broken = \<lparr>net_post = (\<lambda>n url env.
       if broken \<and> url = ''/NIPWS/NIPInterface/fundtransfersingleitem_dc''
       then NoAnswer (ExtErr ''i/o timeout'') else Answer 200 [] []),
     net_unescape = (\<lambda>s. s), net_encode = (\<lambda>c. Inr []), net_ne = (\<lambda>s. Inr sample_ne),
     net_mandate = (\<lambda>s. Inl (ExtErr ''EOF'')), net_balance = (\<lambda>s. Inl (ExtErr ''EOF'')),
     net_debit = (\<lambda>s. Inr sample_debit), net_credit = (\<lambda>s. Inr sample_credit),
     net_tsq = (\<lambda>s. Inl (ExtErr ''EOF''))\<rparr>"

definition sample_env :: "bool \<Rightarrow> nip_env" where
  "sample_env broken = \<lparr>en_net = sample_net broken, en_cfg = \<lparr>nc_BankCode = ''999'', nc_PaymentPrefix = [],
       nc_CryptoURL = [], nc_CoreURL = [], nc_EncryptionBaseURL = [], nc_BaseURL = [], nc_TsqBaseURL = [],
       nc_TimeoutSeconds = 30\<rparr>,
     en_stamp = ''250101000000'', en_draws = [1, 2, 3, 4, 5, 6, 7, 8, 9, 0, 1, 2],
     en_cache_ttl = 300 * second\<rparr>"

definition sample_name :: ne_result where
  "sample_name = \<lparr>nr_AccountName = ''OBI'', nr_AccountNumber = ''2000000001'', nr_BankCode = ''058'',
     nr_BankName = [], nr_NameEnquirySessionId = ''S1'', nr_BankVerificationNumber = ''33'',
     nr_KYCLevel = ''2''\<rparr>"

lemma sample_enquiry:
  "EnquireName (sample_env b) ''2000000001'' ''058'' sample_world =
     (Done sample_name, snd (EnquireName (sample_env b) ''2000000001'' ''058'' sample_world))"
proof -
  have "fst (EnquireName (sample_env True) ''2000000001'' ''058'' sample_world) = Done sample_name"
    "fst (EnquireName (sample_env False) ''2000000001'' ''058'' sample_world) = Done sample_name"
    by code_simp+
  then show ?thesis by (cases b) (simp_all add: prod_eq_iff)
qed

lemma name_cache_round_trip_witness:
  "\<exists>code w2. EnquireName (sample_env True) ''2000000001'' ''058''
       (snd (EnquireName (sample_env False) ''2000000001'' ''058'' sample_world))
     = (Done (sample_name\<lparr>nr_BankCode := code\<rparr>), w2) \<and>
   nip_log w2 = nip_log (snd (EnquireName (sample_env False) ''2000000001'' ''058'' sample_world)) \<and>
   nr_BankCode sample_name = ''058''"
  by (rule name_cache_round_trip [OF _ _ _ _ sample_enquiry])
     (simp_all add: sample_world_def redis_live_def sample_env_def second_def redis_forever_def)


definition sample_transfer_request :: payment_request where
  "sample_transfer_request = \<lparr>pr_TransactionID = ''B1'', pr_UserID = ''7'',
     pr_FromAccount = ''1000000001'', pr_BeneficiaryAccountNumber = ''2000000001'',
     pr_BeneficiaryAccountName = [], pr_BeneficiaryBankName = [], pr_BeneficiaryBankCode = ''058'',
     pr_Amount = 30, pr_Currency = ''NGN'', pr_Metadata = Map.empty, pr_Narration = [], pr_TxType = ''DEBIT'',
     pr_PaymentMode = ''BANK_TRANSFER'', pr_SaveBeneficiary = False, pr_OneTimeCode = [],
     pr_TwoFAType = ''BYPASS'',
     pr_Location = Some \<lparr>loc_Latitude = ''6.5'', loc_Longitude = ''3.3'', loc_Accuracy = [],
       loc_Address = []\<rparr>, pr_IPAddress = []\<rparr>"

lemma transfer_message_order_witness:
  "committed (snd (DoTransaction (sample_env False) True ''SID'' sample_transfer_request sample_world)) =
     committed sample_world \<and>
   (\<exists>cs ms. name_calls cs \<and>
     nip_log (snd (DoTransaction (sample_env False) True ''SID'' sample_transfer_request sample_world)) =
       nip_log sample_world @ cs @ ms \<and>
     transfer_messages ''SID'' sample_transfer_request ms \<and> length ms = 2)"
proof -
  let ?r = "DoTransaction (sample_env False) True ''SID'' sample_transfer_request sample_world"
  have "fst ?r = Done (Some (ft_result ''SID'' ''S2'' ''SUCCESS''), None)" by code_simp
  then have "transferred (fst ?r)" by (simp add: transferred_def)
  with transfer_message_order [of "sample_env False" True "''SID''" sample_transfer_request
      sample_world "fst ?r" "snd ?r"] show ?thesis by simp
qed

text \<open>The steps of the transfer when the credit service does not answer.\<close>

definition step1 :: "ne_result outcome \<times> world" where
  "step1 = EnquireName (sample_env True) ''2000000001'' ''058'' sample_world"

definition step2 :: "debit_info outcome \<times> world" where
  "step2 = GetDebitAccountInfo ''1000000001'' (snd step1)"

definition sample_info :: debit_info where
  "sample_info = \<lparr>di_AccountName = ''ADA'', di_BVN = ''22'', di_MandateCode = ''M1'',
     di_BankCode = ''221'', di_KYCLevel = ''2''\<rparr>"

definition sample_loc :: location where
  "sample_loc = \<lparr>loc_Latitude = ''6.5'', loc_Longitude = ''3.3'', loc_Accuracy = [], loc_Address = []\<rparr>"

definition step3 :: "ft_debit_response outcome \<times> world" where
  "step3 = ExecuteFundsTransferDebit (en_net (sample_env True)) (en_cfg (sample_env True))
     (debit_request ''SID'' sample_transfer_request sample_name sample_info sample_loc) (snd step2)"

definition step4 :: "ft_credit_response outcome \<times> world" where
  "step4 = ExecuteFundsTransferCredit (en_net (sample_env True)) (en_cfg (sample_env True))
     (credit_request ''SID'' sample_transfer_request sample_name sample_info sample_loc) (snd step3)"

definition no_answer :: go_err where
  "no_answer = NIPErr ''99'' [] (Some (Wrap
     ''http request failed to /NIPWS/NIPInterface/fundtransfersingleitem_dc: '' (ExtErr ''i/o timeout'')))"

lemma sample_steps:
  "step1 = (Done sample_name, snd step1)" "step2 = (Done sample_info, snd step2)"
  "step3 = (Done sample_debit, snd step3)" "step4 = (Failed no_answer, snd step4)"
proof -
  have "fst step1 = Done sample_name" "fst step2 = Done sample_info" "fst step3 = Done sample_debit"
    "fst step4 = Failed no_answer" by code_simp+
  then show "step1 = (Done sample_name, snd step1)" "step2 = (Done sample_info, snd step2)"
    "step3 = (Done sample_debit, snd step3)" "step4 = (Failed no_answer, snd step4)"
    by (metis prod.collapse)+
qed

lemma failed_credit_keeps_debit_witness:
  "DoTransaction (sample_env True) True ''SID'' sample_transfer_request sample_world
     = (Done (None, Some no_answer), snd step4) \<and>
   nip_log (snd step3) = nip_log (snd step2) @
     [NipDebit (debit_request ''SID'' sample_transfer_request sample_name sample_info sample_loc)]"
  using failed_credit_keeps_debit [of "sample_env True" sample_transfer_request sample_world sample_name
      "snd step1" sample_info "snd step2" sample_loc "''SID''" sample_debit "snd step3" no_answer "snd step4"]
    sample_steps
  by (simp add: sample_transfer_request_def [unfolded sample_loc_def [symmetric]]
      step1_def step2_def step3_def step4_def)

end
