(* ===== verification/Audit_Log.thy ===== *)
theory Audit_Log
  imports Handlers
begin

text \<open>
  The audit logger, \<open>src/internal/hsm/audit_event_logger.go\<close>.

  \<open>LogTransaction\<close> signs the event, records the transaction as PENDING and the event, and
  commits the caller's SQL transaction; \<open>LogFailedTransaction\<close> records the event alone.  The
  HSM is used through its Go interface, here the record \<open>hsm_iface\<close> of the two methods that are
  called.  A missing \<open>Location\<close> is dereferenced by both, which is a panic.
\<close>

text \<open>\<open>hsm.Transaction\<close>: what is signed.\<close>

record hsm_tx =
  ht_ID :: string
  ht_FromAccountID :: string
  ht_ToAccountID :: string
  ht_Amount :: int
  ht_Timestamp :: int
  ht_Nonce :: string

record hsm_iface =
  hsm_SignTransaction :: "hsm_tx \<Rightarrow> go_err + string"
  hsm_EncryptPAN :: "string \<Rightarrow> go_err + string"

definition of_result :: "go_err + 'a \<Rightarrow> 'a go" where
  "of_result r = (case r of Inl e \<Rightarrow> fail e | Inr x \<Rightarrow> ret x)"

definition audit_tx :: "payment_request \<Rightarrow> int \<Rightarrow> string \<Rightarrow> hsm_tx" where
  "audit_tx req timestamp nonce =
     \<lparr>ht_ID = pr_TransactionID req, ht_FromAccountID = pr_FromAccount req,
      ht_ToAccountID = pr_BeneficiaryAccountNumber req, ht_Amount = pr_Amount req,
      ht_Timestamp = timestamp, ht_Nonce = nonce\<rparr>"

text \<open>A SQL parameter compared with a key column; NULL (an absent value) matches no row.\<close>

fun json_id :: "json \<Rightarrow> string option" where
  "json_id (JStr s) = Some s"
| "json_id (JInt n) = Some (show_int n)"
| "json_id _ = None"

text \<open>\<open>SELECT account_id FROM merchants WHERE id = $8\<close>.\<close>

definition merchant_account :: "json \<Rightarrow> db \<Rightarrow> string option" where
  "merchant_account mid d =
     (case find (\<lambda>m. json_id mid = Some (mer_id m)) (merchants d) of
        None \<Rightarrow> None | Some m \<Rightarrow> mer_account m)"

definition sql_insert_audit :: "audit_row \<Rightarrow> unit stmt" where
  "sql_insert_audit a d = Some ((), d\<lparr>audit_events := audit_events d @ [a]\<rparr>)"

definition audit_record :: "audit_event \<Rightarrow> location \<Rightarrow> string \<Rightarrow> audit_row" where
  "audit_record event loc signature = (let req = ae_TxRequest event in
     \<lparr>aud_txid = pr_TransactionID req, aud_amount = pr_Amount req,
      aud_longitude = loc_Longitude loc, aud_latitude = loc_Latitude loc,
      aud_ip = pr_IPAddress req, aud_twofa = pr_TwoFAType req, aud_signature = signature,
      aud_event = ae_EventType event\<rparr>)"

definition pending_row :: "audit_event \<Rightarrow> string \<Rightarrow> db \<Rightarrow> txn_row" where
  "pending_row event debitId d = (let req = ae_TxRequest event in
     \<lparr>txn_id = pr_TransactionID req, txn_debit = debitId,
      txn_credit = (if pr_PaymentMode req = ''CARD''
        then merchant_account (meta_get (ae_Details event) ''merchantID'') d
        else Some (pr_BeneficiaryAccountNumber req)),
      txn_amount = pr_Amount req, txn_total = pr_Amount req, txn_mode = pr_PaymentMode req,
      txn_status = ''PENDING'', txn_user = pr_UserID req\<rparr>)"

definition LogTransaction :: "hsm_iface \<Rightarrow> string \<Rightarrow> audit_event \<Rightarrow> unit go" where
  "LogTransaction HSM nonce event =
     (let req = ae_TxRequest event in
      bind (gets now) (\<lambda>timestamp.
      catching (of_result (hsm_SignTransaction HSM (audit_tx req timestamp nonce)))
        (\<lambda>_. fail (Msg ''security signing failed'')) (\<lambda>signature.
      catching (if pr_PaymentMode req = ''CARD''
                then of_result (hsm_EncryptPAN HSM (pr_FromAccount req))
                else ret (pr_FromAccount req))
        (\<lambda>_. fail (Msg ''failed to Secure Card Data'')) (\<lambda>debitId.
      bind (tx_run (\<lambda>d. sql_insert_transaction (pending_row event debitId d) d)) (\<lambda>_.
      case pr_Location req of
        None \<Rightarrow> panic ''nil pointer dereference: Location''
      | Some loc \<Rightarrow>
          bind (tx_run (sql_insert_audit (audit_record event loc signature))) (\<lambda>_.
          tx_commit))))))"

definition LogFailedTransaction :: "hsm_iface \<Rightarrow> string \<Rightarrow> audit_event \<Rightarrow> unit go" where
  "LogFailedTransaction HSM nonce event =
     (let req = ae_TxRequest event in
      bind (gets now) (\<lambda>timestamp.
      catching (of_result (hsm_SignTransaction HSM (audit_tx req timestamp nonce)))
        (\<lambda>_. fail (Msg ''security signing failed'')) (\<lambda>signature.
      case pr_Location req of
        None \<Rightarrow> panic ''nil pointer dereference: Location''
      | Some loc \<Rightarrow> db_run (sql_insert_audit (audit_record event loc signature)))))"

definition LogActivity :: "activity_event \<Rightarrow> unit go" where
  "LogActivity event =
     db_run (sql_insert_audit
       \<lparr>aud_txid = [], aud_amount = 0, aud_longitude = [], aud_latitude = [],
        aud_ip = av_IPAddress event, aud_twofa = [], aud_signature = [],
        aud_event = av_EventType event\<rparr>)"

section \<open>What the logger leaves alone\<close>

definition accounts_are :: "account list \<Rightarrow> world \<Rightarrow> bool" where
  "accounts_are as w \<longleftrightarrow> accounts (committed w) = as"

lemma accounts_are_db_run [keeps_intros]:
  "(\<And>d x d'. st d = Some (x, d') \<Longrightarrow> accounts d' = accounts d) \<Longrightarrow> keeps (accounts_are as) (db_run st)"
  by (rule keepsI) (auto simp: accounts_are_def db_run_def split: option.splits prod.splits)

lemma keeps_of_result [keeps_intros]: "keeps P (of_result r)"
  unfolding of_result_def by (intro keeps_intros)

lemma sql_insert_audit_frame:
  assumes "sql_insert_audit a d = Some (u, d')"
  shows "accounts d' = accounts d" "transactions d' = transactions d"
    "ledger_entries d' = ledger_entries d" "ussd_codes d' = ussd_codes d"
  using assms by (auto simp: sql_insert_audit_def)

lemma LogFailedTransaction_accounts [keeps_intros]:
  "keeps (accounts_are as) (LogFailedTransaction HSM nonce event)"
  unfolding LogFailedTransaction_def Let_def
  by (intro keeps_intros) (auto dest: sql_insert_audit_frame)

end
