(* ===== verification/Provider_Base.thy ===== *)
theory Provider_Base
  imports Audit_Log
begin

text \<open>
  The base of the payment providers, \<open>src/internal/providers/provider.go\<close>: the ownership and KYC
  check, the idempotency marks in Redis, and \<open>HandlePaymentRequest\<close>, which every provider's
  \<open>HandlePayment\<close> calls with itself as the Go interface \<open>PaymentProvider\<close> (here a record).

  \<^item> A request body is what the JSON decoder made of it: not readable, not decodable (which
    includes unknown fields), more than one value, or one request.
  \<^item> \<open>ProcessPayment\<close> returns Go's pair of a response pointer and an error, and the request it
    may have rewritten.  \<open>HandlePaymentRequest\<close> reads fields of the response without a nil
    test, on its own goroutine and on the one that notifies the sender: a nil response is a
    panic.  Notifications themselves are not modelled.
\<close>

section \<open>Account ownership and KYC\<close>

definition kyc_of :: "int \<Rightarrow> db \<Rightarrow> string \<times> int" where
  "kyc_of uid d = (case find (\<lambda>l. lim_user l = uid) (user_limits d) of
       None \<Rightarrow> (''UNVERIFIED'', 0)
     | Some l \<Rightarrow> (lim_kyc_status l, lim_kyc_level l))"

definition owner_row :: "string \<Rightarrow> db \<Rightarrow> (int \<times> string \<times> int) option" where
  "owner_row a d = (case find (\<lambda>r. acct_id r = a \<and> acct_user r \<noteq> None) (accounts d) of
       None \<Rightarrow> None
     | Some r \<Rightarrow> Some (the (acct_user r), kyc_of (the (acct_user r)) d))"

definition verifyAccountAndKYC :: "string \<Rightarrow> int \<Rightarrow> unit go" where
  "verifyAccountAndKYC accountIdentifier userID =
     catching (bind (db_run (\<lambda>d. Some (owner_row accountIdentifier d, d))) scan_one)
       (\<lambda>err. if err = NoRows then fail (Msg ''account not found'')
              else fail (Msg ''failed to verify account''))
       (\<lambda>(ownerID, kycStatus, kycLevel).
         if show_int ownerID \<noteq> show_int userID then fail (Msg ''account does not belong to user'')
         else if kycStatus \<noteq> ''VERIFIED'' \<or> kycLevel < 1 then fail (Msg ''KYC verification required'')
         else ret ())"

section \<open>Idempotency marks\<close>

definition idempotency_key :: "string \<Rightarrow> string" where
  "idempotency_key txID = ''idempotency:'' @ txID"

text \<open>The status and whether a mark was found; an error of Redis counts as no mark.\<close>

definition checkIdempotency :: "string \<Rightarrow> (string \<times> bool) go" where
  "checkIdempotency txID =
     catching (redis_get (idempotency_key txID)) (\<lambda>_. ret ([], False))
       (\<lambda>v. case v of RStr s \<Rightarrow> ret (s, True) | RInt n \<Rightarrow> ret (show_int n, True)
          | RHash _ \<Rightarrow> ret ([], False) | _ \<Rightarrow> ret ([], True))"

definition setIdempotency :: "string \<Rightarrow> string \<Rightarrow> unit go" where
  "setIdempotency txID status =
     ignoring (redis_set (idempotency_key txID) (RStr status) (24 * 3600 * second))"

section \<open>The request handler\<close>

type_synonym provider_result = "payment_request \<times> payment_response option \<times> go_err option"

record payment_provider =
  GetPaymentMode :: string
  ProcessPayment :: "payment_request \<Rightarrow> provider_result go"

datatype request_body = ReadFailed | DecodeFailed | MultipleValues | Body payment_request

definition response_json :: "payment_response \<Rightarrow> json" where
  "response_json r = JObj [(''success'', JBool (rs_Success r)), (''transactionId'', JStr (rs_TransactionID r)),
     (''reference'', JStr (rs_Reference r)), (''status'', JStr (rs_Status r)),
     (''message'', JStr (rs_Message r)), (''paymentMode'', JStr (rs_PaymentMode r)),
     (''timestamp'', JInt (rs_Timestamp r))]"

definition prepared_request ::
  "string \<Rightarrow> int \<Rightarrow> string \<Rightarrow> int \<Rightarrow> payment_request \<Rightarrow> payment_request" where
  "prepared_request mode userID ip t req = req\<lparr>pr_UserID := show_int userID,
     pr_PaymentMode := mode, pr_IPAddress := ip,
     pr_TransactionID := (if pr_TransactionID req = [] then ''PAY-'' @ show_int t
                          else pr_TransactionID req)\<rparr>"

definition failed_event :: "int \<Rightarrow> payment_request \<Rightarrow> go_err \<Rightarrow> audit_event" where
  "failed_event t req err = \<lparr>ae_Timestamp = t, ae_EventType = ''FAILED_TRANSACTION'',
     ae_TxRequest = req, ae_Error = err_text err, ae_Details = Map.empty\<rparr>"

definition HandlePaymentRequest ::
  "hsm_iface \<Rightarrow> string \<Rightarrow> int \<Rightarrow> string \<Rightarrow> payment_provider \<Rightarrow> request_body \<Rightarrow> http_response go" where
  "HandlePaymentRequest HSM nonce userID ip provider body = (case body of
       ReadFailed \<Rightarrow> ret (SendErrorResponse (Response PaymentFailed) 400)
     | DecodeFailed \<Rightarrow> ret (SendErrorResponse (Response ProcessingFailed) 400)
     | MultipleValues \<Rightarrow> ret (SendErrorResponse (Response SingleObjectError) 400)
     | Body req0 \<Rightarrow>
         bind (gets now) (\<lambda>t.
         let req = prepared_request (GetPaymentMode provider) userID ip t req0
         in catching (verifyAccountAndKYC (pr_FromAccount req) userID)
           (\<lambda>err. if err_text err = ''KYC verification required''
              then ret (SendErrorResponse ''KYC verification required before making payments'' 422)
              else ret (SendErrorResponse ''Unauthorized: Account does not belong to user'' 422))
           (\<lambda>_. bind (ProcessPayment provider req) (\<lambda>(req', response, err). case err of
              Some e \<Rightarrow>
                bind (ignoring (LogFailedTransaction HSM nonce (failed_event t req' e))) (\<lambda>_.
                case response of
                  None \<Rightarrow> panic ''nil pointer dereference: response''
                | Some r \<Rightarrow> ret (SendErrorResponse (rs_Message r) 400))
            | None \<Rightarrow> (case response of
                  None \<Rightarrow> panic ''nil pointer dereference: response''
                | Some r \<Rightarrow> if rs_Success r
                    then ret (SendSuccessResponse (rs_Message r) (response_json r) 200)
                    else ret (SendErrorResponse (rs_Message r) 400))))))"

section \<open>Payments that move money between two local accounts\<close>

text \<open>
  The providers for USSD, QR and voice share, statement for statement, the checks of the
  paying account and the transaction that debits, credits and records; they differ in the
  payment mode and the texts.
\<close>

definition checkPayer :: "string \<Rightarrow> int \<Rightarrow> unit go" where
  "checkPayer fromAccount amount =
     catching (bind (db_run (\<lambda>d. Some (find_account fromAccount d, d))) scan_one)
       (\<lambda>err. if err = NoRows then fail (Msg ''account not found'')
              else fail (Msg (Response ValidationError)))
       (\<lambda>r. if acct_status r \<noteq> ''ACTIVE'' then fail (Msg ''account not active'')
            else if acct_balance r < amount then fail (Msg ''insufficient balance'')
            else ret ())"

definition failure_response :: "string \<Rightarrow> string \<Rightarrow> int \<Rightarrow> payment_request \<Rightarrow> payment_response" where
  "failure_response mode message t req = \<lparr>rs_Success = False, rs_TransactionID = pr_TransactionID req,
     rs_Reference = [], rs_Status = ''FAILED'', rs_Message = message, rs_Metadata = Map.empty,
     rs_PaymentMode = mode, rs_Timestamp = t\<rparr>"

definition success_response :: "string \<Rightarrow> string \<Rightarrow> int \<Rightarrow> payment_request \<Rightarrow> payment_response" where
  "success_response mode message t req = \<lparr>rs_Success = True, rs_TransactionID = pr_TransactionID req,
     rs_Reference = [], rs_Status = ''COMPLETED'', rs_Message = message, rs_Metadata = Map.empty,
     rs_PaymentMode = mode, rs_Timestamp = t\<rparr>"

text \<open>The row the statement inserts; it leaves out \<open>total_amount\<close> and \<open>user_id\<close>.\<close>

definition completed_row :: "string \<Rightarrow> payment_request \<Rightarrow> txn_row" where
  "completed_row mode req = \<lparr>txn_id = pr_TransactionID req, txn_debit = pr_FromAccount req,
     txn_credit = Some (pr_BeneficiaryAccountNumber req), txn_amount = pr_Amount req,
     txn_total = 0, txn_mode = mode, txn_status = ''COMPLETED'', txn_user = []\<rparr>"

definition moveFunds ::
  "string \<Rightarrow> string \<Rightarrow> string \<Rightarrow> unit go \<Rightarrow> payment_request \<Rightarrow> int \<Rightarrow> provider_result go" where
  "moveFunds mode failText okText afterCommit req t =
     (let failed = Some (failure_response mode failText t req)
      in deferring
        (catching tx_begin (\<lambda>err. ret (req, None, Some err)) (\<lambda>_.
         catching (tx_run (sql_add_balance (- pr_Amount req) (pr_FromAccount req)))
           (\<lambda>err. ret (req, failed, Some err)) (\<lambda>_.
         catching (tx_run (sql_add_balance (pr_Amount req) (pr_BeneficiaryAccountNumber req)))
           (\<lambda>err. ret (req, failed, Some err)) (\<lambda>_.
         catching (tx_run (sql_insert_transaction (completed_row mode req)))
           (\<lambda>err. ret (req, None, Some err)) (\<lambda>_.
         catching tx_commit (\<lambda>err. ret (req, None, Some err)) (\<lambda>_.
         bind afterCommit (\<lambda>_.
         ret (req, Some (success_response mode okText t req), None))))))))
        tx_rollback)"

section \<open>What moveFunds does\<close>

definition move_body :: "string \<Rightarrow> payment_request \<Rightarrow> unit go" where
  "move_body mode req =
     bind (tx_run (sql_add_balance (- pr_Amount req) (pr_FromAccount req))) (\<lambda>_.
     bind (tx_run (sql_add_balance (pr_Amount req) (pr_BeneficiaryAccountNumber req))) (\<lambda>_.
     tx_run (sql_insert_transaction (completed_row mode req))))"

definition move_stmt :: "string \<Rightarrow> payment_request \<Rightarrow> unit stmt" where
  "move_stmt mode req =
     stmt_bind (sql_add_balance (- pr_Amount req) (pr_FromAccount req)) (\<lambda>_.
     stmt_bind (sql_add_balance (pr_Amount req) (pr_BeneficiaryAccountNumber req)) (\<lambda>_.
     sql_insert_transaction (completed_row mode req)))"

definition paid :: "provider_result \<Rightarrow> bool" where
  "paid r = (case r of (req, response, err) \<Rightarrow> err = None)"

lemma implements_move: "implements (move_body mode req) (move_stmt mode req)"
  unfolding move_body_def move_stmt_def by (intro implements_intros)

lemma moveFunds_reports:
  assumes "only_outside after"
  shows "reports paid (with_tx (move_body mode req)) (moveFunds mode ft ot after req t)"
  unfolding moveFunds_def Let_def
proof (rule reports_with_tx, unfold move_body_def bind_assoc)
  show "\<not> paid (req, None, Some e)" for e by (simp add: paid_def)
qed (intro reports_catching reports_ret_after assms; simp add: paid_def)

lemmas moveFunds_Done = reports_Done [OF moveFunds_reports implements_move refl]

lemma move_stmt_spec:
  assumes s: "move_stmt mode req d = Some (u, d')" and ok: "accounts_ok d"
  shows "accounts_ok d' \<and> pr_TransactionID req \<notin> txn_id ` set (transactions d) \<and>
    transactions d' = transactions d @ [completed_row mode req] \<and>
    ledger_entries d' = ledger_entries d \<and> ussd_codes d' = ussd_codes d \<and>
    (\<forall>a. find_account a d' = map_option (\<lambda>r. r\<lparr>acct_balance := acct_balance r
       + (if a = pr_FromAccount req then - pr_Amount req else 0)
       + (if a = pr_BeneficiaryAccountNumber req then pr_Amount req else 0)\<rparr>) (find_account a d)) \<and>
    total_balance d' = total_balance d
      - (if find_account (pr_FromAccount req) d = None then 0 else pr_Amount req)
      + (if find_account (pr_BeneficiaryAccountNumber req) d = None then 0 else pr_Amount req)"
proof -
  let ?f = "pr_FromAccount req" and ?b = "pr_BeneficiaryAccountNumber req" and ?x = "pr_Amount req"
  obtain d1 d2 where s1: "sql_add_balance (- ?x) ?f d = Some ((), d1)"
    and s2: "sql_add_balance ?x ?b d1 = Some ((), d2)"
    and s3: "sql_insert_transaction (completed_row mode req) d2 = Some ((), d')"
    using s by (auto simp: move_stmt_def stmt_bind_def split: option.splits)
  note f1 = sql_add_balance_frame [OF s1] and f2 = sql_add_balance_frame [OF s2]
    and f3 = sql_insert_transaction_frame [OF s3]
  have ok1: "accounts_ok d1" by (rule sql_add_balance_ok [OF s1 ok])
  have ok2: "accounts_ok d2" by (rule sql_add_balance_ok [OF s2 ok1])
  have fd': "find_account a d' = find_account a d2" for a
    using f3 by (simp add: find_account_def)
  have find: "find_account a d' = map_option (\<lambda>r. r\<lparr>acct_balance := acct_balance r
       + (if a = ?f then - ?x else 0) + (if a = ?b then ?x else 0)\<rparr>) (find_account a d)" for a
    unfolding fd' sql_add_balance_find [OF s2] sql_add_balance_find [OF s1]
    by (cases "find_account a d") (auto dest: find_account_mem)
  have t1: "total_balance d1 = total_balance d - (if find_account ?f d = None then 0 else ?x)"
    using sql_add_balance_total [OF s1 ok] sql_add_balance_absent [OF s1] by fastforce
  have n1: "find_account ?b d1 = None \<longleftrightarrow> find_account ?b d = None"
    unfolding sql_add_balance_find [OF s1] by simp
  have t2: "total_balance d2 = total_balance d1 + (if find_account ?b d1 = None then 0 else ?x)"
    using sql_add_balance_total [OF s2 ok1] sql_add_balance_absent [OF s2] by fastforce
  have t3: "total_balance d' = total_balance d2" using f3 by (simp add: total_balance_def)
  have "accounts_ok d'" using ok2 f3 by (simp add: accounts_ok_def)
  with find t1 t2 t3 n1 f1 f2 f3 show ?thesis by (simp add: completed_row_def)
qed

end
