(* ===== verification/Accounts.thy ===== *)
theory Accounts
  imports NIP_Props Provider_Base
begin

text \<open>
  The account handlers of \<open>src/internal/services/account_service.go\<close>, first part: linking and
  unlinking accounts, name and balance enquiries, limits, virtual accounts.

  \<^item> A handler gives the list of the answers it writes.  \<open>ExtractUserMerchantInfoFromContext\<close> may
    already have written 401; the handlers go on, with user 0, and write a second answer.
  \<^item> The Go interfaces of the switch services are the record \<open>account_services\<close>; \<open>nip_services\<close>
    is their NIP implementation.
  \<^item> Columns have the types of \<open>src/migrations\<close>: \<open>account_id\<close> is unique and has at most 10
    characters, \<open>user_id\<close> refers to \<open>users\<close>.
\<close>

section \<open>Services and requests\<close>

record account_services =
  sv_enquire :: "string \<Rightarrow> string \<Rightarrow> ne_result go"
  sv_mandate :: "create_mandate_request \<Rightarrow> mandate_result go"
  sv_balance :: "string \<Rightarrow> string \<Rightarrow> string \<Rightarrow> string \<Rightarrow> string \<Rightarrow> balance_result go"
  sv_deadline :: "go_err \<Rightarrow> bool"
  sv_timeout :: "go_err \<Rightarrow> bool"
  sv_has_redis :: bool

definition nip_services :: "nip_env \<Rightarrow> account_services" where
  "nip_services env = \<lparr>sv_enquire = EnquireName env, sv_mandate = CreateMandate env,
     sv_balance = GetBalance env, sv_deadline = (\<lambda>e. False), sv_timeout = (\<lambda>e. False),
     sv_has_redis = True\<rparr>"

datatype 'a json_body = BodyError | BodyMultiple | BodyOne 'a

definition err_response :: "string \<Rightarrow> int \<Rightarrow> http_response go" where
  "err_response m code = ret (SendErrorResponse m code)"

text \<open>A handler that first reads the identity from the context.\<close>

definition with_identity ::
  "request_context \<Rightarrow> (int \<Rightarrow> int \<Rightarrow> http_response go) \<Rightarrow> http_response list go" where
  "with_identity c handler = (case ExtractUserMerchantInfoFromContext c of (early, userID, merchantID) \<Rightarrow>
     bind (handler userID merchantID) (\<lambda>r. ret ((case early of None \<Rightarrow> [] | Some e \<Rightarrow> [e]) @ [r])))"

section \<open>Linking an account\<close>

record link_request =
  lr_BankCode :: string
  lr_AccountNumber :: string
  lr_IsPrimary :: bool

definition linked_row :: "int \<Rightarrow> link_request \<Rightarrow> db \<Rightarrow> account option" where
  "linked_row userID req d = find (\<lambda>r. acct_user r = Some userID \<and> acct_id r = lr_AccountNumber req \<and>
     acct_bank_code r = lr_BankCode req \<and> acct_status r = ''ACTIVE'') (accounts d)"

definition user_bvn :: "int \<Rightarrow> db \<Rightarrow> string" where
  "user_bvn userID d = (case find (\<lambda>u. usr_id u = userID) (users d) of None \<Rightarrow> [] | Some u \<Rightarrow> usr_bvn u)"

text \<open>The combined query; its first column is text that is scanned into a 64-bit integer.\<close>

definition link_check :: "int \<Rightarrow> link_request \<Rightarrow> (bool \<times> string) stmt" where
  "link_check userID req d = (case linked_row userID req d of
       None \<Rightarrow> Some ((False, user_bvn userID d), d)
     | Some r \<Rightarrow> if parse_int (acct_id r) = None then None else Some ((True, user_bvn userID d), d))"

text \<open>The insert, with the update of its \<open>WITH\<close> clause.\<close>

definition sql_link :: "int \<Rightarrow> bool \<Rightarrow> account \<Rightarrow> unit stmt" where
  "sql_link userID isPrimary row d =
     (if acct_id row \<in> acct_id ` set (accounts d) \<or> 10 < length (acct_id row)
         \<or> userID \<notin> usr_id ` set (users d) then None
      else Some ((), d\<lparr>accounts := map (\<lambda>r. if isPrimary \<and> acct_user r = Some userID
             then r\<lparr>acct_primary := False\<rparr> else r) (accounts d) @ [row]\<rparr>))"

definition link_mandate :: "link_request \<Rightarrow> ne_result \<Rightarrow> string \<Rightarrow> create_mandate_request" where
  "link_mandate req ne bvn =
     \<lparr>cm_DebitBankCode = lr_BankCode req, cm_DebitAccountNumber = lr_AccountNumber req,
      cm_DebitAccountName = nr_AccountName ne, cm_DebitBankName = nr_BankName ne,
      cm_DebitBankVerificationNumber = bvn, cm_DebitKycLevel = ''3'',
      cm_BeneficiaryAccountName = nr_AccountName ne, cm_BeneficiaryAccountNumber = nr_AccountNumber ne,
      cm_BeneficiaryBankVerificationNumber = bvn, cm_BeneficiaryKycLevel = nr_KYCLevel ne\<rparr>"

definition new_account :: "int \<Rightarrow> link_request \<Rightarrow> ne_result \<Rightarrow> mandate_result \<Rightarrow> account" where
  "new_account userID req ne m =
     \<lparr>acct_id = lr_AccountNumber req, acct_balance = 0, acct_version = 1, acct_status = ''ACTIVE'',
      acct_user = Some userID, acct_name = mr_AccountName m, acct_bank_name = nr_BankName ne,
      acct_bank_code = lr_BankCode req, acct_mandate = mr_MandateCode m, acct_primary = lr_IsPrimary req\<rparr>"

definition linked_json :: "int \<Rightarrow> int \<Rightarrow> link_request \<Rightarrow> ne_result \<Rightarrow> mandate_result \<Rightarrow> json" where
  "linked_json accountID userID req ne m = JObj [(''id'', JInt accountID), (''userId'', JInt userID),
     (''accountNumber'', JStr (lr_AccountNumber req)), (''accountName'', JStr (mr_AccountName m)),
     (''bankName'', JStr (nr_BankName ne)), (''bankCode'', JStr (lr_BankCode req)),
     (''isPrimary'', JBool (lr_IsPrimary req))]"

definition enquiry_failed :: "account_services \<Rightarrow> go_err \<Rightarrow> string \<Rightarrow> int \<Rightarrow> http_response go" where
  "enquiry_failed sv err message code =
     (if sv_deadline sv err \<or> IsNetworkError (sv_timeout sv) err
      then err_response (Response NIPServiceUnavailable) 503 else err_response message code)"

definition link_new :: "account_services \<Rightarrow> int \<Rightarrow> link_request \<Rightarrow> string \<Rightarrow> http_response go" where
  "link_new sv userID req userBVN =
     catching (sv_enquire sv (lr_AccountNumber req) (lr_BankCode req))
       (\<lambda>err. enquiry_failed sv err ''Failed to Verify Account'' 502) (\<lambda>ne.
     if userBVN \<noteq> [] \<and> nr_BankVerificationNumber ne \<noteq> [] \<and> userBVN \<noteq> nr_BankVerificationNumber ne
     then err_response (''BVN does not match the account holder'' @ [CHR 0x27] @ ''s BVN'') 422
     else catching (sv_mandate sv (link_mandate req ne userBVN))
       (\<lambda>_. err_response ''Failed to Create Mandate'' 424) (\<lambda>m.
     catching (db_run (sql_link userID (lr_IsPrimary req) (new_account userID req ne m)))
       (\<lambda>_. err_response ''Failed to Link Account'' 424) (\<lambda>_.
     case parse_int (lr_AccountNumber req) of
       None \<Rightarrow> err_response ''Failed to Link Account'' 424
     | Some accountID \<Rightarrow> ret (SendSuccessResponse ''Account Linked Successfully''
         (linked_json accountID userID req ne m) 200))))"

definition link_body :: "account_services \<Rightarrow> int \<Rightarrow> link_request json_body \<Rightarrow> http_response go" where
  "link_body sv userID body = (case body of
       BodyError \<Rightarrow> err_response (Response InvalidRequestError) 400
     | BodyMultiple \<Rightarrow> err_response (Response SingleObjectError) 400
     | BodyOne req \<Rightarrow>
         catching (db_run (link_check userID req))
           (\<lambda>_. err_response ''Failed to Check Account'' 424)
           (\<lambda>(linked, userBVN).
             if linked then err_response ''Account Already Linked To This User'' 409
             else link_new sv userID req userBVN))"

definition LinkAccount ::
  "account_services \<Rightarrow> request_context \<Rightarrow> link_request json_body \<Rightarrow> http_response list go" where
  "LinkAccount sv c body = with_identity c (\<lambda>userID _. link_body sv userID body)"

section \<open>Unlinking an account\<close>

text \<open>\<open>UPDATE accounts SET status = 0 ... RETURNING id\<close>; the number of rows it returns.\<close>

definition sql_unlink :: "int \<Rightarrow> string \<Rightarrow> nat stmt" where
  "sql_unlink userID a d = (let hit = (\<lambda>r. acct_user r = Some userID \<and> acct_id r = a) in
     Some (length (filter hit (accounts d)),
       d\<lparr>accounts := map (\<lambda>r. if hit r then r\<lparr>acct_status := ''0''\<rparr> else r) (accounts d)\<rparr>))"

definition UnlinkAccount :: "request_context \<Rightarrow> string \<Rightarrow> http_response list go" where
  "UnlinkAccount c accountId = with_identity c (\<lambda>userID _.
     if accountId = [] then err_response ''Account Number Is Required'' 400
     else catching (db_run (sql_unlink userID accountId))
       (\<lambda>_. err_response ''Failed to Unlink Account'' 424)
       (\<lambda>n. if n = 0 then err_response ''Account Not Found'' 404
         else ret (SendSuccessResponse ''Account Unlinked Successfully'' JNull 200)))"

section \<open>Virtual accounts\<close>

definition va_key :: "string \<Rightarrow> string" where
  "va_key accountNumber = ''va:'' @ accountNumber"

definition ValidateVirtualAccount :: "string \<Rightarrow> va_data go" where
  "ValidateVirtualAccount accountNumber =
     catching (redis_get (va_key accountNumber))
       (\<lambda>_. fail (Msg ''virtual account not found or expired''))
       (\<lambda>v. case v of
          RVa va \<Rightarrow> bind (gets unix_time) (\<lambda>t.
            if va_expires va < t then fail (Msg ''virtual account expired'') else ret va)
        | _ \<Rightarrow> fail (Msg ''invalid virtual account data''))"

definition generateVirtualAccountNumber :: "nat list \<Rightarrow> string" where
  "generateVirtualAccountNumber draws = generateRandomNumericString draws 10"

definition find_merchant :: "string \<Rightarrow> db \<Rightarrow> merchant_row option" where
  "find_merchant mid d = find (\<lambda>m. mer_id m = mid) (merchants d)"

definition va_response :: "string \<Rightarrow> string \<Rightarrow> string \<Rightarrow> http_response" where
  "va_response accountNumber merchantName expiryText = SendSuccessResponse ''VA Generated''
     (JObj [(''virtualAccount'', JObj [(''accountNumber'', JStr accountNumber),
        (''accountName'', JStr merchantName), (''bankName'', JStr ''RuralPay Bank''),
        (''merchantId'', JStr []), (''expiresAt'', JInt 0)]), (''expiresAt'', JStr expiryText)]) 200"

text \<open>\<open>stamp\<close> prints an instant as RFC 3339.\<close>

definition va_body ::
  "bool \<Rightarrow> (int \<Rightarrow> string) \<Rightarrow> nat list \<Rightarrow> int \<Rightarrow> string \<Rightarrow> http_response go" where
  "va_body has_redis stamp draws merchantID amountStr =
     (if merchantID = 0 then err_response ''Only Merchants Generate Virtual Accounts'' 422
      else let mid = show_int merchantID in
        catching (bind (db_run (\<lambda>d. Some (find_merchant mid d, d))) scan_one)
          (\<lambda>err. if err = NoRows then err_response ''Merchant Not Found'' 422
             else err_response (Response InternalServiceError) 424) (\<lambda>m.
        if mer_status m \<noteq> ''ACTIVE'' then err_response ''Merchant Not Active'' 422
        else bind (gets now) (\<lambda>t.
          let accountNumber = generateVirtualAccountNumber draws;
              expiresAt = t + 3600 * second;
              amount = (case parse_int amountStr of Some a \<Rightarrow> a | None \<Rightarrow> 0);
              va = \<lparr>va_number = accountNumber, va_name = mer_name m, va_bank = ''RuralPay Bank'',
                va_merchant = mid, va_amount = amount, va_expires = expiresAt div second\<rparr>;
              done = ret (va_response accountNumber (mer_name m) (stamp expiresAt))
          in if has_redis
             then catching (redis_set (va_key accountNumber) (RVa va) (3600 * second))
                    (\<lambda>_. err_response ''Failed to generate virtual account'' 424) (\<lambda>_. done)
             else done)))"

definition GetVirtualAccount ::
  "bool \<Rightarrow> (int \<Rightarrow> string) \<Rightarrow> nat list \<Rightarrow> request_context \<Rightarrow> string \<Rightarrow> http_response list go" where
  "GetVirtualAccount has_redis stamp draws c amountStr =
     with_identity c (\<lambda>_ merchantID. va_body has_redis stamp draws merchantID amountStr)"

section \<open>Name enquiry\<close>

definition account_found :: "string \<Rightarrow> string \<Rightarrow> string \<Rightarrow> http_response go" where
  "account_found accountId accountName source = ret (SendSuccessResponse (Response AccountFound)
     (JObj [(''accountId'', JStr accountId), (''accountName'', JStr accountName),
        (''source'', JStr source)]) 200)"

definition enquire_local :: "account_services \<Rightarrow> string \<Rightarrow> string \<Rightarrow> http_response go" where
  "enquire_local sv accountId bankCode =
     catching (bind (db_run (\<lambda>d. Some (find_account accountId d, d))) scan_one)
       (\<lambda>_. if bankCode = [] then err_response (Response AccountNotFoundError) 404
         else catching (sv_enquire sv accountId bankCode)
           (\<lambda>err. enquiry_failed sv err (Response AccountNotFoundError) 404)
           (\<lambda>ne. account_found accountId (nr_AccountName ne) ''External''))
       (\<lambda>r. if acct_status r \<noteq> ''ACTIVE'' then err_response ''Account Not Active'' 422
         else account_found accountId (acct_name r) ''local'')"

definition AccountNameEnquiry :: "account_services \<Rightarrow> string \<Rightarrow> string \<Rightarrow> http_response go" where
  "AccountNameEnquiry sv accountParam bankParam =
     (let accountId = TrimSpace accountParam; bankCode = TrimSpace bankParam
      in if accountId = [] then err_response ''Account Number Is Required'' 400
         else if \<not> IsValidAccountId accountId then err_response ''invalid Account Number format'' 400
         else if bankCode \<noteq> [] \<and> \<not> IsValidBankCode bankCode then err_response ''invalid bankCode format'' 400
         else if sv_has_redis sv
           then catching (ValidateVirtualAccount accountId) (\<lambda>_. enquire_local sv accountId bankCode)
                  (\<lambda>va. account_found accountId (va_name va) ''local'')
           else enquire_local sv accountId bankCode)"

section \<open>Balances\<close>

record balance_row =
  bw_account :: account
  bw_bvn :: string

text \<open>
  The accounts of the user, joined with the user's row.  The aggregate of today's debits reads
  columns of \<open>transactions\<close> that no other modelled statement uses; its value is the argument
  \<open>spent\<close>.
\<close>

definition balance_rows :: "int \<Rightarrow> db \<Rightarrow> balance_row list" where
  "balance_rows userID d = (case find (\<lambda>u. usr_id u = userID) (users d) of
       None \<Rightarrow> []
     | Some u \<Rightarrow> map (\<lambda>r. \<lparr>bw_account = r, bw_bvn = usr_bvn u\<rparr>)
         (filter (\<lambda>r. acct_user r = Some userID \<and> acct_status r = ''ACTIVE'') (accounts d)))"

definition limits_of :: "int \<Rightarrow> db \<Rightarrow> int \<times> int" where
  "limits_of userID d = (case find (\<lambda>l. lim_user l = userID) (user_limits d) of
       None \<Rightarrow> (500000, 100000) | Some l \<Rightarrow> (lim_daily l, lim_single l))"

text \<open>The enquiries run in parallel and are collected by account; here they run in list order.\<close>

fun enquire_balances :: "account_services \<Rightarrow> balance_row list \<Rightarrow> (string \<times> string option) list go" where
  "enquire_balances sv [] = ret []"
| "enquire_balances sv (b # bs) = (let a = bw_account b in
     if acct_bank_code a = [] \<or> acct_id a = [] then enquire_balances sv bs
     else bind (catching (sv_balance sv (acct_id a) (acct_name a) (acct_bank_code a) (bw_bvn b)
                  (acct_mandate a)) (\<lambda>_. ret None) (\<lambda>bal. ret (Some (br_AvailableBalance bal))))
       (\<lambda>r. bind (enquire_balances sv bs) (\<lambda>rs. ret ((acct_id a, r) # rs))))"

definition balance_entry :: "(string \<Rightarrow> string) \<Rightarrow> (string \<times> string option) list \<Rightarrow> account \<Rightarrow> json" where
  "balance_entry logo nip a = JObj ([(''accountId'', JStr (acct_id a)), (''accountName'', JStr (acct_name a)),
     (''status'', JStr (acct_status a)), (''isPrimary'', JBool (acct_primary a)),
     (''bankName'', JStr (acct_bank_name a)), (''bankCode'', JStr (acct_bank_code a)),
     (''bankLogo'', JStr (logo (acct_bank_code a)))] @
     (if acct_bank_code a = []
      then [(''availableBalance'', JInt (acct_balance a)), (''balanceAvailable'', JBool True)]
      else case map_of nip (acct_id a) of
        Some (Some bal) \<Rightarrow> [(''availableBalance'', JStr bal), (''balanceAvailable'', JBool True)]
      | _ \<Rightarrow> [(''availableBalance'', JStr ''Balance Unavailable''), (''balanceAvailable'', JBool False)]))"

text \<open>Without a row the three totals keep Go's zero value.\<close>

definition AccountBalanceEnquiry ::
  "account_services \<Rightarrow> (string \<Rightarrow> string) \<Rightarrow> int \<Rightarrow> request_context \<Rightarrow> http_response list go" where
  "AccountBalanceEnquiry sv logo spent c = with_identity c (\<lambda>userID _.
     catching (db_run (\<lambda>d. Some ((balance_rows userID d, limits_of userID d), d)))
       (\<lambda>_. err_response ''Failed to fetch accounts'' 424) (\<lambda>(rows, daily, single).
     bind (enquire_balances sv rows) (\<lambda>nip.
     ret (SendSuccessResponse ''Returning User Accounts''
       (JObj [(''accounts'', JArr (map (balance_entry logo nip \<circ> bw_account) rows)),
          (''dailyLimit'', JInt (if rows = [] then 0 else daily)),
          (''singleTransactionLimit'', JInt (if rows = [] then 0 else single)),
          (''dailySpent'', JInt (if rows = [] then 0 else spent))]) 200))))"

section \<open>Limits\<close>

text \<open>\<open>INSERT ... ON CONFLICT (user_id) DO UPDATE\<close>.\<close>

definition sql_upsert_limits :: "int \<Rightarrow> int \<Rightarrow> int \<Rightarrow> unit stmt" where
  "sql_upsert_limits userID daily single d =
     (if userID \<notin> usr_id ` set (users d) then None
      else if userID \<in> lim_user ` set (user_limits d)
      then Some ((), d\<lparr>user_limits := map (\<lambda>l. if lim_user l = userID
             then l\<lparr>lim_daily := daily, lim_single := single\<rparr> else l) (user_limits d)\<rparr>)
      else Some ((), d\<lparr>user_limits := user_limits d @ [\<lparr>lim_user = userID, lim_daily = daily,
             lim_single = single, lim_kyc_status = ''UNVERIFIED'', lim_kyc_level = 0\<rparr>]\<rparr>))"

definition limits_body :: "int \<Rightarrow> (int \<times> int) json_body \<Rightarrow> http_response go" where
  "limits_body userID body = (case body of
       BodyError \<Rightarrow> err_response (Response InvalidRequestError) 400
     | BodyMultiple \<Rightarrow> err_response (Response SingleObjectError) 400
     | BodyOne (daily, single) \<Rightarrow>
         if daily \<le> 0 \<or> single \<le> 0 then err_response ''Limits Must Be Positive'' 400
         else if daily < single then err_response (Response SingleLimitError) 400
         else catching (db_run (sql_upsert_limits userID daily single))
           (\<lambda>_. err_response ''Failed to Update Limits'' 424)
           (\<lambda>_. ret (SendSuccessResponse ''Updated Successfully''
             (JObj [(''dailyLimit'', JInt daily), (''singleTransactionLimit'', JInt single)]) 200)))"

definition UpdateUserLimits :: "request_context \<Rightarrow> (int \<times> int) json_body \<Rightarrow> http_response list go" where
  "UpdateUserLimits c body = with_identity c (\<lambda>userID _. limits_body userID body)"

end
