(* ===== verification/SHA256.thy ===== *)
theory SHA256
  imports Text
begin

unbundle bit_operations_syntax

text \<open>
  SHA-256 (FIPS 180-4) as package \<open>crypto/sha256\<close> computes it, on 32-bit words, and the
  iterated hash and hexadecimal text the services make of a one-time code.
\<close>

type_synonym word32 = "32 word"

definition rotr :: "nat \<Rightarrow> word32 \<Rightarrow> word32" where
  "rotr n w = (drop_bit n w) OR (push_bit (32 - n) w)"

definition sigma0 :: "word32 \<Rightarrow> word32" where
  "sigma0 w = rotr 7 w XOR rotr 18 w XOR drop_bit 3 w"

definition sigma1 :: "word32 \<Rightarrow> word32" where
  "sigma1 w = rotr 17 w XOR rotr 19 w XOR drop_bit 10 w"

definition Sigma0 :: "word32 \<Rightarrow> word32" where
  "Sigma0 w = rotr 2 w XOR rotr 13 w XOR rotr 22 w"

definition Sigma1 :: "word32 \<Rightarrow> word32" where
  "Sigma1 w = rotr 6 w XOR rotr 11 w XOR rotr 25 w"

definition round_constants :: "word32 list" where
  "round_constants = [
   1116352408, 1899447441, 3049323471, 3921009573, 961987163, 1508970993, 2453635748, 2870763221,
   3624381080, 310598401, 607225278, 1426881987, 1925078388, 2162078206, 2614888103, 3248222580,
   3835390401, 4022224774, 264347078, 604807628, 770255983, 1249150122, 1555081692, 1996064986,
   2554220882, 2821834349, 2952996808, 3210313671, 3336571891, 3584528711, 113926993, 338241895,
   666307205, 773529912, 1294757372, 1396182291, 1695183700, 1986661051, 2177026350, 2456956037,
   2730485921, 2820302411, 3259730800, 3345764771, 3516065817, 3600352804, 4094571909, 275423344,
   430227734, 506948616, 659060556, 883997877, 958139571, 1322822218, 1537002063, 1747873779,
   1955562222, 2024104815, 2227730452, 2361852424, 2428436474, 2756734187, 3204031479, 3329325298]"

definition initial_hash :: "word32 list" where
  "initial_hash = [
   1779033703, 3144134277, 1013904242, 2773480762, 1359893119, 2600822924, 528734635, 1541459225]"

text \<open>The message schedule, kept newest word first.\<close>

fun extend :: "nat \<Rightarrow> word32 list \<Rightarrow> word32 list" where
  "extend 0 ws = ws"
| "extend (Suc n) ws =
     extend n ((sigma1 (ws ! 1) + ws ! 6 + sigma0 (ws ! 14) + ws ! 15) # ws)"

definition schedule :: "word32 list \<Rightarrow> word32 list" where
  "schedule block = rev (extend 48 (rev block))"

fun rounds :: "(word32 \<times> word32) list \<Rightarrow> word32 list \<Rightarrow> word32 list" where
  "rounds ((k, w) # kws) [a, b, c, d, e, f, g, h] =
     (let t1 = h + Sigma1 e + ((e AND f) XOR (NOT e AND g)) + k + w;
          t2 = Sigma0 a + ((a AND b) XOR (a AND c) XOR (b AND c))
      in rounds kws [t1 + t2, a, b, c, d + t1, e, f, g])"
| "rounds _ s = s"

definition compress :: "word32 list \<Rightarrow> word32 list \<Rightarrow> word32 list" where
  "compress hs block = map2 (+) hs (rounds (zip round_constants (schedule block)) hs)"

definition word_of_bytes :: "nat list \<Rightarrow> word32" where
  "word_of_bytes bs = foldl (\<lambda>w b. push_bit 8 w OR of_nat b) 0 bs"

definition bytes_of_word :: "word32 \<Rightarrow> nat list" where
  "bytes_of_word w = map (\<lambda>i. unat (drop_bit i w AND 0xFF)) [24, 16, 8, 0]"

definition bytes_of_length :: "nat \<Rightarrow> nat list" where
  "bytes_of_length n = map (\<lambda>i. n div 2 ^ (8 * i) mod 256) (rev [0..<8])"

definition pad_message :: "nat list \<Rightarrow> nat list" where
  "pad_message m = m @ [0x80] @ replicate ((119 - length m mod 64) mod 64) 0
     @ bytes_of_length (8 * length m)"

fun chunks :: "nat \<Rightarrow> nat \<Rightarrow> 'a list \<Rightarrow> 'a list list" where
  "chunks 0 n xs = []"
| "chunks (Suc k) n xs = take n xs # chunks k n (drop n xs)"

definition sha256 :: "nat list \<Rightarrow> nat list" where
  "sha256 m = (let p = pad_message m in concat (map bytes_of_word
     (foldl (\<lambda>hs b. compress hs (map word_of_bytes (chunks 16 4 b))) initial_hash
       (chunks (length p div 64) 64 p))))"

definition bytes_of_string :: "string \<Rightarrow> nat list" where
  "bytes_of_string s = map of_char s"

definition hex_digit :: "nat \<Rightarrow> char" where
  "hex_digit d = (if d < 10 then digit_char d else char_of (87 + d))"

definition hex_encode :: "nat list \<Rightarrow> string" where
  "hex_encode bs = concat (map (\<lambda>b. [hex_digit (b div 16), hex_digit (b mod 16)]) bs)"

text \<open>
  \<open>hash := sha256.Sum256(code); for i := 1; i < iterations; i++ { hash = sha256.Sum256(hash) }\<close>,
  in hexadecimal.
\<close>

definition iterated_hash :: "int \<Rightarrow> string \<Rightarrow> string" where
  "iterated_hash iterations code =
     hex_encode ((sha256 ^^ nat (iterations - 1)) (sha256 (bytes_of_string code)))"

lemma length_hex_encode: "length (hex_encode bs) = 2 * length bs"
  by (induction bs) (simp_all add: hex_encode_def)

lemma length_bytes_of_word: "length (bytes_of_word w) = 4"
  by (simp add: bytes_of_word_def)

lemma length_compress_rounds: "length hs = 8 \<Longrightarrow> length (rounds kws hs) = 8"
  by (induction kws hs rule: rounds.induct) (auto simp: Let_def)

lemma length_compress: "length hs = 8 \<Longrightarrow> length (compress hs b) = 8"
  by (simp add: compress_def length_compress_rounds)

lemma length_sha256: "length (sha256 m) = 32"
proof -
  have fold: "length (foldl (\<lambda>hs b. compress hs (f b)) hs bs) = 8"
    if "length hs = 8" for f :: "nat list \<Rightarrow> word32 list" and hs and bs
    using that by (induction bs arbitrary: hs) (auto simp: length_compress)
  have cat: "length (concat (map bytes_of_word ws)) = 4 * length ws" for ws
    by (induction ws) (simp_all add: length_bytes_of_word)
  show ?thesis
    by (simp add: sha256_def Let_def cat fold initial_hash_def)
qed

lemma length_iterated_hash: "length (iterated_hash n code) = 64"
proof -
  have "length ((sha256 ^^ k) (sha256 m)) = 32" for k m
    by (induction k) (simp_all add: length_sha256)
  then show ?thesis by (simp add: iterated_hash_def length_hex_encode)
qed

end
