(* ===== verification/USSD.thy ===== *)
theory USSD
  imports Handlers SHA256
begin

text \<open>
  USSD codes: \<open>services/ussd_service.go\<close> and its configuration \<open>config/ussd.go\<close>.

  A code is stored by its iterated SHA-256 hash (columns \<open>transaction_id\<close> and \<open>code_hash\<close> are
  unique), is bound to a user, an amount and a kind (PUSH or PULL), expires, and is spent by
  one transaction that reads the row for update and marks it used.

  \<^item> The random digits of a code and the bytes of a transaction id are arguments.
  \<^item> \<open>ussd_single\<close> interprets the one-time-code contract of theory \<open>Tx\<close>.
\<close>

section \<open>Configuration\<close>

record ussd_config =
  CodeLength :: int
  CodeTimeout :: int
  MaxGenerationPerUser :: int
  RateLimitWindow :: int
  PushCodePrefix :: string
  PullCodePrefix :: string
  HashIterations :: int
  DialPrefix :: string
  DialSuffix :: string

text \<open>An environment is a map; an unset variable and an empty one are the same to the code.\<close>

type_synonym env = "string \<Rightarrow> string"

definition getEnv :: "env \<Rightarrow> string \<Rightarrow> string \<Rightarrow> string" where
  "getEnv env key defaultVal = (if env key \<noteq> [] then env key else defaultVal)"

definition getEnvAsInt :: "env \<Rightarrow> string \<Rightarrow> int \<Rightarrow> int" where
  "getEnvAsInt env key defaultVal =
     (if env key \<noteq> [] then (case parse_int (env key) of Some v \<Rightarrow> v | None \<Rightarrow> defaultVal)
      else defaultVal)"

text \<open>\<open>time.ParseDuration\<close> is a parameter: the text's duration in nanoseconds, if it parses.\<close>

definition getEnvAsDuration :: "(string \<Rightarrow> int option) \<Rightarrow> env \<Rightarrow> string \<Rightarrow> int \<Rightarrow> int" where
  "getEnvAsDuration parseDuration env key defaultVal =
     (if env key \<noteq> [] then (case parseDuration (env key) of Some v \<Rightarrow> v | None \<Rightarrow> defaultVal)
      else defaultVal)"

definition minute :: int where "minute = 60 * second"

definition hour :: int where "hour = 60 * minute"

definition LoadUSSDConfig :: "(string \<Rightarrow> int option) \<Rightarrow> env \<Rightarrow> ussd_config" where
  "LoadUSSDConfig pd env =
     \<lparr>CodeLength = getEnvAsInt env ''USSD_CODE_LENGTH'' 8,
      CodeTimeout = getEnvAsDuration pd env ''USSD_CODE_TIMEOUT'' (5 * minute),
      MaxGenerationPerUser = getEnvAsInt env ''USSD_MAX_GEN_PER_USER'' 5,
      RateLimitWindow = getEnvAsDuration pd env ''USSD_RATE_LIMIT_WINDOW'' (1 * hour),
      PushCodePrefix = getEnv env ''USSD_PUSH_PREFIX'' ''PUSH'',
      PullCodePrefix = getEnv env ''USSD_PULL_PREFIX'' ''PULL'',
      HashIterations = getEnvAsInt env ''USSD_HASH_ITERATIONS'' 10000,
      DialPrefix = getEnv env ''USSD_DIAL_PREFIX'' ''*565*1*'',
      DialSuffix = getEnv env ''USSD_DIAL_SUFFIX'' ''#''\<rparr>"

section \<open>Codes\<close>

record ussd_code =
  us_Code :: string
  us_TransactionID :: string
  us_Type :: string
  us_UserID :: string
  us_Amount :: int
  us_ExpiresAt :: int
  us_Expired :: bool
  us_Used :: bool
  us_Currency :: string

definition PushPayment :: string where "PushPayment = ''PUSH''"

definition PullPayment :: string where "PullPayment = ''PULL''"

definition generateSecureCode :: "ussd_config \<Rightarrow> (nat \<Rightarrow> nat) \<Rightarrow> string" where
  "generateSecureCode cfg rnd =
     map (\<lambda>i. ''0123456789'' ! (rnd i mod length ''0123456789'')) [0..<nat (CodeLength cfg)]"

definition hashCode :: "ussd_config \<Rightarrow> string \<Rightarrow> string" where
  "hashCode cfg code = iterated_hash (HashIterations cfg) code"

definition GetCodeTimeout :: "ussd_config \<Rightarrow> int" where
  "GetCodeTimeout cfg = CodeTimeout cfg"

definition FormatDialCode :: "ussd_config \<Rightarrow> string \<Rightarrow> string" where
  "FormatDialCode cfg code = DialPrefix cfg @ code @ DialSuffix cfg"

section \<open>Generation\<close>

definition rate_key :: "string \<Rightarrow> string" where
  "rate_key userID = ''ussd:ratelimit:'' @ userID"

definition checkRateLimit :: "ussd_config \<Rightarrow> string \<Rightarrow> unit go" where
  "checkRateLimit cfg userID =
     bind (attempt (redis_get (rate_key userID))) (\<lambda>r.
       let count = (case r of Inr (RInt n) \<Rightarrow> n | _ \<Rightarrow> 0)
       in case r of
            Inl e \<Rightarrow> if e \<noteq> RedisNil then fail e
                     else if MaxGenerationPerUser cfg \<le> count then fail (Msg ''rate limit exceeded'')
                     else ret ()
          | Inr _ \<Rightarrow> if MaxGenerationPerUser cfg \<le> count then fail (Msg ''rate limit exceeded'')
                     else ret ())"

text \<open>A pipeline of \<open>INCR\<close> and \<open>EXPIRE\<close>: one round trip, its error ignored.\<close>

definition redis_incr_expire :: "string \<Rightarrow> int \<Rightarrow> int go" where
  "redis_incr_expire k ttl w =
     (if next_fault w then (Failed RedisErr, used_fault w)
      else let n = (case redis_live k w of Some (RInt n) \<Rightarrow> n + 1 | _ \<Rightarrow> 1)
           in (Done n, redis_put k (RInt n) ttl (used_fault w)))"

definition incrementRateLimit :: "ussd_config \<Rightarrow> string \<Rightarrow> unit go" where
  "incrementRateLimit cfg userID =
     ignoring (redis_incr_expire (rate_key userID) (RateLimitWindow cfg))"

text \<open>\<open>INSERT INTO ussd_codes\<close> with its unique columns and checks.\<close>

definition sql_insert_ussd :: "ussd_row \<Rightarrow> unit stmt" where
  "sql_insert_ussd r d =
     (if uc_txid r \<in> uc_txid ` set (ussd_codes d) \<or> uc_hash r \<in> uc_hash ` set (ussd_codes d)
         \<or> uc_amount r \<le> 0 \<or> uc_type r \<notin> {''PUSH'', ''PULL''}
      then None else Some ((), d\<lparr>ussd_codes := ussd_codes d @ [r]\<rparr>))"

definition generateCode ::
  "ussd_config \<Rightarrow> (nat \<Rightarrow> nat) \<Rightarrow> string \<Rightarrow> string \<Rightarrow> int \<Rightarrow> string \<Rightarrow> string go" where
  "generateCode cfg rnd transactionId userID amount codeType =
     bind (checkRateLimit cfg userID) (\<lambda>_.
     let code = generateSecureCode cfg rnd; hashedCode = hashCode cfg code
     in bind (gets now) (\<lambda>t.
        catching (db_run (sql_insert_ussd \<lparr>uc_txid = transactionId, uc_hash = hashedCode,
            uc_type = codeType, uc_user = userID, uc_amount = amount,
            uc_expires = t + CodeTimeout cfg, uc_used = False, uc_used_at = None\<rparr>))
          (\<lambda>err. fail (Wrap ''failed to store code: '' err))
          (\<lambda>_. bind (incrementRateLimit cfg userID) (\<lambda>_. ret code))))"

definition GeneratePushCode where
  "GeneratePushCode cfg rnd transactionId userID amount =
     generateCode cfg rnd transactionId userID amount PushPayment"

definition GeneratePullCode where
  "GeneratePullCode cfg rnd transactionId userID amount =
     generateCode cfg rnd transactionId userID amount PullPayment"

section \<open>Consumption\<close>

definition find_code :: "string \<Rightarrow> string \<Rightarrow> db \<Rightarrow> ussd_row option" where
  "find_code h ty d = find (\<lambda>r. uc_hash r = h \<and> uc_type r = ty) (ussd_codes d)"

text \<open>\<open>UPDATE ussd_codes SET used = true, used_at = t WHERE code_hash = h\<close>.\<close>

definition sql_mark_used :: "int \<Rightarrow> string \<Rightarrow> unit stmt" where
  "sql_mark_used t h d = Some ((), d\<lparr>ussd_codes := map (\<lambda>r. if uc_hash r = h
     then r\<lparr>uc_used := True, uc_used_at := Some t\<rparr> else r) (ussd_codes d)\<rparr>)"

definition consume_body :: "int \<Rightarrow> string \<Rightarrow> string \<Rightarrow> string \<Rightarrow> ussd_code go" where
  "consume_body t code h ty =
     bind (tx_run (\<lambda>d. Some (find_code h ty d, d))) (\<lambda>row. case row of
       None \<Rightarrow> fail (Msg ''invalid code'')
     | Some r \<Rightarrow>
         if uc_used r then fail (Msg ''code already used'')
         else if uc_expires r < t then fail (Msg ''code expired'')
         else bind (tx_run (sql_mark_used t h)) (\<lambda>_.
              ret \<lparr>us_Code = code, us_TransactionID = uc_txid r, us_Type = uc_type r,
                us_UserID = uc_user r, us_Amount = uc_amount r, us_ExpiresAt = uc_expires r,
                us_Expired = False, us_Used = False, us_Currency = []\<rparr>))"

definition ValidateAndConsume :: "ussd_config \<Rightarrow> string \<Rightarrow> string \<Rightarrow> ussd_code go" where
  "ValidateAndConsume cfg code expectedType =
     bind (gets now) (\<lambda>t. with_tx (consume_body t code (hashCode cfg code) expectedType))"

section \<open>Maintenance and listing\<close>

definition sql_delete_expired :: "int \<Rightarrow> unit stmt" where
  "sql_delete_expired t d = Some ((), d\<lparr>ussd_codes := filter (\<lambda>r. \<not> (uc_expires r < t \<or>
     (uc_used r \<and> (case uc_used_at r of None \<Rightarrow> False | Some u \<Rightarrow> u < t - 24 * hour))))
     (ussd_codes d)\<rparr>)"

definition CleanupExpiredCodes :: "unit go" where
  "CleanupExpiredCodes = bind (gets now) (\<lambda>t. db_run (sql_delete_expired t))"

definition GetUserCodes :: "string \<Rightarrow> ussd_code list go" where
  "GetUserCodes userID =
     bind (gets now) (\<lambda>t.
     bind (db_run (\<lambda>d. Some (sort_key (\<lambda>r. - uc_expires r)
                         (filter (\<lambda>r. uc_user r = userID) (ussd_codes d)), d))) (\<lambda>rows.
     ret (map (\<lambda>r. \<lparr>us_Code = ''***'', us_TransactionID = uc_txid r, us_Type = uc_type r,
       us_UserID = uc_user r, us_Amount = uc_amount r, us_ExpiresAt = uc_expires r,
       us_Expired = (uc_expires r < t \<or> uc_used r), us_Used = uc_used r,
       us_Currency = ''NGN''\<rparr>) rows)))"

section \<open>One use per code\<close>

text \<open>No row of this hash is still fresh.\<close>

definition db_spent :: "string \<Rightarrow> db \<Rightarrow> bool" where
  "db_spent h d \<longleftrightarrow> (\<forall>r \<in> set (ussd_codes d). uc_hash r = h \<longrightarrow> uc_used r)"

definition code_spent :: "string \<Rightarrow> world \<Rightarrow> bool" where
  "code_spent h w \<longleftrightarrow> db_spent h (committed w)"

lemma sql_mark_used_codes:
  "sql_mark_used t h d = Some (u, d') \<Longrightarrow> ussd_codes d' = map (\<lambda>r. if uc_hash r = h
     then r\<lparr>uc_used := True, uc_used_at := Some t\<rparr> else r) (ussd_codes d)"
  unfolding sql_mark_used_def by (drule sym) simp

lemma db_spent_mark: "sql_mark_used t h d = Some (u, d') \<Longrightarrow> db_spent h d'"
  by (drule sql_mark_used_codes) (simp add: db_spent_def ball_Un)

lemma db_spent_mark_other:
  "sql_mark_used t h' d = Some (u, d') \<Longrightarrow> db_spent h d \<Longrightarrow> db_spent h d'"
  by (drule sql_mark_used_codes) (simp add: db_spent_def ball_Un)

definition consume_stmt :: "int \<Rightarrow> string \<Rightarrow> string \<Rightarrow> string \<Rightarrow> ussd_code stmt" where
  "consume_stmt t code h ty d = (case find_code h ty d of
      None \<Rightarrow> None
    | Some r \<Rightarrow> if uc_used r \<or> uc_expires r < t then None
        else Some (\<lparr>us_Code = code, us_TransactionID = uc_txid r, us_Type = uc_type r,
                us_UserID = uc_user r, us_Amount = uc_amount r, us_ExpiresAt = uc_expires r,
                us_Expired = False, us_Used = False, us_Currency = []\<rparr>,
             snd (the (sql_mark_used t h d))))"

lemma implements_cong: "implements m f \<Longrightarrow> (\<And>d. f d = g d) \<Longrightarrow> implements m g"
  by (metis ext)

lemma implements_consume: "implements (consume_body t code h ty) (consume_stmt t code h ty)"
proof (rule implements_cong)
  show "implements (consume_body t code h ty)
     (stmt_bind (\<lambda>d. Some (find_code h ty d, d)) (\<lambda>row. case row of
       None \<Rightarrow> stmt_fail
     | Some r \<Rightarrow> if uc_used r then stmt_fail else if uc_expires r < t then stmt_fail
         else stmt_bind (sql_mark_used t h) (\<lambda>_.
              stmt_ret \<lparr>us_Code = code, us_TransactionID = uc_txid r, us_Type = uc_type r,
                us_UserID = uc_user r, us_Amount = uc_amount r, us_ExpiresAt = uc_expires r,
                us_Expired = False, us_Used = False, us_Currency = []\<rparr>)))"
    unfolding consume_body_def by (intro implements_intros)
qed (simp add: stmt_bind_def stmt_fail_def stmt_ret_def consume_stmt_def sql_mark_used_def
      split: option.split)

lemmas consume_Done = with_tx_Done [OF implements_consume]
lemmas consume_not_Done = with_tx_not_Done [OF implements_consume]

lemma ValidateAndConsume_unfold:
  "ValidateAndConsume cfg code ty w = with_tx (consume_body (now w) code (hashCode cfg code) ty) w"
  by (simp add: ValidateAndConsume_def bind_def gets_def)

lemma consume_stmt_SomeE:
  assumes "consume_stmt t code h ty d = Some (x, d')"
  obtains r where "find_code h ty d = Some r" and "\<not> uc_used r" and "\<not> uc_expires r < t"
    and "sql_mark_used t h d = Some ((), d')"
  using assms by (auto simp: consume_stmt_def sql_mark_used_def split: option.splits if_splits)

lemma find_code_mem: "find_code h ty d = Some r \<Longrightarrow> r \<in> set (ussd_codes d) \<and> uc_hash r = h \<and> uc_type r = ty"
  by (auto simp: find_code_def dest: find_SomeD)

lemma ValidateAndConsume_spent_stays:
  assumes "code_spent h w"
  shows "code_spent h (snd (ValidateAndConsume cfg code ty w))"
  unfolding ValidateAndConsume_unfold
proof (cases "with_tx (consume_body (now w) code (hashCode cfg code) ty) w")
  case (Pair r w')
  show "code_spent h (snd (with_tx (consume_body (now w) code (hashCode cfg code) ty) w))"
  proof (cases "\<exists>x. r = Done x")
    case True
    then obtain x where "with_tx (consume_body (now w) code (hashCode cfg code) ty) w = (Done x, w')"
      using Pair by blast
    from consume_Done [OF this] obtain
      "consume_stmt (now w) code (hashCode cfg code) ty (committed w) = Some (x, committed w')" by blast
    then have "sql_mark_used (now w) (hashCode cfg code) (committed w) = Some ((), committed w')"
      by (rule consume_stmt_SomeE)
    with assms Pair show ?thesis by (auto simp: code_spent_def intro: db_spent_mark_other)
  next
    case False
    with consume_not_Done [OF Pair] assms Pair show ?thesis
      by (auto simp: code_spent_def same_outside_def)
  qed
qed

interpretation ussd_single: single_use
  "\<lambda>(code, ty). ValidateAndConsume cfg code ty" "\<lambda>(code, ty). hashCode cfg code" code_spent for cfg
proof
  fix c :: "string \<times> string" and w x w'
  obtain code ty where c: "c = (code, ty)" by (cases c)
  assume "(case c of (code, ty) \<Rightarrow> ValidateAndConsume cfg code ty) w = (Done x, w')"
  then have "with_tx (consume_body (now w) code (hashCode cfg code) ty) w = (Done x, w')"
    by (simp add: c ValidateAndConsume_unfold)
  from consume_Done [OF this]
  have "consume_stmt (now w) code (hashCode cfg code) ty (committed w) = Some (x, committed w')" by blast
  then have "sql_mark_used (now w) (hashCode cfg code) (committed w) = Some ((), committed w')"
    by (rule consume_stmt_SomeE)
  then show "code_spent (case c of (code, ty) \<Rightarrow> hashCode cfg code) w'"
    by (auto simp: c code_spent_def intro: db_spent_mark)
next
  fix c :: "string \<times> string" and w x w'
  obtain code ty where c: "c = (code, ty)" by (cases c)
  assume s: "code_spent (case c of (code, ty) \<Rightarrow> hashCode cfg code) w"
  show "(case c of (code, ty) \<Rightarrow> ValidateAndConsume cfg code ty) w \<noteq> (Done x, w')"
  proof
    assume "(case c of (code, ty) \<Rightarrow> ValidateAndConsume cfg code ty) w = (Done x, w')"
    then have "with_tx (consume_body (now w) code (hashCode cfg code) ty) w = (Done x, w')"
      by (simp add: c ValidateAndConsume_unfold)
    from consume_Done [OF this]
    have "consume_stmt (now w) code (hashCode cfg code) ty (committed w) = Some (x, committed w')" by blast
    then obtain r where "find_code (hashCode cfg code) ty (committed w) = Some r" "\<not> uc_used r"
      by (rule consume_stmt_SomeE)
    with s show False by (auto simp: c code_spent_def db_spent_def dest: find_code_mem)
  qed
next
  fix k w and c :: "string \<times> string"
  assume "code_spent k w"
  then show "code_spent k (snd ((case c of (code, ty) \<Rightarrow> ValidateAndConsume cfg code ty) w))"
    by (cases c) (simp add: ValidateAndConsume_spent_stays)
qed

end
