(* ===== verification/Providers.thy ===== *)
theory Providers
  imports Provider_Base USSD
begin

text \<open>
  The providers that pay out of a local account: \<open>ussd_provider.go\<close>, \<open>qr_provider.go\<close>,
  \<open>voice_provider.go\<close>, \<open>airtime_provider.go\<close> and \<open>data_provider.go\<close> under
  \<open>src/internal/providers\<close>.

  \<open>ValidatePayment\<close> of each is a program that fails with the error it returns;
  \<open>ProcessPayment\<close> returns a response and an error.  \<open>ussdProvider\<close>, \<open>qrProvider\<close> and
  \<open>voiceProvider\<close> are the records handed to \<open>HandlePaymentRequest\<close>.
\<close>

section \<open>USSD\<close>

text \<open>The provider hashes with a fixed number of iterations, whatever the service's setting.\<close>

definition ussd_hashCode :: "string \<Rightarrow> string" where
  "ussd_hashCode code = iterated_hash 10000 code"

definition ussd_validate_body :: "int \<Rightarrow> string \<Rightarrow> string \<Rightarrow> payment_request \<Rightarrow> unit go" where
  "ussd_validate_body t hashedCode codeType req =
     bind (tx_run (\<lambda>d. Some (find_code hashedCode codeType d, d))) (\<lambda>row. case row of
       None \<Rightarrow> fail (Msg ''invalid code'')
     | Some r \<Rightarrow>
         if uc_used r then fail (Msg ''code already used'')
         else if uc_expires r < t then fail (Msg ''code expired'')
         else if uc_user r \<noteq> pr_UserID req then fail (Msg ''USSD code does not belong to user'')
         else if uc_amount r \<noteq> pr_Amount req then fail (Msg ''amount mismatch'')
         else tx_run (sql_mark_used t hashedCode))"

definition ussd_ValidatePayment :: "payment_request \<Rightarrow> unit go" where
  "ussd_ValidatePayment req =
     (if meta_get (pr_Metadata req) ''ussdCode'' = JNull
      then fail (Msg ''USSD code is required'')
      else case as_string (meta_get (pr_Metadata req) ''ussdCode'') of
        None \<Rightarrow> fail (Msg ''invalid USSD code format'')
      | Some ussdCode \<Rightarrow>
          let codeType = (case as_string (meta_get (pr_Metadata req) ''codeType'') of
                None \<Rightarrow> ''PUSH'' | Some ct \<Rightarrow> ct);
              hashedCode = ussd_hashCode ussdCode
          in bind (gets now) (\<lambda>t.
             bind (with_tx (ussd_validate_body t hashedCode codeType req)) (\<lambda>_.
             if pr_Amount req \<le> 0 then fail (Msg ''amount must be positive'')
             else checkPayer (pr_FromAccount req) (pr_Amount req))))"

definition ussd_ProcessPayment :: "payment_request \<Rightarrow> provider_result go" where
  "ussd_ProcessPayment req =
     bind (gets now) (\<lambda>t.
     catching (ussd_ValidatePayment req)
       (\<lambda>err. ret (req, Some (failure_response ''USSD'' (err_text err) t req), Some err))
       (\<lambda>_. moveFunds ''USSD'' ''Transfer Failed'' ''USSD Payment Successful'' (ret ()) req t))"

definition ussdProvider :: payment_provider where
  "ussdProvider = \<lparr>GetPaymentMode = ''USSD'', ProcessPayment = ussd_ProcessPayment\<rparr>"

section \<open>QR\<close>

definition qr_key :: "string \<Rightarrow> string" where
  "qr_key token = ''qr:'' @ token"

definition qr_ValidatePayment :: "payment_request \<Rightarrow> unit go" where
  "qr_ValidatePayment req =
     (if meta_get (pr_Metadata req) ''qrCode'' = JNull
      then fail (Msg ''QR Code Required'')
      else case as_string (meta_get (pr_Metadata req) ''qrCode'') of
        None \<Rightarrow> fail (Msg ''Invalid QR Code Format'')
      | Some qrCode \<Rightarrow>
          catching (redis_get (qr_key qrCode))
            (\<lambda>err. if err = RedisNil then fail (Msg ''invalid or expired QR code'') else fail err)
            (\<lambda>v. case v of
               RQr q \<Rightarrow>
                 if qr_user q \<noteq> pr_UserID req then fail (Msg ''QR code does not belong to user'')
                 else if pr_Amount req \<le> 0 then fail (Msg ''amount must be positive'')
                 else checkPayer (pr_FromAccount req) (pr_Amount req)
             | _ \<Rightarrow> fail (ExtErr ''json: cannot unmarshal'')))"

definition qr_ProcessPayment :: "payment_request \<Rightarrow> provider_result go" where
  "qr_ProcessPayment req =
     bind (gets now) (\<lambda>t.
     catching (qr_ValidatePayment req)
       (\<lambda>err. ret (req, Some (failure_response ''QR'' (Response ValidationError) t req), Some err))
       (\<lambda>_. moveFunds ''QR'' ''Transfer failed'' ''QR payment successful''
          (ignoring (redis_del (qr_key (case as_string (meta_get (pr_Metadata req) ''qrCode'') of
             None \<Rightarrow> [] | Some q \<Rightarrow> q)))) req t))"

definition qrProvider :: payment_provider where
  "qrProvider = \<lparr>GetPaymentMode = ''QR'', ProcessPayment = qr_ProcessPayment\<rparr>"

section \<open>Voice\<close>

definition isValidPaymentCommand :: "string \<Rightarrow> bool" where
  "isValidPaymentCommand command = (let c = ToLower (TrimSpace command)
     in list_ex (\<lambda>valid. is_substring valid c) [''pay'', ''send'', ''transfer'', ''payment''])"

definition voice_ValidatePayment :: "payment_request \<Rightarrow> unit go" where
  "voice_ValidatePayment req =
     (if meta_get (pr_Metadata req) ''voiceCommand'' = JNull
      then fail (Msg ''voice command is required'')
      else case as_string (meta_get (pr_Metadata req) ''voiceCommand'') of
        None \<Rightarrow> fail (Msg ''invalid voice command format'')
      | Some voiceCommand \<Rightarrow>
          if \<not> isValidPaymentCommand voiceCommand then fail (Msg ''invalid payment command'')
          else if pr_Amount req \<le> 0 then fail (Msg ''amount must be positive'')
          else checkPayer (pr_FromAccount req) (pr_Amount req))"

definition voice_ProcessPayment :: "payment_request \<Rightarrow> provider_result go" where
  "voice_ProcessPayment req =
     bind (gets now) (\<lambda>t.
     catching (voice_ValidatePayment req)
       (\<lambda>err. ret (req, Some (failure_response ''VOICE'' (err_text err) t req), Some err))
       (\<lambda>_. moveFunds ''VOICE'' ''Transfer failed'' ''Voice payment successful'' (ret ()) req t))"

definition voiceProvider :: payment_provider where
  "voiceProvider = \<lparr>GetPaymentMode = ''VOICE'', ProcessPayment = voice_ProcessPayment\<rparr>"

section \<open>Airtime and data\<close>

definition validateRequest :: "airtime_data_request \<Rightarrow> go_err option" where
  "validateRequest req =
     (if ad_DebitAccount req = [] then Some (Msg ''fromAccount is required'')
      else if ad_PhoneNumber req = [] then Some (Msg ''phoneNumber is required'')
      else if ad_Network req = [] then Some (Msg ''network is required'')
      else if ad_Service req \<noteq> ''AIRTIME'' \<and> ad_Service req \<noteq> ''DATA''
        then Some (Msg ''serviceType must be AIRTIME or DATA'')
      else if ad_Service req = ''DATA'' \<and> ad_DataPlan req = []
        then Some (Msg ''dataPlan is required for DATA serviceType'')
      else if ad_Amount req \<le> 0 then Some (Msg ''amount must be positive'')
      else None)"

datatype airtime_body = AirtimeDecodeFailed | AirtimeMultiple | AirtimeBody airtime_data_request

text \<open>The texts in which the two handlers differ.\<close>

record topup_texts =
  tx_decode :: string
  tx_inactive :: string
  tx_success :: string
  tx_mode :: string

definition airtime_texts :: topup_texts where
  "airtime_texts = \<lparr>tx_decode = ''Unable To Process This Request At This Time'',
     tx_inactive = ''Account not active'', tx_success = ''Airtime Purchase Successful'',
     tx_mode = ''AIRTIME''\<rparr>"

definition data_texts :: topup_texts where
  "data_texts = \<lparr>tx_decode = Response ProcessingFailed, tx_inactive = ''Account Not Active'',
     tx_success = ''Airtime/Data Purchase Successful'', tx_mode = ''AIRTIME''\<rparr>"

definition topup_row :: "int \<Rightarrow> airtime_data_request \<Rightarrow> txn_row" where
  "topup_row userID req = \<lparr>txn_id = ad_TransactionID req, txn_debit = ad_DebitAccount req,
     txn_credit = None, txn_amount = ad_Amount req,
     txn_total = wrap64 (vo_VoucherDiscountAmount (ad_Voucher req) + ad_Amount req),
     txn_mode = ''AIRTIME_DATA'', txn_status = ''COMPLETED'', txn_user = show_int userID\<rparr>"

definition topup_transaction ::
  "topup_texts \<Rightarrow> int \<Rightarrow> airtime_data_request \<Rightarrow> http_response go" where
  "topup_transaction texts userID req =
     deferring
      (catching tx_begin (\<lambda>_. ret (SendErrorResponse (Response ProcessingFailed) 500)) (\<lambda>_.
       catching (tx_run (sql_add_balance (- ad_Amount req) (ad_DebitAccount req)))
         (\<lambda>_. ret (SendErrorResponse (Response ProcessingFailed) 424)) (\<lambda>_.
       catching (tx_run (sql_insert_transaction (topup_row userID req)))
         (\<lambda>_. ret (SendErrorResponse (Response ProcessingFailed) 500)) (\<lambda>_.
       catching tx_commit (\<lambda>_. ret (SendErrorResponse (Response ProcessingFailed) 500)) (\<lambda>_.
       bind (setIdempotency (ad_TransactionID req) ''COMPLETED'') (\<lambda>_.
       ret (SendSuccessResponse (tx_success texts)
         (JObj [(''transactionId'', JStr (ad_TransactionID req)), (''status'', JStr ''COMPLETED''),
                (''paymentMode'', JStr (tx_mode texts))]) 200))))))) tx_rollback"

definition topup_HandlePayment :: "topup_texts \<Rightarrow> int \<Rightarrow> airtime_body \<Rightarrow> http_response go" where
  "topup_HandlePayment texts userID body = (case body of
       AirtimeDecodeFailed \<Rightarrow> ret (SendErrorResponse (tx_decode texts) 400)
     | AirtimeMultiple \<Rightarrow> ret (SendErrorResponse (Response SingleObjectError) 400)
     | AirtimeBody req \<Rightarrow>
         if validateRequest req \<noteq> None
         then ret (SendErrorResponse (Response ProcessingFailed) 400)
         else catching (verifyAccountAndKYC (ad_DebitAccount req) userID)
           (\<lambda>_. ret (SendErrorResponse ''Unauthorized: Account Does Not Belong To User'' 422))
           (\<lambda>_. catching (bind (db_run (\<lambda>d. Some (find_account (ad_DebitAccount req) d, d))) scan_one)
             (\<lambda>err. if err = NoRows then ret (SendErrorResponse ''Account not found'' 400)
                    else ret (SendErrorResponse (Response ProcessingFailed) 424))
             (\<lambda>r. if acct_status r \<noteq> ''ACTIVE'' then ret (SendErrorResponse (tx_inactive texts) 400)
                  else if acct_balance r < ad_Amount req
                    then ret (SendErrorResponse ''Insufficient balance'' 400)
                  else topup_transaction texts userID req)))"

definition airtime_HandlePayment :: "int \<Rightarrow> airtime_body \<Rightarrow> http_response go" where
  "airtime_HandlePayment = topup_HandlePayment airtime_texts"

definition data_HandlePayment :: "int \<Rightarrow> airtime_body \<Rightarrow> http_response go" where
  "data_HandlePayment = topup_HandlePayment data_texts"

text \<open>Their \<open>ProcessPayment\<close> refuses: the handler is called directly.\<close>

definition topup_ProcessPayment :: "payment_request \<Rightarrow> provider_result go" where
  "topup_ProcessPayment req =
     ret (req, None, Some (Msg ''use HandlePayment directly for airtime/data requests''))"

end
