(* ===== verification/Provider_Spec.thy ===== *)
theory Provider_Spec
  imports Providers
begin

text \<open>
  What the USSD, QR and voice providers promise, as the locale \<open>money_mover\<close>: a payment
  reported as made has moved exactly its amount, out of an active account that could afford it,
  under a transaction id that was new; a payment not reported as made has moved nothing.

  The locale's lemmas give the effect on balances, conservation, solvency, and, by
  \<open>sublocale\<close>, the contracts of theory \<open>Tx\<close>: invariants over any sequence of requests and one
  success per transaction id.  It is interpreted on the three providers.
\<close>

definition same_money :: "db \<Rightarrow> db \<Rightarrow> bool" where
  "same_money d d' \<longleftrightarrow> accounts d' = accounts d \<and> transactions d' = transactions d \<and>
     ledger_entries d' = ledger_entries d"

lemma same_money_refl [simp]: "same_money d d"
  by (simp add: same_money_def)

lemma same_money_trans: "same_money d e \<Longrightarrow> same_money e f \<Longrightarrow> same_money d f"
  by (simp add: same_money_def)

lemma same_money_find: "same_money d d' \<Longrightarrow> find_account a d' = find_account a d"
  by (simp add: same_money_def find_account_def)

lemma same_money_ok: "same_money d d' \<Longrightarrow> accounts_ok d' = accounts_ok d"
  by (simp add: same_money_def accounts_ok_def)

lemma same_money_total: "same_money d d' \<Longrightarrow> total_balance d' = total_balance d"
  by (simp add: same_money_def total_balance_def)

definition payer_ok :: "payment_request \<Rightarrow> db \<Rightarrow> bool" where
  "payer_ok req d \<longleftrightarrow> 0 < pr_Amount req \<and> (\<exists>r. find_account (pr_FromAccount req) d = Some r \<and>
     acct_status r = ''ACTIVE'' \<and> pr_Amount req \<le> acct_balance r)"

definition solvent :: "db \<Rightarrow> bool" where
  "solvent d \<longleftrightarrow> (\<forall>r \<in> set (accounts d). 0 \<le> acct_balance r)"

definition money_inv :: "db \<Rightarrow> bool" where
  "money_inv d \<longleftrightarrow> accounts_ok d \<and> transactions_ok d \<and> solvent d"

definition recorded :: "string \<Rightarrow> world \<Rightarrow> bool" where
  "recorded t w \<longleftrightarrow> t \<in> txn_id ` set (transactions (committed w))"

locale money_mover =
  fixes process :: "payment_request \<Rightarrow> provider_result go" and mode :: string
  assumes always_answers: "\<exists>r w'. process req w = (Done r, w')"
    and paid_moves: "process req w = (Done r, w') \<Longrightarrow> paid r \<Longrightarrow>
      \<exists>d. same_money (committed w) d \<and> payer_ok req d \<and> move_stmt mode req d = Some ((), committed w')"
    and unpaid_keeps: "process req w = (Done r, w') \<Longrightarrow> \<not> paid r \<Longrightarrow>
      same_money (committed w) (committed w')"
begin

lemma paid_effect:
  assumes "process req w = (Done r, w')" and "paid r" and "accounts_ok (committed w)"
  shows "payer_ok req (committed w) \<and> accounts_ok (committed w') \<and>
    pr_TransactionID req \<notin> txn_id ` set (transactions (committed w)) \<and>
    transactions (committed w') = transactions (committed w) @ [completed_row mode req] \<and>
    ledger_entries (committed w') = ledger_entries (committed w) \<and>
    (\<forall>a. find_account a (committed w') = map_option (\<lambda>r. r\<lparr>acct_balance := acct_balance r
       + (if a = pr_FromAccount req then - pr_Amount req else 0)
       + (if a = pr_BeneficiaryAccountNumber req then pr_Amount req else 0)\<rparr>)
       (find_account a (committed w))) \<and>
    total_balance (committed w') = total_balance (committed w) - pr_Amount req
      + (if find_account (pr_BeneficiaryAccountNumber req) (committed w) = None then 0
         else pr_Amount req)"
proof -
  obtain d where sm: "same_money (committed w) d" and p: "payer_ok req d"
    and m: "move_stmt mode req d = Some ((), committed w')"
    using paid_moves [OF assms(1,2)] by blast
  have "accounts_ok d" using sm assms(3) by (simp add: same_money_ok)
  from move_stmt_spec [OF m this] have sp: "accounts_ok (committed w')"
    "pr_TransactionID req \<notin> txn_id ` set (transactions d)"
    "transactions (committed w') = transactions d @ [completed_row mode req]"
    "ledger_entries (committed w') = ledger_entries d"
    "\<And>a. find_account a (committed w') = map_option (\<lambda>r. r\<lparr>acct_balance := acct_balance r
       + (if a = pr_FromAccount req then - pr_Amount req else 0)
       + (if a = pr_BeneficiaryAccountNumber req then pr_Amount req else 0)\<rparr>) (find_account a d)"
    "total_balance (committed w') = total_balance d
      - (if find_account (pr_FromAccount req) d = None then 0 else pr_Amount req)
      + (if find_account (pr_BeneficiaryAccountNumber req) d = None then 0 else pr_Amount req)"
    by blast+
  have pw: "payer_ok req (committed w)" using p by (simp add: payer_ok_def same_money_find [OF sm])
  have fr: "find_account (pr_FromAccount req) d \<noteq> None" using p by (auto simp: payer_ok_def)
  have fr_eq: "transactions d = transactions (committed w)" "ledger_entries d = ledger_entries (committed w)"
    using sm by (simp_all add: same_money_def)
  show ?thesis
    using sp fr pw unfolding same_money_find [OF sm] same_money_total [OF sm] fr_eq by simp
qed

lemma paid_solvent:
  assumes "process req w = (Done r, w')" and "paid r" and "accounts_ok (committed w)"
    and "solvent (committed w)"
  shows "solvent (committed w')"
  unfolding solvent_def
proof
  fix r' assume r': "r' \<in> set (accounts (committed w'))"
  note e = paid_effect [OF assms(1-3)]
  let ?a = "acct_id r'"
  have "find_account ?a (committed w') = Some r'" using e r' find_account_unique by blast
  moreover have "find_account ?a (committed w') = map_option (\<lambda>r. r\<lparr>acct_balance := acct_balance r
       + (if ?a = pr_FromAccount req then - pr_Amount req else 0)
       + (if ?a = pr_BeneficiaryAccountNumber req then pr_Amount req else 0)\<rparr>)
       (find_account ?a (committed w))" using e by blast
  ultimately obtain r0 where f: "find_account ?a (committed w) = Some r0"
    and r0: "r' = r0\<lparr>acct_balance := acct_balance r0
       + (if ?a = pr_FromAccount req then - pr_Amount req else 0)
       + (if ?a = pr_BeneficiaryAccountNumber req then pr_Amount req else 0)\<rparr>"
    by (cases "find_account ?a (committed w)") auto
  from arg_cong [OF r0, of acct_balance] have b: "acct_balance r' = acct_balance r0
       + (if ?a = pr_FromAccount req then - pr_Amount req else 0)
       + (if ?a = pr_BeneficiaryAccountNumber req then pr_Amount req else 0)" by simp
  have "0 \<le> acct_balance r0" using f assms(4) find_account_mem by (auto simp: solvent_def)
  with b e f show "0 \<le> acct_balance r'" by (auto simp: payer_ok_def)
qed

lemma process_money_inv:
  assumes "money_inv (committed w)"
  shows "money_inv (committed (snd (process req w)))"
proof -
  obtain r w' where p: "process req w = (Done r, w')" using always_answers by blast
  show ?thesis
  proof (cases "paid r")
    case True
    have "accounts_ok (committed w)" using assms by (simp add: money_inv_def)
    with paid_effect [OF p True] paid_solvent [OF p True] assms p show ?thesis
      by (simp add: money_inv_def transactions_ok_def completed_row_def)
  next
    case False
    with unpaid_keeps [OF p] assms p show ?thesis
      by (auto simp: money_inv_def transactions_ok_def same_money_def accounts_ok_def solvent_def)
  qed
qed

text \<open>The payment as an operation that succeeds or fails.\<close>

definition pay :: "payment_request \<Rightarrow> unit go" where
  "pay req = bind (process req) (\<lambda>r. if paid r then ret () else fail (Msg ''not paid''))"

lemma move_fresh_id:
  assumes "move_stmt mode req d = Some (u, d')"
  shows "pr_TransactionID req \<notin> txn_id ` set (transactions d) \<and>
    transactions d' = transactions d @ [completed_row mode req]"
proof -
  obtain d1 d2 where "sql_add_balance (- pr_Amount req) (pr_FromAccount req) d = Some ((), d1)"
    and "sql_add_balance (pr_Amount req) (pr_BeneficiaryAccountNumber req) d1 = Some ((), d2)"
    and "sql_insert_transaction (completed_row mode req) d2 = Some ((), d')"
    using assms by (auto simp: move_stmt_def stmt_bind_def split: option.splits)
  with sql_add_balance_frame sql_insert_transaction_frame show ?thesis
    by (metis (no_types, lifting) completed_row_def txn_row.select_convs(1))
qed

lemma process_records:
  assumes "process req w = (Done r, w')"
  shows "if paid r then pr_TransactionID req \<notin> txn_id ` set (transactions (committed w)) \<and>
       transactions (committed w') = transactions (committed w) @ [completed_row mode req]
    else transactions (committed w') = transactions (committed w)"
proof (cases "paid r")
  case True
  from paid_moves [OF assms True] obtain d where "same_money (committed w) d"
    and "move_stmt mode req d = Some ((), committed w')" by blast
  with move_fresh_id [of req d "()" "committed w'"] True show ?thesis by (simp add: same_money_def)
next
  case False
  with unpaid_keeps [OF assms] show ?thesis by (simp add: same_money_def)
qed

lemma pay_records:
  assumes "pay req w = (r, w')"
  shows "(r = Done () \<and> \<not> recorded (pr_TransactionID req) w \<and>
      transactions (committed w') = transactions (committed w) @ [completed_row mode req]) \<or>
    ((\<exists>e. r = Failed e) \<and> transactions (committed w') = transactions (committed w))"
proof -
  obtain q v where p: "process req w = (Done q, v)" using always_answers by blast
  with process_records [OF p] assms show ?thesis
    by (auto simp: pay_def bind_def ret_def fail_def recorded_def split: if_splits)
qed

lemma pay_single_use: "single_use pay pr_TransactionID recorded"
proof
  fix c :: payment_request and w x w'
  assume "pay c w = (Done x, w')"
  from pay_records [OF this] show "recorded (pr_TransactionID c) w'"
    by (auto simp: recorded_def completed_row_def)
next
  fix c :: payment_request and w x w'
  assume "recorded (pr_TransactionID c) w"
  then show "pay c w \<noteq> (Done x, w')" by (auto dest: pay_records)
next
  fix k w and c :: payment_request
  assume "recorded k w"
  then show "recorded k (snd (pay c w))"
    using pay_records [of c w "fst (pay c w)" "snd (pay c w)"] by (auto simp: recorded_def)
qed

end

sublocale money_mover \<subseteq> requests: tx_request process money_inv
  by unfold_locales (rule process_money_inv)

sublocale money_mover \<subseteq> once: single_use pay pr_TransactionID recorded
  by (rule pay_single_use)

section \<open>The shape the providers share\<close>

text \<open>
  A validation that never panics, touches no money, and accepts only a payment its payer can
  afford; followed by \<open>moveFunds\<close>.
\<close>

definition validates :: "payment_request \<Rightarrow> unit go \<Rightarrow> bool" where
  "validates req v \<longleftrightarrow> (\<forall>w. case v w of
      (Done _, w') \<Rightarrow> same_money (committed w) (committed w') \<and> payer_ok req (committed w')
    | (Failed _, w') \<Rightarrow> same_money (committed w) (committed w')
    | (Panics _, _) \<Rightarrow> False)"

lemma validatesD:
  assumes "validates req v" and "v w = (r, w')"
  shows "same_money (committed w) (committed w')" "\<And>p. r \<noteq> Panics p"
    "r = Done u \<Longrightarrow> payer_ok req (committed w')"
  using assms(1) [unfolded validates_def, rule_format, of w] assms(2) by (auto split: outcome.splits)

lemma validates_fail: "validates req (fail e)"
  by (simp add: validates_def fail_def)

lemma validates_if: "(b \<Longrightarrow> validates req v) \<Longrightarrow> (\<not> b \<Longrightarrow> validates req u) \<Longrightarrow> validates req (if b then v else u)"
  by simp

lemma validates_case_option:
  "validates req v \<Longrightarrow> (\<And>x. validates req (u x)) \<Longrightarrow>
   validates req (case o' of None \<Rightarrow> v | Some x \<Rightarrow> u x)"
  by (simp split: option.split)

text \<open>A step before the validation proper that touches no money.\<close>

definition harmless :: "'a go \<Rightarrow> bool" where
  "harmless m \<longleftrightarrow> (\<forall>w r w'. m w = (r, w') \<longrightarrow> same_money (committed w) (committed w') \<and> (\<forall>p. r \<noteq> Panics p))"

lemma harmlessI:
  "(\<And>w r w'. m w = (r, w') \<Longrightarrow> same_money (committed w) (committed w')) \<Longrightarrow>
   (\<And>w p w'. m w = (Panics p, w') \<Longrightarrow> False) \<Longrightarrow> harmless m"
  by (auto simp: harmless_def)

lemma validates_bind:
  assumes "harmless m" and "\<And>x. validates req (v x)"
  shows "validates req (bind m v)"
  unfolding validates_def
proof
  fix w
  obtain r w1 where m: "m w = (r, w1)" by (cases "m w")
  with assms(1) have sm: "same_money (committed w) (committed w1)" and np: "\<And>p. r \<noteq> Panics p"
    by (auto simp: harmless_def)
  show "case bind m v w of
      (Done _, w') \<Rightarrow> same_money (committed w) (committed w') \<and> payer_ok req (committed w')
    | (Failed _, w') \<Rightarrow> same_money (committed w) (committed w')
    | (Panics _, _) \<Rightarrow> False"
  proof (cases r)
    case (Done x)
    obtain q w2 where v: "v x w1 = (q, w2)" by (cases "v x w1")
    with validatesD [OF assms(2) v] m Done sm show ?thesis
      by (cases q) (auto simp: bind_def intro: same_money_trans)
  qed (use m sm np in \<open>auto simp: bind_def\<close>)
qed

lemma harmless_gets: "harmless (gets f)"
  by (simp add: harmless_def gets_def)

lemma harmless_attempt: "harmless m \<Longrightarrow> harmless (attempt m)"
  unfolding harmless_def attempt_def by (fastforce split: prod.splits outcome.splits)

lemma harmless_redis_get: "harmless (redis_get k)"
  by (auto simp: harmless_def redis_get_def split: if_splits option.splits)

lemma validates_catching:
  "harmless m \<Longrightarrow> (\<And>e. validates req (h e)) \<Longrightarrow> (\<And>x. validates req (k x)) \<Longrightarrow>
   validates req (catching m h k)"
  unfolding catching_def by (intro validates_bind harmless_attempt) (auto split: sum.split)

lemma harmless_db_read:
  assumes "\<And>d x d'. st d = Some (x, d') \<Longrightarrow> same_money d d'"
  shows "harmless (db_run st)"
  using assms by (auto simp: harmless_def db_run_def split: if_splits option.splits prod.splits)

lemma harmless_with_tx:
  assumes "implements m f" and "\<And>d x d'. f d = Some (x, d') \<Longrightarrow> same_money d d'"
  shows "harmless (with_tx m)"
proof (rule harmlessI)
  fix w r w' assume r: "with_tx m w = (r, w')"
  show "same_money (committed w) (committed w')"
  proof (cases "\<exists>x. r = Done x")
    case True
    with r with_tx_Done [OF assms(1)] assms(2) show ?thesis by blast
  next
    case False
    with with_tx_not_Done [OF assms(1) r] show ?thesis by (auto simp: same_outside_def)
  qed
next
  fix w p w' assume "with_tx m w = (Panics p, w')"
  with with_tx_not_Done [OF assms(1) this] show False by simp
qed

lemma checkPayer_validates:
  assumes "0 < pr_Amount req"
  shows "validates req (checkPayer (pr_FromAccount req) (pr_Amount req))"
  unfolding validates_def
proof
  fix w :: world
  let ?r = "find_account (pr_FromAccount req) (committed w)"
  show "case checkPayer (pr_FromAccount req) (pr_Amount req) w of
      (Done _, w') \<Rightarrow> same_money (committed w) (committed w') \<and> payer_ok req (committed w')
    | (Failed _, w') \<Rightarrow> same_money (committed w) (committed w')
    | (Panics _, _) \<Rightarrow> False"
    using assms
    by (cases ?r)
       (auto simp: checkPayer_def catching_def bind_def attempt_def db_run_def scan_one_def ret_def
         fail_def payer_ok_def)
qed

lemma money_moverI:
  assumes v: "\<And>req. validates req (v req)" and a: "\<And>req. only_outside (after req)"
    and p: "\<And>req. process req = bind (gets now) (\<lambda>t. catching (v req)
        (\<lambda>err. ret (req, resp req err t, Some err)) (\<lambda>_. moveFunds mode ft ot (after req) req t))"
  shows "money_mover process mode"
proof -
  have shape: "(\<exists>e w1. v req w = (Failed e, w1) \<and>
        process req w = (Done (req, resp req e (now w), Some e), w1)) \<or>
      (\<exists>w1. v req w = (Done (), w1) \<and>
        process req w = moveFunds mode ft ot (after req) req (now w) w1)" for req w
  proof (cases "v req w")
    case (Pair r w1)
    with validatesD [OF v Pair] show ?thesis
      by (cases r) (auto simp: p bind_def gets_def catching_simps ret_def)
  qed
  have total: "\<exists>r w'. moveFunds mode ft ot (after req) req t w = (Done r, w')" for req t w
    by (cases "moveFunds mode ft ot (after req) req t w") (use moveFunds_Done [OF a] in blast)
  show ?thesis
  proof
    show "\<exists>r w'. process req w = (Done r, w')" for req w
      using shape [of req w] total by fastforce
  next
    fix req w r w' assume d: "process req w = (Done r, w')" and pd: "paid r"
    then obtain w1 where w1: "v req w = (Done (), w1)"
      and mv: "moveFunds mode ft ot (after req) req (now w) w1 = (Done r, w')"
      using shape [of req w] by (auto simp: paid_def)
    from moveFunds_Done [OF a mv] pd have "move_stmt mode req (committed w1) = Some ((), committed w')"
      by auto
    with validatesD [OF v w1]
    show "\<exists>d. same_money (committed w) d \<and> payer_ok req d \<and> move_stmt mode req d = Some ((), committed w')"
      by blast
  next
    fix req w r w' assume d: "process req w = (Done r, w')" and pd: "\<not> paid r"
    from shape [of req w] show "same_money (committed w) (committed w')"
    proof
      assume "\<exists>e w1. v req w = (Failed e, w1) \<and>
        process req w = (Done (req, resp req e (now w), Some e), w1)"
      with d validatesD(1) [OF v] show ?thesis by fastforce
    next
      assume "\<exists>w1. v req w = (Done (), w1) \<and>
        process req w = moveFunds mode ft ot (after req) req (now w) w1"
      then obtain w1 where w1: "v req w = (Done (), w1)"
        and mv: "moveFunds mode ft ot (after req) req (now w) w1 = (Done r, w')" using d by auto
      from moveFunds_Done [OF a mv] pd have "committed w' = committed w1" by auto
      with validatesD(1) [OF v w1] show ?thesis by simp
    qed
  qed
qed

section \<open>The three providers\<close>

definition ussd_validate_stmt :: "int \<Rightarrow> string \<Rightarrow> string \<Rightarrow> payment_request \<Rightarrow> unit stmt" where
  "ussd_validate_stmt t h codeType req =
     stmt_bind (\<lambda>d. Some (find_code h codeType d, d)) (\<lambda>row. case row of
       None \<Rightarrow> stmt_fail
     | Some r \<Rightarrow> if uc_used r then stmt_fail else if uc_expires r < t then stmt_fail
         else if uc_user r \<noteq> pr_UserID req then stmt_fail
         else if uc_amount r \<noteq> pr_Amount req then stmt_fail
         else sql_mark_used t h)"

lemma implements_ussd_validate:
  "implements (ussd_validate_body t h codeType req) (ussd_validate_stmt t h codeType req)"
  unfolding ussd_validate_body_def ussd_validate_stmt_def by (intro implements_intros)

lemma ussd_validate_stmt_SomeE:
  assumes "ussd_validate_stmt t h codeType req d = Some (u, d')"
  obtains r where "find_code h codeType d = Some r" and "\<not> uc_used r" and "\<not> uc_expires r < t"
    and "uc_user r = pr_UserID req" and "uc_amount r = pr_Amount req"
    and "sql_mark_used t h d = Some ((), d')"
  using assms
  by (auto simp: ussd_validate_stmt_def stmt_bind_def stmt_fail_def split: option.splits if_splits)

lemma sql_mark_used_money: "sql_mark_used t h d = Some (u, d') \<Longrightarrow> same_money d d'"
  unfolding sql_mark_used_def same_money_def by (drule sym) simp

lemma validates_positive:
  "validates req (if pr_Amount req \<le> 0 then fail e
     else checkPayer (pr_FromAccount req) (pr_Amount req))"
  by (intro validates_if validates_fail checkPayer_validates) simp

lemma ussd_validates: "validates req (ussd_ValidatePayment req)"
proof -
  have "same_money d d'" if "ussd_validate_stmt t h ct req d = Some (x, d')" for t h ct d x d'
    using that by (rule ussd_validate_stmt_SomeE) (rule sql_mark_used_money)
  then show ?thesis
    unfolding ussd_ValidatePayment_def Let_def
    by (intro validates_if validates_fail validates_case_option validates_bind validates_positive
        harmless_gets harmless_with_tx [OF implements_ussd_validate])
qed

lemma qr_validates: "validates req (qr_ValidatePayment req)"
  unfolding qr_ValidatePayment_def
  by (intro validates_if validates_fail validates_case_option validates_catching harmless_redis_get)
     (auto split: rvalue.split intro!: validates_fail validates_if checkPayer_validates)

lemma voice_validates: "validates req (voice_ValidatePayment req)"
  unfolding voice_ValidatePayment_def
  by (intro validates_if validates_fail validates_case_option validates_positive)

interpretation ussd: money_mover ussd_ProcessPayment "''USSD''"
  by (rule money_moverI [OF ussd_validates, where after = "\<lambda>_. ret ()"])
     (rule only_outside_ret, simp only: ussd_ProcessPayment_def)

interpretation qr: money_mover qr_ProcessPayment "''QR''"
  by (rule money_moverI [OF qr_validates])
     (rule only_outside_ignoring_redis, simp only: qr_ProcessPayment_def)

interpretation voice: money_mover voice_ProcessPayment "''VOICE''"
  by (rule money_moverI [OF voice_validates, where after = "\<lambda>_. ret ()"])
     (rule only_outside_ret, simp only: voice_ProcessPayment_def)

section \<open>All three together\<close>

text \<open>The router's choice among them (\<open>payment_handler.go\<close>).\<close>

datatype instant_mode = UssdMode | QrMode | VoiceMode

fun pay_by :: "instant_mode \<times> payment_request \<Rightarrow> unit go" where
  "pay_by (UssdMode, req) = ussd.pay req"
| "pay_by (QrMode, req) = qr.pay req"
| "pay_by (VoiceMode, req) = voice.pay req"

interpretation any_mode: single_use pay_by "pr_TransactionID \<circ> snd" recorded
proof
  fix c :: "instant_mode \<times> payment_request" and w x w'
  assume "pay_by c w = (Done x, w')"
  then show "recorded ((pr_TransactionID \<circ> snd) c) w'"
    using ussd.once.Done_spends qr.once.Done_spends voice.once.Done_spends
    by (cases c rule: pay_by.cases) auto
next
  fix c :: "instant_mode \<times> payment_request" and w x w'
  assume "recorded ((pr_TransactionID \<circ> snd) c) w"
  then show "pay_by c w \<noteq> (Done x, w')"
    using ussd.once.spent_refused qr.once.spent_refused voice.once.spent_refused
    by (cases c rule: pay_by.cases) auto
next
  fix k w and c :: "instant_mode \<times> payment_request"
  assume "recorded k w"
  then show "recorded k (snd (pay_by c w))"
    using ussd.once.spent_stays qr.once.spent_stays voice.once.spent_stays
    by (cases c rule: pay_by.cases) auto
qed

fun process_by :: "instant_mode \<times> payment_request \<Rightarrow> provider_result go" where
  "process_by (UssdMode, req) = ussd_ProcessPayment req"
| "process_by (QrMode, req) = qr_ProcessPayment req"
| "process_by (VoiceMode, req) = voice_ProcessPayment req"

interpretation any_request: tx_request process_by money_inv
proof
  fix w :: world and c :: "instant_mode \<times> payment_request"
  assume "money_inv (committed w)"
  then show "money_inv (committed (snd (process_by c w)))"
    using ussd.process_money_inv qr.process_money_inv voice.process_money_inv
    by (cases c rule: process_by.cases) auto
qed

end
