(* ===== verification/Provider_Props.thy ===== *)
theory Provider_Props
  imports Provider_Spec Ledger_Props
begin

text \<open>
  The properties of the USSD, QR, voice, airtime and data providers and of the request handler
  they share, with the payments on which the witnesses are evaluated.
\<close>

definition sample_request :: "string \<Rightarrow> int \<Rightarrow> metadata \<Rightarrow> payment_request" where
  "sample_request t x md = \<lparr>pr_TransactionID = t, pr_UserID = ''7'',
     pr_FromAccount = ''1000000001'', pr_BeneficiaryAccountNumber = ''1000000002'',
     pr_BeneficiaryAccountName = [], pr_BeneficiaryBankName = [], pr_BeneficiaryBankCode = [],
     pr_Amount = x, pr_Currency = ''NGN'', pr_Metadata = md, pr_Narration = [], pr_TxType = ''DEBIT'',
     pr_PaymentMode = ''VOICE'', pr_SaveBeneficiary = False, pr_OneTimeCode = [], pr_TwoFAType = [],
     pr_Location = Some \<lparr>loc_Latitude = ''6.5'', loc_Longitude = ''3.3'', loc_Accuracy = [],
       loc_Address = []\<rparr>, pr_IPAddress = []\<rparr>"

definition voice_request :: payment_request where
  "voice_request = sample_request ''P1'' 30 [''voiceCommand'' \<mapsto> JStr '' Please PAY him'']"

definition sample_voice :: "provider_result outcome \<times> world" where
  "sample_voice = voice_ProcessPayment voice_request sample_world"

lemma sample_voice_paid: "case fst sample_voice of Done r \<Rightarrow> paid r | _ \<Rightarrow> False"
  by code_simp

lemma sample_voice_done: obtains r where "sample_voice = (Done r, snd sample_voice)" and "paid r"
  using sample_voice_paid by (cases "fst sample_voice") (auto simp: prod_eq_iff)

definition instant_providers :: "((payment_request \<Rightarrow> provider_result go) \<times> string) list" where
  "instant_providers = [(ussd_ProcessPayment, ''USSD''), (qr_ProcessPayment, ''QR''),
     (voice_ProcessPayment, ''VOICE'')]"

lemma instant_provider_mover:
  "(process, mode) \<in> set instant_providers \<Longrightarrow> money_mover process mode"
  using ussd.money_mover_axioms qr.money_mover_axioms voice.money_mover_axioms
  by (auto simp: instant_providers_def)

lemma voice_in_providers: "(voice_ProcessPayment, ''VOICE'') \<in> set instant_providers"
  by (simp add: instant_providers_def)



text \<open>A payment that is not reported as made moves nothing: the accounts, the transactions
  and the ledger are as before, whatever statement failed.\<close>

theorem unpaid_moves_nothing:
  assumes "(process, mode) \<in> set instant_providers"
    and "process req w = (Done r, w')" and "\<not> paid r"
  shows "accounts (committed w') = accounts (committed w) \<and>
    transactions (committed w') = transactions (committed w) \<and>
    ledger_entries (committed w') = ledger_entries (committed w)"
  using money_mover.unpaid_keeps [OF instant_provider_mover [OF assms(1)] assms(2,3)]
  by (simp add: same_money_def)

definition faulty_world :: world where
  "faulty_world = sample_world\<lparr>faults := [False, False, False, True]\<rparr>"

lemma faulty_voice: "case fst (voice_ProcessPayment voice_request faulty_world) of
    Done r \<Rightarrow> \<not> paid r | _ \<Rightarrow> False"
  by code_simp

lemma unpaid_moves_nothing_witness:
  "accounts (committed (snd (voice_ProcessPayment voice_request faulty_world))) =
     accounts (committed faulty_world)"
proof -
  obtain r where r: "voice_ProcessPayment voice_request faulty_world =
      (Done r, snd (voice_ProcessPayment voice_request faulty_world))" "\<not> paid r"
    using faulty_voice
    by (cases "fst (voice_ProcessPayment voice_request faulty_world)") (auto simp: prod_eq_iff)
  from unpaid_moves_nothing [OF voice_in_providers r] show ?thesis by blast
qed

text \<open>Whatever USSD, QR and voice payments are attempted, in whatever order and with whatever
  faults, at most one of those under the same transaction id succeeds.\<close>

theorem one_payment_per_id: "count_done pay_by (pr_TransactionID \<circ> snd) t attempts w \<le> 1"
  by (rule any_mode.at_most_once)

text \<open>The money supply.  A payment keeps the total of all balances when the beneficiary is a
  local account; when it is not, the update that should credit it matches no row, nobody checks,
  and the amount is gone.\<close>

theorem payment_total:
  assumes "(process, mode) \<in> set instant_providers"
    and "process req w = (Done r, w')" and "paid r" and "accounts_ok (committed w)"
  shows "total_balance (committed w') = total_balance (committed w) -
    (if find_account (pr_BeneficiaryAccountNumber req) (committed w) = None then pr_Amount req else 0)"
  using money_mover.paid_effect [OF instant_provider_mover [OF assms(1)] assms(2-4)] by simp

definition lost_request :: payment_request where
  "lost_request = voice_request\<lparr>pr_BeneficiaryAccountNumber := ''7777777777''\<rparr>"

lemma lost_voice: "case fst (voice_ProcessPayment lost_request sample_world) of
    Done r \<Rightarrow> paid r | _ \<Rightarrow> False"
  by code_simp

lemma payment_total_witness:
  "total_balance (committed (snd (voice_ProcessPayment lost_request sample_world))) =
     total_balance sample_db - 30"
proof -
  obtain r where r: "voice_ProcessPayment lost_request sample_world =
      (Done r, snd (voice_ProcessPayment lost_request sample_world))" "paid r"
    using lost_voice
    by (cases "fst (voice_ProcessPayment lost_request sample_world)") (auto simp: prod_eq_iff)
  have "accounts_ok (committed sample_world)" by (simp add: accounts_ok_sample)
  from payment_total [OF voice_in_providers r this] show ?thesis
    by (simp add: lost_request_def voice_request_def sample_request_def find_account_def sample_defs)
qed

text \<open>C12: over any sequence of USSD, QR and voice payments, with any faults, account ids and
  transaction ids stay unique, balances stay within their column, and no balance is ever taken
  below zero.\<close>

theorem payments_keep_solvency:
  assumes "money_inv (committed w)"
  shows "money_inv (committed (run_all process_by payments w))"
  using assms by (rule any_request.serve_inv)

lemma money_inv_sample: "money_inv sample_db"
  by (simp add: money_inv_def accounts_ok_sample)
     (simp add: transactions_ok_def solvent_def sample_defs)

lemma payments_keep_solvency_witness:
  "money_inv (committed (run_all process_by [(VoiceMode, voice_request), (QrMode, voice_request),
     (VoiceMode, voice_request)] sample_world))"
  by (rule payments_keep_solvency) (simp add: money_inv_sample)

lemma verify_cases:
  assumes "verifyAccountAndKYC a u w = (r, w')"
  shows "committed w' = committed w \<and> (\<forall>p. r \<noteq> Panics p) \<and>
    (r = Done () \<longrightarrow> (\<exists>lvl. owner_row a (committed w) = Some (u, ''VERIFIED'', lvl) \<and> 1 \<le> lvl))"
  using assms
  by (cases "owner_row a (committed w)")
     (auto simp: verifyAccountAndKYC_def catching_def bind_def attempt_def db_run_def scan_one_def
       ret_def fail_def show_int_inject split: if_splits)

text \<open>\<open>HandlePaymentRequest\<close> answers success only for an account whose owner is the
  authenticated user and whose KYC is verified at level one or higher, whatever the provider.\<close>

theorem handler_success_needs_kyc:
  assumes "HandlePaymentRequest HSM nonce userID ip provider (Body req) w = (Done resp, w')"
    and "hr_success resp"
  shows "\<exists>lvl. owner_row (pr_FromAccount req) (committed w) = Some (userID, ''VERIFIED'', lvl) \<and> 1 \<le> lvl"
proof -
  let ?req = "prepared_request (GetPaymentMode provider) userID ip (now w) req"
  obtain r w1 where v: "verifyAccountAndKYC (pr_FromAccount ?req) userID w = (r, w1)"
    by (cases "verifyAccountAndKYC (pr_FromAccount ?req) userID w")
  have "r = Done ()"
    using assms v verify_cases [OF v]
    by (cases r) (auto simp: HandlePaymentRequest_def Let_def bind_def gets_def catching_simps ret_def
        split: if_splits)
  with verify_cases [OF v] show ?thesis by (simp add: prepared_request_def)
qed

definition sample_hsm :: hsm_iface where
  "sample_hsm = \<lparr>hsm_SignTransaction = (\<lambda>t. Inr (ht_ID t @ ht_Nonce t)), hsm_EncryptPAN = Inr\<rparr>"

definition sample_handled :: "http_response outcome \<times> world" where
  "sample_handled = HandlePaymentRequest sample_hsm ''n1'' 7 ''1.2.3.4'' voiceProvider
     (Body voice_request) sample_world"

lemma sample_handled_ok: "case fst sample_handled of Done resp \<Rightarrow> hr_success resp | _ \<Rightarrow> False"
  by code_simp

lemma handler_success_needs_kyc_witness:
  "\<exists>lvl. owner_row ''1000000001'' sample_db = Some (7, ''VERIFIED'', lvl) \<and> 1 \<le> lvl"
proof -
  obtain resp where r: "sample_handled = (Done resp, snd sample_handled)" "hr_success resp"
    using sample_handled_ok by (cases "fst sample_handled") (auto simp: prod_eq_iff)
  from handler_success_needs_kyc [OF r(1) [unfolded sample_handled_def] r(2)]
  show ?thesis by (simp add: voice_request_def sample_request_def)
qed

section \<open>Runs without faults\<close>

lemma used_fault_nil: "faults w = [] \<Longrightarrow> used_fault w = w"
  by (simp add: used_fault_def)

lemma no_fault: "faults w = [] \<Longrightarrow> \<not> next_fault w"
  by (simp add: next_fault_def)

lemma db_read_done:
  "faults w = [] \<Longrightarrow> db_run (\<lambda>d. Some (f d, d)) w = (Done (f (committed w)), w)"
  by (simp add: db_run_def no_fault used_fault_nil)

lemma verify_done:
  assumes "faults w = []" and "owner_row a (committed w) = Some (u, ''VERIFIED'', lvl)" and "1 \<le> lvl"
  shows "verifyAccountAndKYC a u w = (Done (), w)"
  using assms
  by (simp add: verifyAccountAndKYC_def catching_def bind_def attempt_def db_read_done scan_one_def
      ret_def)

lemma checkPayer_done:
  assumes "faults w = []" and "payer_ok req (committed w)"
  shows "checkPayer (pr_FromAccount req) (pr_Amount req) w = (Done (), w)"
  using assms
  by (auto simp: checkPayer_def catching_def bind_def attempt_def db_read_done scan_one_def
      ret_def payer_ok_def)

lemma moveFunds_duplicate:
  assumes ff: "faults w = []" and dup: "recorded (pr_TransactionID req) w"
    and rng: "\<forall>r \<in> set (accounts (committed w)). in_int64 (acct_balance r - pr_Amount req) \<and>
      in_int64 (acct_balance r + pr_Amount req)"
  shows "moveFunds mode ft ot (ret ()) req t w = (Done (req, None, Some DbErr), w\<lparr>tx := None\<rparr>)"
proof -
  let ?d = "committed w"
  obtain d1 where d1: "sql_add_balance (- pr_Amount req) (pr_FromAccount req) ?d = Some ((), d1)"
    using rng by (auto simp: sql_add_balance_def)
  have mid: "in_int64 (acct_balance r)" if "r \<in> set (accounts ?d)" for r
    using bspec [OF rng that] by (simp add: in_int64_def)
  have "accounts d1 = map (\<lambda>r. if acct_id r = pr_FromAccount req
      then r\<lparr>acct_balance := acct_balance r + - pr_Amount req\<rparr> else r) (accounts ?d)"
    using d1 by (auto simp: sql_add_balance_def split: if_splits)
  then have rng1: "\<forall>r \<in> set (accounts d1). acct_id r = pr_BeneficiaryAccountNumber req \<longrightarrow>
      in_int64 (acct_balance r + pr_Amount req)"
    using rng mid by auto
  then obtain d2 where d2: "sql_add_balance (pr_Amount req) (pr_BeneficiaryAccountNumber req) d1 = Some ((), d2)"
    by (auto simp: sql_add_balance_def)
  have "transactions d2 = transactions ?d"
    using sql_add_balance_frame(1) [OF d1] sql_add_balance_frame(1) [OF d2] by simp
  with dup have d3: "sql_insert_transaction (completed_row mode req) d2 = None"
    by (simp add: sql_insert_transaction_def completed_row_def recorded_def)
  show ?thesis
    using ff d1 d2 d3
    by (simp add: moveFunds_def deferring_def catching_def bind_def attempt_def ret_def tx_begin_def
        tx_run_def no_fault used_fault_nil next_fault_def used_fault_def tx_rollback_def Let_def)
qed

text \<open>A voice payment sent again under the id of a recorded transaction, by a payer who
  passes every check, makes the handler panic: the insert violates the primary key, the
  provider returns its error with a nil response, and the handler dereferences it.\<close>

theorem replayed_payment_panics:
  assumes "faults w = []" and "owner_row (pr_FromAccount req) (committed w) = Some (u, ''VERIFIED'', lvl)"
    and "1 \<le> lvl" and "payer_ok req (committed w)"
    and "pr_TransactionID req \<noteq> []" and "recorded (pr_TransactionID req) w"
    and "meta_get (pr_Metadata req) ''voiceCommand'' = JStr cmd" and "isValidPaymentCommand cmd"
    and "\<forall>r \<in> set (accounts (committed w)). in_int64 (acct_balance r - pr_Amount req) \<and>
      in_int64 (acct_balance r + pr_Amount req)"
    and "pr_Location req = Some loc"
  shows "fst (HandlePaymentRequest HSM nonce u ip voiceProvider (Body req) w)
     = Panics ''nil pointer dereference: response''"
proof -
  let ?q = "prepared_request ''VOICE'' u ip (now w) req"
  have q: "pr_FromAccount ?q = pr_FromAccount req" "pr_Amount ?q = pr_Amount req"
    "pr_TransactionID ?q = pr_TransactionID req" "pr_Metadata ?q = pr_Metadata req"
    "pr_Location ?q = Some loc"
    using assms(5,10) by (simp_all add: prepared_request_def)
  have pq: "payer_ok ?q (committed w)" using assms(4) by (simp add: payer_ok_def q)
  have "voice_ValidatePayment ?q w = (Done (), w)"
    using assms(7,8) checkPayer_done [OF assms(1) pq] pq
    by (simp add: voice_ValidatePayment_def q payer_ok_def)
  moreover have "moveFunds ''VOICE'' ft ot (ret ()) ?q t w = (Done (?q, None, Some DbErr), w\<lparr>tx := None\<rparr>)"
    for ft ot t
    using assms(1,6,9) by (intro moveFunds_duplicate) (simp_all add: q)
  ultimately have p: "voice_ProcessPayment ?q w = (Done (?q, None, Some DbErr), w\<lparr>tx := None\<rparr>)"
    by (simp add: voice_ProcessPayment_def bind_def gets_def catching_def attempt_def)
  have log: "\<exists>w'. ignoring (LogFailedTransaction HSM nonce (failed_event t ?q e)) v = (Done (), w')" for t e v
    by (auto simp: ignoring_def LogFailedTransaction_def failed_event_def q Let_def bind_def gets_def
        catching_def attempt_def of_result_def fail_def ret_def db_run_def sql_insert_audit_def
        split: sum.split)
  have v: "verifyAccountAndKYC (pr_FromAccount ?q) u w = (Done (), w)"
    unfolding q by (rule verify_done [OF assms(1-3)])
  obtain w' where "ignoring (LogFailedTransaction HSM nonce (failed_event (now w) ?q DbErr)) (w\<lparr>tx := None\<rparr>)
      = (Done (), w')" using log by blast
  then show ?thesis
    using v p by (simp add: HandlePaymentRequest_def Let_def bind_def gets_def catching_def attempt_def
        voiceProvider_def panic_def)
qed

lemma replayed_payment_panics_witness:
  "fst (HandlePaymentRequest sample_hsm ''n2'' 7 ''1.2.3.4'' voiceProvider (Body voice_request)
     (snd sample_handled)) = Panics ''nil pointer dereference: response''"
proof (rule replayed_payment_panics)
  show "faults (snd sample_handled) = []" by code_simp
  show "owner_row (pr_FromAccount voice_request) (committed (snd sample_handled)) =
      Some (7, ''VERIFIED'', 2)" by code_simp
  show "payer_ok voice_request (committed (snd sample_handled))"
    unfolding payer_ok_def
    by (intro conjI exI [of _ "the (find_account ''1000000001'' (committed (snd sample_handled)))"]) code_simp+
  show "recorded (pr_TransactionID voice_request) (snd sample_handled)" by code_simp
  show "isValidPaymentCommand '' Please PAY him''" by code_simp
  show "\<forall>r \<in> set (accounts (committed (snd sample_handled))).
      in_int64 (acct_balance r - pr_Amount voice_request) \<and>
      in_int64 (acct_balance r + pr_Amount voice_request)" by code_simp
qed (simp_all add: voice_request_def sample_request_def meta_get_def)

end
