(* ===== verification/USSD_Props.thy ===== *)
theory USSD_Props
  imports Provider_Props
begin

text \<open>
  The one-time codes across the two components that consume them: the USSD service
  (\<open>ValidateAndConsume\<close>) and the USSD payment provider (\<open>ussd_ValidatePayment\<close>).
\<close>

datatype code_use = ServiceUse string string | PaymentUse payment_request

fun use_code :: "ussd_config \<Rightarrow> code_use \<Rightarrow> unit go" where
  "use_code cfg (ServiceUse code ty) = bind (ValidateAndConsume cfg code ty) (\<lambda>_. ret ())"
| "use_code cfg (PaymentUse req) = ussd_ValidatePayment req"

fun used_hash :: "ussd_config \<Rightarrow> code_use \<Rightarrow> string" where
  "used_hash cfg (ServiceUse code ty) = hashCode cfg code"
| "used_hash cfg (PaymentUse req) = (case as_string (meta_get (pr_Metadata req) ''ussdCode'') of
     None \<Rightarrow> [] | Some code \<Rightarrow> ussd_hashCode code)"

lemma checkPayer_committed: "checkPayer a x w = (r, w') \<Longrightarrow> committed w' = committed w"
  by (cases "find_account a (committed w)")
     (auto simp: checkPayer_def catching_def bind_def attempt_def db_run_def scan_one_def
       ret_def fail_def split: if_splits)

lemma keeps_spent_validate_tx:
  "keeps (code_spent h) (with_tx (ussd_validate_body t h' codeType req))"
proof (rule keepsI)
  fix w assume s: "code_spent h w"
  then have "db_spent h (committed w)" by (simp add: code_spent_def)
  then have "db_spent h (committed (snd (with_tx (ussd_validate_body t h' codeType req) w)))"
  proof (rule with_tx_keeps [OF implements_ussd_validate])
    fix x d' assume "ussd_validate_stmt t h' codeType req (committed w) = Some (x, d')"
    then have "sql_mark_used t h' (committed w) = Some ((), d')" by (rule ussd_validate_stmt_SomeE)
    with s show "db_spent h d'" by (auto simp: code_spent_def intro: db_spent_mark_other)
  qed
  then show "code_spent h (snd (with_tx (ussd_validate_body t h' codeType req) w))"
    by (simp add: code_spent_def)
qed

lemma keeps_spent_checkPayer: "keeps (code_spent h) (checkPayer a x)"
  by (rule keepsI) (metis checkPayer_committed code_spent_def prod.collapse)

lemma keeps_spent_validate: "keeps (code_spent h) (ussd_ValidatePayment req)"
  unfolding ussd_ValidatePayment_def Let_def
  by (intro keeps_intros keeps_spent_validate_tx keeps_spent_checkPayer)

text \<open>What a run of the provider's validation that gets as far as its commit has done.\<close>

lemma ussd_validate_consumed:
  assumes "with_tx (ussd_validate_body t h codeType req) w = (Done u, w')"
  shows "\<exists>r. find_code h codeType (committed w) = Some r \<and> \<not> uc_used r \<and> \<not> uc_expires r < t \<and>
    uc_user r = pr_UserID req \<and> uc_amount r = pr_Amount req \<and> code_spent h w' \<and>
    \<not> code_spent h w \<and> accounts (committed w') = accounts (committed w)"
proof -
  have "ussd_validate_stmt t h codeType req (committed w) = Some (u, committed w')"
    using with_tx_Done [OF implements_ussd_validate assms] by blast
  then obtain r where r: "find_code h codeType (committed w) = Some r" "\<not> uc_used r"
      "\<not> uc_expires r < t" "uc_user r = pr_UserID req" "uc_amount r = pr_Amount req"
    and m: "sql_mark_used t h (committed w) = Some ((), committed w')"
    by (rule ussd_validate_stmt_SomeE)
  have "\<not> code_spent h w"
    using r(1,2) by (auto simp: code_spent_def db_spent_def dest: find_code_mem)
  with r m sql_mark_used_money [OF m] db_spent_mark [OF m] show ?thesis
    by (simp add: code_spent_def same_money_def)
qed

definition code_type_of :: "payment_request \<Rightarrow> string" where
  "code_type_of req = (case as_string (meta_get (pr_Metadata req) ''codeType'') of
     None \<Rightarrow> ''PUSH'' | Some ct \<Rightarrow> ct)"

lemma ussd_validate_eq:
  assumes "as_string (meta_get (pr_Metadata req) ''ussdCode'') = Some code"
  shows "ussd_ValidatePayment req w =
     bind (with_tx (ussd_validate_body (now w) (ussd_hashCode code) (code_type_of req) req)) (\<lambda>_.
       if pr_Amount req \<le> 0 then fail (Msg ''amount must be positive'')
       else checkPayer (pr_FromAccount req) (pr_Amount req)) w"
proof -
  have "meta_get (pr_Metadata req) ''ussdCode'' \<noteq> JNull" using assms by auto
  with assms show ?thesis
    by (simp add: ussd_ValidatePayment_def Let_def bind_def gets_def code_type_of_def)
qed

lemma ussd_ValidatePayment_Done:
  assumes "ussd_ValidatePayment req w = (Done u, w')"
  shows "\<exists>code. as_string (meta_get (pr_Metadata req) ''ussdCode'') = Some code \<and>
    code_spent (ussd_hashCode code) w' \<and> \<not> code_spent (ussd_hashCode code) w"
proof -
  obtain code where code: "as_string (meta_get (pr_Metadata req) ''ussdCode'') = Some code"
    using assms by (auto simp: ussd_ValidatePayment_def fail_def split: if_splits option.splits)
  let ?tx = "with_tx (ussd_validate_body (now w) (ussd_hashCode code) (code_type_of req) req)"
  have "bind ?tx (\<lambda>_. if pr_Amount req \<le> 0 then fail (Msg ''amount must be positive'')
      else checkPayer (pr_FromAccount req) (pr_Amount req)) w = (Done u, w')"
    using assms ussd_validate_eq [OF code] by simp
  then obtain v w1 where tx: "?tx w = (Done v, w1)"
    and k: "(if pr_Amount req \<le> 0 then fail (Msg ''amount must be positive'')
      else checkPayer (pr_FromAccount req) (pr_Amount req)) w1 = (Done u, w')"
    by (rule bind_DoneE)
  have "committed w' = committed w1"
    using k by (auto simp: fail_def dest: checkPayer_committed split: if_splits)
  with ussd_validate_consumed [OF tx] code show ?thesis by (auto simp: code_spent_def)
qed

interpretation any_use: single_use "use_code cfg" "used_hash cfg" code_spent for cfg
proof
  fix c w x w'
  assume d: "use_code cfg c w = (Done x, w')"
  show "code_spent (used_hash cfg c) w'"
  proof (cases c)
    case (ServiceUse code ty)
    with d obtain y where "ValidateAndConsume cfg code ty w = (Done y, w')"
      by (auto simp: bind_def ret_def split: prod.splits outcome.splits)
    then show ?thesis using ussd_single.Done_spends [of cfg "(code, ty)" w y w'] ServiceUse by simp
  next
    case (PaymentUse req)
    with d ussd_ValidatePayment_Done [of req w x w'] show ?thesis by auto
  qed
next
  fix c w x w'
  assume s: "code_spent (used_hash cfg c) w"
  show "use_code cfg c w \<noteq> (Done x, w')"
  proof (cases c)
    case (ServiceUse code ty)
    then show ?thesis
      using ussd_single.spent_refused [of cfg "(code, ty)" w] s
      by (auto simp: bind_def ret_def split: prod.splits outcome.splits)
  next
    case (PaymentUse req)
    with s ussd_ValidatePayment_Done [of req w x w'] show ?thesis by auto
  qed
next
  fix k w c
  assume s: "code_spent k w"
  show "code_spent k (snd (use_code cfg c w))"
  proof (cases c)
    case (ServiceUse code ty)
    have "code_spent k (snd (ValidateAndConsume cfg code ty w))"
      using ussd_single.spent_stays [of k w cfg "(code, ty)"] s by simp
    with ServiceUse show ?thesis
      by (auto simp: bind_def ret_def split: prod.splits outcome.splits)
  next
    case (PaymentUse req)
    with s keepsD [OF keeps_spent_validate] show ?thesis by simp
  qed
qed

text \<open>C13: one use per code.  In any sequence of validations by the service and by the payment
  provider, with any faults, at most one use under the same stored hash is accepted.\<close>

theorem ussd_code_single_use: "count_done (use_code cfg) (used_hash cfg) h attempts w \<le> 1"
  by (rule any_use.at_most_once)

text \<open>A code that the provider accepts was stored for the paying user and the exact amount,
  was neither used nor expired, and is spent afterwards.\<close>

theorem ussd_accepts_only_own_code:
  assumes "ussd_ValidatePayment req w = (Done u, w')"
  shows "\<exists>code r. as_string (meta_get (pr_Metadata req) ''ussdCode'') = Some code \<and>
    r \<in> set (ussd_codes (committed w)) \<and> uc_hash r = ussd_hashCode code \<and>
    uc_user r = pr_UserID req \<and> uc_amount r = pr_Amount req \<and> \<not> uc_used r \<and>
    now w \<le> uc_expires r \<and> code_spent (ussd_hashCode code) w'"
proof -
  obtain code where code: "as_string (meta_get (pr_Metadata req) ''ussdCode'') = Some code"
    and sp: "code_spent (ussd_hashCode code) w'" using ussd_ValidatePayment_Done [OF assms] by blast
  have "\<exists>v w1. with_tx (ussd_validate_body (now w) (ussd_hashCode code) (code_type_of req) req) w
      = (Done v, w1)"
    using assms unfolding ussd_validate_eq [OF code] by (rule bind_DoneE) blast
  then obtain r where "find_code (ussd_hashCode code) (code_type_of req) (committed w) = Some r"
    "\<not> uc_used r" "\<not> uc_expires r < now w" "uc_user r = pr_UserID req" "uc_amount r = pr_Amount req"
    using ussd_validate_consumed by blast
  moreover from this(1) have "r \<in> set (ussd_codes (committed w))" "uc_hash r = ussd_hashCode code"
    using find_code_mem by blast+
  ultimately show ?thesis using code sp by (intro exI [of _ code] exI [of _ r]) simp
qed

definition sample_code_row :: ussd_row where
  "sample_code_row = \<lparr>uc_txid = ''U1'', uc_hash = ussd_hashCode ''12345678'', uc_type = ''PUSH'',
     uc_user = ''7'', uc_amount = 30, uc_expires = 2 * 10 ^ 18, uc_used = False, uc_used_at = None\<rparr>"

definition ussd_world :: "int \<Rightarrow> world" where
  "ussd_world x = sample_world\<lparr>committed := sample_db\<lparr>ussd_codes := [sample_code_row\<lparr>uc_amount := x\<rparr>]\<rparr>\<rparr>"

definition ussd_request :: "int \<Rightarrow> payment_request" where
  "ussd_request x = sample_request ''P2'' x [''ussdCode'' \<mapsto> JStr ''12345678'']"

lemma with_tx_ussd_done:
  assumes "faults w = []" and "find_code h codeType (committed w) = Some r"
    and "\<not> uc_used r" and "now w \<le> uc_expires r" and "uc_user r = pr_UserID req"
    and "uc_amount r = pr_Amount req"
  shows "\<exists>w'. with_tx (ussd_validate_body (now w) h codeType req) w = (Done (), w') \<and> faults w' = []"
proof -
  have "ussd_validate_stmt (now w) h codeType req (committed w) = sql_mark_used (now w) h (committed w)"
    using assms by (simp add: ussd_validate_stmt_def stmt_bind_def)
  then obtain d' where "ussd_validate_stmt (now w) h codeType req (committed w) = Some ((), d')"
    by (simp add: sql_mark_used_def)
  from with_tx_fault_free [OF implements_ussd_validate assms(1) this] obtain w' where
    w': "with_tx (ussd_validate_body (now w) h codeType req) w = (Done (), w')" by blast
  with with_tx_Done [OF implements_ussd_validate this] assms(1) show ?thesis by auto
qed

text \<open>A payment that fails only for lack of funds still spends its code: the code is marked
  used and committed before the balance is looked at.\<close>

theorem failed_payment_burns_code:
  assumes "faults w = []" and "as_string (meta_get (pr_Metadata req) ''ussdCode'') = Some code"
    and "find_code (ussd_hashCode code) (code_type_of req) (committed w) = Some r"
    and "\<not> uc_used r" and "now w \<le> uc_expires r" and "uc_user r = pr_UserID req"
    and "uc_amount r = pr_Amount req"
    and "find_account (pr_FromAccount req) (committed w) = Some a"
    and "acct_balance a < pr_Amount req"
  shows "\<exists>q w'. ussd_ProcessPayment req w = (Done q, w') \<and> \<not> paid q \<and>
    accounts (committed w') = accounts (committed w) \<and> code_spent (ussd_hashCode code) w'"
proof -
  obtain q w' where q: "ussd_ProcessPayment req w = (Done q, w')" using ussd.always_answers by blast
  have np: "\<not> paid q"
  proof
    assume "paid q"
    from ussd.paid_moves [OF q this] obtain d where "same_money (committed w) d" "payer_ok req d" by blast
    with assms(8,9) show False by (auto simp: payer_ok_def same_money_find)
  qed
  obtain w1 where tx: "with_tx (ussd_validate_body (now w) (ussd_hashCode code) (code_type_of req) req) w
      = (Done (), w1)" and ff: "faults w1 = []"
    using with_tx_ussd_done [OF assms(1,3-7)] by blast
  have s1: "code_spent (ussd_hashCode code) w1" and a1: "accounts (committed w1) = accounts (committed w)"
    using ussd_validate_consumed [OF tx] by blast+
  obtain e w2 where v: "ussd_ValidatePayment req w = (Failed e, w2)" and w2: "committed w2 = committed w1"
  proof -
    obtain r2 w2 where rest: "(if pr_Amount req \<le> 0 then fail (Msg ''amount must be positive'')
       else checkPayer (pr_FromAccount req) (pr_Amount req)) w1 = (r2, w2)" by fastforce
    have v: "ussd_ValidatePayment req w = (r2, w2)"
      using tx rest by (simp add: ussd_validate_eq [OF assms(2)] bind_def)
    have "\<exists>e. r2 = Failed e"
    proof (cases r2)
      case (Done u)
      with validatesD(1,3) [OF ussd_validates v] assms(8,9) show ?thesis
        by (auto simp: payer_ok_def same_money_find)
    qed (use validatesD(2) [OF ussd_validates v] in auto)
    moreover have "committed w2 = committed w1"
      using rest by (auto simp: fail_def dest: checkPayer_committed split: if_splits)
    ultimately show thesis using that v by blast
  qed
  have "w' = w2" using q v by (simp add: ussd_ProcessPayment_def bind_def gets_def catching_def attempt_def ret_def)
  with q np s1 a1 w2 show ?thesis by (auto simp: code_spent_def)
qed

lemma failed_payment_burns_code_witness:
  "\<exists>q w'. ussd_ProcessPayment (ussd_request 900) (ussd_world 900) = (Done q, w') \<and> \<not> paid q \<and>
    accounts (committed w') = accounts (committed (ussd_world 900)) \<and>
    code_spent (ussd_hashCode ''12345678'') w'"
proof (rule failed_payment_burns_code)
  show "find_code (ussd_hashCode ''12345678'') (code_type_of (ussd_request 900))
      (committed (ussd_world 900)) = Some (sample_code_row\<lparr>uc_amount := 900\<rparr>)"
    by (simp add: find_code_def code_type_of_def ussd_world_def ussd_request_def sample_request_def
        sample_code_row_def meta_get_def)
  show "find_account (pr_FromAccount (ussd_request 900)) (committed (ussd_world 900))
      = Some (mk_account ''1000000001'' 500 (Some 7))"
    by (simp add: find_account_def ussd_world_def ussd_request_def sample_request_def sample_defs)
qed (simp_all add: ussd_world_def ussd_request_def sample_request_def sample_code_row_def meta_get_def
      sample_defs)

lemma ussd_accepts_only_own_code_witness:
  "\<exists>code r. as_string (meta_get (pr_Metadata (ussd_request 30)) ''ussdCode'') = Some code \<and>
    r \<in> set (ussd_codes (committed (ussd_world 30))) \<and> uc_hash r = ussd_hashCode code \<and>
    uc_user r = ''7'' \<and> uc_amount r = 30"
proof -
  have f: "faults (ussd_world 30) = []" by (simp add: ussd_world_def)
  have c: "as_string (meta_get (pr_Metadata (ussd_request 30)) ''ussdCode'') = Some ''12345678''"
    by (simp add: ussd_request_def sample_request_def meta_get_def)
  have fc: "find_code (ussd_hashCode ''12345678'') (code_type_of (ussd_request 30))
      (committed (ussd_world 30)) = Some (sample_code_row\<lparr>uc_amount := 30\<rparr>)"
    by (simp add: find_code_def code_type_of_def ussd_world_def ussd_request_def sample_request_def
        sample_code_row_def meta_get_def)
  obtain w1 where tx: "with_tx (ussd_validate_body (now (ussd_world 30)) (ussd_hashCode ''12345678'')
      (code_type_of (ussd_request 30)) (ussd_request 30)) (ussd_world 30) = (Done (), w1)"
    and f1: "faults w1 = []"
  proof -
    have "\<not> uc_used (sample_code_row\<lparr>uc_amount := 30\<rparr>)"
      "now (ussd_world 30) \<le> uc_expires (sample_code_row\<lparr>uc_amount := 30\<rparr>)"
      "uc_user (sample_code_row\<lparr>uc_amount := 30\<rparr>) = pr_UserID (ussd_request 30)"
      "uc_amount (sample_code_row\<lparr>uc_amount := 30\<rparr>) = pr_Amount (ussd_request 30)"
      by (simp_all add: ussd_world_def ussd_request_def sample_request_def sample_code_row_def sample_defs)
    from with_tx_ussd_done [OF f fc this] that show thesis by blast
  qed
  have "accounts (committed w1) = accounts (committed (ussd_world 30))"
    using ussd_validate_consumed [OF tx] by blast
  then have "payer_ok (ussd_request 30) (committed w1)"
    by (simp add: payer_ok_def find_account_def ussd_world_def ussd_request_def sample_request_def sample_defs)
  from checkPayer_done [OF f1 this] tx this
  have "ussd_ValidatePayment (ussd_request 30) (ussd_world 30) = (Done (), w1)"
    by (simp add: ussd_validate_eq [OF c] bind_def payer_ok_def)
  from ussd_accepts_only_own_code [OF this] show ?thesis
    by (auto simp: ussd_request_def sample_request_def)
qed

end
