(* ===== verification/QR.thy ===== *)
theory QR
  imports Handlers "HOL-Library.Word"
begin

unbundle bit_operations_syntax

text \<open>
  QR codes, \<open>src/internal/services/qr_service.go\<close>: the EMVCo payload and its CRC, the parser of
  scanned payloads, and the one-time tokens kept in Redis.

  \<^item> The random nonce is an argument; drawing the image (\<open>go-qrcode\<close>, \<open>image/png\<close>, the logo) is
    an argument too, of which only success or failure matters.
  \<^item> \<open>json.Marshal\<close> of the token data (keys in alphabetical order) and URL-safe base64 are
    written out.
  \<^item> The parsers return an \<open>outcome\<close>: a negative length field makes Go slice with a low bound
    above the high one, which is a panic.
\<close>

section \<open>Configuration\<close>

text \<open>The raw values of \<open>viper\<close>; an unset key reads as the empty string or zero.\<close>

record qr_config =
  qc_base_url :: string
  qc_route :: string
  qc_merchant_id :: string
  qc_merchant_name :: string
  qc_merchant_city :: string
  qc_expiry_minutes :: int

definition or_default :: "string \<Rightarrow> string \<Rightarrow> string" where
  "or_default s d = (if s = [] then d else s)"

definition expiryMinutes :: "qr_config \<Rightarrow> int" where
  "expiryMinutes cfg = (if qc_expiry_minutes cfg = 0 then 5 else qc_expiry_minutes cfg)"

section \<open>CRC-16\<close>

definition crc_shift :: "16 word \<Rightarrow> 16 word" where
  "crc_shift crc = (if crc AND 0x8000 \<noteq> 0 then push_bit 1 crc XOR 0x1021 else push_bit 1 crc)"

definition crc_byte :: "16 word \<Rightarrow> char \<Rightarrow> 16 word" where
  "crc_byte crc c = (crc_shift ^^ 8) (crc XOR push_bit 8 (of_char c))"

definition calculateCRC16 :: "string \<Rightarrow> 16 word" where
  "calculateCRC16 data = foldl crc_byte 0xFFFF data"

definition upper_hex :: "nat \<Rightarrow> char" where
  "upper_hex d = (if d < 10 then digit_char d else char_of (55 + d))"

text \<open>\<open>%04X\<close> of a 16-bit value.\<close>

definition hex4 :: "16 word \<Rightarrow> string" where
  "hex4 w = map (\<lambda>i. upper_hex (unat w div 16 ^ i mod 16)) [3, 2, 1, 0]"

section \<open>Tokens\<close>

definition json_char :: "char \<Rightarrow> string" where
  "json_char c = (if c = CHR 0x22 then [CHR 0x5C, CHR 0x22]
     else if c = CHR 0x5C then [CHR 0x5C, CHR 0x5C]
     else if c = CHR 0x0A then [CHR 0x5C, CHR ''n'']
     else if c = CHR 0x0D then [CHR 0x5C, CHR ''r'']
     else if c = CHR 0x09 then [CHR 0x5C, CHR ''t'']
     else if of_char c < (32 :: nat) \<or> c \<in> {CHR ''<'', CHR ''>'', CHR ''&''}
       then [CHR 0x5C, CHR ''u'', CHR ''0'', CHR ''0'', digit_char (of_char c div 16),
             (let d = of_char c mod 16 in if d < 10 then digit_char d else char_of (87 + d))]
     else [c])"

definition json_string :: "string \<Rightarrow> string" where
  "json_string s = [CHR 0x22] @ concat (map json_char s) @ [CHR 0x22]"

definition qr_json :: "qr_data \<Rightarrow> string" where
  "qr_json q = ''{'' @ json_string ''expiresAt'' @ '':'' @ show_int (qr_expires q)
     @ '','' @ json_string ''merchantId'' @ '':'' @ json_string (qr_merchant q)
     @ '','' @ json_string ''nonce'' @ '':'' @ json_string (qr_nonce q)
     @ '','' @ json_string ''timestamp'' @ '':'' @ show_int (qr_timestamp q)
     @ '','' @ json_string ''userId'' @ '':'' @ json_string (qr_user q) @ ''}''"

definition base64url_alphabet :: string where
  "base64url_alphabet = ''ABCDEFGHIJKLMNOPQRSTUVWXYZabcdefghijklmnopqrstuvwxyz0123456789-_''"

definition b64_char :: "nat \<Rightarrow> char" where
  "b64_char n = base64url_alphabet ! (n mod 64)"

fun base64_url :: "string \<Rightarrow> string" where
  "base64_url (a # b # c # s) =
     (let n = of_char a * 65536 + of_char b * 256 + of_char c
      in b64_char (n div 262144) # b64_char (n div 4096) # b64_char (n div 64) # b64_char n
         # base64_url s)"
| "base64_url [a, b] =
     (let n = of_char a * 65536 + of_char b * 256
      in [b64_char (n div 262144), b64_char (n div 4096), b64_char (n div 64), CHR ''=''])"
| "base64_url [a] =
     (let n = of_char a * 65536
      in [b64_char (n div 262144), b64_char (n div 4096), CHR ''='', CHR ''=''])"
| "base64_url [] = []"

definition generateNonce :: "string \<Rightarrow> string" where
  "generateNonce random16 = base64_url random16"

definition qr_token_key :: "string \<Rightarrow> string" where
  "qr_token_key token = ''qr:'' @ token"

definition replay_key :: "string \<Rightarrow> string" where
  "replay_key nonce = ''qr:used:'' @ nonce"

section \<open>The EMVCo payload\<close>

definition two_digits :: "nat \<Rightarrow> string" where
  "two_digits n = show_pad 2 n"

definition deep_link :: "qr_config \<Rightarrow> string \<Rightarrow> string" where
  "deep_link cfg token = ''https://'' @ or_default (qc_base_url cfg) ''app.ruralpay.com'' @ ''/''
     @ or_default (qc_route cfg) ''pay/qr'' @ ''?token='' @ token"

definition buildEMVCoQR :: "qr_config \<Rightarrow> string \<Rightarrow> string" where
  "buildEMVCoQR cfg token =
     (let deepLink = deep_link cfg token;
          merchantID = or_default (qc_merchant_id cfg) ''RURALPAY'';
          inner = ''00'' @ two_digits (length merchantID) @ merchantID
                    @ ''01'' @ two_digits (length deepLink) @ deepLink;
          merchantAccountInfo = ''26'' @ two_digits (length inner) @ inner;
          merchantName = or_default (qc_merchant_name cfg) ''RuralPay'';
          merchantNameField = ''59'' @ two_digits (length merchantName) @ merchantName;
          merchantCity = or_default (qc_merchant_city cfg) ''Lagos'';
          merchantCityField = ''60'' @ two_digits (length merchantCity) @ merchantCity;
          payload = ''000201'' @ ''010212'' @ merchantAccountInfo @ ''5303566'' @ ''5802NG''
                      @ merchantNameField @ merchantCityField
      in payload @ ''6304'' @ hex4 (calculateCRC16 (payload @ ''6304'')))"

section \<open>Parsing a scanned code\<close>

text \<open>
  \<open>fmt.Sscanf(s, "%02d", &length)\<close> on two characters: blanks are skipped, a sign is accepted,
  digits follow; without a digit the variable keeps its 0.
\<close>

definition scan_length :: "string \<Rightarrow> int" where
  "scan_length s =
     (let t = dropWhile (\<lambda>c. c = CHR '' '' \<or> c = CHR 0x09 \<or> c = CHR 0x0D) s;
          neg = (t \<noteq> [] \<and> hd t = CHR ''-'');
          u = (if t \<noteq> [] \<and> (hd t = CHR ''-'' \<or> hd t = CHR ''+'') then tl t else t);
          n = int (read_nat (takeWhile is_digit u))
      in if neg then - n else n)"

text \<open>The data of a tag 01: the text after \<open>token=\<close> in a link, as the code searches for it.\<close>

definition token_start :: "string \<Rightarrow> int" where
  "token_start value =
     (case find (\<lambda>j. j + 6 < length value \<and> take 7 (drop j value) = ''token='') [0..<length value] of
        None \<Rightarrow> -1
      | Some j \<Rightarrow> int j + 7)"

definition link_token :: "string \<Rightarrow> string option" where
  "link_token value =
     (if 8 < length value \<and> take 8 value = ''https://'' then
        let tokenStart = token_start value
        in if 0 < tokenStart \<and> tokenStart < int (length value)
           then Some (drop (nat tokenStart) value) else None
      else None)"

text \<open>One tag-length-value element at the head of the rest of the data.\<close>

datatype tlv = TlvEnd | TlvPanic | Tlv string string string

definition next_tlv :: "string \<Rightarrow> tlv" where
  "next_tlv rest =
     (if length rest < 4 then TlvEnd
      else let len = scan_length (take 2 (drop 2 rest))
        in if int (length rest) < 4 + len then TlvEnd
           else if len < 0 then TlvPanic
           else Tlv (take 2 rest) (take (nat len) (drop 4 rest)) (drop (4 + nat len) rest))"

lemma next_tlv_shorter: "next_tlv rest = Tlv t v r \<Longrightarrow> length r < length rest"
  by (auto simp: next_tlv_def Let_def split: if_splits)

function parseTag26 :: "string \<Rightarrow> string outcome" where
  "parseTag26 rest =
     (if rest = [] then Failed (Msg ''URL not found in tag 26'')
      else case next_tlv rest of
        TlvEnd \<Rightarrow> Failed (Msg ''URL not found in tag 26'')
      | TlvPanic \<Rightarrow> Panics ''slice bounds out of range''
      | Tlv tag value rest' \<Rightarrow>
          (case (if tag = ''01'' then link_token value else None) of
             Some token \<Rightarrow> Done token
           | None \<Rightarrow> parseTag26 rest'))"
  by auto
termination
  by (relation "measure length") (auto dest: next_tlv_shorter)

function parse_elements :: "string \<Rightarrow> string outcome" where
  "parse_elements rest =
     (if length rest \<le> 4 then Failed (Msg ''token not found in QR data'')
      else case next_tlv rest of
        TlvEnd \<Rightarrow> Failed (Msg ''token not found in QR data'')
      | TlvPanic \<Rightarrow> Panics ''slice bounds out of range''
      | Tlv tag value rest' \<Rightarrow>
          if tag = ''26'' then (case parseTag26 value of
              Done token \<Rightarrow> Done token
            | Failed e \<Rightarrow> parse_elements rest'
            | Panics p \<Rightarrow> Panics p)
          else parse_elements rest')"
  by auto
termination
  by (relation "measure length") (auto dest: next_tlv_shorter)

declare parseTag26.simps [simp del] parse_elements.simps [simp del]

definition parseEMVCoQR :: "string \<Rightarrow> string outcome" where
  "parseEMVCoQR qrData =
     (if length qrData < 10 then Failed (Msg ''QR data too short'') else parse_elements qrData)"

text \<open>The last equals sign and a digit behind it end a token that was scanned with its tail.\<close>

fun last_index :: "char \<Rightarrow> string \<Rightarrow> nat option" where
  "last_index c [] = None"
| "last_index c (x # xs) = (case last_index c xs of
     Some i \<Rightarrow> Some (Suc i) | None \<Rightarrow> if x = c then Some 0 else None)"

definition trim_token :: "string \<Rightarrow> string" where
  "trim_token qrData = (case last_index (CHR ''='') qrData of
       None \<Rightarrow> qrData
     | Some i \<Rightarrow> if 0 < i \<and> i + 1 < length qrData \<and> is_digit (qrData ! (i + 1))
                 then take (i + 2) qrData else qrData)"

definition resolve_token :: "string \<Rightarrow> string outcome" where
  "resolve_token qrData =
     (if 100 < length qrData
      then if take 6 qrData = ''000201''
           then (case parseEMVCoQR qrData of
               Done t \<Rightarrow> Done t
             | Failed e \<Rightarrow> Failed (Wrap ''invalid EMVCo QR format: '' e)
             | Panics p \<Rightarrow> Panics p)
           else Done (trim_token qrData)
      else Done qrData)"

section \<open>Generating and processing\<close>

definition GenerateQRCode ::
  "qr_config \<Rightarrow> string \<Rightarrow> go_err option \<Rightarrow> string \<Rightarrow> string \<Rightarrow> string go" where
  "GenerateQRCode cfg random16 drawError userID merchantID =
     (if merchantID = [] then fail (Msg ''invalid Merchant'')
      else bind (gets now) (\<lambda>t.
        let expiry = expiryMinutes cfg * 60 * second;
            q = \<lparr>qr_user = userID, qr_merchant = merchantID, qr_timestamp = t div second,
                 qr_expires = (t + expiry) div second, qr_nonce = generateNonce random16\<rparr>;
            qrToken = base64_url (qr_json q)
        in bind (redis_set (qr_token_key qrToken) (RQr q) expiry) (\<lambda>_.
           case drawError of
             Some e \<Rightarrow> fail e
           | None \<Rightarrow> ret (buildEMVCoQR cfg qrToken))))"

definition consume_token :: "qr_config \<Rightarrow> string \<Rightarrow> qr_data go" where
  "consume_token cfg token =
     catching (redis_get (qr_token_key token))
       (\<lambda>err. if err = RedisNil then fail (Msg ''Invalid OR Expired QR code'') else fail err)
       (\<lambda>v. case v of
          RQr q \<Rightarrow>
            bind (gets unix_time) (\<lambda>t.
            if qr_expires q < t
            then bind (ignoring (redis_del (qr_token_key token)))
                   (\<lambda>_. fail (Msg ''QR code has expired''))
            else bind (redis_exists (replay_key (qr_nonce q))) (\<lambda>used.
              if used then fail (Msg ''QR code already used'')
              else bind (redis_set (replay_key (qr_nonce q)) (RStr ''1'')
                           (expiryMinutes cfg * 2 * 60 * second)) (\<lambda>_.
                   bind (ignoring (redis_del (qr_token_key token))) (\<lambda>_. ret q))))
        | _ \<Rightarrow> fail (ExtErr ''json: cannot unmarshal''))"

definition ProcessQRCode :: "qr_config \<Rightarrow> string \<Rightarrow> qr_data go" where
  "ProcessQRCode cfg qrData = (case resolve_token qrData of
       Done token \<Rightarrow> consume_token cfg token
     | Failed e \<Rightarrow> fail e
     | Panics p \<Rightarrow> panic p)"

end
