(* ===== verification/QR_Props.thy ===== *)
theory QR_Props
  imports QR Provider_Props
begin

text \<open>
  What the QR codes are good for: the parser never finds the token of a generated code, a token is
  accepted at most once, and the checksum sees every change of one character.
\<close>

unbundle bit_operations_syntax

section \<open>The parsers never find a token\<close>

lemma no_token_start: "token_start value = -1"
proof -
  have "take 7 (drop j value) \<noteq> ''token=''" if "j + 6 < length value" for j
  proof
    assume "take 7 (drop j value) = ''token=''"
    then have "length (take 7 (drop j value)) = 6" by simp
    with that show False by simp
  qed
  then have "find (\<lambda>j. j + 6 < length value \<and> take 7 (drop j value) = ''token='') [0..<length value] = None"
    by (auto simp: find_None_iff)
  then show ?thesis by (simp add: token_start_def)
qed

lemma no_link_token [simp]: "link_token value = None"
  by (simp add: link_token_def no_token_start)

lemma parseTag26_not_Done: "parseTag26 rest \<noteq> Done t"
  by (induction rest rule: parseTag26.induct)
     (subst parseTag26.simps, auto split: tlv.split)

lemma parse_elements_not_Done: "parse_elements rest \<noteq> Done t"
  by (induction rest rule: parse_elements.induct)
     (subst parse_elements.simps, auto simp: parseTag26_not_Done split: tlv.split outcome.split)

lemma resolve_token_emv:
  assumes "100 < length qrData" and "take 6 qrData = ''000201''"
  shows "resolve_token qrData \<noteq> Done t"
  using assms by (auto simp: resolve_token_def parseEMVCoQR_def parse_elements_not_Done split: outcome.split if_splits)

lemma process_emv_not_Done:
  assumes "100 < length qrData" and "take 6 qrData = ''000201''"
  shows "fst (ProcessQRCode cfg qrData w) \<noteq> Done q"
  using resolve_token_emv [OF assms]
  by (auto simp: ProcessQRCode_def fail_def panic_def split: outcome.split)

section \<open>Base64\<close>

lemma length_base64 [simp]: "length (base64_url s) = (length s + 2) div 3 * 4"
  proof (induction s rule: base64_url.induct)
  case (1 a b c s)
  then show ?case by (simp add: Let_def) presburger
qed (simp_all add: Let_def)

lemma b64_char_not_eq: "b64_char n \<noteq> CHR ''=''"
proof -
  have "b64_char n \<in> set base64url_alphabet"
    unfolding b64_char_def by (rule nth_mem) (simp add: base64url_alphabet_def)
  then show ?thesis by (auto simp: base64url_alphabet_def)
qed

lemma last_index_append_no:
  "CHR ''='' \<notin> set t \<Longrightarrow> last_index (CHR ''='') t = None"
  by (induction t) (auto split: option.split)

text \<open>Padding stands at the end only: nothing that follows an equals sign is a digit.\<close>

lemma base64_padding:
  "case last_index (CHR ''='') (base64_url s) of None \<Rightarrow> True | Some i \<Rightarrow> i + 1 = length (base64_url s)"
  by (induction s rule: base64_url.induct)
     (auto simp: Let_def b64_char_not_eq b64_char_not_eq [symmetric] split: option.splits simp del: length_base64)

lemma trim_base64: "trim_token (base64_url s) = base64_url s"
  using base64_padding [of s] by (auto simp: trim_token_def split: option.split)

lemma qr_json_prefix: "\<exists>r. qr_json q = CHR ''{'' # CHR 0x22 # CHR ''e'' # r \<and> 60 < length r"
  by (simp add: qr_json_def json_string_def json_char_def)


lemma base64_prefix: "take 6 (base64_url (CHR ''{'' # CHR 0x22 # CHR ''e'' # r)) \<noteq> ''000201''"
  by (simp add: Let_def b64_char_def base64url_alphabet_def)

lemma resolve_own_token: "resolve_token (base64_url (qr_json q)) = Done (base64_url (qr_json q))"
proof -
  obtain r where "qr_json q = CHR ''{'' # CHR 0x22 # CHR ''e'' # r" using qr_json_prefix by blast
  then have "take 6 (base64_url (qr_json q)) \<noteq> ''000201''" using base64_prefix by simp
  then show ?thesis by (simp add: resolve_token_def trim_base64)
qed

lemma emv_code_shape:
  assumes "60 < length token"
  shows "take 6 (buildEMVCoQR cfg token) = ''000201'' \<and> 100 < length (buildEMVCoQR cfg token)"
  using assms by (simp add: buildEMVCoQR_def Let_def deep_link_def hex4_def)

text \<open>The data that a successful generation stores, and its token.\<close>

definition issued :: "qr_config \<Rightarrow> string \<Rightarrow> string \<Rightarrow> string \<Rightarrow> world \<Rightarrow> qr_data" where
  "issued cfg rnd userID merchantID w = \<lparr>qr_user = userID, qr_merchant = merchantID,
     qr_timestamp = now w div second,
     qr_expires = (now w + expiryMinutes cfg * 60 * second) div second,
     qr_nonce = generateNonce rnd\<rparr>"

definition token_of :: "qr_data \<Rightarrow> string" where
  "token_of q = base64_url (qr_json q)"

lemma GenerateQRCode_Done:
  assumes "GenerateQRCode cfg rnd drawError userID merchantID w = (Done emv, w')"
  shows "emv = buildEMVCoQR cfg (token_of (issued cfg rnd userID merchantID w)) \<and>
    w' = redis_put (qr_token_key (token_of (issued cfg rnd userID merchantID w)))
       (RQr (issued cfg rnd userID merchantID w)) (expiryMinutes cfg * 60 * second) (used_fault w)"
  using assms
  by (auto simp: GenerateQRCode_def gets_def bind_def fail_def ret_def Let_def redis_set_def
      issued_def token_of_def split: if_splits option.splits)

lemma token_of_long: "60 < length (token_of q)"
proof -
  obtain r where "qr_json q = CHR ''{'' # CHR 0x22 # CHR ''e'' # r" "60 < length r"
    using qr_json_prefix by blast
  then show ?thesis by (simp add: token_of_def)
qed

lemma resolve_token_of [simp]: "resolve_token (token_of q) = Done (token_of q)"
  by (simp add: token_of_def resolve_own_token)

lemma b64_char_not_colon: "b64_char n \<noteq> CHR '':''"
proof -
  have "b64_char n \<in> set base64url_alphabet"
    unfolding b64_char_def by (rule nth_mem) (simp add: base64url_alphabet_def)
  then show ?thesis by (auto simp: base64url_alphabet_def)
qed

lemma base64_no_colon: "CHR '':'' \<notin> set (base64_url s)"
  by (induction s rule: base64_url.induct)
     (auto simp: Let_def b64_char_not_colon b64_char_not_colon [symmetric])

lemma replay_key_other: "replay_key n \<noteq> qr_token_key (token_of q)"
proof
  assume "replay_key n = qr_token_key (token_of q)"
  then have "token_of q = ''used:'' @ n" by (simp add: replay_key_def qr_token_key_def)
  then have "CHR '':'' \<in> set (token_of q)" by simp
  then show False using base64_no_colon by (simp add: token_of_def)
qed

lemma consume_token_fresh:
  assumes "redis_live (qr_token_key token) w = Some (RQr q)" and "faults w = []"
    and "unix_time w \<le> qr_expires q" and "redis_live (replay_key (qr_nonce q)) w = None"
  shows "fst (consume_token cfg token w) = Done q"
  using assms
  by (simp add: consume_token_def catching_def bind_def attempt_def redis_get_def redis_exists_def
      redis_set_def redis_del_def ignoring_def ret_def gets_def next_fault_def used_fault_def
      redis_put_def redis_live_def unix_time_def split: option.splits prod.splits if_splits)

text \<open>C14: a code that the service hands out can never be processed.  The text of every generated
  code starts with the EMVCo header and is longer than 100 characters, so \<open>ProcessQRCode\<close> parses
  it, and the parser compares seven characters with the six of \<open>token=\<close>: it finds no token,
  whatever the configuration, the state of Redis and the faults.\<close>

theorem generated_code_unusable:
  assumes "GenerateQRCode cfg rnd drawError userID merchantID w = (Done emv, w')"
  shows "fst (ProcessQRCode cfg' emv w'') \<noteq> Done q"
  using GenerateQRCode_Done [OF assms] emv_code_shape [OF token_of_long] process_emv_not_Done by blast

text \<open>The token inside a generated code does work: sent bare, at the time of generation and
  without faults, it gives back the user and the merchant it was issued for.\<close>

theorem token_round_trip:
  assumes "GenerateQRCode cfg rnd drawError userID merchantID w = (Done emv, w')"
    and "faults w = []" and "0 < expiryMinutes cfg"
    and "redis_live (replay_key (generateNonce rnd)) w = None"
  shows "\<exists>q. fst (ProcessQRCode cfg (token_of (issued cfg rnd userID merchantID w)) w') = Done q \<and>
     qr_user q = userID \<and> qr_merchant q = merchantID"
proof -
  let ?q = "issued cfg rnd userID merchantID w"
  have ttl: "0 < expiryMinutes cfg * 60 * second" using assms(3) by (simp add: second_def)
  have w': "w' = redis_put (qr_token_key (token_of ?q)) (RQr ?q) (expiryMinutes cfg * 60 * second)
      (used_fault w)"
    using GenerateQRCode_Done [OF assms(1)] by blast
  have "redis_live (qr_token_key (token_of ?q)) w' = Some (RQr ?q)"
    using ttl by (simp add: w')
  moreover have "faults w' = []" using assms(2) by (simp add: w' redis_put_def used_fault_def)
  moreover have "replay_key (qr_nonce ?q) \<noteq> qr_token_key (token_of ?q)"
    by (rule replay_key_other)
  then have "redis_live (replay_key (qr_nonce ?q)) w' = None"
    using assms(4) by (simp add: w' issued_def)
  moreover have "unix_time w' \<le> qr_expires ?q"
    using ttl by (simp add: w' unix_time_def issued_def zdiv_mono1 second_def)
  ultimately have "fst (consume_token cfg (token_of ?q) w') = Done ?q"
    by (intro consume_token_fresh)
  then show ?thesis by (simp add: ProcessQRCode_def issued_def)
qed

definition qr_sample_config :: qr_config where
  "qr_sample_config = \<lparr>qc_base_url = [], qc_route = [], qc_merchant_id = [], qc_merchant_name = [],
     qc_merchant_city = [], qc_expiry_minutes = 0\<rparr>"

lemma sample_generated:
  "GenerateQRCode qr_sample_config ''abcdefghijklmnop'' None ''7'' ''M1'' sample_world =
     (Done (buildEMVCoQR qr_sample_config
        (token_of (issued qr_sample_config ''abcdefghijklmnop'' ''7'' ''M1'' sample_world))),
      snd (GenerateQRCode qr_sample_config ''abcdefghijklmnop'' None ''7'' ''M1'' sample_world))"
  by (simp add: GenerateQRCode_def gets_def bind_def ret_def Let_def redis_set_def next_fault_def
      issued_def token_of_def sample_world_def)

lemma generated_code_unusable_witness:
  "fst (ProcessQRCode qr_sample_config (buildEMVCoQR qr_sample_config
     (token_of (issued qr_sample_config ''abcdefghijklmnop'' ''7'' ''M1'' sample_world))) sample_world)
   \<noteq> Done (issued qr_sample_config ''abcdefghijklmnop'' ''7'' ''M1'' sample_world)"
  by (rule generated_code_unusable [OF sample_generated])

lemma token_round_trip_witness:
  "\<exists>q. fst (ProcessQRCode qr_sample_config
       (token_of (issued qr_sample_config ''abcdefghijklmnop'' ''7'' ''M1'' sample_world))
       (snd (GenerateQRCode qr_sample_config ''abcdefghijklmnop'' None ''7'' ''M1'' sample_world)))
     = Done q \<and> qr_user q = ''7'' \<and> qr_merchant q = ''M1''"
  by (rule token_round_trip [OF sample_generated])
     (simp_all add: sample_world_def expiryMinutes_def qr_sample_config_def redis_live_def)

section \<open>One use per token\<close>

text \<open>
  What Redis shows under each key, and a token that is spent in it: no token data under the
  token, or the mark of its nonce.
\<close>

definition redis_view :: "world \<Rightarrow> string \<Rightarrow> rvalue option" where
  "redis_view w k = redis_live k w"

definition spent_in :: "string \<Rightarrow> (string \<Rightarrow> rvalue option) \<Rightarrow> bool" where
  "spent_in token L = (case L (qr_token_key token) of
     Some (RQr q) \<Rightarrow> (case L (replay_key (qr_nonce q)) of Some (RStr _) \<Rightarrow> True | _ \<Rightarrow> False)
   | _ \<Rightarrow> True)"

definition token_spent :: "string \<Rightarrow> world \<Rightarrow> bool" where
  "token_spent token w = spent_in token (redis_view w)"

definition scanned_token :: "string \<Rightarrow> string" where
  "scanned_token qrData = (case resolve_token qrData of Done t \<Rightarrow> t | _ \<Rightarrow> qrData)"

lemma redis_view_simps [simp]:
  "redis_view (used_fault w) = redis_view w"
  "0 < ttl \<Longrightarrow> redis_view (redis_put k v ttl w) = (redis_view w)(k \<mapsto> v)"
  "redis_view (redis_drop k w) = (redis_view w)(k := None)"
  by (rule ext; simp add: redis_view_def)+

text \<open>The three effects of \<open>consume_token\<close> on Redis: none, the deletion of an expired token,
  and on success the mark of the nonce with or without the deletion of the token.\<close>

lemma consume_token_view:
  assumes ttl: "0 < expiryMinutes cfg" and c: "consume_token cfg u w = (r, w')"
  defines "L \<equiv> redis_view w" and "K \<equiv> qr_token_key u"
  shows "(\<nexists>q. r = Done q) \<and> (redis_view w' = L \<or>
       (\<exists>q. L K = Some (RQr q)) \<and> redis_view w' = L(K := None)) \<or>
     (\<exists>q. r = Done q \<and> L K = Some (RQr q) \<and> L (replay_key (qr_nonce q)) = None \<and>
       redis_view w' \<in> {L(replay_key (qr_nonce q) \<mapsto> RStr ''1''),
         L(replay_key (qr_nonce q) \<mapsto> RStr ''1'', K := None)})"
  using c ttl unfolding L_def K_def
  by (auto simp: consume_token_def catching_def bind_def attempt_def redis_get_def redis_exists_def
      redis_set_def redis_del_def ignoring_def ret_def fail_def gets_def redis_view_def [symmetric]
      second_def split: option.splits rvalue.splits if_splits)

lemma spent_in_iff:
  "spent_in t L \<longleftrightarrow> (\<forall>q. L (qr_token_key t) = Some (RQr q) \<longrightarrow> (\<exists>s. L (replay_key (qr_nonce q)) = Some (RStr s)))"
proof (cases "L (qr_token_key t)")
  case (Some v)
  show ?thesis
  proof (cases v)
    case (RQr q)
    show ?thesis by (cases "L (replay_key (qr_nonce q))") (simp_all add: spent_in_def Some RQr split: rvalue.split)
  qed (simp_all add: spent_in_def Some)
qed (simp add: spent_in_def)

lemma spent_in_drop:
  assumes "spent_in t L" and "L k = Some (RQr q)"
  shows "spent_in t (L(k := None))"
  unfolding spent_in_iff
proof (intro allI impI)
  fix q' assume "(L(k := None)) (qr_token_key t) = Some (RQr q')"
  then have "L (qr_token_key t) = Some (RQr q')" by (cases "qr_token_key t = k") simp_all
  with assms(1) obtain s where s: "L (replay_key (qr_nonce q')) = Some (RStr s)" unfolding spent_in_iff by blast
  with assms(2) have "replay_key (qr_nonce q') \<noteq> k" by (metis option.inject rvalue.distinct(3) rvalue.simps)
  with s show "\<exists>s. (L(k := None)) (replay_key (qr_nonce q')) = Some (RStr s)" by simp
qed

lemma spent_in_mark:
  assumes "spent_in t L"
  shows "spent_in t (L(k \<mapsto> RStr m))"
  unfolding spent_in_iff
proof (intro allI impI)
  fix q assume "(L(k \<mapsto> RStr m)) (qr_token_key t) = Some (RQr q)"
  then have "L (qr_token_key t) = Some (RQr q)" by (cases "qr_token_key t = k") simp_all
  with assms obtain s where s: "L (replay_key (qr_nonce q)) = Some (RStr s)" unfolding spent_in_iff by blast
  then show "\<exists>s. (L(k \<mapsto> RStr m)) (replay_key (qr_nonce q)) = Some (RStr s)"
    by (cases "replay_key (qr_nonce q) = k") simp_all
qed

lemma spent_in_after:
  assumes "spent_in t L" and "L k = Some (RQr q)" and "L k' = None"
  shows "spent_in t (L(k' \<mapsto> RStr m, k := None))"
proof (rule spent_in_drop)
  show "spent_in t (L(k' \<mapsto> RStr m))" by (rule spent_in_mark [OF assms(1)])
  show "(L(k' \<mapsto> RStr m)) k = Some (RQr q)" using assms(2,3) by (cases "k = k'") simp_all
qed

lemma qr_single_use:
  assumes ttl: "0 < expiryMinutes cfg"
  shows "single_use (ProcessQRCode cfg) scanned_token token_spent"
proof
  fix c w x w'
  assume d: "ProcessQRCode cfg c w = (Done x, w')"
  then obtain u where u: "resolve_token c = Done u" and c: "consume_token cfg u w = (Done x, w')"
    by (auto simp: ProcessQRCode_def fail_def panic_def split: outcome.splits)
  from consume_token_view [OF ttl c] u show "token_spent (scanned_token c) w'"
    by (auto simp: token_spent_def spent_in_def scanned_token_def)
next
  fix c w x w'
  assume s: "token_spent (scanned_token c) w"
  show "ProcessQRCode cfg c w \<noteq> (Done x, w')"
  proof
    assume "ProcessQRCode cfg c w = (Done x, w')"
    then obtain u where u: "resolve_token c = Done u" and c: "consume_token cfg u w = (Done x, w')"
      by (auto simp: ProcessQRCode_def fail_def panic_def split: outcome.splits)
    from consume_token_view [OF ttl c] u s show False
      by (auto simp: token_spent_def spent_in_def scanned_token_def)
  qed
next
  fix k w c
  assume s: "token_spent k w"
  show "token_spent k (snd (ProcessQRCode cfg c w))"
  proof (cases "resolve_token c")
    case (Done u)
    obtain r w' where c: "consume_token cfg u w = (r, w')" by (cases "consume_token cfg u w")
    from consume_token_view [OF ttl c] s show ?thesis
      unfolding token_spent_def
      by (auto simp: ProcessQRCode_def Done c intro: spent_in_drop spent_in_mark spent_in_after)
  qed (use s in \<open>simp_all add: ProcessQRCode_def fail_def panic_def\<close>)
qed



section \<open>The checksum\<close>

lemma top_bit: "(x :: 16 word) AND 0x8000 \<noteq> 0 \<longleftrightarrow> bit x 15"
  using bit_iff_and_push_bit_not_eq_0 [of x 15] by simp

lemma xor_cancel: "(a :: 16 word) XOR c = b XOR c \<Longrightarrow> a = b"
  by (metis xor.assoc xor.right_neutral xor_self_eq)

lemma crc_low_bit: "bit (crc_shift x) 0 \<longleftrightarrow> bit x 15"
  unfolding crc_shift_def top_bit by (auto simp: bit_0 even_xor_iff)

lemma crc_shift_inj: "crc_shift a = crc_shift b \<Longrightarrow> a = b"
proof -
  assume eq: "crc_shift a = crc_shift b"
  then have top: "bit a 15 \<longleftrightarrow> bit b 15" by (metis crc_low_bit)
  with eq have push: "push_bit 1 a = push_bit 1 b"
    unfolding crc_shift_def top_bit by (auto split: if_splits dest: xor_cancel)
  show "a = b"
  proof (rule bit_word_eqI)
    fix n assume n: "n < LENGTH(16)"
    show "bit a n \<longleftrightarrow> bit b n"
    proof (cases "n = 15")
      case False
      have "bit (push_bit 1 a) (Suc n) = bit (push_bit 1 b) (Suc n)" using push by simp
      then show ?thesis using n False unfolding bit_push_bit_iff by simp
    qed (simp add: top)
  qed
qed

lemma crc_byte_inj: "crc_byte a c = crc_byte b c \<Longrightarrow> a = b"
  unfolding crc_byte_def
  by (drule injD [OF inj_fn, rotated]) (auto intro: injI crc_shift_inj dest: xor_cancel)


lemma crc_byte_inj_char:
  assumes "crc_byte a c = crc_byte a d"
  shows "c = d"
proof -
  have "a XOR push_bit 8 (of_char c) = a XOR push_bit 8 (of_char d)"
    using assms unfolding crc_byte_def
    by (drule_tac injD [OF inj_fn, rotated]) (auto intro: injI crc_shift_inj)
  then have eq: "push_bit 8 (of_char c :: 16 word) = push_bit 8 (of_char d)"
    by (metis xor_cancel xor.commute)
  have "unat (push_bit 8 (of_char x :: 16 word)) = of_char x * 256" for x :: char
  proof -
    have "push_bit 8 (of_char x :: 16 word) = of_nat (of_char x * 256)"
      by (simp add: push_bit_eq_mult of_nat_of_char)
    then show ?thesis
      by (simp only: unat_of_nat) (simp add: take_bit_eq_mod)
  qed
  then have "of_char c * (256 :: nat) = of_char d * 256" by (metis eq)
  then show "c = d" by simp
qed

lemma crc_suffix_inj: "foldl crc_byte a s = foldl crc_byte b s \<Longrightarrow> a = b"
  by (induction s arbitrary: a b) (auto dest: crc_byte_inj)

text \<open>C16: the checksum tells apart any two payloads that differ in one character, at any
  position.\<close>

theorem crc_detects_substitution:
  assumes "c \<noteq> d"
  shows "calculateCRC16 (before @ [c] @ after) \<noteq> calculateCRC16 (before @ [d] @ after)"
  using assms by (auto simp: calculateCRC16_def dest!: crc_suffix_inj crc_byte_inj_char)

lemma crc_detects_substitution_witness:
  "calculateCRC16 (''12'' @ [CHR ''3''] @ ''4'') \<noteq> calculateCRC16 (''12'' @ [CHR ''7''] @ ''4'')"
  by (rule crc_detects_substitution) simp

end
