(* ===== verification/Account_Access.thy ===== *)
theory Account_Access
  imports Accounts USSD_Props QR_Props
begin

text \<open>
  The account handlers of \<open>src/internal/services/account_service.go\<close>, second part: one-time
  passwords and the second factor, the QR and USSD endpoints, the identity token.

  \<^item> \<open>NewAccountService\<close> never sets \<open>ussdService\<close>; the field is an option, and a call through
    the nil pointer is a panic.
  \<^item> E-mails and text messages that carry a password are sent on other goroutines and are not
    modelled; the lookup of the addressee and its cache are.
\<close>

section \<open>The addressee of a notification\<close>

definition user_key :: "int \<Rightarrow> string" where
  "user_key uid = ''user:notif:'' @ show_int uid"

definition blank_user :: "int \<Rightarrow> user_row" where
  "blank_user uid = \<lparr>usr_id = uid, usr_bvn = [], usr_email = [], usr_phone = [], usr_first_name = []\<rparr>"

definition fetch_from_db :: "bool \<Rightarrow> int \<Rightarrow> user_row go" where
  "fetch_from_db has_redis uid =
     catching (bind (db_run (\<lambda>d. Some (find (\<lambda>u. usr_id u = uid) (users d), d))) scan_one)
       (\<lambda>_. ret (blank_user uid)) (\<lambda>u.
       let user = (blank_user uid)\<lparr>usr_email := usr_email u, usr_phone := usr_phone u,
             usr_first_name := usr_first_name u\<rparr>
       in if has_redis
          then bind (ignoring (redis_set (user_key uid) (RUser user) (30 * 60 * second))) (\<lambda>_. ret user)
          else ret user)"

definition fetchUserForNotification :: "bool \<Rightarrow> int \<Rightarrow> user_row go" where
  "fetchUserForNotification has_redis uid =
     (if has_redis
      then catching (redis_get (user_key uid)) (\<lambda>_. fetch_from_db has_redis uid)
             (\<lambda>v. case v of RUser u \<Rightarrow> ret u | _ \<Rightarrow> ret (blank_user uid))
      else fetch_from_db has_redis uid)"

section \<open>One-time passwords\<close>

text \<open>A request body here is \<open>None\<close> when it cannot be decoded, else its field \<open>action\<close>.\<close>

definition otp_key :: "string \<Rightarrow> string \<Rightarrow> string" where
  "otp_key action userId = action @ '':USER_2FA:'' @ userId"

definition otp_body :: "bool \<Rightarrow> bool \<Rightarrow> string \<Rightarrow> string \<Rightarrow> int \<Rightarrow> http_response go" where
  "otp_body has_redis notify otp action userId =
     catching (if has_redis then redis_set (otp_key action (show_int userId)) (RStr otp) (10 * 60 * second)
               else ret ())
       (\<lambda>_. err_response (Response OTPGenerationError) 424)
       (\<lambda>_. bind (if notify then bind (fetchUserForNotification has_redis userId) (\<lambda>_. ret ()) else ret ())
         (\<lambda>_. ret (SendSuccessResponse ''OTP Generated Successfully'' JNull 200)))"

definition GenerateUserOTP ::
  "bool \<Rightarrow> bool \<Rightarrow> string \<Rightarrow> request_context \<Rightarrow> string option \<Rightarrow> http_response list go" where
  "GenerateUserOTP has_redis notify otp c body = (case body of
       None \<Rightarrow> bind (err_response (Response InvalidRequestError) 400) (\<lambda>r. ret [r])
     | Some action \<Rightarrow>
         if action = [] then bind (err_response (Response ValidationError) 400) (\<lambda>r. ret [r])
         else with_identity c (\<lambda>userId _. otp_body has_redis notify otp action userId))"

definition check_otp :: "string \<Rightarrow> string \<Rightarrow> bool go" where
  "check_otp key userOTP =
     catching (redis_get key) (\<lambda>_. ret False)
       (\<lambda>v. if (case v of RStr s \<Rightarrow> s | RInt n \<Rightarrow> show_int n | _ \<Rightarrow> []) \<noteq> userOTP then ret False
            else bind (ignoring (redis_del key)) (\<lambda>_. ret True))"

definition ValidateUser2FA :: "bool \<Rightarrow> string \<Rightarrow> string \<Rightarrow> string \<Rightarrow> bool go" where
  "ValidateUser2FA has_redis userId userOTP action =
     (if action = ''BYPASS'' then ret True
      else if action = ''2FA-CODE''
      then (if has_redis then check_otp (otp_key action userId) userOTP else ret False)
      else if action = ''FACIAL_RECOGNITION'' then ret True
      else ret False)"

section \<open>QR codes\<close>

definition err_answer :: "go_err \<Rightarrow> int \<Rightarrow> http_response go" where
  "err_answer err code = err_response (err_text err) code"

definition AccountGenerateQRCode ::
  "qr_config \<Rightarrow> string \<Rightarrow> go_err option \<Rightarrow> string \<Rightarrow> request_context \<Rightarrow> http_response list go" where
  "AccountGenerateQRCode cfg random16 drawError qrImage c = with_identity c (\<lambda>userID merchantID.
     if merchantID = 0 then err_response ''Invalid Merchant'' 401
     else catching (GenerateQRCode cfg random16 drawError (show_int userID) (show_int merchantID))
       (\<lambda>err. err_answer err 424)
       (\<lambda>qrCode. ret (SendSuccessResponse ''QR Generated Successfully''
          (JObj [(''qrCode'', JStr qrCode), (''qrImage'', JStr qrImage)]) 200)))"

definition qr_result_json :: "qr_data \<Rightarrow> json" where
  "qr_result_json q = JObj [(''userId'', JStr (qr_user q)), (''merchantId'', JStr (qr_merchant q)),
     (''timestamp'', JInt (qr_timestamp q)), (''expiresAt'', JInt (qr_expires q)),
     (''nonce'', JStr (qr_nonce q))]"

definition AccountProcessQRCode :: "qr_config \<Rightarrow> string \<Rightarrow> http_response go" where
  "AccountProcessQRCode cfg qrData =
     (if qrData = [] then err_response ''token parameter is required'' 400
      else catching (ProcessQRCode cfg qrData) (\<lambda>err. err_answer err 400)
        (\<lambda>q. ret (SendSuccessResponse ''QR Process Successfully'' (qr_result_json q) 200)))"

section \<open>USSD codes\<close>

record ussd_request =
  ur_Type :: string
  ur_Amount :: int
  ur_Currency :: string

definition nil_service :: "'a go" where
  "nil_service = panic ''nil pointer dereference: ussdService''"

definition GenerateUSSDCode ::
  "ussd_config option \<Rightarrow> (nat \<Rightarrow> nat) \<Rightarrow> string \<Rightarrow> request_context \<Rightarrow> ussd_request json_body \<Rightarrow>
     http_response go" where
  "GenerateUSSDCode service rnd transactionId c body =
     (case ctx_userID c of
        None \<Rightarrow> err_response (Response UnauthorizedError) 401
      | Some userID \<Rightarrow>
          if userID = [] then err_response (Response UnauthorizedError) 401
          else case body of
            BodyError \<Rightarrow> err_response (Response ProcessingFailed) 400
          | BodyMultiple \<Rightarrow> err_response (Response SingleObjectError) 400
          | BodyOne req \<Rightarrow> (case service of
              None \<Rightarrow> nil_service
            | Some cfg \<Rightarrow>
                catching (if ur_Type req = ''Send''
                   then GeneratePushCode cfg rnd transactionId userID (ur_Amount req)
                   else GeneratePullCode cfg rnd transactionId userID (ur_Amount req))
                  (\<lambda>err. err_answer err 424)
                  (\<lambda>code. ret (SendSuccessResponse ''USSD Code Generated''
                     (JObj [(''ussdCode'', JStr (FormatDialCode cfg code)),
                        (''expiresIn'', JInt (GetCodeTimeout cfg div second))]) 200))))"

definition ussd_code_json :: "ussd_code \<Rightarrow> json" where
  "ussd_code_json u = JObj [(''code'', JStr (us_Code u)), (''transactionId'', JStr (us_TransactionID u)),
     (''txType'', JStr (us_Type u)), (''userId'', JStr (us_UserID u)), (''amount'', JInt (us_Amount u)),
     (''expiresAt'', JInt (us_ExpiresAt u)), (''expired'', JBool (us_Expired u)),
     (''used'', JBool (us_Used u)), (''currency'', JStr (us_Currency u))]"

text \<open>Every code is checked as a pull code: the detection of the type is an empty branch.\<close>

definition ValidateUSSDCode :: "ussd_config option \<Rightarrow> string json_body \<Rightarrow> http_response go" where
  "ValidateUSSDCode service body = (case body of
       BodyError \<Rightarrow> err_response (Response ProcessingFailed) 400
     | BodyMultiple \<Rightarrow> err_response (Response SingleObjectError) 400
     | BodyOne code \<Rightarrow> (case service of
         None \<Rightarrow> nil_service
       | Some cfg \<Rightarrow> catching (ValidateAndConsume cfg code PullPayment) (\<lambda>err. err_answer err 400)
           (\<lambda>u. ret (SendSuccessResponse ''Code Validated Successfully'' (ussd_code_json u) 200))))"

definition AccountGetUserCodes :: "ussd_config option \<Rightarrow> request_context \<Rightarrow> http_response go" where
  "AccountGetUserCodes service c =
     (case ctx_userID c of
        None \<Rightarrow> err_response (Response UnauthorizedError) 401
      | Some userID \<Rightarrow>
          if userID = [] then err_response (Response UnauthorizedError) 401
          else case service of
            None \<Rightarrow> nil_service
          | Some cfg \<Rightarrow> catching (GetUserCodes userID) (\<lambda>err. err_answer err 424)
              (\<lambda>codes. ret (SendSuccessResponse ''Success'' (JArr (map ussd_code_json codes)) 200)))"

section \<open>The identity token\<close>

definition face_key :: "string \<Rightarrow> string" where
  "face_key bvn = ''BVN_FACE:'' @ bvn"

text \<open>The body is the BVN and the selfie; the selfie is not looked at.\<close>

definition ValidateFacialIdentity ::
  "bool \<Rightarrow> nat list \<Rightarrow> (string \<times> string) json_body \<Rightarrow> http_response go" where
  "ValidateFacialIdentity has_redis draws body = (case body of
       BodyError \<Rightarrow> err_response (Response ProcessingFailed) 400
     | BodyMultiple \<Rightarrow> err_response (Response SingleObjectError) 400
     | BodyOne (bvn, selfie) \<Rightarrow>
         let token = GenerateImageIdentityToken draws
         in catching (if has_redis then redis_set (face_key bvn) (RStr token) (5 * 60 * second) else ret ())
              (\<lambda>_. err_response (Response OTPGenerationError) 424)
              (\<lambda>_. ret (SendSuccessResponse ''Validated Successfully''
                 (JObj [(''identityToken'', JStr token)]) 200)))"

end
