(* ===== verification/Account_Props.thy ===== *)
theory Account_Props
  imports Account_Access
begin

text \<open>
  Properties of the account handlers: the invariants that linking, unlinking and setting limits
  keep, what a successful link means, the second factor, virtual accounts, and the endpoints
  without a service behind them.
\<close>

section \<open>Frames\<close>

lemma committed_is_sw [keeps_intros]:
  "keeps (committed_is d) (EnquireName env a b)" "keeps (committed_is d) (CreateMandate env q)"
  "keeps (committed_is d) (GetBalance env a n b v m)"
proof -
  show "keeps (committed_is d) (EnquireName env a b)"
  proof (rule keepsI)
    fix w assume "committed_is d w"
    moreover obtain r w' where e: "EnquireName env a b w = (r, w')" by (meson surj_pair)
    ultimately show "committed_is d (snd (EnquireName env a b w))"
      using EnquireName_logs [OF e] by (auto simp: logs_def committed_is_def)
  qed
  have call: "keeps (committed_is d) (call_switch net c url p x dec)" for net c url p x dec
  proof (rule keepsI)
    fix w assume "committed_is d w"
    moreover obtain r w' where e: "call_switch net c url p x dec w = (r, w')" by (meson surj_pair)
    ultimately show "committed_is d (snd (call_switch net c url p x dec w))"
      using call_switch_world [OF e] by (auto simp: committed_is_def)
  qed
  have check: "keeps (committed_is d) (checkResponseCode x y)" for x y
    unfolding checkResponseCode_def by (intro keeps_intros)
  show "keeps (committed_is d) (CreateMandate env q)"
    unfolding CreateMandate_def ExecuteMandateAdvice_def by (intro keeps_intros call)
  show "keeps (committed_is d) (GetBalance env a n b v m)"
    unfolding GetBalance_def ExecuteBalanceEnquiry_def by (intro keeps_intros call check)
qed

lemma keeps_err_response [keeps_intros]: "keeps P (err_response m c)"
  by (simp add: err_response_def keeps_ret)

lemma keeps_with_identity [keeps_intros]:
  "(\<And>u m. keeps P (h u m)) \<Longrightarrow> keeps P (with_identity c h)"
  unfolding with_identity_def by (intro keeps_intros) auto

text \<open>A statement that keeps an invariant of the tables.\<close>

definition db_keeps :: "(db \<Rightarrow> bool) \<Rightarrow> 'a stmt \<Rightarrow> bool" where
  "db_keeps I st \<longleftrightarrow> (\<forall>d x d'. I d \<longrightarrow> st d = Some (x, d') \<longrightarrow> I d')"

definition table_inv :: "(db \<Rightarrow> bool) \<Rightarrow> world \<Rightarrow> bool" where
  "table_inv I w \<longleftrightarrow> I (committed w)"

lemma keeps_db_run:
  assumes "db_keeps I st"
  shows "keeps (table_inv I) (db_run st)"
proof (rule keepsI)
  fix w assume I: "table_inv I w"
  show "table_inv I (snd (db_run st w))"
  proof (cases "st (committed w)")
    case None
    with I show ?thesis by (simp add: table_inv_def db_run_def)
  next
    case (Some p)
    obtain x d where p: "p = (x, d)" by (cases p)
    then have "I d" using assms I Some unfolding db_keeps_def table_inv_def by blast
    with I Some p show ?thesis by (simp add: table_inv_def db_run_def)
  qed
qed

text \<open>What leaves the tables alone keeps every invariant of them.\<close>

lemma keeps_table_inv: "(\<And>d. keeps (committed_is d) m) \<Longrightarrow> keeps (table_inv I) m"
proof (rule keepsI)
  fix w assume k: "\<And>d. keeps (committed_is d) m" and I: "table_inv I w"
  have "committed_is (committed w) (snd (m w))"
    by (rule keepsD [OF k]) (simp add: committed_is_def)
  with I show "table_inv I (snd (m w))" by (simp add: committed_is_def table_inv_def)
qed

section \<open>The invariant of the account tables\<close>

definition one_primary :: "db \<Rightarrow> bool" where
  "one_primary d \<longleftrightarrow> (\<forall>u. length (filter (\<lambda>r. acct_user r = Some u \<and> acct_primary r) (accounts d)) \<le> 1)"

definition limits_ok :: "db \<Rightarrow> bool" where
  "limits_ok d \<longleftrightarrow> distinct (map lim_user (user_limits d)) \<and>
     (\<forall>l \<in> set (user_limits d). 0 < lim_single l \<and> lim_single l \<le> lim_daily l)"

definition account_inv :: "db \<Rightarrow> bool" where
  "account_inv d \<longleftrightarrow> distinct (map acct_id (accounts d)) \<and> one_primary d \<and> limits_ok d"

lemma filter_map_same:
  "(\<And>r. P (f r) = P r) \<Longrightarrow> filter P (map f xs) = map f (filter P xs)"
  by (induction xs) auto

lemma db_keeps_link:
  assumes "acct_user row = Some u" and "acct_primary row = p"
  shows "db_keeps account_inv (sql_link u p row)"
  unfolding db_keeps_def
proof (intro allI impI)
  fix d x d'
  assume I: "account_inv d" and s: "sql_link u p row d = Some (x, d')"
  let ?f = "\<lambda>r. if p \<and> acct_user r = Some u then r\<lparr>acct_primary := False\<rparr> else r"
  from s have a: "accounts d' = map ?f (accounts d) @ [row]" and l: "user_limits d' = user_limits d"
    and new: "acct_id row \<notin> acct_id ` set (accounts d)"
    by (auto simp: sql_link_def split: if_splits)
  have ids: "map acct_id (map ?f (accounts d)) = map acct_id (accounts d)" by simp
  have "distinct (map acct_id (accounts d'))"
    using I new unfolding a account_inv_def map_append ids by auto
  moreover have "one_primary d'"
    unfolding one_primary_def
  proof
    fix v
    have old: "length (filter (\<lambda>r. acct_user r = Some v \<and> acct_primary r) (accounts d)) \<le> 1"
      using I by (simp add: account_inv_def one_primary_def)
    show "length (filter (\<lambda>r. acct_user r = Some v \<and> acct_primary r) (accounts d')) \<le> 1"
    proof (cases "v = u \<and> p")
      case True
      then have "filter (\<lambda>r. acct_user r = Some v \<and> acct_primary r) (map ?f (accounts d)) = []"
        by (auto simp: filter_empty_conv)
      then show ?thesis using a by simp
    next
      case False
      then have "filter (\<lambda>r. acct_user r = Some v \<and> acct_primary r) (map ?f (accounts d)) =
          map ?f (filter (\<lambda>r. acct_user r = Some v \<and> acct_primary r) (accounts d))"
        by (intro filter_map_same) auto
      moreover have "filter (\<lambda>r. acct_user r = Some v \<and> acct_primary r) [row] = []"
        using False assms by auto
      ultimately show ?thesis unfolding a filter_append using old by simp
    qed
  qed
  ultimately show "account_inv d'" using I l by (simp add: account_inv_def limits_ok_def)
qed

lemma db_keeps_unlink: "db_keeps account_inv (sql_unlink u a)"
  unfolding db_keeps_def
proof (intro allI impI)
  fix d x d'
  assume I: "account_inv d" and s: "sql_unlink u a d = Some (x, d')"
  let ?f = "\<lambda>r. if acct_user r = Some u \<and> acct_id r = a then r\<lparr>acct_status := ''0''\<rparr> else r"
  from s have a: "accounts d' = map ?f (accounts d)" "user_limits d' = user_limits d"
    by (auto simp: sql_unlink_def Let_def)
  have "filter (\<lambda>r. acct_user r = Some v \<and> acct_primary r) (map ?f (accounts d)) =
      map ?f (filter (\<lambda>r. acct_user r = Some v \<and> acct_primary r) (accounts d))" for v
    by (intro filter_map_same) auto
  moreover have "map acct_id (map ?f (accounts d)) = map acct_id (accounts d)" by simp
  ultimately show "account_inv d'"
    using I unfolding account_inv_def one_primary_def limits_ok_def a by (simp only: length_map) blast
qed

lemma db_keeps_limits:
  assumes "0 < single" and "single \<le> daily"
  shows "db_keeps account_inv (sql_upsert_limits u daily single)"
  unfolding db_keeps_def
proof (intro allI impI)
  fix d x d'
  assume I: "account_inv d" and s: "sql_upsert_limits u daily single d = Some (x, d')"
  let ?f = "\<lambda>l. if lim_user l = u then l\<lparr>lim_daily := daily, lim_single := single\<rparr> else l"
  have ids: "map lim_user (map ?f (user_limits d)) = map lim_user (user_limits d)" by simp
  have "accounts d' = accounts d" using s by (auto simp: sql_upsert_limits_def split: if_splits)
  moreover have "limits_ok d'"
  proof (cases "u \<in> lim_user ` set (user_limits d)")
    case True
    with s have "user_limits d' = map ?f (user_limits d)"
      by (auto simp: sql_upsert_limits_def split: if_splits)
    moreover have "distinct (map lim_user (user_limits d))" using I by (simp add: account_inv_def limits_ok_def)
    moreover have "\<forall>l \<in> set (map ?f (user_limits d)). 0 < lim_single l \<and> lim_single l \<le> lim_daily l"
      using I assms by (auto simp: account_inv_def limits_ok_def)
    ultimately show ?thesis using ids unfolding limits_ok_def by (simp only:)
  next
    case False
    with s assms I show ?thesis
      by (auto simp: sql_upsert_limits_def account_inv_def limits_ok_def split: if_splits)
  qed
  ultimately show "account_inv d'" using I by (simp add: account_inv_def one_primary_def)
qed


section \<open>The handlers keep it\<close>

lemma keeps_err_enquiry [keeps_intros]: "keeps P (enquiry_failed sv err m c)"
  unfolding enquiry_failed_def by (intro keeps_intros)

lemma keeps_case_body [keeps_intros]:
  "keeps P a \<Longrightarrow> keeps P b \<Longrightarrow> (\<And>x. keeps P (k x)) \<Longrightarrow>
   keeps P (case v of BodyError \<Rightarrow> a | BodyMultiple \<Rightarrow> b | BodyOne x \<Rightarrow> k x)"
  by (cases v) simp_all

lemma keeps_read: "(\<And>d x d'. st d = Some (x, d') \<Longrightarrow> d' = d) \<Longrightarrow> keeps (table_inv I) (db_run st)"
  by (intro keeps_db_run) (auto simp: db_keeps_def)

lemma link_check_reads: "link_check u req d = Some (x, d') \<Longrightarrow> d' = d"
  by (auto simp: link_check_def split: option.splits if_splits)

lemmas keeps_switch = committed_is_sw [THEN keeps_table_inv]

lemma keeps_link: "keeps (table_inv account_inv) (LinkAccount (nip_services env) c body)"
proof -
  have "keeps (table_inv account_inv) (db_run (sql_link u (lr_IsPrimary q) (new_account u q ne m)))"
    for u q ne m
    by (intro keeps_db_run db_keeps_link) (simp_all add: new_account_def)
  moreover have "keeps (table_inv account_inv) (db_run (link_check u q))" for u q
    by (rule keeps_read) (rule link_check_reads)
  ultimately show ?thesis
    unfolding LinkAccount_def link_body_def link_new_def nip_services_def account_services.simps
    by (intro keeps_intros keeps_switch)
qed

lemma keeps_unlink: "keeps (table_inv account_inv) (UnlinkAccount c a)"
  unfolding UnlinkAccount_def by (intro keeps_intros keeps_db_run db_keeps_unlink)

lemma keeps_limits: "keeps (table_inv account_inv) (UpdateUserLimits c body)"
proof -
  have "keeps (table_inv account_inv) (limits_body u body)" for u
    unfolding limits_body_def
    by (intro keeps_intros keeps_db_run db_keeps_limits) auto
  then show ?thesis unfolding UpdateUserLimits_def by (intro keeps_intros)
qed

text \<open>The requests that change the account tables, as one handler.\<close>

datatype account_request =
    LinkReq nip_env request_context "link_request json_body"
  | UnlinkReq request_context string
  | LimitsReq request_context "(int \<times> int) json_body"

fun handle_account :: "account_request \<Rightarrow> http_response list go" where
  "handle_account (LinkReq env c body) = LinkAccount (nip_services env) c body"
| "handle_account (UnlinkReq c a) = UnlinkAccount c a"
| "handle_account (LimitsReq c body) = UpdateUserLimits c body"

interpretation account_requests: tx_request handle_account account_inv
proof
  fix w :: world and req
  assume "account_inv (committed w)"
  then have "table_inv account_inv w" by (simp add: table_inv_def)
  then have "table_inv account_inv (snd (handle_account req w))"
    by (cases req) (auto intro: keepsD [OF keeps_link] keepsD [OF keeps_unlink] keepsD [OF keeps_limits])
  then show "account_inv (committed (snd (handle_account req w)))" by (simp add: table_inv_def)
qed

text \<open>C18: over any sequence of link, unlink and limit requests, with any answers of the switch and
  any faults, account numbers stay unique, no user ever has two primary accounts, and every
  stored single limit is positive and at most the daily limit.\<close>

theorem account_tables_invariant:
  assumes "account_inv (committed w)"
  shows "account_inv (committed (run_all handle_account reqs w))"
  using assms by (rule account_requests.serve_inv)

lemma account_inv_sample: "account_inv sample_db"
  by (simp add: account_inv_def one_primary_def limits_ok_def sample_defs)

lemma account_tables_invariant_witness:
  "account_inv (committed (run_all handle_account
     [LinkReq (sample_env False) \<lparr>ctx_userID = Some ''7'', ctx_merchantID = None, ctx_isAdmin = None\<rparr>
        (BodyOne \<lparr>lr_BankCode = ''058'', lr_AccountNumber = ''2000000001'', lr_IsPrimary = True\<rparr>),
      LimitsReq \<lparr>ctx_userID = Some ''7'', ctx_merchantID = None, ctx_isAdmin = None\<rparr>
        (BodyOne (900, 50))] sample_world))"
  by (rule account_tables_invariant) (simp add: account_inv_sample [unfolded sample_db_def] sample_world_def sample_db_def)


section \<open>The second factor\<close>

definition stored_otp :: "string \<Rightarrow> world \<Rightarrow> string option" where
  "stored_otp userId w = (case redis_live (otp_key ''2FA-CODE'' userId) w of
      None \<Rightarrow> None | Some v \<Rightarrow> Some (case v of RStr s \<Rightarrow> s | RInt n \<Rightarrow> show_int n | _ \<Rightarrow> []))"


text \<open>Looking up the addressee leaves a stored password alone and never fails.\<close>

definition holds_key :: "string \<Rightarrow> rvalue \<Rightarrow> world \<Rightarrow> bool" where
  "holds_key k v w \<longleftrightarrow> redis_live k w = Some v \<and> faults w = []"

lemma used_fault_none [simp]: "faults w = [] \<Longrightarrow> used_fault w = w"
  by (simp add: used_fault_def)

lemma faults_redis_put: "faults (redis_put k v t w) = faults w"
  by (simp add: redis_put_def)

lemma holds_key_keeps:
  "keeps (holds_key k v) (redis_get k')" "keeps (holds_key k v) (db_run st)"
  "k' \<noteq> k \<Longrightarrow> keeps (holds_key k v) (redis_set k' v' t)"
proof -
  show "keeps (holds_key k v) (redis_get k')"
    by (rule keepsI) (auto simp: holds_key_def redis_get_def split: option.split)
  show "keeps (holds_key k v) (db_run st)"
    by (rule keepsI) (auto simp: holds_key_def db_run_def split: option.split)
  show "k' \<noteq> k \<Longrightarrow> keeps (holds_key k v) (redis_set k' v' t)"
    by (rule keepsI) (auto simp: holds_key_def redis_set_def faults_redis_put)
qed

lemma keeps_rvalue_user:
  "(\<And>u. keeps P (f u)) \<Longrightarrow> keeps P m \<Longrightarrow> keeps P (case v of RUser u \<Rightarrow> f u | _ \<Rightarrow> m)"
  by (cases v) simp_all

lemma holds_key_fetch:
  assumes "user_key n \<noteq> k"
  shows "keeps (holds_key k v) (fetchUserForNotification has_redis n)"
  unfolding fetchUserForNotification_def fetch_from_db_def Let_def
  by (intro keeps_intros holds_key_keeps committed_is_scan keeps_rvalue_user assms)

lemma fetch_Done: "\<exists>u. fst (fetchUserForNotification has_redis n w) = Done u"
  by (auto simp: fetchUserForNotification_def fetch_from_db_def catching_def bind_def attempt_def redis_get_def
      redis_set_def ret_def fail_def ignoring_def db_run_def scan_one_def Let_def
      split: option.splits rvalue.splits)

text \<open>A password generated for the action \<open>2FA-CODE\<close> passes the second factor once: without
  faults it is accepted, and a second use of it is refused.\<close>

theorem otp_works_once:
  assumes "faults w = []"
    and "GenerateUserOTP True notify otp c (Some ''2FA-CODE'') w = (Done resp, w1)"
    and "ctx_userID c = Some u" and "u \<noteq> []"
  shows "\<exists>w2. ValidateUser2FA True (show_int (atoi0 u)) otp ''2FA-CODE'' w1 = (Done True, w2) \<and>
     fst (ValidateUser2FA True (show_int (atoi0 u)) otp' ''2FA-CODE'' w2) = Done False"
proof -
  let ?key = "otp_key ''2FA-CODE'' (show_int (atoi0 u))"
  let ?w = "redis_put ?key (RStr otp) (10 * 60 * second) w"
  let ?f = "fetchUserForNotification True (atoi0 u) ?w"
  have h: "holds_key ?key (RStr otp) ?w"
    using assms(1) by (simp add: holds_key_def redis_put_def redis_live_def second_def)
  have "user_key (atoi0 u) \<noteq> ?key" by (simp add: user_key_def otp_key_def)
  then have "keeps (holds_key ?key (RStr otp)) (fetchUserForNotification True (atoi0 u))"
    by (rule holds_key_fetch)
  then have "holds_key ?key (RStr otp) (snd ?f)" using h unfolding keeps_def by blast
  moreover have "w1 = ?w \<or> w1 = snd ?f"
    using assms fetch_Done [of True "atoi0 u" ?w]
    by (cases ?f) (auto simp: GenerateUserOTP_def with_identity_def ExtractUserMerchantInfoFromContext_def
        otp_body_def catching_def bind_def attempt_def redis_set_def ret_def next_fault_def Let_def
        split: if_splits)
  ultimately have "holds_key ?key (RStr otp) w1" using h by auto
  then show ?thesis
    by (auto simp: ValidateUser2FA_def check_otp_def catching_def bind_def attempt_def redis_get_def ret_def
        ignoring_def redis_del_def next_fault_def holds_key_def)
qed


lemma sample_otp:
  "GenerateUserOTP True True ''12345678'' \<lparr>ctx_userID = Some ''7'', ctx_merchantID = None, ctx_isAdmin = None\<rparr>
     (Some ''2FA-CODE'') sample_world = (Done [SendSuccessResponse ''OTP Generated Successfully'' JNull 200],
       snd (GenerateUserOTP True True ''12345678''
         \<lparr>ctx_userID = Some ''7'', ctx_merchantID = None, ctx_isAdmin = None\<rparr> (Some ''2FA-CODE'') sample_world))"
proof -
  have "fst (GenerateUserOTP True True ''12345678''
      \<lparr>ctx_userID = Some ''7'', ctx_merchantID = None, ctx_isAdmin = None\<rparr> (Some ''2FA-CODE'') sample_world)
    = Done [SendSuccessResponse ''OTP Generated Successfully'' JNull 200]" by code_simp
  then show ?thesis by (simp add: prod_eq_iff)
qed

lemma otp_works_once_witness:
  "\<exists>w2. ValidateUser2FA True (show_int (atoi0 ''7'')) ''12345678'' ''2FA-CODE''
     (snd (GenerateUserOTP True True ''12345678''
       \<lparr>ctx_userID = Some ''7'', ctx_merchantID = None, ctx_isAdmin = None\<rparr> (Some ''2FA-CODE'') sample_world))
     = (Done True, w2) \<and>
   fst (ValidateUser2FA True (show_int (atoi0 ''7'')) ''12345678'' ''2FA-CODE'' w2) = Done False"
  by (rule otp_works_once [OF _ sample_otp]) (simp_all add: sample_world_def)

section \<open>What a link means\<close>

lemma enquire_committed:
  "EnquireName env a b w = (r, w') \<Longrightarrow> committed w' = committed w \<and> (\<forall>p. r \<noteq> Panics p)"
  using EnquireName_logs by (fastforce simp: logs_def)

lemma mandate_committed:
  assumes "CreateMandate env q w = (r, w')"
  shows "committed w' = committed w"
  using keepsD [OF committed_is_sw(2), of "committed w" w env q] assms by (simp add: committed_is_def)

lemma mandate_no_panic: "fst (CreateMandate env q w) \<noteq> Panics p"
  by (auto simp: CreateMandate_def ExecuteMandateAdvice_def catching_def bind_def attempt_def fail_def ret_def
      split: outcome.splits prod.splits if_splits dest!: call_switch_world)

definition demote :: "int \<Rightarrow> bool \<Rightarrow> account \<Rightarrow> account" where
  "demote u p r = (if p \<and> acct_user r = Some u then r\<lparr>acct_primary := False\<rparr> else r)"

definition bvn_agrees :: "string \<Rightarrow> ne_result \<Rightarrow> bool" where
  "bvn_agrees bvn ne \<longleftrightarrow> bvn = [] \<or> nr_BankVerificationNumber ne = [] \<or> bvn = nr_BankVerificationNumber ne"

lemma link_new_effect:
  assumes "link_new (nip_services env) u req bvn w = (r, w')"
  shows "\<exists>x. r = Done x \<and>
    ((\<not> hr_success x \<and> committed w' = committed w) \<or>
     (\<exists>ne m. (hr_success x \<longleftrightarrow> parse_int (lr_AccountNumber req) \<noteq> None) \<and> bvn_agrees bvn ne \<and>
        lr_AccountNumber req \<notin> acct_id ` set (accounts (committed w)) \<and>
        accounts (committed w') = map (demote u (lr_IsPrimary req)) (accounts (committed w))
          @ [new_account u req ne m]))"
proof -
  obtain s w1 where s: "EnquireName env (lr_AccountNumber req) (lr_BankCode req) w = (s, w1)" by (meson surj_pair)
  note c1 = enquire_committed [OF s]
  show ?thesis
  proof (cases s)
    case (Done ne)
    show ?thesis
    proof (cases "bvn_agrees bvn ne")
      case True
      obtain v w2 where v: "CreateMandate env (link_mandate req ne bvn) w1 = (v, w2)" by (meson surj_pair)
      note c2 = mandate_committed [OF v]
      show ?thesis
      proof (cases v)
        case (Done m)
        let ?st = "sql_link u (lr_IsPrimary req) (new_account u req ne m)"
        obtain z w3 where z: "db_run ?st w2 = (z, w3)" by (meson surj_pair)
        have r: "(r, w') = catching (db_run ?st) (\<lambda>_. err_response ''Failed to Link Account'' 424) (\<lambda>_.
           case parse_int (lr_AccountNumber req) of
             None \<Rightarrow> err_response ''Failed to Link Account'' 424
           | Some accountID \<Rightarrow> ret (SendSuccessResponse ''Account Linked Successfully''
               (linked_json accountID u req ne m) 200)) w2"
          using assms s v Done \<open>s = Done ne\<close> True
          by (auto simp: link_new_def nip_services_def catching_simps bvn_agrees_def)
        show ?thesis
        proof (cases "\<exists>d. ?st (committed w2) = Some ((), d) \<and> \<not> next_fault w2")
          case True
          then show ?thesis using r c1 c2 \<open>bvn_agrees bvn ne\<close>
            by (auto simp: catching_def bind_def attempt_def db_run_def err_response_def ret_def sql_link_def
                demote_def [abs_def] new_account_def split: if_splits option.splits)
        next
          case False
          then have "db_run ?st w2 = (Failed DbErr, used_fault w2)"
            by (auto simp: db_run_def split: option.split)
          then show ?thesis using r c1 c2 by (simp add: catching_simps err_response_def ret_def)
        qed
      next
        case (Failed e)
        then show ?thesis using assms s v \<open>s = Done ne\<close> True c1 c2
          by (auto simp: link_new_def nip_services_def catching_simps bvn_agrees_def err_response_def ret_def)
      next
        case (Panics p)
        with mandate_no_panic [of env "link_mandate req ne bvn" w1 p] v show ?thesis by simp
      qed
    next
      case False
      then show ?thesis using assms s Done c1
        by (auto simp: link_new_def nip_services_def catching_simps bvn_agrees_def err_response_def ret_def)
    qed
  next
    case (Failed e)
    then show ?thesis using assms s c1
      by (auto simp: link_new_def nip_services_def catching_simps enquiry_failed_def err_response_def ret_def
          split: if_splits)
  qed (use c1 in auto)
qed


text \<open>What linking does.  A request that is answered with an error leaves the tables alone,
  except that a verified account with a number that is no integer is stored and reported as
  failed; a successful one has appended exactly one account with a number that was new, owned by
  the caller, with the caller's BVN not contradicted by the bank, and demoted the caller's other
  primary accounts when the new one is primary.\<close>

theorem link_account_effect:
  assumes "LinkAccount (nip_services env) c (BodyOne req) w = (r, w')"
    and "ctx_userID c = Some uid" and "uid \<noteq> []"
  shows "\<exists>x. r = Done [x] \<and>
    ((\<not> hr_success x \<and> committed w' = committed w) \<or>
     (\<exists>ne m. (hr_success x \<longleftrightarrow> parse_int (lr_AccountNumber req) \<noteq> None) \<and>
        bvn_agrees (user_bvn (atoi0 uid) (committed w)) ne \<and>
        lr_AccountNumber req \<notin> acct_id ` set (accounts (committed w)) \<and>
        accounts (committed w') = map (demote (atoi0 uid) (lr_IsPrimary req)) (accounts (committed w))
          @ [new_account (atoi0 uid) req ne m]))"
proof -
  obtain s v where b: "link_body (nip_services env) (atoi0 uid) (BodyOne req) w = (s, v)" by (meson surj_pair)
  have h: "LinkAccount (nip_services env) c (BodyOne req) w =
      bind (link_body (nip_services env) (atoi0 uid) (BodyOne req)) (\<lambda>x. ret [x]) w"
    using assms(2,3) by (simp add: LinkAccount_def with_identity_def ExtractUserMerchantInfoFromContext_def)
  then have rw: "s = Done x \<Longrightarrow> r = Done [x] \<and> w' = v" for x
    using assms(1) by (auto simp: bind_def b ret_def)
  have "\<exists>x. s = Done x \<and> ((\<not> hr_success x \<and> committed v = committed w) \<or>
     (\<exists>ne m. (hr_success x \<longleftrightarrow> parse_int (lr_AccountNumber req) \<noteq> None) \<and>
        bvn_agrees (user_bvn (atoi0 uid) (committed w)) ne \<and>
        lr_AccountNumber req \<notin> acct_id ` set (accounts (committed w)) \<and>
        accounts (committed v) = map (demote (atoi0 uid) (lr_IsPrimary req)) (accounts (committed w))
          @ [new_account (atoi0 uid) req ne m]))"
  proof (cases "\<not> next_fault w \<and> linked_row (atoi0 uid) req (committed w) = None")
    case True
    have d: "db_run (link_check (atoi0 uid) req) w =
        (Done (False, user_bvn (atoi0 uid) (committed w)), used_fault w)"
      using True by (simp add: db_run_def link_check_def used_fault_def)
    with b have "link_new (nip_services env) (atoi0 uid) req (user_bvn (atoi0 uid) (committed w)) (used_fault w)
        = (s, v)"
      by (simp add: link_body_def catching_simps)
    from link_new_effect [OF this] show ?thesis by simp
  next
    case False
    then show ?thesis using b
      by (auto simp: link_body_def catching_def bind_def attempt_def db_run_def link_check_def err_response_def
          ret_def used_fault_def split: if_splits option.splits)
  qed
  then show ?thesis using rw by blast
qed

definition sample_identity :: request_context where
  "sample_identity = \<lparr>ctx_userID = Some ''7'', ctx_merchantID = Some ''3'', ctx_isAdmin = None\<rparr>"

lemma link_account_effect_witness:
  "\<exists>x. fst (LinkAccount (nip_services (sample_env False)) sample_identity
       (BodyOne \<lparr>lr_BankCode = ''058'', lr_AccountNumber = ''2000000001'', lr_IsPrimary = True\<rparr>) sample_world)
     = Done [x] \<and> \<not> hr_success x"
proof -
  let ?l = "LinkAccount (nip_services (sample_env False)) sample_identity
       (BodyOne \<lparr>lr_BankCode = ''058'', lr_AccountNumber = ''2000000001'', lr_IsPrimary = True\<rparr>) sample_world"
  have "fst ?l = Done [SendErrorResponse (''BVN does not match the account holder'' @ [CHR 0x27] @ ''s BVN'') 422]"
    by code_simp
  moreover have "\<exists>x. fst ?l = Done [x]"
  proof -
    have "ctx_userID sample_identity = Some ''7''" "''7'' \<noteq> []" by (simp_all add: sample_identity_def)
    from link_account_effect [OF prod.collapse [symmetric] this] show ?thesis by blast
  qed
  ultimately show ?thesis by simp
qed

section \<open>Virtual accounts\<close>

lemma generated_number:
  assumes "10 \<le> length draws"
  shows "IsValidAccountId (generateVirtualAccountNumber draws) \<and>
    TrimSpace (generateVirtualAccountNumber draws) = generateVirtualAccountNumber draws"
proof -
  let ?n = "generateVirtualAccountNumber draws"
  have digits: "list_all is_digit ?n"
    by (auto simp: generateVirtualAccountNumber_def generateRandomNumericString_def list_all_iff is_digit_char)
  then have "\<forall>c \<in> set ?n. \<not> is_space c"
    by (auto simp: list_all_iff is_digit_def is_space_def less_eq_char_def)
  then have "TrimSpace ?n = ?n" by (rule TrimSpace_id)
  moreover have "length ?n = 10"
    using assms by (simp add: generateVirtualAccountNumber_def generateRandomNumericString_def)
  ultimately show ?thesis using digits by (simp add: IsValidAccountId_def)
qed

definition issued_va :: "nat list \<Rightarrow> int \<Rightarrow> string \<Rightarrow> merchant_row \<Rightarrow> int \<Rightarrow> va_data" where
  "issued_va draws merchantID amountStr m t =
     \<lparr>va_number = generateVirtualAccountNumber draws, va_name = mer_name m, va_bank = ''RuralPay Bank'',
      va_merchant = show_int merchantID,
      va_amount = (case parse_int amountStr of Some a \<Rightarrow> a | None \<Rightarrow> 0),
      va_expires = (t + 3600 * second) div second\<rparr>"

lemma va_body_run:
  assumes "faults w = []" and "mid \<noteq> 0" and "find_merchant (show_int mid) (committed w) = Some m"
    and "mer_status m = ''ACTIVE''"
  shows "va_body True stamp draws mid amountStr w =
    (Done (va_response (generateVirtualAccountNumber draws) (mer_name m) (stamp (now w + 3600 * second))),
     redis_put (va_key (generateVirtualAccountNumber draws)) (RVa (issued_va draws mid amountStr m (now w)))
       (3600 * second) w)"
  using assms
  by (simp add: va_body_def Let_def catching_def bind_def attempt_def db_run_def scan_one_def ret_def
      gets_def redis_set_def next_fault_def issued_va_def)

lemma va_body_error:
  assumes "faults w = []"
    and "mid = 0 \<or> (case find_merchant (show_int mid) (committed w) of None \<Rightarrow> True | Some m \<Rightarrow> mer_status m \<noteq> ''ACTIVE'')"
  shows "\<exists>y w'. va_body True stamp draws mid amountStr w = (Done y, w') \<and> \<not> hr_success y"
  using assms
  by (cases "mid = 0"; cases "find_merchant (show_int mid) (committed w)")
     (simp_all add: va_body_def Let_def catching_def bind_def attempt_def db_run_def scan_one_def ret_def fail_def
      err_response_def next_fault_def)

text \<open>A virtual account works: after one was generated for a merchant, an enquiry for its
  number, without faults, answers with the merchant's name from the local store.\<close>

theorem va_round_trip:
  assumes "faults w = []" and "10 \<le> length draws"
    and "GetVirtualAccount True stamp draws c amountStr w = (Done [x], w1)" and "hr_success x"
    and "sv_has_redis sv"
  shows "\<exists>m w2. find_merchant (show_int (snd (snd (ExtractUserMerchantInfoFromContext c)))) (committed w) = Some m \<and>
    mer_status m = ''ACTIVE'' \<and>
    AccountNameEnquiry sv (generateVirtualAccountNumber draws) [] w1 =
      account_found (generateVirtualAccountNumber draws) (mer_name m) ''local'' w2"
proof -
  let ?n = "generateVirtualAccountNumber draws"
  obtain early u mid where e: "ExtractUserMerchantInfoFromContext c = (early, u, mid)" by (metis surj_pair)
  have h: "early = None \<and> va_body True stamp draws mid amountStr w = (Done x, w1)"
    using assms(3) by (cases early)
      (auto simp: GetVirtualAccount_def with_identity_def e bind_def ret_def split: prod.splits outcome.splits)
  then obtain m where nz: "mid \<noteq> 0" and m: "find_merchant (show_int mid) (committed w) = Some m"
      "mer_status m = ''ACTIVE''"
    using va_body_error [OF assms(1), of mid stamp draws amountStr] assms(4)
    by (cases "find_merchant (show_int mid) (committed w)") fastforce+
  let ?va = "issued_va draws mid amountStr m (now w)"
  have w1: "w1 = redis_put (va_key ?n) (RVa ?va) (3600 * second) w"
    using h va_body_run [OF assms(1) nz m] by simp
  have "\<not> va_expires ?va < unix_time w1"
    by (simp add: w1 unix_time_def zdiv_mono1 second_def issued_va_def)
  moreover have "redis_get (va_key ?n) w1 = (Done (RVa ?va), w1)"
    using assms(1) by (simp add: w1 redis_get_def second_def next_fault_def redis_put_def redis_live_def used_fault_def)
  ultimately have "ValidateVirtualAccount ?n w1 = (Done ?va, w1)"
    by (simp add: ValidateVirtualAccount_def catching_simps bind_def gets_def ret_def)
  note valid = catching_simps(1) [where m = "ValidateVirtualAccount ?n", OF this]
  have n: "IsValidAccountId ?n" "TrimSpace ?n = ?n" using generated_number [OF assms(2)] by blast+
  then have "?n \<noteq> []" by (auto simp: IsValidAccountId_def)
  with n assms(5) have "AccountNameEnquiry sv ?n [] w1 = account_found ?n (mer_name m) ''local'' w1"
    by (simp add: AccountNameEnquiry_def TrimSpace_id valid issued_va_def Let_def)
  with m e show ?thesis by auto
qed


definition merchant_world :: world where
  "merchant_world = sample_world\<lparr>committed := sample_db\<lparr>merchants := [\<lparr>mer_id = ''3'', mer_name = ''SHOP'',
     mer_status = ''ACTIVE'', mer_account = None, mer_user = 7\<rparr>]\<rparr>\<rparr>"

lemma sample_va:
  "GetVirtualAccount True (\<lambda>t. ''T'') [1, 2, 3, 4, 5, 6, 7, 8, 9, 0] sample_identity [] merchant_world =
     (Done [va_response ''1234567890'' ''SHOP'' ''T''],
      snd (GetVirtualAccount True (\<lambda>t. ''T'') [1, 2, 3, 4, 5, 6, 7, 8, 9, 0] sample_identity [] merchant_world))"
proof -
  have "fst (GetVirtualAccount True (\<lambda>t. ''T'') [1, 2, 3, 4, 5, 6, 7, 8, 9, 0] sample_identity [] merchant_world)
    = Done [va_response ''1234567890'' ''SHOP'' ''T'']" by code_simp
  then show ?thesis by (simp add: prod_eq_iff)
qed

lemma va_round_trip_witness:
  "\<exists>m w2. find_merchant (show_int (snd (snd (ExtractUserMerchantInfoFromContext sample_identity))))
     (committed merchant_world) = Some m \<and> mer_status m = ''ACTIVE'' \<and>
   AccountNameEnquiry (nip_services (sample_env True))
       (generateVirtualAccountNumber [1, 2, 3, 4, 5, 6, 7, 8, 9, 0]) []
       (snd (GetVirtualAccount True (\<lambda>t. ''T'') [1, 2, 3, 4, 5, 6, 7, 8, 9, 0] sample_identity [] merchant_world))
     = account_found (generateVirtualAccountNumber [1, 2, 3, 4, 5, 6, 7, 8, 9, 0]) (mer_name m) ''local'' w2"
  by (rule va_round_trip [OF _ _ sample_va])
     (simp_all add: merchant_world_def sample_world_def va_response_def nip_services_def)

section \<open>The endpoints without a service\<close>

text \<open>As \<open>NewAccountService\<close> builds the service, every well-formed request to generate, to
  check or to list USSD codes panics: the USSD service behind them is a nil pointer.\<close>

theorem ussd_endpoints_panic:
  assumes "ctx_userID c = Some u" and "u \<noteq> []"
  shows "(\<exists>p. fst (GenerateUSSDCode None rnd t c (BodyOne req) w) = Panics p) \<and>
    (\<exists>p. fst (ValidateUSSDCode None (BodyOne code) w) = Panics p) \<and>
    (\<exists>p. fst (AccountGetUserCodes None c w) = Panics p)"
  using assms
  by (simp add: GenerateUSSDCode_def ValidateUSSDCode_def AccountGetUserCodes_def nil_service_def panic_def)

lemma ussd_endpoints_panic_witness:
  "\<exists>p. fst (AccountGetUserCodes None sample_identity sample_world) = Panics p"
proof -
  have "ctx_userID sample_identity = Some ''7''" "''7'' \<noteq> []" by (simp_all add: sample_identity_def)
  from ussd_endpoints_panic [OF this] show ?thesis by blast
qed

end
