(* ===== verification/Bank_Transfer.thy ===== *)
theory Bank_Transfer
  imports Account_Props Provider_Props
begin

text \<open>
  Transfers to other banks, \<open>src/internal/providers/bank_transfer_provider.go\<close>: the checks, the
  call of the funds transfer service and the record that the audit logger writes and commits.

  \<^item> The ledger posting and the settlement are commented out in the source and absent here.
  \<^item> The funds transfer service is the Go interface \<open>FundsTransferService\<close>, an argument; the
    properties are about its NIP implementation.
  \<^item> \<open>calculateFee\<close> computes in \<open>float64\<close>: half of the amount is exact, the division by 100 is
    rounded to 53 bits, and the conversion back truncates.
\<close>

section \<open>The request\<close>

definition keep_alnum :: "string \<Rightarrow> string" where
  "keep_alnum s = filter is_alnum (TrimSpace s)"

definition sanitized :: "payment_request \<Rightarrow> payment_request" where
  "sanitized req = req\<lparr>pr_FromAccount := keep_alnum (pr_FromAccount req),
     pr_BeneficiaryAccountNumber := keep_alnum (pr_BeneficiaryAccountNumber req),
     pr_Narration := TrimSpace (pr_Narration req)\<rparr>"

text \<open>The request as it is rewritten, and the error.\<close>

definition sanitizeRequest :: "payment_request \<Rightarrow> payment_request \<times> go_err option" where
  "sanitizeRequest req0 = (let req = sanitized req0 in
     (req, if 100 < rune_count (pr_Narration req)
           then Some (Msg ''narration must not exceed 100 characters'')
           else if 20 < length (pr_FromAccount req) then Some (Msg ''source account number too long'')
           else if 20 < length (pr_BeneficiaryAccountNumber req)
           then Some (Msg ''destination account number too long'')
           else None))"

section \<open>The fee\<close>

text \<open>The double nearest to \<open>p / q\<close>, truncated to a whole number; quotients below one are left
  at zero, which holds for the division by 200.\<close>

definition float_quotient :: "nat \<Rightarrow> nat \<Rightarrow> nat" where
  "float_quotient p q = (let d = p div q; b = bit_count d
     in if d = 0 then 0
        else if b \<le> 53 then round_even (p * 2 ^ (53 - b)) q div 2 ^ (53 - b)
        else round_even p (q * 2 ^ (b - 53)) * 2 ^ (b - 53))"

definition calculateFee :: "int \<Rightarrow> int" where
  "calculateFee amount =
     wrap64 (sgn amount * int (float_quotient (float64_nat (nat \<bar>amount\<bar>)) 200) + 10)"

section \<open>Checks\<close>

definition bank_ValidatePayment :: "payment_request \<Rightarrow> (payment_request \<times> go_err option) go" where
  "bank_ValidatePayment req0 = (case sanitizeRequest req0 of
       (req, Some err) \<Rightarrow> ret (req, Some err)
     | (req, None) \<Rightarrow>
         bind (ValidateUser2FA True (pr_UserID req) (pr_OneTimeCode req) (pr_TwoFAType req)) (\<lambda>valid.
         if \<not> valid then ret (req, Some (Msg (Response MultiFactorAuthError)))
         else if pr_FromAccount req = [] then ret (req, Some (Msg ''source account is required''))
         else if pr_BeneficiaryAccountNumber req = []
         then ret (req, Some (Msg ''destination account is required''))
         else if pr_FromAccount req = pr_BeneficiaryAccountNumber req
         then ret (req, Some (Msg ''cannot transfer to same account''))
         else if pr_Amount req \<le> 0 then ret (req, Some (Msg ''amount must be positive''))
         else catching (bind (db_run (\<lambda>d. Some (find_account (pr_FromAccount req) d, d))) scan_one)
           (\<lambda>err. if err = NoRows then ret (req, Some (Msg ''source account not found''))
              else ret (req, Some (Msg (Response ValidationError))))
           (\<lambda>r. if acct_status r \<noteq> ''ACTIVE'' then ret (req, Some (Msg ''Source Account Not Active''))
              else ret (req, None))))"

section \<open>The payment\<close>

type_synonym funds_transfer =
  "string \<Rightarrow> payment_request \<Rightarrow> (funds_transfer_result option \<times> go_err option) go"

definition bank_response :: "bool \<Rightarrow> string \<Rightarrow> string \<Rightarrow> int \<Rightarrow> payment_request \<Rightarrow> payment_response" where
  "bank_response ok reference message t req = \<lparr>rs_Success = ok, rs_TransactionID = pr_TransactionID req,
     rs_Reference = reference, rs_Status = (if ok then ''SUCCESS'' else ''FAILED''), rs_Message = message,
     rs_Metadata = Map.empty, rs_PaymentMode = ''BANK_TRANSFER'', rs_Timestamp = t\<rparr>"

definition bank_event :: "int \<Rightarrow> payment_request \<Rightarrow> audit_event" where
  "bank_event t req = \<lparr>ae_Timestamp = t, ae_EventType = ''SUCCESSFUL_BANK_TRANSFER_TRANSATION'',
     ae_TxRequest = req, ae_Error = [], ae_Details = Map.empty\<rparr>"

definition bank_transfer ::
  "hsm_iface \<Rightarrow> string \<Rightarrow> funds_transfer \<Rightarrow> string \<Rightarrow> payment_request \<Rightarrow> int \<Rightarrow> provider_result go" where
  "bank_transfer HSM nonce ft sessionId req t =
     bind (ft sessionId req) (\<lambda>(result, err). case err of
       Some e \<Rightarrow> ret (req, Some (bank_response False sessionId (Response PaymentFailed) t req), Some e)
     | None \<Rightarrow>
         bind (ignoring (LogTransaction HSM nonce (bank_event t req))) (\<lambda>_. case result of
           None \<Rightarrow> panic ''nil pointer dereference: fundsTransferResult''
         | Some r \<Rightarrow> ret (req, Some (bank_response True (ft_Reference r) ''Transaction Successful'' t req), None)))"

definition bank_ProcessPayment ::
  "hsm_iface \<Rightarrow> string \<Rightarrow> funds_transfer \<Rightarrow> string \<Rightarrow> payment_request \<Rightarrow> provider_result go" where
  "bank_ProcessPayment HSM nonce ft sessionId req0 =
     bind (gets now) (\<lambda>t.
     bind (bank_ValidatePayment req0) (\<lambda>(req, err). case err of
       Some e \<Rightarrow> ret (req, Some (bank_response False [] (err_text e) t req), Some e)
     | None \<Rightarrow> deferring
         (catching tx_begin (\<lambda>e. ret (req, None, Some e))
            (\<lambda>_. bank_transfer HSM nonce ft sessionId req t))
         tx_rollback))"

definition nip_transfer :: "nip_env \<Rightarrow> funds_transfer" where
  "nip_transfer env = DoTransaction env True"

definition bankTransferProvider :: "hsm_iface \<Rightarrow> string \<Rightarrow> nip_env \<Rightarrow> payment_provider" where
  "bankTransferProvider HSM nonce env = \<lparr>GetPaymentMode = ''BANK_TRANSFER'',
     ProcessPayment = bank_ProcessPayment HSM nonce (nip_transfer env) (en_session env)\<rparr>"

text \<open>The table that decided, before settlement was commented out, which failures to reverse.\<close>

definition shouldReverseOnSettlementFailure :: "string \<Rightarrow> bool" where
  "shouldReverseOnSettlementFailure status \<longleftrightarrow> status = ''RJCT''"

section \<open>Sanitized requests\<close>

lemma keep_alnum_idem: "keep_alnum (keep_alnum s) = keep_alnum s"
proof -
  have "TrimSpace (keep_alnum s) = keep_alnum s"
    by (rule TrimSpace_id) (auto simp: keep_alnum_def alnum_not_space)
  then show ?thesis by (simp add: keep_alnum_def)
qed

lemma sanitized_idem: "sanitized (sanitized req) = sanitized req"
  by (simp add: sanitized_def keep_alnum_idem TrimSpace_idem)

lemma ValidateUser2FA_committed: "committed (snd (ValidateUser2FA r u otp a w)) = committed w"
proof -
  have "keeps (committed_is (committed w)) (ValidateUser2FA r u otp a)"
    unfolding ValidateUser2FA_def check_otp_def by (intro keeps_intros)
  from keepsD [OF this, of w] show ?thesis by (simp add: committed_is_def)
qed

lemma bank_ValidatePayment_ok:
  assumes "bank_ValidatePayment req0 w = (Done (req, None), w')"
  shows "sanitizeRequest req0 = (req, None) \<and> 0 < pr_Amount req \<and> pr_FromAccount req \<noteq> [] \<and>
    pr_BeneficiaryAccountNumber req \<noteq> [] \<and> pr_FromAccount req \<noteq> pr_BeneficiaryAccountNumber req \<and>
    (\<exists>r. find_account (pr_FromAccount req) (committed w) = Some r \<and> acct_status r = ''ACTIVE'')"
proof -
  obtain q e where q: "sanitizeRequest req0 = (q, e)" by (meson surj_pair)
  have e: "e = None" using assms q by (cases e) (auto simp: bank_ValidatePayment_def ret_def)
  obtain v w1 where v: "ValidateUser2FA True (pr_UserID q) (pr_OneTimeCode q) (pr_TwoFAType q) w = (Done v, w1)"
    using assms q e by (auto simp: bank_ValidatePayment_def bind_def split: prod.splits outcome.splits)
  have c: "committed w1 = committed w"
    using ValidateUser2FA_committed [of True "pr_UserID q" "pr_OneTimeCode q" "pr_TwoFAType q" w] v by simp
  have b: "v" "pr_FromAccount q \<noteq> []" "pr_BeneficiaryAccountNumber q \<noteq> []"
    "pr_FromAccount q \<noteq> pr_BeneficiaryAccountNumber q" "0 < pr_Amount q"
    using assms q e v by (auto simp: bank_ValidatePayment_def bind_def ret_def split: if_splits)
  have "q = req \<and> (\<exists>r. find_account (pr_FromAccount q) (committed w1) = Some r \<and> acct_status r = ''ACTIVE'')"
    using assms q e v b
    by (cases "find_account (pr_FromAccount q) (committed w1)")
       (auto simp: bank_ValidatePayment_def bind_def ret_def fail_def catching_def attempt_def db_run_def scan_one_def
        split: if_splits)
  with b q e c show ?thesis by auto
qed


definition dirty_request :: payment_request where
  "dirty_request = sample_transfer_request\<lparr>pr_FromAccount := '' 1000-000001 ''\<rparr>"

lemma dirty_sanitized: "sanitizeRequest dirty_request = (sanitized dirty_request, None)"
proof -
  have "snd (sanitizeRequest dirty_request) = None" by code_simp
  then show ?thesis by (simp add: sanitizeRequest_def Let_def split: if_splits)
qed

lemma dirty_fields: "pr_FromAccount (sanitized dirty_request) = ''1000000001''"
  "pr_BeneficiaryAccountNumber (sanitized dirty_request) = ''2000000001''"
  "pr_Amount (sanitized dirty_request) = 30" "pr_TwoFAType (sanitized dirty_request) = ''BYPASS''"
  by code_simp+

lemma sample_source: "find_account ''1000000001'' sample_db = Some (mk_account ''1000000001'' 500 (Some 7))"
  by (simp add: sample_db_def find_account_def mk_account_def)

lemma bypass_2fa: "ValidateUser2FA r u otp ''BYPASS'' w = (Done True, w)"
  by (simp add: ValidateUser2FA_def ret_def)

lemma dirty_validated:
  assumes "faults w = []" and "accounts (committed w) = accounts sample_db"
  shows "bank_ValidatePayment dirty_request w = (Done (sanitized dirty_request, None), w)"
proof -
  have "find_account ''1000000001'' (committed w) = find_account ''1000000001'' sample_db"
    using assms(2) by (simp add: find_account_def)
  then show ?thesis
    using assms(1)
    by (simp add: bank_ValidatePayment_def dirty_sanitized dirty_fields bypass_2fa sample_source
      catching_def attempt_def bind_def db_run_def scan_one_def ret_def next_fault_def used_fault_def mk_account_def)
qed


section \<open>What a payment leaves\<close>

text \<open>The accounts, committed and in the open transaction, and the messages sent so far.\<close>

definition quiet :: "account list \<Rightarrow> nip_call list \<Rightarrow> world \<Rightarrow> bool" where
  "quiet as l w \<longleftrightarrow> accounts (committed w) = as \<and> (\<forall>d b. tx w = Some (d, b) \<longrightarrow> accounts d = as) \<and> nip_log w = l"

lemma quiet_tx_run:
  assumes "\<And>d x d'. st d = Some (x, d') \<Longrightarrow> accounts d' = accounts d"
  shows "keeps (quiet as l) (tx_run st)"
proof (rule keepsI)
  fix w assume q: "quiet as l w"
  show "quiet as l (snd (tx_run st w))"
  proof (cases "tx w")
    case (Some p)
    obtain d b where p: "p = (d, b)" by (cases p)
    show ?thesis
    proof (cases "st d")
      case (Some y)
      obtain x d' where y: "y = (x, d')" by (cases y)
      with assms Some have "accounts d' = accounts d" by blast
      with q \<open>tx w = Some p\<close> p y Some show ?thesis by (simp add: quiet_def tx_run_def)
    qed (use q Some p in \<open>simp add: quiet_def tx_run_def\<close>)
  qed (use q in \<open>simp add: quiet_def tx_run_def\<close>)
qed

lemma quiet_db_read:
  assumes "\<And>d x d'. st d = Some (x, d') \<Longrightarrow> d' = d"
  shows "keeps (quiet as l) (db_run st)"
proof (rule keepsI)
  fix w assume q: "quiet as l w"
  show "quiet as l (snd (db_run st w))"
  proof (cases "st (committed w)")
    case (Some y)
    obtain x d' where y: "y = (x, d')" by (cases y)
    with assms Some have "d' = committed w" by blast
    with q y Some show ?thesis by (simp add: quiet_def db_run_def)
  qed (use q in \<open>simp add: quiet_def db_run_def\<close>)
qed

lemma quiet_tx [keeps_intros]: "keeps (quiet as l) tx_begin" "keeps (quiet as l) tx_commit"
  by (rule keepsI; auto simp: quiet_def tx_begin_def tx_commit_def split: option.splits)+

lemma quiet_redis [keeps_intros]:
  "keeps (quiet as l) (redis_get k)" "keeps (quiet as l) (redis_del k)"
  by (rule keepsI; auto simp: quiet_def redis_get_def redis_del_def split: option.splits)+

lemma quiet_LogTransaction [keeps_intros]: "keeps (quiet as l) (LogTransaction HSM nonce event)"
  unfolding LogTransaction_def Let_def
  by (intro keeps_intros quiet_tx_run) (auto dest: sql_insert_audit_frame sql_insert_transaction_frame)

lemma quiet_ValidateUser2FA [keeps_intros]: "keeps (quiet as l) (ValidateUser2FA r u otp a)"
  unfolding ValidateUser2FA_def check_otp_def by (intro keeps_intros)

lemma quiet_bank_ValidatePayment: "keeps (quiet as l) (bank_ValidatePayment req)"
  unfolding bank_ValidatePayment_def
  by (intro keeps_intros quiet_db_read) auto

lemma quiet_DoTransaction:
  assumes "quiet as l w" and "DoTransaction env b sid req w = (r, w')"
  shows "\<exists>cs ms. quiet as (l @ cs @ ms) w' \<and> name_calls cs \<and> transfer_messages sid req ms \<and>
    (transferred r \<longrightarrow> length ms = 2)"
  using DoTransaction_world [OF assms(2)] assms(1) unfolding quiet_def by auto

text \<open>A payment past its checks: the messages it sends, and whether it is reported as paid.\<close>

lemma bank_transfer_effect:
  assumes "quiet as l w" and "bank_transfer HSM nonce (nip_transfer env) sid req t w = (r, w')"
  shows "\<exists>cs ms. quiet as (l @ cs @ ms) w' \<and> name_calls cs \<and> transfer_messages sid req ms \<and>
    (\<forall>q resp. r = Done (q, Some resp, None) \<longrightarrow> q = req \<and> length ms = 2)"
proof -
  obtain s w1 where s: "DoTransaction env True sid req w = (s, w1)" by (meson surj_pair)
  obtain cs ms where m: "quiet as (l @ cs @ ms) w1" "name_calls cs" "transfer_messages sid req ms"
    "transferred s \<longrightarrow> length ms = 2" using quiet_DoTransaction [OF assms(1) s] by blast
  consider (ok) x where "s = Done (Some x, None)" | (err) e where "s = Done (None, Some e)"
    | (crash) p where "s = Panics p" using DoTransaction_world [OF s] by (auto simp: transferred_def)
  then show ?thesis
  proof cases
    case ok
    let ?a = "ignoring (LogTransaction HSM nonce (bank_event t req))"
    obtain u w2 where u: "?a w1 = (u, w2)" by (meson surj_pair)
    have "keeps (quiet as (l @ cs @ ms)) ?a" by (intro keeps_intros)
    with m(1) u have "quiet as (l @ cs @ ms) w2" by (metis keepsD snd_conv)
    moreover have "w' = w2"
      using assms(2) s ok u by (auto simp: bank_transfer_def nip_transfer_def bind_def ret_def split: outcome.splits)
    moreover have "r = Done (q, Some resp, None) \<Longrightarrow> q = req" for q resp
      using assms(2) s ok u by (auto simp: bank_transfer_def nip_transfer_def bind_def ret_def split: outcome.splits)
    ultimately show ?thesis using m ok by (auto simp: transferred_def)
  qed (use assms(2) s m in \<open>auto simp: bank_transfer_def nip_transfer_def bind_def ret_def\<close>)
qed

lemma deferring_rollback_quiet: "quiet as l (tx_rollback w) \<longleftrightarrow> accounts (committed w) = as \<and> nip_log w = l"
  by (simp add: quiet_def)

lemma bank_ProcessPayment_steps:
  assumes "bank_ProcessPayment HSM nonce (nip_transfer env) sid req0 w = (Done (q, Some resp, None), w')"
  shows "\<exists>req w1 w2 w3. bank_ValidatePayment req0 w = (Done (req, None), w1) \<and> tx_begin w1 = (Done (), w2) \<and>
    bank_transfer HSM nonce (nip_transfer env) sid req (now w) w2 = (Done (q, Some resp, None), w3) \<and>
    w' = tx_rollback w3"
proof -
  obtain v w1 where v: "bank_ValidatePayment req0 w = (v, w1)" by (meson surj_pair)
  obtain req where req: "v = Done (req, None)"
    using assms v
    by (auto simp: bank_ProcessPayment_def bind_def gets_def ret_def split: outcome.splits option.splits)
  let ?body = "\<lambda>_. bank_transfer HSM nonce (nip_transfer env) sid req (now w)"
  have c: "deferring (catching tx_begin (\<lambda>e. ret (req, None, Some e)) ?body) tx_rollback w1
      = (Done (q, Some resp, None), w')"
    using assms v req by (simp add: bank_ProcessPayment_def bind_def gets_def)
  then obtain w3 where w3: "catching tx_begin (\<lambda>e. ret (req, None, Some e)) ?body w1
      = (Done (q, Some resp, None), w3)" "w' = tx_rollback w3"
    by (auto simp: deferring_def split: prod.splits)
  obtain b w2 where b: "tx_begin w1 = (b, w2)" by (meson surj_pair)
  then have "b = Done ()"
    using w3(1) by (cases b) (auto simp: catching_simps ret_def)
  with b w3 v req show ?thesis by (auto simp: catching_simps)
qed

text \<open>A bank transfer reported as paid has sent the switch exactly one debit and one credit
  message, of the sanitized request's amount, and has moved nothing between the accounts of the
  database: the balances are the switch's.\<close>

theorem paid_bank_transfer_messages:
  assumes "bank_ProcessPayment HSM nonce (nip_transfer env) sid req0 w = (Done (q, Some resp, None), w')"
    and "tx w = None"
  shows "q = sanitized req0 \<and> accounts (committed w') = accounts (committed w) \<and>
    (\<exists>cs ms. name_calls cs \<and> nip_log w' = nip_log w @ cs @ ms \<and> transfer_messages sid q ms \<and> length ms = 2)"
proof -
  obtain req w1 w2 w3 where s: "bank_ValidatePayment req0 w = (Done (req, None), w1)"
    "tx_begin w1 = (Done (), w2)"
    "bank_transfer HSM nonce (nip_transfer env) sid req (now w) w2 = (Done (q, Some resp, None), w3)"
    "w' = tx_rollback w3" using bank_ProcessPayment_steps [OF assms(1)] by blast
  have "quiet (accounts (committed w)) (nip_log w) w" using assms(2) by (simp add: quiet_def)
  then have "quiet (accounts (committed w)) (nip_log w) w2"
    using s(1,2) quiet_bank_ValidatePayment quiet_tx(1) keepsD by (metis snd_conv)
  from bank_transfer_effect [OF this s(3)] obtain cs ms where
    m: "quiet (accounts (committed w)) (nip_log w @ cs @ ms) w3" "name_calls cs"
       "transfer_messages sid req ms" "q = req \<and> length ms = 2" by blast
  have "req = sanitized req0"
    using bank_ValidatePayment_ok [OF s(1)] by (auto simp: sanitizeRequest_def Let_def split: if_splits)
  with m s(4) show ?thesis by (auto simp: quiet_def)
qed

lemma bank_ProcessPayment_paid:
  assumes "bank_ValidatePayment req0 w = (Done (req, None), w1)" and "\<not> next_fault w1"
    and "DoTransaction env True sid req ((used_fault w1)\<lparr>tx := Some (committed w1, False)\<rparr>) = (Done (Some x, None), w2)"
    and "ignoring (LogTransaction HSM nonce (bank_event (now w) req)) w2 = (Done (), w3)"
  shows "bank_ProcessPayment HSM nonce (nip_transfer env) sid req0 w =
    (Done (req, Some (bank_response True (ft_Reference x) ''Transaction Successful'' (now w) req), None), tx_rollback w3)"
proof -
  have "tx_begin w1 = (Done (), (used_fault w1)\<lparr>tx := Some (committed w1, False)\<rparr>)"
    using assms(2) by (simp add: tx_begin_def)
  with assms show ?thesis
    by (simp add: bank_ProcessPayment_def bank_transfer_def nip_transfer_def bind_def gets_def ret_def deferring_def
        catching_simps)
qed

lemma repeated_record_refused:
  assumes "pr_TransactionID (ae_TxRequest event) \<in> txn_id ` set (transactions d)" and "tx w = Some (d, b)"
  shows "\<exists>e w' b'. LogTransaction HSM nonce event w = (Failed e, w') \<and> committed w' = committed w \<and>
    tx w' = Some (d, b')"
  using assms
  by (auto simp: LogTransaction_def Let_def bind_def gets_def catching_def attempt_def of_result_def fail_def
      ret_def tx_run_def sql_insert_transaction_def pending_row_def used_fault_def
      split: sum.splits option.splits prod.splits)

text \<open>The identifier does not protect a bank transfer: a request whose identifier is already
  recorded, sent again, is sent to the switch and reported as paid again, because the refused
  insertion of its record is only written to the log of the server.\<close>

theorem recorded_transfer_paid_again:
  assumes "bank_ValidatePayment req0 w = (Done (req, None), w1)" and "\<not> next_fault w1"
    and "pr_TransactionID req0 \<in> txn_id ` set (transactions (committed w))"
    and "DoTransaction env True sid req ((used_fault w1)\<lparr>tx := Some (committed w1, False)\<rparr>) = (Done (Some x, None), w2)"
  shows "\<exists>w'. bank_ProcessPayment HSM nonce (nip_transfer env) sid req0 w =
      (Done (req, Some (bank_response True (ft_Reference x) ''Transaction Successful'' (now w) req), None), w') \<and>
    transactions (committed w') = transactions (committed w) \<and>
    audit_events (committed w') = audit_events (committed w)"
proof -
  let ?d = "committed w1"
  have d: "?d = committed w"
  proof -
    have "keeps (committed_is (committed w)) (bank_ValidatePayment req0)"
      unfolding bank_ValidatePayment_def ValidateUser2FA_def check_otp_def
      by (intro keeps_intros committed_is_db_read) auto
    from keepsD [OF this, of w] assms(1) show ?thesis by (simp add: committed_is_def)
  qed
  have id: "pr_TransactionID req = pr_TransactionID req0"
    using bank_ValidatePayment_ok [OF assms(1)] by (auto simp: sanitizeRequest_def sanitized_def Let_def split: if_splits)
  from DoTransaction_world [OF assms(4)] have t: "tx w2 = Some (?d, False)" and c: "committed w2 = ?d" by simp_all
  have "pr_TransactionID (ae_TxRequest (bank_event (now w) req)) \<in> txn_id ` set (transactions ?d)"
    using assms(3) id d by (simp add: bank_event_def)
  from repeated_record_refused [OF this t, of HSM nonce] obtain e w3 where
    l: "LogTransaction HSM nonce (bank_event (now w) req) w2 = (Failed e, w3)" "committed w3 = committed w2" by blast
  then have "ignoring (LogTransaction HSM nonce (bank_event (now w) req)) w2 = (Done (), w3)"
    by (simp add: ignoring_def bind_def attempt_def ret_def)
  from bank_ProcessPayment_paid [OF assms(1,2,4) this] l(2) c d show ?thesis by simp
qed

text \<open>The sanitized request on the sample tables, with or without its identifier recorded.\<close>

definition sample_recorded :: world where
  "sample_recorded = sample_world\<lparr>committed := sample_db\<lparr>transactions := [\<lparr>txn_id = ''B1'',
     txn_debit = ''1000000001'', txn_credit = None, txn_amount = 30, txn_total = 30,
     txn_mode = ''BANK_TRANSFER'', txn_status = ''PENDING'', txn_user = ''7''\<rparr>]\<rparr>\<rparr>"

definition begun :: "world \<Rightarrow> world" where
  "begun w = (used_fault w)\<lparr>tx := Some (committed w, False)\<rparr>"

abbreviation paid_run :: "world \<Rightarrow> (funds_transfer_result option \<times> go_err option) outcome \<times> world" where
  "paid_run w \<equiv> DoTransaction (sample_env False) True ''SID'' (sanitized dirty_request) (begun w)"

lemma paid_runs:
  "paid_run sample_world = (Done (Some (ft_result ''SID'' ''S2'' ''SUCCESS''), None), snd (paid_run sample_world))"
  "paid_run sample_recorded = (Done (Some (ft_result ''SID'' ''S2'' ''SUCCESS''), None), snd (paid_run sample_recorded))"
proof -
  have "fst (paid_run sample_world) = Done (Some (ft_result ''SID'' ''S2'' ''SUCCESS''), None)"
    "fst (paid_run sample_recorded) = Done (Some (ft_result ''SID'' ''S2'' ''SUCCESS''), None)"
    by code_simp+
  then show "paid_run sample_world = (Done (Some (ft_result ''SID'' ''S2'' ''SUCCESS''), None), snd (paid_run sample_world))"
    "paid_run sample_recorded = (Done (Some (ft_result ''SID'' ''S2'' ''SUCCESS''), None), snd (paid_run sample_recorded))"
    by (metis prod.collapse)+
qed

lemma paid_log:
  "ignoring (LogTransaction sample_hsm [] (bank_event (now sample_world) (sanitized dirty_request)))
     (snd (paid_run sample_world)) = (Done (), snd (ignoring (LogTransaction sample_hsm []
       (bank_event (now sample_world) (sanitized dirty_request))) (snd (paid_run sample_world))))"
proof -
  have "fst (ignoring (LogTransaction sample_hsm [] (bank_event (now sample_world) (sanitized dirty_request)))
     (snd (paid_run sample_world))) = Done ()" by code_simp
  then show ?thesis by (metis prod.collapse)
qed

lemma paid_bank_transfer_messages_witness:
  "\<exists>w' :: world. accounts (committed w') = accounts sample_db \<and>
    (\<exists>cs ms. name_calls cs \<and> nip_log w' = cs @ ms \<and> transfer_messages ''SID'' (sanitized dirty_request) ms \<and>
       length ms = 2)"
proof -
  have f: "faults sample_world = []" and c: "committed sample_world = sample_db"
    and t: "tx sample_world = None" and l: "nip_log sample_world = []"
    by (simp_all add: sample_world_def)
  from f have nf: "\<not> next_fault sample_world" by (simp add: next_fault_def)
  from c have a: "accounts (committed sample_world) = accounts sample_db" by simp
  note p = bank_ProcessPayment_paid [OF dirty_validated [OF f a] nf paid_runs(1) [unfolded begun_def]
      paid_log [unfolded begun_def]]
  from paid_bank_transfer_messages [OF p t] show ?thesis unfolding c l append_Nil by blast
qed

lemma recorded_transfer_paid_again_witness:
  "\<exists>q resp w'. bank_ProcessPayment sample_hsm [] (nip_transfer (sample_env False)) ''SID'' dirty_request sample_recorded =
      (Done (q, Some resp, None), w') \<and> rs_Success resp \<and> length (transactions (committed w')) = 1"
proof -
  have f: "faults sample_recorded = []" "accounts (committed sample_recorded) = accounts sample_db"
    by (simp_all add: sample_recorded_def sample_world_def)
  have i: "pr_TransactionID dirty_request \<in> txn_id ` set (transactions (committed sample_recorded))"
    by (simp add: sample_recorded_def dirty_request_def sample_transfer_request_def)
  have n: "length (transactions (committed sample_recorded)) = 1" by (simp add: sample_recorded_def)
  from recorded_transfer_paid_again [OF dirty_validated [OF f] _ i paid_runs(2) [unfolded begun_def]] f(1) n
  show ?thesis by (fastforce simp: next_fault_def bank_response_def)
qed

end
