(* ===== verification/Base64.thy ===== *)
theory Base64
  imports Text
begin

text \<open>
  Base64 in the standard alphabet, as Go's \<open>base64.StdEncoding\<close> writes and reads it, and its round
  trip; passwords, card numbers and signatures are kept in it.
\<close>

section \<open>Encoding and decoding\<close>

definition std_alphabet :: string where
  "std_alphabet = ''ABCDEFGHIJKLMNOPQRSTUVWXYZabcdefghijklmnopqrstuvwxyz0123456789+/''"

definition std_char :: "nat \<Rightarrow> char" where
  "std_char n = std_alphabet ! (n mod 64)"

definition std_val :: "char \<Rightarrow> nat option" where
  "std_val c = (let i = length (takeWhile (\<lambda>x. x \<noteq> c) std_alphabet) in if i < 64 then Some i else None)"

fun base64_encode :: "string \<Rightarrow> string" where
  "base64_encode (a # b # c # s) =
     (let n = of_char a * 65536 + of_char b * 256 + of_char c
      in std_char (n div 262144) # std_char (n div 4096) # std_char (n div 64) # std_char n # base64_encode s)"
| "base64_encode [a, b] =
     (let n = of_char a * 65536 + of_char b * 256
      in [std_char (n div 262144), std_char (n div 4096), std_char (n div 64), CHR ''=''])"
| "base64_encode [a] =
     (let n = of_char a * 65536 in [std_char (n div 262144), std_char (n div 4096), CHR ''='', CHR ''=''])"
| "base64_encode [] = []"

text \<open>The first \<open>k\<close> bytes of the 24 bits of four digits.\<close>

definition quad_bytes :: "nat \<Rightarrow> nat \<Rightarrow> nat \<Rightarrow> nat \<Rightarrow> nat \<Rightarrow> string" where
  "quad_bytes k a b c d = (let n = a * 262144 + b * 4096 + c * 64 + d
     in take k [char_of (n div 65536), char_of (n div 256 mod 256), char_of (n mod 256)])"

fun decode_quads :: "string \<Rightarrow> string option" where
  "decode_quads [] = Some []"
| "decode_quads (a # b # c # d # s) = (case (std_val a, std_val b) of
       (Some x, Some y) \<Rightarrow>
         if d = CHR ''='' then
           if s \<noteq> [] then None
           else if c = CHR ''='' then Some (quad_bytes 1 x y 0 0)
           else map_option (\<lambda>z. quad_bytes 2 x y z 0) (std_val c)
         else (case (std_val c, std_val d, decode_quads s) of
             (Some z, Some w, Some t) \<Rightarrow> Some (quad_bytes 3 x y z w @ t) | _ \<Rightarrow> None)
     | _ \<Rightarrow> None)"
| "decode_quads _ = None"

text \<open>The decoder skips line breaks.\<close>

definition base64_decode :: "string \<Rightarrow> string option" where
  "base64_decode s = decode_quads (filter (\<lambda>c. c \<noteq> CHR 0x0A \<and> c \<noteq> CHR 0x0D) s)"

section \<open>Round trip\<close>

lemma std_alphabet_length: "length std_alphabet = 64"
  by (simp add: std_alphabet_def)

lemma std_val_char_all: "\<forall>n \<in> set [0..<64]. std_val (std_char n) = Some n"
  by code_simp

lemma std_val_char: "n < 64 \<Longrightarrow> std_val (std_char n) = Some n"
  using std_val_char_all by simp

lemma std_char_mod: "std_char (n mod 64) = std_char n"
  by (simp add: std_char_def)

lemma std_char_set: "std_char n \<in> set std_alphabet"
  unfolding std_char_def by (rule nth_mem) (simp add: std_alphabet_length)

lemma alphabet_plain: "\<forall>c \<in> set std_alphabet. c \<noteq> CHR ''='' \<and> c \<noteq> CHR ''$'' \<and> c \<noteq> CHR 0x0A \<and> c \<noteq> CHR 0x0D"
  by code_simp

lemma std_char_plain [simp]:
  "std_char n \<noteq> CHR ''=''" "std_char n \<noteq> CHR ''$''" "std_char n \<noteq> CHR 0x0A" "std_char n \<noteq> CHR 0x0D"
  using alphabet_plain std_char_set by blast+

lemma val_digit: "std_val (std_char n) = Some (n mod 64)"
  using std_val_char [of "n mod 64"] by (simp add: std_char_mod)

text \<open>The four digits of a group of three bytes, and back.\<close>

lemma split_group:
  fixes a b c :: nat
  assumes "a < 256" "b < 256" "c < 256" and n: "n = a * 65536 + b * 256 + c"
  shows "n div 262144 mod 64 * 262144 + n div 4096 mod 64 * 4096 + n div 64 mod 64 * 64 + n mod 64 = n"
    and "n div 65536 = a" and "n div 256 mod 256 = b" and "n mod 256 = c"
proof -
  have "n < 64 * 262144" using assms by simp
  then have h: "n div 262144 mod 64 = n div 262144"
    by (intro mod_less) (simp add: less_mult_imp_div_less)
  have 1: "n div 64 = n div 64 div 64 * 64 + n div 64 mod 64" by presburger
  have 2: "n div 64 div 64 = n div 4096" by (simp add: div_mult2_eq [symmetric])
  have 3: "n div 4096 = n div 4096 div 64 * 64 + n div 4096 mod 64" by presburger
  have 4: "n div 4096 div 64 = n div 262144" by (simp add: div_mult2_eq [symmetric])
  have 5: "n = n div 64 * 64 + n mod 64" by presburger
  show "n div 262144 mod 64 * 262144 + n div 4096 mod 64 * 4096 + n div 64 mod 64 * 64 + n mod 64 = n"
    using h 1 2 3 4 5 by linarith
  have 6: "n = 256 * (256 * a + b) + c" using n by simp
  then have "n div 256 = 256 * a + b" using assms(3) by simp
  then show "n div 256 mod 256 = b" using assms(2) by simp
  show "n mod 256 = c" by (subst 6) (simp only: mod_mult_self4 mod_less [OF assms(3)])
  show "n div 65536 = a" using assms by auto
qed

lemma of_char_less: "(of_char c :: nat) < 256"
  by simp

lemma quad_back:
  assumes "n = of_char a * 65536 + of_char b * 256 + (of_char c :: nat)"
  shows "quad_bytes k (n div 262144 mod 64) (n div 4096 mod 64) (n div 64 mod 64) (n mod 64) = take k [a, b, c]"
proof -
  note g = split_group [OF of_char_less of_char_less of_char_less assms]
  show ?thesis by (simp only: quad_bytes_def Let_def g char_of_char)
qed

lemma decode_encode: "decode_quads (base64_encode s) = Some s"
proof (induction s rule: base64_encode.induct)
  case (1 a b c s)
  define n :: nat where "n = of_char a * 65536 + of_char b * 256 + of_char c"
  have "base64_encode (a # b # c # s) =
      std_char (n div 262144) # std_char (n div 4096) # std_char (n div 64) # std_char n # base64_encode s"
    by (simp add: Let_def n_def)
  with 1 quad_back [OF n_def, of 3] show ?case by (simp add: val_digit n_def [symmetric])
next
  case (2 a b)
  define n :: nat where "n = of_char a * 65536 + of_char b * 256 + of_char (CHR 0x00)"
  have "base64_encode [a, b] = [std_char (n div 262144), std_char (n div 4096), std_char (n div 64), CHR ''='']"
    by (simp add: Let_def n_def)
  moreover have "n mod 64 = 0" unfolding n_def by simp
  ultimately show ?case using quad_back [OF n_def, of 2] by (simp add: val_digit)
next
  case (3 a)
  define n :: nat where "n = of_char a * 65536 + of_char (CHR 0x00) * 256 + of_char (CHR 0x00)"
  have "base64_encode [a] = [std_char (n div 262144), std_char (n div 4096), CHR ''='', CHR ''='']"
    by (simp add: Let_def n_def)
  moreover have e: "n = 64 * (64 * (16 * of_char a))" by (simp add: n_def)
  moreover have "n mod 64 = 0" "n div 64 mod 64 = 0" by (simp_all only: e mod_mult_self1_is_0 nonzero_mult_div_cancel_left)
  ultimately show ?case using quad_back [OF n_def, of 1] by (simp add: val_digit)
qed simp

lemma encode_chars: "c \<in> set (base64_encode s) \<Longrightarrow> c \<in> insert (CHR ''='') (set std_alphabet)"
  by (induction s rule: base64_encode.induct) (auto simp: Let_def std_char_set)

lemma base64_round_trip: "base64_decode (base64_encode s) = Some s"
proof -
  have "filter (\<lambda>c. c \<noteq> CHR 0x0A \<and> c \<noteq> CHR 0x0D) (base64_encode s) = base64_encode s"
    using encode_chars alphabet_plain by (fastforce simp: filter_id_conv)
  then show ?thesis by (simp add: base64_decode_def decode_encode)
qed

lemma encode_no_dollar: "CHR ''$'' \<notin> set (base64_encode s)"
  using encode_chars alphabet_plain by fastforce

end
