(* ===== verification/Auth.thy ===== *)
theory Auth
  imports Accounts Base64
begin

text \<open>
  Users, passwords, tokens and sessions: \<open>src/internal/services/user_service.go\<close> and the session
  part of \<open>src/internal/middleware/auth.go\<close>.

  \<^item> Not under \<open>src/\<close> and so arguments, in \<open>auth_lib\<close>: signing and checking of JSON web tokens
    (\<open>golang-jwt\<close>; the secret is the configuration's), the Argon2 key derivation, the HSM's
    decryption of a password, the random bytes.
  \<^item> A token's claims are kept as JSON values.  A JSON number becomes a Go \<open>float64\<close>, which \<open>%v\<close>
    prints with an exponent from one million on: \<open>show_v\<close> follows it for whole numbers.
  \<^item> A telephone number that a deletion set to NULL is the empty text here; reading it into a Go
    string is an error of \<open>Scan\<close>.
\<close>

section \<open>Passwords\<close>

type_synonym claims = "(string \<times> json) list"

record auth_lib =
  jw_sign :: "claims \<Rightarrow> go_err + string"
  jw_claims :: "string \<Rightarrow> claims"
  jw_check :: "string \<Rightarrow> int \<Rightarrow> go_err option"
  argon2 :: "string \<Rightarrow> string \<Rightarrow> string"
  decrypt_pii :: "string \<Rightarrow> go_err + string"

text \<open>\<open>salt\<close> is the answer of the random generator.\<close>

definition hashPassword :: "auth_lib \<Rightarrow> go_err + string \<Rightarrow> string \<Rightarrow> go_err + string" where
  "hashPassword lib salt password = (case salt of Inl err \<Rightarrow> Inl err
     | Inr s \<Rightarrow> Inr (base64_encode s @ ''$'' @ base64_encode (argon2 lib password s)))"

definition verifyPassword :: "auth_lib \<Rightarrow> string \<Rightarrow> string \<Rightarrow> bool" where
  "verifyPassword lib password hashedPassword = (case split_char (CHR ''$'') hashedPassword of
       [p, h] \<Rightarrow> (case (base64_decode p, base64_decode h) of
           (Some salt, Some hash) \<Rightarrow> hash = argon2 lib password salt
         | _ \<Rightarrow> False)
     | _ \<Rightarrow> False)"

section \<open>Claims\<close>

text \<open>\<open>%v\<close> of a whole \<open>float64\<close>: the shortest digits, with an exponent from \<open>10\<^sup>6\<close> on.\<close>

definition float_v :: "int \<Rightarrow> string" where
  "float_v i = (let ds = show_nat (nat \<bar>i\<bar>);
       ms = rev (dropWhile (\<lambda>c. c = CHR ''0'') (rev ds))
     in if \<bar>i\<bar> < 1000000 then show_int i
        else (if i < 0 then ''-'' else []) @ [hd ms] @ (if tl ms = [] then [] else ''.'' @ tl ms)
             @ ''e+'' @ show_pad 2 (length ds - 1))"

fun join_sp :: "string list \<Rightarrow> string" where
  "join_sp [] = []"
| "join_sp [x] = x"
| "join_sp (x # xs) = x @ '' '' @ join_sp xs"

fun show_v :: "json \<Rightarrow> string" where
  "show_v JNull = ''<nil>''"
| "show_v (JBool b) = (if b then ''true'' else ''false'')"
| "show_v (JInt i) = float_v i"
| "show_v (JStr s) = s"
| "show_v (JArr xs) = ''['' @ join_sp (map show_v xs) @ '']''"
| "show_v (JObj kvs) = ''map['' @ join_sp (map (\<lambda>(k, v). k @ '':'' @ v)
     (sort_key fst (map (\<lambda>(k, v). (k, show_v v)) kvs))) @ '']''"

text \<open>An absent key of a Go map of type \<open>any\<close> is \<open>nil\<close>.\<close>

definition claim :: "claims \<Rightarrow> string \<Rightarrow> json" where
  "claim cs k = (case map_of cs k of None \<Rightarrow> JNull | Some v \<Rightarrow> v)"

section \<open>User rows\<close>

definition login_of :: "int \<Rightarrow> db \<Rightarrow> login_row option" where
  "login_of uid d = find (\<lambda>l. lg_user l = uid) (logins d)"

definition user_of :: "int \<Rightarrow> db \<Rightarrow> user_row option" where
  "user_of uid d = find (\<lambda>u. usr_id u = uid) (users d)"

definition merchant_of :: "int \<Rightarrow> db \<Rightarrow> merchant_row option" where
  "merchant_of uid d = find (\<lambda>m. mer_user m = uid) (merchants d)"

text \<open>The parameter of \<open>WHERE u.id = $1\<close> is text, which the server converts to an integer.\<close>

definition status_query :: "string \<Rightarrow> (string \<times> bool) option stmt" where
  "status_query userID d = (case parse_int userID of
       None \<Rightarrow> None
     | Some uid \<Rightarrow> if \<not> in_int4 uid then None
         else Some (map_option (\<lambda>l. (lg_status l, uid \<in> set (admins d))) (login_of uid d), d))"

definition CheckUserStatusAndPrivileges :: "string \<Rightarrow> (bool \<times> bool) go" where
  "CheckUserStatusAndPrivileges userID =
     catching (bind (db_run (status_query userID)) scan_one)
       (\<lambda>err. if err = NoRows then ret (False, False) else fail err)
       (\<lambda>(status, adminFlag). ret (status = ''active'', adminFlag))"

section \<open>Tokens\<close>

record auth_config =
  ac_issuer :: string
  ac_audience :: string
  ac_expiry_minutes :: int
  ac_inactivity :: int
  ac_use_encrypted_password :: bool
  ac_has_redis :: bool
  ac_has_notifications :: bool

definition minutes :: "int \<Rightarrow> int" where
  "minutes n = wrap64 (n * 60 * second)"

definition refreshTokenExpiry :: int where
  "refreshTokenExpiry = 7 * 24 * 3600 * second"

definition accessTokenExpiry :: "auth_config \<Rightarrow> int" where
  "accessTokenExpiry cfg = (let d = minutes (ac_expiry_minutes cfg)
     in if d < 5 * 60 * second then 15 * 60 * second else d)"

text \<open>\<open>t.Add(d).Unix()\<close>.\<close>

definition unix_after :: "int \<Rightarrow> world \<Rightarrow> int" where
  "unix_after d w = (now w + d) div second"

definition access_claims ::
  "auth_config \<Rightarrow> int \<Rightarrow> bool \<Rightarrow> bool \<Rightarrow> merchant_row option \<Rightarrow> string \<Rightarrow> string \<Rightarrow> world \<Rightarrow> claims" where
  "access_claims cfg userID isActive isAdmin merchant sessionID deviceID w =
     [(''user_id'', JInt userID), (''sub'', JInt userID), (''sid'', JStr sessionID),
      (''isActive'', JBool isActive), (''isAdmin'', JBool isAdmin), (''did'', JStr deviceID),
      (''iat'', JInt (unix_time w)), (''exp'', JInt (unix_after (accessTokenExpiry cfg) w)),
      (''iss'', JStr (ac_issuer cfg)), (''aud'', JStr (ac_audience cfg))]
     @ (case merchant of None \<Rightarrow> [] | Some m \<Rightarrow>
         (if atoi0 (mer_id m) \<noteq> 0 then [(''merchant_id'', JInt (atoi0 (mer_id m)))] else [])
         @ (if mer_status m \<noteq> [] then [(''merchant_status'', JStr (mer_status m))] else []))"

text \<open>\<open>time.Now()\<close> is read before the status of the user.\<close>

definition generateJWTWithSession ::
  "auth_lib \<Rightarrow> auth_config \<Rightarrow> int \<Rightarrow> merchant_row option \<Rightarrow> string \<Rightarrow> string \<Rightarrow> string go" where
  "generateJWTWithSession lib cfg userID merchant sessionID deviceID =
     bind (gets id) (\<lambda>w.
     catching (CheckUserStatusAndPrivileges (show_int userID))
       (\<lambda>_. fail (Msg ''failed to check user status''))
       (\<lambda>(isActive, isAdmin).
          case jw_sign lib (access_claims cfg userID isActive isAdmin merchant sessionID deviceID w) of
            Inl err \<Rightarrow> fail err | Inr token \<Rightarrow> ret token))"

definition refresh_claims :: "int \<Rightarrow> string \<Rightarrow> world \<Rightarrow> claims" where
  "refresh_claims userID sessionID w =
     [(''user_id'', JInt userID), (''sid'', JStr sessionID), (''iat'', JInt (unix_time w)),
      (''exp'', JInt (unix_after refreshTokenExpiry w)), (''type'', JStr ''refresh'')]"

definition generateRefreshToken :: "auth_lib \<Rightarrow> int \<Rightarrow> string \<Rightarrow> string go" where
  "generateRefreshToken lib userID sessionID =
     bind (gets id) (\<lambda>w. case jw_sign lib (refresh_claims userID sessionID w) of
       Inl err \<Rightarrow> fail err | Inr token \<Rightarrow> ret token)"

text \<open>\<open>random\<close>: sixteen random bytes in hexadecimal.\<close>

definition generateSessionID :: "go_err + string \<Rightarrow> int \<Rightarrow> go_err + string" where
  "generateSessionID random userID = (case random of Inl err \<Rightarrow> Inl err
     | Inr b \<Rightarrow> Inr (show_int userID @ ''_'' @ b))"

section \<open>Sessions\<close>

definition session_key :: "string \<Rightarrow> string" where
  "session_key sid = ''SESSION:'' @ sid"

definition blacklist_key :: "string \<Rightarrow> string" where
  "blacklist_key token = ''BLACKLIST:'' @ token"

definition blacklistToken :: "string \<Rightarrow> int \<Rightarrow> unit go" where
  "blacklistToken token ttl = ignoring (redis_set (blacklist_key token) (RStr ''1'') ttl)"

definition extractBearerToken :: "string \<Rightarrow> go_err + string" where
  "extractBearerToken authHeader =
     (if authHeader = [] then Inl (Msg ''missing authorization header'')
      else case split_char (CHR '' '') authHeader of
          [p, token] \<Rightarrow> if p = ''Bearer'' then Inr token else Inl (Msg ''invalid authorization header format'')
        | _ \<Rightarrow> Inl (Msg ''invalid authorization header format''))"

text \<open>An error of Redis counts as not revoked.\<close>

definition checkTokenBlacklist :: "auth_config \<Rightarrow> string \<Rightarrow> bool go" where
  "checkTokenBlacklist cfg token =
     (if \<not> ac_has_redis cfg then ret False
      else catching (redis_exists (blacklist_key token)) (\<lambda>_. ret False) ret)"

definition parseSessionClaims :: "auth_lib \<Rightarrow> int \<Rightarrow> string \<Rightarrow> go_err + string \<times> string" where
  "parseSessionClaims lib t token = (case jw_check lib token t of
       Some err \<Rightarrow> Inl (Wrap ''failed to Parse JWToken: '' err)
     | None \<Rightarrow> (case (claim (jw_claims lib token) ''sid'', claim (jw_claims lib token) ''did'') of
           (JStr sid, JStr did) \<Rightarrow> Inr (sid, did)
         | _ \<Rightarrow> Inl (Msg ''missing Session Claims'')))"

definition ErrSessionNotFound :: go_err where
  "ErrSessionNotFound = Msg ''Session Not Found''"

definition ErrInvalidSession :: go_err where
  "ErrInvalidSession = Msg ''Invalid Session''"

definition ErrDeviceMismatch :: go_err where
  "ErrDeviceMismatch = Msg ''Device Mismatch''"

text \<open>The notification preference of the session, \<open>JNull\<close> for none.\<close>

definition validateSession :: "auth_config \<Rightarrow> string \<Rightarrow> string \<Rightarrow> json go" where
  "validateSession cfg key deviceID =
     (if \<not> ac_has_redis cfg then ret JNull
      else catching (redis_get key) (\<lambda>_. fail ErrSessionNotFound) (\<lambda>v. case v of
          RSession s \<Rightarrow>
            bind (gets unix_time) (\<lambda>t.
            if atoi0 (ss_expires s) < t
            then bind (ignoring (redis_del key)) (\<lambda>_. fail ErrInvalidSession)
            else if ss_device s \<noteq> deviceID
            then bind (ignoring (redis_del key)) (\<lambda>_. fail ErrDeviceMismatch)
            else bind (ignoring (redis_expire key (ac_inactivity cfg))) (\<lambda>_. ret (ss_preference s)))
        | _ \<Rightarrow> fail ErrInvalidSession))"

definition validateToken :: "auth_lib \<Rightarrow> auth_config \<Rightarrow> int \<Rightarrow> string \<Rightarrow> go_err + string \<times> json" where
  "validateToken lib cfg t token = (let cs = jw_claims lib token in case jw_check lib token t of
       Some err \<Rightarrow> Inl err
     | None \<Rightarrow>
         if ac_issuer cfg \<noteq> [] \<and> claim cs ''iss'' \<noteq> JStr (ac_issuer cfg) then Inl (Msg ''Invalid issuer'')
         else if ac_audience cfg \<noteq> [] \<and> claim cs ''aud'' \<noteq> JStr (ac_audience cfg) then Inl (Msg ''Invalid Audience'')
         else Inr (show_v (claim cs ''user_id''), claim cs ''merchant_id''))"

section \<open>The session middleware\<close>

text \<open>What the next handler gets: the identity and the notification preference.\<close>

definition granted :: "string \<Rightarrow> json \<Rightarrow> bool \<Rightarrow> json \<Rightarrow> request_context \<times> json" where
  "granted userID merchantID isAdmin preference =
     (\<lparr>ctx_userID = Some userID,
       ctx_merchantID = (if merchantID = JNull then None else Some (show_v merchantID)),
       ctx_isAdmin = Some isAdmin\<rparr>, preference)"

definition refused :: "string \<Rightarrow> int \<Rightarrow> (http_response + request_context \<times> json) go" where
  "refused message code = ret (Inl (SendErrorResponse message code))"

definition AuthSessionMiddleware ::
  "auth_lib \<Rightarrow> auth_config \<Rightarrow> string \<Rightarrow> (http_response + request_context \<times> json) go" where
  "AuthSessionMiddleware lib cfg authHeader = (case extractBearerToken authHeader of
       Inl _ \<Rightarrow> refused ''Invalid Authorization Header'' 401
     | Inr token \<Rightarrow>
         bind (checkTokenBlacklist cfg token) (\<lambda>revoked.
         if revoked then refused ''Token Revoked'' 401
         else bind (gets unix_time) (\<lambda>t. case validateToken lib cfg t token of
           Inl _ \<Rightarrow> refused ''Invalid User Token'' 401
         | Inr (userID, merchantID) \<Rightarrow> (case parseSessionClaims lib t token of
             Inl _ \<Rightarrow> refused ''Invalid Token: Missing Session Claims'' 401
           | Inr (sid, deviceID) \<Rightarrow>
               catching (validateSession cfg (session_key sid) deviceID)
                 (\<lambda>err. if err = ErrSessionNotFound \<or> err = ErrInvalidSession
                    then refused ''Session Locked - User Presence Required'' 423
                    else refused ''Invalid Security Token'' 401)
                 (\<lambda>preference.
               catching (CheckUserStatusAndPrivileges userID)
                 (\<lambda>_. refused ''Invalid User Status'' 401)
                 (\<lambda>(active, isAdmin).
                    if \<not> active then refused ''User Is Not Active'' 401
                    else ret (Inr (granted userID merchantID isAdmin preference))))))))"

end
