(* ===== verification/Auth_Handlers.thy ===== *)
theory Auth_Handlers
  imports Auth Account_Access
begin

text \<open>
  The requests of \<open>src/internal/services/user_service.go\<close>: registration, login, logout, refresh,
  deletion, and the forgotten password.

  \<^item> A request that the code reads with one \<open>Decode\<close> is an option; the field rules of the
    validator are written out, except the format of an e-mail address, an argument.
  \<^item> E-mails and push messages are sent by goroutines that answer to nobody and are not modelled;
    the activity log's goroutine is run where it is started, its error ignored as it is there.
\<close>

section \<open>Registration\<close>

record register_request =
  rq_Email :: string
  rq_Username :: string
  rq_Password :: string
  rq_FirstName :: string
  rq_LastName :: string
  rq_BVN :: string
  rq_PhoneNumber :: string
  rq_IdentityToken :: string
  rq_ExpoPushToken :: string

definition len_between :: "nat \<Rightarrow> nat \<Rightarrow> string \<Rightarrow> bool" where
  "len_between lo hi s \<longleftrightarrow> s \<noteq> [] \<and> lo \<le> rune_count s \<and> rune_count s \<le> hi"

definition register_valid :: "(string \<Rightarrow> bool) \<Rightarrow> register_request \<Rightarrow> bool" where
  "register_valid is_email req \<longleftrightarrow>
     len_between 0 254 (rq_Email req) \<and> is_email (rq_Email req) \<and>
     len_between 3 30 (rq_Username req) \<and> list_all is_alnum (rq_Username req) \<and>
     len_between 6 72 (rq_Password req) \<and> len_between 2 50 (rq_FirstName req) \<and>
     len_between 2 50 (rq_LastName req) \<and> len_between 11 11 (rq_BVN req) \<and>
     list_all is_digit (rq_BVN req) \<and> len_between 10 15 (rq_PhoneNumber req) \<and>
     len_between 6 72 (rq_IdentityToken req) \<and> list_all is_alnum (rq_IdentityToken req) \<and>
     ToUpper (rq_IdentityToken req) = rq_IdentityToken req"

text \<open>
  The statement is a chain of \<open>WITH\<close> queries that ends after the last of them: no query follows
  that would use them, which is a syntax error, so the server refuses it whatever the values.
\<close>

definition sql_register :: "register_request \<Rightarrow> string \<Rightarrow> int stmt" where
  "sql_register req hashedPassword d = None"

definition RegisterNewUser ::
  "auth_lib \<Rightarrow> (string \<Rightarrow> bool) \<Rightarrow> go_err + string \<Rightarrow> register_request json_body \<Rightarrow> http_response go" where
  "RegisterNewUser lib is_email salt body = (case body of
       BodyError \<Rightarrow> err_response (Response InvalidRequestError) 400
     | BodyMultiple \<Rightarrow> err_response (Response SingleObjectError) 400
     | BodyOne req \<Rightarrow>
         if \<not> register_valid is_email req then err_response (Response ValidationError) 400
         else case hashPassword lib salt (rq_Password req) of
           Inl _ \<Rightarrow> err_response (Response InternalServiceError) 424
         | Inr hashedPassword \<Rightarrow>
             deferring
               (catching tx_begin (\<lambda>_. err_response ''Failed to create user'' 424) (\<lambda>_.
                catching (tx_run (sql_register req hashedPassword))
                  (\<lambda>_. err_response ''Email or Username Already Exists'' 409) (\<lambda>userID.
                catching tx_commit (\<lambda>_. err_response ''Failed to Create User'' 424) (\<lambda>_.
                ret (SendSuccessResponse ''Registration Successful'' (JObj [(''userId'', JInt userID)]) 200)))))
               tx_rollback)"

section \<open>Login\<close>

record login_request =
  lo_Identifier :: string
  lo_Password :: string
  lo_Platform :: string
  lo_Model :: string
  lo_OSVersion :: string

definition login_valid :: "login_request \<Rightarrow> bool" where
  "login_valid req \<longleftrightarrow> len_between 0 254 (lo_Identifier req) \<and> lo_Password req \<noteq> [] \<and>
     lo_Platform req \<noteq> [] \<and> lo_Model req \<noteq> [] \<and> lo_OSVersion req \<noteq> []"

definition identified_by :: "string \<Rightarrow> user_row \<Rightarrow> login_row \<Rightarrow> bool" where
  "identified_by ident u l \<longleftrightarrow> lg_user l = usr_id u \<and>
     (usr_phone u = ident \<and> ident \<noteq> [] \<or> ToLower (usr_email u) = ToLower ident \<or>
      ToLower (lg_username l) = ToLower ident)"

text \<open>The rows of the two halves of table \<open>users\<close>.\<close>

definition joined_users :: "db \<Rightarrow> (user_row \<times> login_row) list" where
  "joined_users d = [(u, l). u \<leftarrow> users d, l \<leftarrow> logins d, lg_user l = usr_id u]"

definition login_query :: "string \<Rightarrow> (user_row \<times> login_row) option stmt" where
  "login_query ident d =
     Some (find (\<lambda>(u, l). identified_by ident u l \<and> \<not> lg_deleted l) (joined_users d), d)"

definition preference_json :: "int \<Rightarrow> db \<Rightarrow> json" where
  "preference_json uid d = (case find (\<lambda>p. pf_user p = uid) (preferences d) of
       None \<Rightarrow> JObj [(''userId'', JInt uid), (''sms'', JBool False), (''email'', JBool False),
                 (''devicePush'', JBool False), (''preferredChannels'', JNull)]
     | Some p \<Rightarrow> JObj [(''userId'', JInt uid), (''sms'', JBool (pf_sms p)), (''email'', JBool (pf_email p)),
                 (''devicePush'', JBool (pf_push p)), (''preferredChannels'', JNull)])"

text \<open>The fields of \<open>models.User\<close> that a handler sets; the others keep their zero values.\<close>

definition user_json :: "user_row \<Rightarrow> login_row \<Rightarrow> string \<Rightarrow> (string \<times> json) list \<Rightarrow> json" where
  "user_json u l role extra = JObj ([(''id'', JInt (usr_id u)), (''email'', JStr (usr_email u)),
     (''firstName'', JStr (usr_first_name u)), (''lastName'', JStr (lg_last_name l)),
     (''accountId'', JStr (lg_account l)), (''userName'', JStr (lg_username l)),
     (''phoneNumber'', JStr (usr_phone u)), (''role'', JStr role)] @ extra)"

definition login_extra :: "int \<Rightarrow> user_row \<Rightarrow> db \<Rightarrow> (string \<times> json) list" where
  "login_extra uid u d = (''BVN'', JStr (usr_bvn u)) #
     (case merchant_of uid d of None \<Rightarrow> [] | Some m \<Rightarrow>
        [(''merchant'', JObj [(''id'', JInt (atoi0 (mer_id m))), (''businessName'', JStr (mer_name m)),
           (''status'', JStr (mer_status m))])])
     @ [(''transactionLimits'', case find (\<lambda>r. lim_user r = uid) (user_limits d) of
          None \<Rightarrow> JObj [(''dailyLimit'', JInt 0), (''singleTransactionLimit'', JInt 0)]
        | Some r \<Rightarrow> JObj [(''dailyLimit'', JInt (lim_daily r)), (''singleTransactionLimit'', JInt (lim_single r))]),
        (''notifications'', preference_json uid d)]"

definition auth_response :: "string \<Rightarrow> string \<Rightarrow> json \<Rightarrow> json" where
  "auth_response token refreshToken user =
     JObj [(''token'', JStr token), (''refreshToken'', JStr refreshToken), (''user'', user)]"

definition activity :: "string \<Rightarrow> string \<Rightarrow> string \<Rightarrow> string \<Rightarrow> unit go" where
  "activity event userID ip err = ignoring (LogActivity \<lparr>av_EventType = event, av_UserID = userID,
     av_IPAddress = ip, av_Details = Map.empty, av_Error = err\<rparr>)"

definition store_session :: "auth_config \<Rightarrow> string \<Rightarrow> int \<Rightarrow> string \<Rightarrow> json \<Rightarrow> unit go" where
  "store_session cfg sessionID userID deviceID preference =
     (if \<not> ac_has_redis cfg then ret ()
      else bind (gets (unix_after refreshTokenExpiry)) (\<lambda>t.
        ignoring (redis_set (session_key sessionID)
          (RSession \<lparr>ss_user = show_int userID, ss_device = deviceID, ss_expires = show_int t,
             ss_preference = preference\<rparr>) refreshTokenExpiry)))"

text \<open>After the password was accepted.\<close>

definition open_session ::
  "auth_lib \<Rightarrow> auth_config \<Rightarrow> go_err + string \<Rightarrow> string \<Rightarrow> string \<Rightarrow> user_row \<Rightarrow> login_row \<Rightarrow> db \<Rightarrow> http_response go" where
  "open_session lib cfg random ip deviceID u l d = (let uid = usr_id u in
     case generateSessionID random uid of
       Inl _ \<Rightarrow> err_response (Response GenerateTokenError) 500
     | Inr sessionID \<Rightarrow>
         catching (generateJWTWithSession lib cfg uid (merchant_of uid d) sessionID deviceID)
           (\<lambda>_. err_response (Response GenerateTokenError) 424) (\<lambda>token.
         catching (generateRefreshToken lib uid sessionID)
           (\<lambda>_. err_response (Response GenerateTokenError) 424) (\<lambda>refreshToken.
         bind (store_session cfg sessionID uid deviceID (preference_json uid d)) (\<lambda>_.
         bind (activity ''LOGIN_SUCCESS'' (show_int uid) ip []) (\<lambda>_.
         ret (SendSuccessResponse ''Login Successful'' (auth_response token refreshToken
           (user_json u l (if merchant_of uid d = None then ''consumer'' else ''merchant'') (login_extra uid u d))) 200))))))"

definition check_login ::
  "auth_lib \<Rightarrow> auth_config \<Rightarrow> go_err + string \<Rightarrow> string \<Rightarrow> login_request \<Rightarrow> user_row \<Rightarrow> login_row \<Rightarrow> db \<Rightarrow>
     http_response go" where
  "check_login lib cfg random ip req u l d =
     (case (if ac_use_encrypted_password cfg then decrypt_pii lib (lo_Password req) else Inr (lo_Password req)) of
        Inl _ \<Rightarrow> err_response (Response InvalidCreds) 401
      | Inr password \<Rightarrow>
          if \<not> verifyPassword lib password (lg_password l)
          then bind (activity ''LOGIN_FAILED'' (show_int (usr_id u)) ip ''invalid password'')
                 (\<lambda>_. err_response (Response InvalidCreds) 401)
          else open_session lib cfg random ip
                 (lo_Platform req @ ''_'' @ lo_Model req @ ''_'' @ lo_OSVersion req) u l d)"

text \<open>The query reads the tables once; \<open>gets committed\<close> is that reading.\<close>

definition UserLogin ::
  "auth_lib \<Rightarrow> auth_config \<Rightarrow> go_err + string \<Rightarrow> string \<Rightarrow> login_request json_body \<Rightarrow> http_response go" where
  "UserLogin lib cfg random ip body = (case body of
       BodyError \<Rightarrow> err_response (Response InvalidRequestError) 400
     | BodyMultiple \<Rightarrow> err_response (Response SingleObjectError) 400
     | BodyOne req \<Rightarrow>
         if \<not> login_valid req then err_response ''Login Validation Failed'' 400
         else bind (gets committed) (\<lambda>d.
           catching (bind (db_run (login_query (lo_Identifier req))) scan_one)
             (\<lambda>err. bind (activity ''LOGIN_FAILED'' [] ip ''user not found or db error'') (\<lambda>_.
                if err = NoRows then err_response (Response InvalidCreds) 401
                else err_response (Response InternalServiceError) 424))
             (\<lambda>(u, l). if usr_phone u = []
                then bind (activity ''LOGIN_FAILED'' [] ip ''user not found or db error'')
                       (\<lambda>_. err_response (Response InternalServiceError) 424)
                else check_login lib cfg random ip req u l d)))"

section \<open>Logout\<close>

text \<open>The signature of the token is not looked at: the claims are read whatever \<open>Parse\<close> says.\<close>

definition LogoutUser :: "auth_lib \<Rightarrow> auth_config \<Rightarrow> string \<Rightarrow> http_response go" where
  "LogoutUser lib cfg authHeader =
     bind (if length authHeader \<le> 7 \<or> \<not> ac_has_redis cfg then ret ()
           else let accessToken = drop 7 authHeader; cs = jw_claims lib accessToken in
             bind (case claim cs ''sid'' of JStr sid \<Rightarrow> ignoring (redis_del (session_key sid)) | _ \<Rightarrow> ret ()) (\<lambda>_.
             case claim cs ''exp'' of
               JInt exp \<Rightarrow> bind (gets now) (\<lambda>t. if 0 < exp * second - t
                 then blacklistToken accessToken (exp * second - t) else ret ())
             | _ \<Rightarrow> ret ()))
       (\<lambda>_. ret (SendSuccessResponse ''Logout Successful'' JNull 200))"

section \<open>Refresh\<close>

definition refresh_query :: "int \<Rightarrow> (user_row \<times> login_row) option stmt" where
  "refresh_query uid d = Some (find (\<lambda>(u, l). usr_id u = uid) (joined_users d), d)"

text \<open>The merchant of the token: its identifier alone.\<close>

definition merchant_id_only :: "merchant_row option \<Rightarrow> merchant_row option" where
  "merchant_id_only = map_option (\<lambda>m. m\<lparr>mer_status := []\<rparr>)"

definition session_device :: "auth_config \<Rightarrow> string \<Rightarrow> string go" where
  "session_device cfg sessionID =
     (if \<not> ac_has_redis cfg then ret []
      else catching (redis_get (session_key sessionID)) (\<lambda>_. ret [])
        (\<lambda>v. ret (case v of RSession s \<Rightarrow> ss_device s | _ \<Rightarrow> [])))"

definition blacklist_remaining :: "auth_config \<Rightarrow> string \<Rightarrow> json \<Rightarrow> unit go" where
  "blacklist_remaining cfg token exp_claim =
     (if \<not> ac_has_redis cfg then ret () else case exp_claim of
        JInt exp \<Rightarrow> bind (gets now) (\<lambda>t. if 0 < exp * second - t
          then blacklistToken token (exp * second - t) else ret ())
      | _ \<Rightarrow> ret ())"

text \<open>The body is the bare JSON value, without the envelope of \<open>SendSuccessResponse\<close>: no message.\<close>

definition bare_json :: "json \<Rightarrow> http_response" where
  "bare_json v = \<lparr>hr_status = 200, hr_success = True, hr_message = [], hr_details = v\<rparr>"

definition refresh_user ::
  "auth_lib \<Rightarrow> auth_config \<Rightarrow> string \<Rightarrow> int \<Rightarrow> string \<Rightarrow> db \<Rightarrow> http_response go" where
  "refresh_user lib cfg refreshToken userID sessionID d =
     catching (bind (db_run (refresh_query userID)) scan_one)
       (\<lambda>_. err_response (Response UserNotFoundError) 401)
       (\<lambda>(u, l). if usr_phone u = [] then err_response (Response UserNotFoundError) 401 else
          bind (session_device cfg sessionID) (\<lambda>deviceID.
          bind (blacklist_remaining cfg refreshToken (claim (jw_claims lib refreshToken) ''exp'')) (\<lambda>_.
          catching (generateJWTWithSession lib cfg userID (merchant_id_only (merchant_of userID d)) sessionID deviceID)
            (\<lambda>_. err_response (Response GenerateTokenError) 500) (\<lambda>newAccessToken.
          catching (generateRefreshToken lib userID sessionID)
            (\<lambda>_. err_response (Response GenerateTokenError) 500) (\<lambda>newRefreshToken.
          ret (bare_json (auth_response newAccessToken newRefreshToken (user_json u l [] []))))))))"

definition session_exists :: "auth_config \<Rightarrow> string \<Rightarrow> bool go" where
  "session_exists cfg sessionID =
     (if \<not> ac_has_redis cfg then ret True
      else catching (redis_exists (session_key sessionID)) (\<lambda>_. ret False) ret)"

text \<open>\<open>RefreshToken\<close> of the service; the body holds the refresh token.\<close>

definition RefreshToken :: "auth_lib \<Rightarrow> auth_config \<Rightarrow> string option \<Rightarrow> http_response go" where
  "RefreshToken lib cfg body = (case body of
       None \<Rightarrow> err_response (Response InvalidRequestError) 400
     | Some token \<Rightarrow>
         bind (gets unix_time) (\<lambda>t. let cs = jw_claims lib token in
         if jw_check lib token t \<noteq> None \<or> claim cs ''type'' \<noteq> JStr ''refresh''
         then err_response ''Invalid refresh token'' 401
         else case (claim cs ''user_id'', claim cs ''sid'') of
             (JInt userID, JStr sessionID) \<Rightarrow>
               bind (session_exists cfg sessionID) (\<lambda>live.
               if \<not> live then err_response ''Session Expired'' 401
               else bind (gets committed) (refresh_user lib cfg token userID sessionID))
           | _ \<Rightarrow> panic ''interface conversion''))"

section \<open>The account\<close>

definition GetUserAccount :: "request_context \<Rightarrow> http_response list go" where
  "GetUserAccount c = with_identity c (\<lambda>userID _.
     catching (bind (db_run (refresh_query userID)) scan_one)
       (\<lambda>err. if err = NoRows then err_response ''User not found'' 404
          else err_response ''Failed to fetch user details'' 424)
       (\<lambda>(u, l). if usr_phone u = [] then err_response ''Failed to fetch user details'' 424
          else ret (SendSuccessResponse ''User Account Details''
            (user_json u (l\<lparr>lg_username := []\<rparr>) [] []) 200)))"

section \<open>Deletion\<close>

definition nonzero_balances :: "int \<Rightarrow> db \<Rightarrow> nat" where
  "nonzero_balances uid d = length (filter (\<lambda>a. acct_user a = Some uid \<and> acct_balance a \<noteq> 0) (accounts d))"

definition pending_transactions :: "int \<Rightarrow> db \<Rightarrow> nat" where
  "pending_transactions uid d = length (filter (\<lambda>t. txn_user t = show_int uid \<and>
     txn_status t \<in> {''PENDING'', ''PROCESSING''}) (transactions d))"

definition sql_soft_delete :: "int \<Rightarrow> unit stmt" where
  "sql_soft_delete uid d = Some ((), d\<lparr>
     users := map (\<lambda>u. if usr_id u = uid then u\<lparr>usr_email := ''deleted_'' @ show_int uid @ ''@ruralpay.invalid'',
       usr_phone := []\<rparr> else u) (users d),
     logins := map (\<lambda>l. if lg_user l = uid then l\<lparr>lg_status := ''inactive'', lg_deleted := True,
       lg_password := []\<rparr> else l) (logins d)\<rparr>)"

text \<open>\<open>SCAN\<close> for the user's sessions and \<open>DEL\<close> of what it finds, as one batch.\<close>

definition drop_sessions :: "int \<Rightarrow> unit go" where
  "drop_sessions uid = (let p = session_key (show_int uid @ ''_'') in
     catching (\<lambda>w. if next_fault w then (Failed RedisErr, used_fault w) else (Done (), used_fault w)) (\<lambda>_. ret ())
       (\<lambda>_. ignoring (\<lambda>w. if next_fault w then (Failed RedisErr, used_fault w)
          else (Done (), (used_fault w)\<lparr>redis := (\<lambda>k. if is_prefix p k then None else redis w k)\<rparr>))))"

definition revoke_user :: "auth_config \<Rightarrow> string \<Rightarrow> int \<Rightarrow> unit go" where
  "revoke_user cfg authHeader uid =
     (if \<not> ac_has_redis cfg then ret ()
      else bind (if 7 < length authHeader then blacklistToken (drop 7 authHeader) (accessTokenExpiry cfg) else ret ())
        (\<lambda>_. drop_sessions uid))"

definition delete_checked :: "auth_config \<Rightarrow> string \<Rightarrow> int \<Rightarrow> http_response go" where
  "delete_checked cfg authHeader uid =
     catching (db_run (\<lambda>d. Some (nonzero_balances uid d, d)))
       (\<lambda>_. err_response (Response InternalServiceError) 500) (\<lambda>nonZeroBalances.
     if 0 < nonZeroBalances then err_response ''Account balance must be zero before deletion'' 409
     else catching (db_run (\<lambda>d. Some (pending_transactions uid d, d)))
       (\<lambda>_. err_response (Response InternalServiceError) 500) (\<lambda>pendingTx.
     if 0 < pendingTx then err_response ''Cannot delete account with pending transactions'' 409
     else catching (db_run (sql_soft_delete uid))
       (\<lambda>_. err_response (Response InternalServiceError) 500) (\<lambda>_.
     bind (revoke_user cfg authHeader uid) (\<lambda>_.
     bind (if ac_has_notifications cfg
           then ignoring (bind (db_run (\<lambda>d. Some (user_of uid d, d))) scan_one) else ret ()) (\<lambda>_.
     ret (SendSuccessResponse ''Account Deleted Successfully'' JNull 200))))))"

definition DeleteUserProfile ::
  "auth_lib \<Rightarrow> auth_config \<Rightarrow> string \<Rightarrow> request_context \<Rightarrow> string option \<Rightarrow> http_response list go" where
  "DeleteUserProfile lib cfg authHeader c body = with_identity c (\<lambda>uid _. case body of
       None \<Rightarrow> err_response (Response InvalidRequestError) 400
     | Some password \<Rightarrow>
         if \<not> len_between 6 72 password then err_response (Response ValidationError) 400
         else catching (bind (db_run (\<lambda>d. Some (login_of uid d, d))) scan_one)
           (\<lambda>err. if err = NoRows then err_response (Response UserNotFoundError) 404
              else err_response (Response InternalServiceError) 500)
           (\<lambda>l. if lg_deleted l then err_response ''Account Already Deleted'' 410
              else if \<not> verifyPassword lib password (lg_password l)
              then err_response ''Invalid Credentials'' 401
              else delete_checked cfg authHeader uid))"

section \<open>The forgotten password\<close>

definition reset_key :: "int \<Rightarrow> string" where
  "reset_key uid = ''RESET_USER:'' @ show_int uid"

definition forgot_query :: "string \<Rightarrow> int option stmt" where
  "forgot_query ident d =
     Some (map_option (\<lambda>(u, l). usr_id u) (find (\<lambda>(u, l). identified_by ident u l) (joined_users d)), d)"

text \<open>A code that is still there is sent again; its lifetime is not renewed.\<close>

definition keep_reset_code :: "auth_config \<Rightarrow> int \<Rightarrow> string \<Rightarrow> http_response go" where
  "keep_reset_code cfg uid otp = (let sent = ret (SendSuccessResponse ''Password Reset Code Sent'' JNull 200) in
     if \<not> ac_has_redis cfg then sent
     else catching (redis_get (reset_key uid))
       (\<lambda>_. catching (redis_set (reset_key uid) (RStr otp) (30 * 60 * second))
          (\<lambda>_. err_response (Response ProcessingFailed) 424) (\<lambda>_. sent))
       (\<lambda>_. sent))"

definition ForgotPassword :: "auth_config \<Rightarrow> string \<Rightarrow> string option \<Rightarrow> http_response go" where
  "ForgotPassword cfg otp body = (case body of
       None \<Rightarrow> err_response (Response InvalidRequestError) 400
     | Some ident \<Rightarrow>
         if \<not> len_between 0 254 ident then err_response (Response ValidationError) 400
         else catching (bind (db_run (forgot_query ident)) scan_one)
           (\<lambda>_. err_response ''User not found'' 404) (\<lambda>uid.
         catching (bind (db_run (\<lambda>d. Some (user_of uid d, d))) scan_one)
           (\<lambda>_. err_response (Response ProcessingFailed) 424) (\<lambda>u.
         if usr_phone u = [] then err_response (Response ProcessingFailed) 424
         else keep_reset_code cfg uid otp)))"

text \<open>\<open>fmt.Sscanf(key, "RESET_USER:%d")\<close>: the digits after the prefix, 0 when there are none.\<close>

definition scan_reset_user :: "string \<Rightarrow> int" where
  "scan_reset_user key = (if \<not> is_prefix ''RESET_USER:'' key then 0 else
     let s = drop 11 key;
         sgn = (case s of c # _ \<Rightarrow> if c = CHR ''-'' \<or> c = CHR ''+'' then [c] else [] | [] \<Rightarrow> []);
         ds = takeWhile is_digit (drop (length sgn) s)
     in case parse_int (sgn @ ds) of None \<Rightarrow> 0 | Some n \<Rightarrow> n)"

definition value_text :: "rvalue \<Rightarrow> string option" where
  "value_text v = (case v of RStr s \<Rightarrow> Some s | RInt n \<Rightarrow> Some (show_int n) | _ \<Rightarrow> None)"

text \<open>The keys of one \<open>SCAN\<close> batch, in its order, up to the first that holds the code.\<close>

fun find_reset :: "string list \<Rightarrow> string \<Rightarrow> int go" where
  "find_reset [] token = ret 0"
| "find_reset (k # ks) token =
     catching (redis_get k) (\<lambda>_. find_reset ks token)
       (\<lambda>v. if value_text v = Some token then ret (scan_reset_user k) else find_reset ks token)"

definition sql_set_password :: "int \<Rightarrow> string \<Rightarrow> unit stmt" where
  "sql_set_password uid hashedPassword d = Some ((), d\<lparr>logins :=
     map (\<lambda>l. if lg_user l = uid then l\<lparr>lg_password := hashedPassword\<rparr> else l) (logins d)\<rparr>)"

definition set_password :: "auth_lib \<Rightarrow> auth_config \<Rightarrow> go_err + string \<Rightarrow> string \<Rightarrow> int \<Rightarrow> http_response go" where
  "set_password lib cfg salt password uid = (let failed = err_response (Response PasswordResetError) 424 in
     case hashPassword lib salt password of Inl _ \<Rightarrow> failed
     | Inr hashedPassword \<Rightarrow> deferring
        (catching tx_begin (\<lambda>_. failed) (\<lambda>_.
         catching (tx_run (sql_set_password uid hashedPassword)) (\<lambda>_. failed) (\<lambda>_.
         catching tx_commit (\<lambda>_. failed) (\<lambda>_.
         bind (if ac_has_redis cfg then ignoring (redis_del (reset_key uid)) else ret ()) (\<lambda>_.
         ret (SendSuccessResponse ''Password Reset Successful'' JNull 200)))))) tx_rollback)"

text \<open>\<open>batch\<close> is what \<open>SCAN\<close> answers: some of the keys that begin with the prefix, or an error.\<close>

definition ResetPassword ::
  "auth_lib \<Rightarrow> auth_config \<Rightarrow> go_err + string \<Rightarrow> go_err + string list \<Rightarrow> (string \<times> string) option \<Rightarrow>
     http_response go" where
  "ResetPassword lib cfg salt batch body = (case body of
       None \<Rightarrow> err_response (Response InvalidRequestError) 400
     | Some (token, password) \<Rightarrow>
         if \<not> (len_between 0 20 token \<and> len_between 6 72 password)
         then err_response (Response ValidationError) 400
         else if \<not> ac_has_redis cfg then set_password lib cfg salt password 0
         else case batch of
           Inl _ \<Rightarrow> err_response (Response TokenError) 400
         | Inr keys \<Rightarrow> bind (find_reset keys token) (\<lambda>uid.
             if uid = 0 then err_response (Response TokenError) 400
             else set_password lib cfg salt password uid))"

section \<open>Feedback\<close>

text \<open>E-mail, most loved, most hated, wished for, general; the last one is not stored.  Without a
  notification service the goroutine that thanks the user dereferences nil, which ends the server.\<close>

definition feedback_valid :: "(string \<Rightarrow> bool) \<Rightarrow> string \<times> string \<times> string \<times> string \<times> string \<Rightarrow> bool" where
  "feedback_valid is_email = (\<lambda>(email, loved, hated, wished, general).
     len_between 0 254 email \<and> is_email email \<and> len_between 0 500 loved \<and> len_between 0 500 hated \<and>
     len_between 0 500 wished \<and> len_between 0 1000 general)"

definition UserFeedback ::
  "(string \<Rightarrow> bool) \<Rightarrow> auth_config \<Rightarrow> (string \<times> string \<times> string \<times> string \<times> string) option \<Rightarrow>
     http_response go" where
  "UserFeedback is_email cfg body = (case body of
       None \<Rightarrow> err_response (Response InvalidRequestError) 400
     | Some (email, loved, hated, wished, general) \<Rightarrow>
         if \<not> feedback_valid is_email (email, loved, hated, wished, general)
         then err_response (Response ValidationError) 400
         else catching (db_run (\<lambda>d. Some ((), d\<lparr>feedback := feedback d @ [[email, loved, hated, wished]]\<rparr>)))
           (\<lambda>_. err_response ''Failed Recording Feedback'' 424)
           (\<lambda>_. if ac_has_notifications cfg
              then ret (SendSuccessResponse ''Feedback Taken Successfully'' JNull 200)
              else panic ''nil pointer dereference: notificationSvc''))"

end
