(* ===== verification/Auth_Props.thy ===== *)
theory Auth_Props
  imports Auth_Handlers
begin

text \<open>
  Properties of passwords, tokens and sessions: what the session middleware lets through, what
  logout and deletion end, and what a consumed refresh token still does.
\<close>

section \<open>Passwords\<close>

text \<open>A stored password accepts exactly the passwords with the same Argon2 key under its salt, so
  the password it was made from, and the empty text that a deletion leaves accepts none.\<close>

theorem password_check:
  "(case hashPassword lib salt password of Inl e \<Rightarrow> salt = Inl e
    | Inr h \<Rightarrow> verifyPassword lib password h \<and>
        verifyPassword lib other h = (argon2 lib other (projr salt) = argon2 lib password (projr salt))) \<and>
   \<not> verifyPassword lib other []"
  by (auto simp: hashPassword_def verifyPassword_def split_char_once split_char_none encode_no_dollar
      base64_round_trip split: sum.split)

section \<open>The session middleware\<close>

lemma checkTokenBlacklist_run:
  assumes "ac_has_redis cfg"
  shows "\<exists>b. checkTokenBlacklist cfg token w = (Done b, used_fault w) \<and>
    (b \<longleftrightarrow> \<not> next_fault w \<and> redis_live (blacklist_key token) w \<noteq> None)"
  using assms by (simp add: checkTokenBlacklist_def catching_def bind_def attempt_def redis_exists_def ret_def)

lemma validateSession_Done:
  assumes "ac_has_redis cfg" and "validateSession cfg key did w = (Done p, w')"
  shows "\<exists>s. redis_live key w = Some (RSession s) \<and> ss_device s = did \<and> unix_time w \<le> atoi0 (ss_expires s) \<and>
    ss_preference s = p \<and> committed w' = committed w"
proof -
  obtain s where s: "redis_live key w = Some (RSession s)" "\<not> next_fault w"
    using assms by (auto simp: validateSession_def catching_def bind_def attempt_def redis_get_def fail_def
        split: if_splits option.splits rvalue.splits)
  with assms have "unix_time w \<le> atoi0 (ss_expires s)" "ss_device s = did"
    by (auto simp: validateSession_def catching_def bind_def attempt_def redis_get_def fail_def gets_def
        ignoring_def ret_def unix_time_def split: if_splits prod.splits outcome.splits)
  with assms s show ?thesis
    by (auto simp: validateSession_def catching_def bind_def attempt_def redis_get_def fail_def gets_def
        ignoring_def ret_def unix_time_def redis_expire_def split: if_splits prod.splits outcome.splits option.splits)
qed

lemma CheckUserStatus_Done:
  assumes "CheckUserStatusAndPrivileges userID w = (Done (True, isAdmin), w')"
  shows "\<exists>n l. parse_int userID = Some n \<and> login_of n (committed w) = Some l \<and> lg_status l = ''active'' \<and>
    isAdmin = (n \<in> set (admins (committed w)))"
  using assms
  by (auto simp: CheckUserStatusAndPrivileges_def catching_def bind_def attempt_def db_run_def status_query_def
      scan_one_def ret_def fail_def split: if_splits option.splits)

lemma catching_Done:
  "catching m h k w = (r, w') \<Longrightarrow>
   (\<exists>x w1. m w = (Done x, w1) \<and> k x w1 = (r, w')) \<or> (\<exists>e w1. m w = (Failed e, w1) \<and> h e w1 = (r, w')) \<or>
   (\<exists>p w1. m w = (Panics p, w1) \<and> r = Panics p)"
  by (auto simp: catching_def bind_def attempt_def split: prod.splits outcome.splits)

lemma refused_not: "refused m c w \<noteq> (Done (Inr x), w')"
  by (simp add: refused_def ret_def)

lemma middleware_steps:
  assumes "AuthSessionMiddleware lib cfg authHeader w = (Done (Inr (c, pref)), w')"
  shows "\<exists>token w1 userID merchantID sid did w2 isAdmin w3. extractBearerToken authHeader = Inr token \<and>
    checkTokenBlacklist cfg token w = (Done False, w1) \<and>
    validateToken lib cfg (unix_time w1) token = Inr (userID, merchantID) \<and>
    parseSessionClaims lib (unix_time w1) token = Inr (sid, did) \<and>
    validateSession cfg (session_key sid) did w1 = (Done pref, w2) \<and>
    CheckUserStatusAndPrivileges userID w2 = (Done (True, isAdmin), w3) \<and>
    (c, pref) = granted userID merchantID isAdmin pref"
proof -
  obtain token where tok: "extractBearerToken authHeader = Inr token"
    using assms by (cases "extractBearerToken authHeader") (auto simp: AuthSessionMiddleware_def refused_not)
  obtain b w1 where b: "checkTokenBlacklist cfg token w = (b, w1)" by (meson surj_pair)
  with assms tok have b': "b = Done False"
    by (cases b) (auto simp: AuthSessionMiddleware_def bind_def refused_not split: if_splits)
  obtain userID merchantID where v: "validateToken lib cfg (unix_time w1) token = Inr (userID, merchantID)"
    using assms tok b b' by (cases "validateToken lib cfg (unix_time w1) token")
      (auto simp: AuthSessionMiddleware_def bind_def gets_def refused_not)
  obtain sid did where p: "parseSessionClaims lib (unix_time w1) token = Inr (sid, did)"
    using assms tok b b' v by (cases "parseSessionClaims lib (unix_time w1) token")
      (auto simp: AuthSessionMiddleware_def bind_def gets_def refused_not)
  from assms tok b b' v p have m: "catching (validateSession cfg (session_key sid) did)
                 (\<lambda>err. if err = ErrSessionNotFound \<or> err = ErrInvalidSession
                    then refused ''Session Locked - User Presence Required'' 423
                    else refused ''Invalid Security Token'' 401)
                 (\<lambda>preference.
               catching (CheckUserStatusAndPrivileges userID)
                 (\<lambda>_. refused ''Invalid User Status'' 401)
                 (\<lambda>(active, isAdmin).
                    if \<not> active then refused ''User Is Not Active'' 401
                    else ret (Inr (granted userID merchantID isAdmin preference)))) w1 = (Done (Inr (c, pref)), w')"
    by (simp add: AuthSessionMiddleware_def bind_def gets_def)
  obtain q w2 where q: "validateSession cfg (session_key sid) did w1 = (Done q, w2)"
    "catching (CheckUserStatusAndPrivileges userID)
                 (\<lambda>_. refused ''Invalid User Status'' 401)
                 (\<lambda>(active, isAdmin).
                    if \<not> active then refused ''User Is Not Active'' 401
                    else ret (Inr (granted userID merchantID isAdmin q))) w2 = (Done (Inr (c, pref)), w')"
    using catching_Done [OF m] by (auto simp: refused_not split: if_splits)
  obtain active isAdmin w3 where s: "CheckUserStatusAndPrivileges userID w2 = (Done (active, isAdmin), w3)"
    "(if \<not> active then refused ''User Is Not Active'' 401
      else ret (Inr (granted userID merchantID isAdmin q))) w3 = (Done (Inr (c, pref)), w')"
    using catching_Done [OF q(2)] by (auto simp: refused_not)
  then have "active" "granted userID merchantID isAdmin q = (c, pref)"
    by (auto simp: refused_not ret_def split: if_splits)
  with tok b b' v p q s show ?thesis by (auto simp: granted_def)
qed

text \<open>C21: what the session middleware lets through.  The token checks and names, as issuer and
  audience, the configured ones; it carries a session and a device; that session is stored, not
  past its end and of that device; the user of the token exists and is active, and is the one the
  handlers are given; and the token was not revoked, unless Redis did not answer that question.\<close>

theorem session_gate:
  assumes "AuthSessionMiddleware lib cfg authHeader w = (Done (Inr (c, pref)), w')" and "ac_has_redis cfg"
  shows "\<exists>token sid did s n l. extractBearerToken authHeader = Inr token \<and>
    jw_check lib token (unix_time w) = None \<and>
    (ac_issuer cfg = [] \<or> claim (jw_claims lib token) ''iss'' = JStr (ac_issuer cfg)) \<and>
    (ac_audience cfg = [] \<or> claim (jw_claims lib token) ''aud'' = JStr (ac_audience cfg)) \<and>
    claim (jw_claims lib token) ''sid'' = JStr sid \<and> claim (jw_claims lib token) ''did'' = JStr did \<and>
    redis_live (session_key sid) w = Some (RSession s) \<and> ss_device s = did \<and>
    unix_time w \<le> atoi0 (ss_expires s) \<and> ctx_userID c = Some (show_v (claim (jw_claims lib token) ''user_id'')) \<and>
    parse_int (show_v (claim (jw_claims lib token) ''user_id'')) = Some n \<and>
    login_of n (committed w) = Some l \<and> lg_status l = ''active'' \<and>
    (redis_live (blacklist_key token) w = None \<or> next_fault w)"
proof -
  obtain token w1 userID merchantID sid did w2 isAdmin w3 where
    tok: "extractBearerToken authHeader = Inr token"
    and b: "checkTokenBlacklist cfg token w = (Done False, w1)"
    and v: "validateToken lib cfg (unix_time w1) token = Inr (userID, merchantID)"
    and p: "parseSessionClaims lib (unix_time w1) token = Inr (sid, did)"
    and q: "validateSession cfg (session_key sid) did w1 = (Done pref, w2)"
    and s: "CheckUserStatusAndPrivileges userID w2 = (Done (True, isAdmin), w3)"
    and c: "(c, pref) = granted userID merchantID isAdmin pref"
    using middleware_steps [OF assms(1)] by blast
  have w1: "w1 = used_fault w" "redis_live (blacklist_key token) w = None \<or> next_fault w"
    using checkTokenBlacklist_run [OF assms(2), of token w] b by auto
  then have t: "unix_time w1 = unix_time w" by (simp add: unix_time_def)
  from validateSession_Done [OF assms(2) q] w1 t obtain ss where
    ss: "redis_live (session_key sid) w = Some (RSession ss)" "ss_device ss = did"
      "unix_time w \<le> atoi0 (ss_expires ss)" "committed w2 = committed w" by auto
  from CheckUserStatus_Done [OF s] ss(4) obtain n l where
    n: "parse_int userID = Some n" "login_of n (committed w) = Some l" "lg_status l = ''active''" by auto
  have "jw_check lib token (unix_time w) = None \<and> userID = show_v (claim (jw_claims lib token) ''user_id'') \<and>
    (ac_issuer cfg = [] \<or> claim (jw_claims lib token) ''iss'' = JStr (ac_issuer cfg)) \<and>
    (ac_audience cfg = [] \<or> claim (jw_claims lib token) ''aud'' = JStr (ac_audience cfg))"
    using v t by (auto simp: validateToken_def Let_def split: option.splits if_splits)
  moreover have "claim (jw_claims lib token) ''sid'' = JStr sid \<and> claim (jw_claims lib token) ''did'' = JStr did"
    using p by (auto simp: parseSessionClaims_def split: option.splits json.splits)
  ultimately show ?thesis using tok ss n w1(2) c by (auto simp: granted_def)
qed

section \<open>Logout\<close>

lemma used_fault_empty: "faults w = [] \<Longrightarrow> used_fault w = w"
  by (simp add: used_fault_def)

lemma no_session_no_access:
  assumes "ac_has_redis cfg" and "redis_live (session_key sid) w = None"
    and "extractBearerToken h = Inr token" and "claim (jw_claims lib token) ''sid'' = JStr sid"
  shows "fst (AuthSessionMiddleware lib cfg h w) \<noteq> Done (Inr (c, pref))"
proof
  assume "fst (AuthSessionMiddleware lib cfg h w) = Done (Inr (c, pref))"
  then obtain w' where "AuthSessionMiddleware lib cfg h w = (Done (Inr (c, pref)), w')" by (metis prod.collapse)
  from middleware_steps [OF this] assms(3) obtain w1 sid' did w2 where
    b: "checkTokenBlacklist cfg token w = (Done False, w1)"
    and p: "parseSessionClaims lib (unix_time w1) token = Inr (sid', did)"
    and q: "validateSession cfg (session_key sid') did w1 = (Done pref, w2)" by auto
  have "w1 = used_fault w" using checkTokenBlacklist_run [OF assms(1), of token w] b by auto
  moreover have "sid' = sid" using p assms(4) by (auto simp: parseSessionClaims_def split: option.splits json.splits)
  ultimately show False using validateSession_Done [OF assms(1) q] assms(2) by auto
qed

lemma LogoutUser_drops:
  assumes "ac_has_redis cfg" and "faults w = []" and "claim (jw_claims lib token) ''sid'' = JStr sid"
    and "length p = 7" and "token \<noteq> []"
  shows "redis_live (session_key sid) (snd (LogoutUser lib cfg (p @ token) w)) = None"
  using assms
  by (auto simp: LogoutUser_def bind_def ignoring_def attempt_def redis_del_def ret_def next_fault_def gets_def
      used_fault_empty blacklistToken_def redis_set_def session_key_def blacklist_key_def Let_def
      split: json.split)


section \<open>Refresh\<close>

text \<open>The conditions under which a refresh succeeds, without faults.\<close>

definition refreshable :: "auth_lib \<Rightarrow> string \<Rightarrow> world \<Rightarrow> bool" where
  "refreshable lib token w \<longleftrightarrow> faults w = [] \<and> jw_check lib token (unix_time w) = None \<and>
     claim (jw_claims lib token) ''type'' = JStr ''refresh'' \<and>
     (\<exists>uid sid v u l. claim (jw_claims lib token) ''user_id'' = JInt uid \<and> in_int4 uid \<and>
        claim (jw_claims lib token) ''sid'' = JStr sid \<and> redis_live (session_key sid) w = Some v \<and>
        find (\<lambda>(u, l). usr_id u = uid) (joined_users (committed w)) = Some (u, l) \<and> usr_phone u \<noteq> [])"

lemma in_int4_in_int64: "in_int4 n \<Longrightarrow> in_int64 n"
  by (simp add: in_int4_def in_int64_def)

lemma CheckUserStatus_run:
  assumes "faults w = []" and "in_int4 uid"
  shows "\<exists>b. CheckUserStatusAndPrivileges (show_int uid) w = (Done b, w)"
proof -
  have "parse_int (show_int uid) = Some uid" using assms(2) by (simp add: parse_show_int in_int4_in_int64)
  then show ?thesis
    using assms
    by (cases "login_of uid (committed w)")
       (auto simp: CheckUserStatusAndPrivileges_def catching_def bind_def attempt_def db_run_def status_query_def
         next_fault_def used_fault_empty scan_one_def ret_def fail_def)
qed

lemma generateJWT_run:
  assumes "faults w = []" and "in_int4 uid" and "\<forall>cs. \<exists>t. jw_sign lib cs = Inr t"
  shows "\<exists>t. generateJWTWithSession lib cfg uid m sid did w = (Done t, w)"
proof -
  obtain b where b: "CheckUserStatusAndPrivileges (show_int uid) w = (Done b, w)"
    using CheckUserStatus_run assms(1,2) by blast
  obtain t where "jw_sign lib (access_claims cfg uid (fst b) (snd b) m sid did w) = Inr t" using assms(3) by blast
  with b show ?thesis
    by (cases b) (simp add: generateJWTWithSession_def bind_def gets_def catching_simps ret_def)
qed

lemma generateRefreshToken_run:
  assumes "\<forall>cs. \<exists>t. jw_sign lib cs = Inr t"
  shows "\<exists>t. generateRefreshToken lib uid sid w = (Done t, w)"
proof -
  obtain t where "jw_sign lib (refresh_claims uid sid w) = Inr t" using assms by blast
  then show ?thesis by (simp add: generateRefreshToken_def bind_def gets_def ret_def)
qed

text \<open>The state after a successful refresh: the consumed token is on the revocation list.\<close>

definition after_refresh :: "auth_lib \<Rightarrow> string \<Rightarrow> world \<Rightarrow> world" where
  "after_refresh lib token w = (case claim (jw_claims lib token) ''exp'' of
     JInt exp \<Rightarrow> if 0 < exp * second - now w
       then redis_put (blacklist_key token) (RStr ''1'') (exp * second - now w) w else w
   | _ \<Rightarrow> w)"

lemma after_refresh_frame:
  "faults (after_refresh lib token w) = faults w" "committed (after_refresh lib token w) = committed w"
  "now (after_refresh lib token w) = now w"
  "redis_live (session_key sid) (after_refresh lib token w) = redis_live (session_key sid) w"
proof -
  have "session_key sid \<noteq> blacklist_key token" by (simp add: session_key_def blacklist_key_def)
  then show "redis_live (session_key sid) (after_refresh lib token w) = redis_live (session_key sid) w"
    by (simp add: after_refresh_def split: json.split)
qed (simp_all add: after_refresh_def redis_put_def split: json.split)

lemma refresh_run:
  assumes "refreshable lib token w" and "ac_has_redis cfg" and sign: "\<forall>cs. \<exists>t. jw_sign lib cs = Inr t"
  shows "\<exists>r. RefreshToken lib cfg (Some token) w = (Done r, after_refresh lib token w) \<and> hr_success r"
proof -
  let ?cs = "jw_claims lib token" and ?w = "after_refresh lib token w"
  obtain uid sid v u l where c: "faults w = []" "jw_check lib token (unix_time w) = None"
    "claim ?cs ''type'' = JStr ''refresh''" "claim ?cs ''user_id'' = JInt uid" "in_int4 uid"
    "claim ?cs ''sid'' = JStr sid" "redis_live (session_key sid) w = Some v"
    "find (\<lambda>(u, l). usr_id u = uid) (joined_users (committed w)) = Some (u, l)" "usr_phone u \<noteq> []"
    using assms(1) by (auto simp: refreshable_def)
  let ?m = "merchant_id_only (merchant_of uid (committed w))"
  obtain did where d: "session_device cfg sid w = (Done did, w)"
    using c(1,7) assms(2)
    by (cases v) (auto simp: session_device_def catching_def bind_def attempt_def redis_get_def next_fault_def
        used_fault_empty ret_def)
  have e: "session_exists cfg sid w = (Done True, w)"
    using c(1,7) assms(2)
    by (simp add: session_exists_def catching_def bind_def attempt_def redis_exists_def next_fault_def
        used_fault_empty ret_def)
  have b: "blacklist_remaining cfg token (claim ?cs ''exp'') w = (Done (), ?w)"
    using c(1) assms(2)
    by (auto simp: blacklist_remaining_def after_refresh_def blacklistToken_def ignoring_def bind_def attempt_def
        gets_def redis_set_def next_fault_def used_fault_empty ret_def split: json.split)
  have f: "faults ?w = []" using c(1) by (simp add: after_refresh_frame)
  obtain t1 where t1: "generateJWTWithSession lib cfg uid ?m sid did ?w = (Done t1, ?w)"
    using generateJWT_run [OF f c(5) sign] by blast
  obtain t2 where t2: "generateRefreshToken lib uid sid ?w = (Done t2, ?w)"
    using generateRefreshToken_run [OF sign] by blast
  have q: "bind (db_run (refresh_query uid)) scan_one w = (Done (u, l), w)"
    using c(1,8) by (simp add: db_run_def refresh_query_def bind_def scan_one_def next_fault_def used_fault_empty ret_def)
  have "refresh_user lib cfg token uid sid (committed w) w =
      (Done (bare_json (auth_response t1 t2 (user_json u l [] []))), ?w)"
    unfolding refresh_user_def using c(9)
    by (simp add: catching_simps(1) fst_bind_Done q d b t1 t2) (simp add: ret_def)
  then show ?thesis
    using c e by (simp add: RefreshToken_def bind_def gets_def Let_def bare_json_def)
qed

lemma refreshable_again: "refreshable lib token w \<Longrightarrow> refreshable lib token (after_refresh lib token w)"
  by (auto simp: refreshable_def after_refresh_frame unix_time_def)

text \<open>A consumed refresh token is put on the revocation list, as its comment says, and works again
  all the same: nothing on the way of a refresh looks at that list.\<close>

theorem consumed_refresh_token_works:
  assumes "refreshable lib token w" and "ac_has_redis cfg" and "\<forall>cs. \<exists>t. jw_sign lib cs = Inr t"
    and "claim (jw_claims lib token) ''exp'' = JInt exp" and "now w < exp * second"
  shows "\<exists>r w1 r' w2. RefreshToken lib cfg (Some token) w = (Done r, w1) \<and> hr_success r \<and>
    redis_live (blacklist_key token) w1 = Some (RStr ''1'') \<and>
    RefreshToken lib cfg (Some token) w1 = (Done r', w2) \<and> hr_success r'"
proof -
  have "redis_live (blacklist_key token) (after_refresh lib token w) = Some (RStr ''1'')"
    using assms(4,5) by (simp add: after_refresh_def)
  then show ?thesis
    using refresh_run [OF assms(1-3)] refresh_run [OF refreshable_again [OF assms(1)] assms(2,3)] by blast
qed

section \<open>Deletion\<close>

lemma err_response_not_success: "err_response m code w = (Done r, w') \<Longrightarrow> \<not> hr_success r"
  by (auto simp: err_response_def ret_def)

lemma read_Done: "db_run (\<lambda>d. Some (f d, d)) w = (Done x, w') \<Longrightarrow> x = f (committed w) \<and> committed w' = committed w"
  by (auto simp: db_run_def split: if_splits)

lemma committed_is_revoke: "keeps (committed_is d) (revoke_user cfg h uid)"
proof -
  have "keeps (committed_is d) (drop_sessions uid)"
    unfolding drop_sessions_def Let_def
    by (intro keeps_catching keeps_ret keeps_ignoring; rule keepsI; simp add: committed_is_def)
  then show ?thesis
    unfolding revoke_user_def blacklistToken_def by (intro keeps_intros)
qed

definition deleted :: "int \<Rightarrow> db \<Rightarrow> db" where
  "deleted uid d = snd (the (sql_soft_delete uid d))"

lemma catching_success:
  assumes "catching m (\<lambda>e. err_response (f e) (g e)) k w = (Done r, w')" and "hr_success r"
  obtains x w1 where "m w = (Done x, w1)" and "k x w1 = (Done r, w')"
  using catching_Done [OF assms(1)] assms(2) err_response_not_success by blast

lemma if_error_success:
  assumes "(if b then err_response f g else m) w = (Done r, w')" and "hr_success r"
  shows "\<not> b" and "m w = (Done r, w')"
  using assms err_response_not_success by (auto split: if_splits)

lemma delete_checked_success:
  assumes "delete_checked cfg h uid w = (Done r, w')" and s: "hr_success r"
  shows "nonzero_balances uid (committed w) = 0 \<and> pending_transactions uid (committed w) = 0 \<and>
    committed w' = deleted uid (committed w)"
proof -
  obtain n w1 where 1: "db_run (\<lambda>d. Some (nonzero_balances uid d, d)) w = (Done n, w1)"
    and k1: "(if 0 < n then err_response ''Account balance must be zero before deletion'' 409
      else catching (db_run (\<lambda>d. Some (pending_transactions uid d, d)))
       (\<lambda>_. err_response (Response InternalServiceError) 500) (\<lambda>pendingTx.
     if 0 < pendingTx then err_response ''Cannot delete account with pending transactions'' 409
     else catching (db_run (sql_soft_delete uid))
       (\<lambda>_. err_response (Response InternalServiceError) 500) (\<lambda>_.
     bind (revoke_user cfg h uid) (\<lambda>_.
     bind (if ac_has_notifications cfg
           then ignoring (bind (db_run (\<lambda>d. Some (user_of uid d, d))) scan_one) else ret ()) (\<lambda>_.
     ret (SendSuccessResponse ''Account Deleted Successfully'' JNull 200)))))) w1 = (Done r, w')"
    by (rule catching_success [OF assms(1) [unfolded delete_checked_def] s])
  note n = if_error_success(1) [OF k1 s]
  obtain m w2 where 2: "db_run (\<lambda>d. Some (pending_transactions uid d, d)) w1 = (Done m, w2)"
    and k2: "(if 0 < m then err_response ''Cannot delete account with pending transactions'' 409
     else catching (db_run (sql_soft_delete uid))
       (\<lambda>_. err_response (Response InternalServiceError) 500) (\<lambda>_.
     bind (revoke_user cfg h uid) (\<lambda>_.
     bind (if ac_has_notifications cfg
           then ignoring (bind (db_run (\<lambda>d. Some (user_of uid d, d))) scan_one) else ret ()) (\<lambda>_.
     ret (SendSuccessResponse ''Account Deleted Successfully'' JNull 200))))) w2 = (Done r, w')"
    by (rule catching_success [OF if_error_success(2) [OF k1 s] s])
  note m = if_error_success(1) [OF k2 s]
  let ?rest = "bind (revoke_user cfg h uid) (\<lambda>_.
     bind (if ac_has_notifications cfg
           then ignoring (bind (db_run (\<lambda>d. Some (user_of uid d, d))) scan_one) else ret ()) (\<lambda>_.
     ret (SendSuccessResponse ''Account Deleted Successfully'' JNull 200)))"
  obtain x w3 where 3: "db_run (sql_soft_delete uid) w2 = (Done x, w3)" and k4: "?rest w3 = (Done r, w')"
    by (rule catching_success [OF if_error_success(2) [OF k2 s] s])
  have c3: "committed w3 = deleted uid (committed w2)"
    using 3 by (auto simp: db_run_def deleted_def sql_soft_delete_def split: if_splits)
  have "keeps (committed_is (committed w3)) ?rest"
    by (intro keeps_intros committed_is_revoke committed_is_db_read) auto
  from keepsD [OF this, of w3] have "committed w' = committed w3" by (simp only: k4 committed_is_def snd_conv simp_thms)
  with c3 read_Done [OF 1] read_Done [OF 2] n m show ?thesis by simp
qed

lemma find_map_login: "(\<And>l. lg_user (f l) = lg_user l) \<Longrightarrow>
    find (\<lambda>l. lg_user l = uid) (map f ls) = map_option f (find (\<lambda>l. lg_user l = uid) ls)"
  by (induction ls) auto

definition inactive :: "login_row \<Rightarrow> login_row" where
  "inactive l = l\<lparr>lg_status := ''inactive'', lg_deleted := True, lg_password := []\<rparr>"

lemma inactive_sel [simp]: "lg_user (inactive l) = lg_user l" "lg_status (inactive l) = ''inactive''"
  "lg_deleted (inactive l)"
  by (simp_all add: inactive_def)

lemma deleted_logins: "logins (deleted uid d) = map (\<lambda>l. if lg_user l = uid then inactive l else l) (logins d)"
  by (simp add: deleted_def sql_soft_delete_def inactive_def)

lemma deleted_login: "login_of uid (deleted uid d) = map_option inactive (login_of uid d)"
proof -
  have e: "login_of uid (deleted uid d) = map_option (\<lambda>l. if lg_user l = uid then inactive l else l) (login_of uid d)"
    unfolding login_of_def deleted_logins by (rule find_map_login) simp
  show ?thesis
  proof (cases "login_of uid d")
    case None
    show ?thesis unfolding e None by (simp only: option.map)
  next
    case (Some l)
    have "lg_user l = uid" using find_SomeD [OF Some [unfolded login_of_def]] by simp
    then show ?thesis unfolding e Some by (simp only: option.map if_True simp_thms)
  qed
qed

lemma deleted_rows:
  assumes "l \<in> set (logins (deleted uid d))" and "lg_user l = uid"
  shows "lg_deleted l"
proof -
  obtain x where x: "l = (if lg_user x = uid then inactive x else x)"
    using assms(1) unfolding deleted_logins set_map by blast
  show ?thesis
  proof (cases "lg_user x = uid")
    case False
    with x have "l = x" by simp
    with False assms(2) show ?thesis by blast
  qed (simp add: x)
qed

lemma deleted_not_found:
  assumes "login_query ident (deleted uid d) = Some (Some (u, l), d')"
  shows "usr_id u \<noteq> uid"
proof -
  have "find (\<lambda>(u, l). identified_by ident u l \<and> \<not> lg_deleted l) (joined_users (deleted uid d)) = Some (u, l)"
    using assms unfolding login_query_def option.inject prod.inject by (rule conjunct1)
  from find_SomeD [OF this] have "l \<in> set (logins (deleted uid d))" "lg_user l = usr_id u" "\<not> lg_deleted l"
    unfolding joined_users_def by auto
  then show ?thesis using deleted_rows by blast
qed

text \<open>An accepted deletion has checked the password, and then the accounts and transactions.\<close>

lemma deletion_accepted:
  assumes "DeleteUserProfile lib cfg h c (Some password) w = (Done [r], w')" and "hr_success r"
    and "ctx_userID c = Some (show_int uid)" and "in_int4 uid"
  obtains l w1 where "login_of uid (committed w) = Some l" and "committed w1 = committed w"
    and "verifyPassword lib password (lg_password l)" and "delete_checked cfg h uid w1 = (Done r, w')"
proof -
  have ne: "show_int uid \<noteq> []" using parse_show_int [OF in_int4_in_int64 [OF assms(4)]] by (auto simp: parse_int_def)
  have id: "atoi0 (show_int uid) = uid" by (rule atoi0_parse [OF parse_show_int [OF in_int4_in_int64 [OF assms(4)]]])
  let ?m = "\<lambda>uid. if \<not> len_between 6 72 password then err_response (Response ValidationError) 400
         else catching (bind (db_run (\<lambda>d. Some (login_of uid d, d))) scan_one)
           (\<lambda>err. if err = NoRows then err_response (Response UserNotFoundError) 404
              else err_response (Response InternalServiceError) 500)
           (\<lambda>l. if lg_deleted l then err_response ''Account Already Deleted'' 410
              else if \<not> verifyPassword lib password (lg_password l)
              then err_response ''Invalid Credentials'' 401
              else delete_checked cfg h uid)"
  have k0: "?m uid w = (Done r, w')"
    using assms(1,3) ne id
    by (auto simp: DeleteUserProfile_def with_identity_def ExtractUserMerchantInfoFromContext_def Let_def bind_def ret_def
        split: prod.splits outcome.splits)
  obtain l w1 where l: "bind (db_run (\<lambda>d. Some (login_of uid d, d))) scan_one w = (Done l, w1)"
    and k1: "(if lg_deleted l then err_response ''Account Already Deleted'' 410
              else if \<not> verifyPassword lib password (lg_password l)
              then err_response ''Invalid Credentials'' 401
              else delete_checked cfg h uid) w1 = (Done r, w')"
    using catching_Done [OF if_error_success(2) [OF k0 assms(2)]] assms(2) err_response_not_success
    by (auto split: if_splits)
  have lw: "login_of uid (committed w) = Some l" "committed w1 = committed w"
    using l by (auto simp: bind_def db_run_def scan_one_def ret_def fail_def split: if_splits option.splits)
  note k2 = if_error_success [OF if_error_success(2) [OF k1 assms(2)] assms(2)]
  from k2(1) have "verifyPassword lib password (lg_password l)" by simp
  from that [OF lw this k2(2)] show ?thesis .
qed

text \<open>The middleware refuses every token of a user who is not active.\<close>

lemma inactive_user_blocked:
  assumes "login_of uid (committed v) = Some l" and "lg_status l \<noteq> ''active''" and "in_int4 uid"
    and "extractBearerToken h = Inr token" and "show_v (claim (jw_claims lib token) ''user_id'') = show_int uid"
  shows "fst (AuthSessionMiddleware lib cfg h v) \<noteq> Done (Inr x)"
proof
  assume "fst (AuthSessionMiddleware lib cfg h v) = Done (Inr x)"
  then obtain cc pref v' where "AuthSessionMiddleware lib cfg h v = (Done (Inr (cc, pref)), v')"
    by (metis prod.collapse)
  from middleware_steps [OF this] assms(4) obtain v1 userID merchantID sid did v2 isAdmin v3 where
    b: "checkTokenBlacklist cfg token v = (Done False, v1)"
    and t: "validateToken lib cfg (unix_time v1) token = Inr (userID, merchantID)"
    and q: "validateSession cfg (session_key sid) did v1 = (Done pref, v2)"
    and s: "CheckUserStatusAndPrivileges userID v2 = (Done (True, isAdmin), v3)" by auto
  have u: "userID = show_int uid" using t assms(5) by (auto simp: validateToken_def Let_def split: option.splits if_splits)
  have "keeps (committed_is (committed v)) (checkTokenBlacklist cfg token)"
    unfolding checkTokenBlacklist_def by (intro keeps_intros)
  then have c1: "committed v1 = committed v" using b by (metis committed_is_def keepsD snd_conv)
  have c2: "committed v2 = committed v1"
    using validateSession_Done [OF _ q] q by (cases "ac_has_redis cfg") (auto simp: validateSession_def ret_def)
  from CheckUserStatus_Done [OF s] obtain ll where "login_of uid (committed v2) = Some ll" "lg_status ll = ''active''"
    unfolding u parse_show_int [OF in_int4_in_int64 [OF assms(3)]] by auto
  then show False using c1 c2 assms(1,2) by auto
qed

text \<open>C23: what a deletion needs and leaves.  It is accepted only with the password, with every account
  of the user at zero and no transaction of theirs under way; then no login finds the user under
  any name, and no token of theirs passes the middleware while the tables stay as they are.\<close>

theorem deletion_is_final:
  assumes "DeleteUserProfile lib cfg h c (Some password) w = (Done [r], w')" and "hr_success r"
    and "ctx_userID c = Some (show_int uid)" and "in_int4 uid"
  shows "nonzero_balances uid (committed w) = 0 \<and> pending_transactions uid (committed w) = 0 \<and>
    (\<exists>l. login_of uid (committed w) = Some l \<and> verifyPassword lib password (lg_password l)) \<and>
    (\<forall>ident u l d. login_query ident (committed w') = Some (Some (u, l), d) \<longrightarrow> usr_id u \<noteq> uid) \<and>
    (\<forall>v h' token x. committed v = committed w' \<and> extractBearerToken h' = Inr token \<and>
       show_v (claim (jw_claims lib token) ''user_id'') = show_int uid \<longrightarrow>
       fst (AuthSessionMiddleware lib cfg h' v) \<noteq> Done (Inr x))"
proof -
  obtain l w1 where l: "login_of uid (committed w) = Some l" and w1: "committed w1 = committed w"
    and v: "verifyPassword lib password (lg_password l)" and k: "delete_checked cfg h uid w1 = (Done r, w')"
    by (rule deletion_accepted [OF assms])
  note d = delete_checked_success [OF k assms(2), unfolded w1]
  then have "login_of uid (committed w') = Some (inactive l)" using l by (simp add: deleted_login)
  then have "fst (AuthSessionMiddleware lib cfg h' v) \<noteq> Done (Inr x)"
    if "committed v = committed w'" "extractBearerToken h' = Inr token"
      "show_v (claim (jw_claims lib token) ''user_id'') = show_int uid" for v h' token x
    using that inactive_user_blocked [OF _ _ assms(4) that(2,3)] by simp
  with d l v deleted_not_found show ?thesis by auto
qed

section \<open>Two defects\<close>

lemma parse_int_bad: "c \<in> set s \<Longrightarrow> \<not> is_digit c \<Longrightarrow> c \<noteq> CHR ''-'' \<Longrightarrow> c \<noteq> CHR ''+'' \<Longrightarrow> parse_int s = None"
  by (cases s) (auto simp: parse_int_def Let_def list_all_iff)

lemma float_v_million: "1000000 \<le> \<bar>n\<bar> \<Longrightarrow> parse_int (float_v n) = None"
  by (rule parse_int_bad [of "CHR ''e''"]) (auto simp: float_v_def Let_def is_digit_def less_eq_char_def)

text \<open>No user whose number has seven digits passes the middleware: the number in the token is read
  as a floating point value and printed with an exponent, which the query for the user refuses.\<close>

theorem million_users_locked_out:
  assumes "extractBearerToken h = Inr token" and "claim (jw_claims lib token) ''user_id'' = JInt n"
    and "1000000 \<le> \<bar>n\<bar>"
  shows "fst (AuthSessionMiddleware lib cfg h w) \<noteq> Done (Inr x)"
proof
  assume "fst (AuthSessionMiddleware lib cfg h w) = Done (Inr x)"
  then obtain c pref w' where "AuthSessionMiddleware lib cfg h w = (Done (Inr (c, pref)), w')" by (metis prod.collapse)
  from middleware_steps [OF this] assms(1) obtain t userID merchantID w2 isAdmin w3 where
    v: "validateToken lib cfg t token = Inr (userID, merchantID)"
    and s: "CheckUserStatusAndPrivileges userID w2 = (Done (True, isAdmin), w3)" by auto
  have "userID = float_v n" using v assms(2) by (auto simp: validateToken_def Let_def split: option.splits if_splits)
  with CheckUserStatus_Done [OF s] float_v_million [OF assms(3)] show False by simp
qed

text \<open>The statement of the registration is refused, so nobody is ever registered.\<close>

lemma registration_never_succeeds:
  "RegisterNewUser lib is_email salt body w = (Done r, w') \<Longrightarrow> \<not> hr_success r \<and> committed w' = committed w"
  by (auto simp: RegisterNewUser_def err_response_def ret_def deferring_def catching_def bind_def attempt_def
      tx_begin_def tx_run_def sql_register_def split: json_body.splits if_splits sum.splits)

section \<open>A signed-in user\<close>

definition sample_access :: claims where
  "sample_access = [(''user_id'', JInt 7), (''sid'', JStr ''7_ab''), (''did'', JStr ''D''), (''exp'', JInt 9)]"

definition sample_refresh :: claims where
  "sample_refresh = [(''user_id'', JInt 7), (''sid'', JStr ''7_ab''), (''exp'', JInt 9), (''type'', JStr ''refresh'')]"

definition sample_auth :: auth_lib where
  "sample_auth = \<lparr>jw_sign = (\<lambda>cs. Inr (if claim cs ''type'' = JStr ''refresh'' then ''R'' else ''T'')),
     jw_claims = (\<lambda>t. if t = ''R'' then sample_refresh else if t = ''M'' then [(''user_id'', JInt 1000000)] else sample_access),
     jw_check = (\<lambda>t n. if n < 9 then None else Some (ExtErr ''token is expired'')),
     argon2 = (\<lambda>p s. if p = ''secret'' then s else ''x''), decrypt_pii = Inr\<rparr>"

definition sample_auth_config :: auth_config where
  "sample_auth_config = \<lparr>ac_issuer = [], ac_audience = [], ac_expiry_minutes = 15, ac_inactivity = 900 * second,
     ac_use_encrypted_password = False, ac_has_redis = True, ac_has_notifications = False\<rparr>"

definition signed_in :: world where
  "signed_in = sample_world\<lparr>committed := sample_db\<lparr>accounts := [],
       logins := map (\<lambda>l. l\<lparr>lg_password := ''$''\<rparr>) (logins sample_db)\<rparr>, now := 5 * second,
     redis := [''SESSION:7_ab'' \<mapsto> (RSession \<lparr>ss_user = ''7'', ss_device = ''D'', ss_expires = ''9'',
       ss_preference = JNull\<rparr>, 905 * second)]\<rparr>"

definition sample_context :: request_context where
  "sample_context = \<lparr>ctx_userID = Some ''7'', ctx_merchantID = None, ctx_isAdmin = Some False\<rparr>"

lemma session_gate_witness:
  "\<exists>w'. AuthSessionMiddleware sample_auth sample_auth_config ''Bearer T'' signed_in =
      (Done (Inr (sample_context, JNull)), w') \<and>
    (\<exists>token. extractBearerToken ''Bearer T'' = Inr token \<and> jw_check sample_auth token (unix_time signed_in) = None)"
proof -
  have "fst (AuthSessionMiddleware sample_auth sample_auth_config ''Bearer T'' signed_in) =
      Done (Inr (sample_context, JNull))" by code_simp
  then obtain w' where w': "AuthSessionMiddleware sample_auth sample_auth_config ''Bearer T'' signed_in =
      (Done (Inr (sample_context, JNull)), w')" by (metis prod.collapse)
  have "ac_has_redis sample_auth_config" by (simp add: sample_auth_config_def)
  from session_gate [OF w' this] w' show ?thesis by blast
qed


lemma signed_in_refreshable: "refreshable sample_auth ''R'' signed_in"
proof -
  have "(case find (\<lambda>(u, l). usr_id u = 7) (joined_users (committed signed_in)) of None \<Rightarrow> False
      | Some (u, l) \<Rightarrow> usr_phone u \<noteq> [])" by code_simp
  then obtain u l where u: "find (\<lambda>(u, l). usr_id u = 7) (joined_users (committed signed_in)) = Some (u, l)"
    "usr_phone u \<noteq> []" by (auto split: option.splits prod.splits)
  have "redis_live (session_key ''7_ab'') signed_in \<noteq> None" by code_simp
  then obtain v where v: "redis_live (session_key ''7_ab'') signed_in = Some v" by blast
  have t: "jw_check sample_auth ''R'' (unix_time signed_in) = None" by code_simp
  have c: "claim (jw_claims sample_auth ''R'') ''type'' = JStr ''refresh''"
    "claim (jw_claims sample_auth ''R'') ''user_id'' = JInt 7" "claim (jw_claims sample_auth ''R'') ''sid'' = JStr ''7_ab''"
    by code_simp+
  have f: "faults signed_in = []" by (simp add: signed_in_def sample_world_def)
  have i: "in_int4 7" by (simp add: in_int4_def)
  show ?thesis unfolding refreshable_def using f t c i u v by blast
qed

lemma consumed_refresh_token_works_witness:
  "\<exists>r w1 r' w2. RefreshToken sample_auth sample_auth_config (Some ''R'') signed_in = (Done r, w1) \<and> hr_success r \<and>
    redis_live (blacklist_key ''R'') w1 = Some (RStr ''1'') \<and>
    RefreshToken sample_auth sample_auth_config (Some ''R'') w1 = (Done r', w2) \<and> hr_success r'"
  by (rule consumed_refresh_token_works [OF signed_in_refreshable, where exp = 9])
     (simp_all add: sample_auth_config_def sample_auth_def sample_refresh_def claim_def signed_in_def second_def)

lemma deletion_is_final_witness:
  "\<exists>w'. DeleteUserProfile sample_auth sample_auth_config ''Bearer T'' sample_context (Some ''secret'') signed_in =
      (Done [SendSuccessResponse ''Account Deleted Successfully'' JNull 200], w') \<and>
    (\<forall>ident u l d. login_query ident (committed w') = Some (Some (u, l), d) \<longrightarrow> usr_id u \<noteq> 7)"
proof -
  have "fst (DeleteUserProfile sample_auth sample_auth_config ''Bearer T'' sample_context (Some ''secret'') signed_in) =
      Done [SendSuccessResponse ''Account Deleted Successfully'' JNull 200]" by code_simp
  then obtain w' where w': "DeleteUserProfile sample_auth sample_auth_config ''Bearer T'' sample_context (Some ''secret'')
      signed_in = (Done [SendSuccessResponse ''Account Deleted Successfully'' JNull 200], w')" by (metis prod.collapse)
  have "ctx_userID sample_context = Some (show_int 7)" by code_simp
  from deletion_is_final [OF w' _ this] w' show ?thesis by (simp add: in_int4_def)
qed

lemma million_users_locked_out_witness:
  "\<forall>x. fst (AuthSessionMiddleware sample_auth sample_auth_config ''Bearer M'' signed_in) \<noteq> Done (Inr x)"
  by (rule allI, rule million_users_locked_out [where token = "''M''" and n = 1000000])
     (simp_all add: sample_auth_def claim_def extractBearerToken_def)

end
