(* ===== verification/Callback_Port.thy ===== *)
theory Callback_Port
  imports Prelude Models
begin

text \<open>
  Calls that wait for a callback: the \<open>pending sync.Map\<close> of
  \<open>src/internal/services/funds_transfer.go\<close> and \<open>name_enquiry.go\<close>.

  A request to the ISO 20022 switch is only accepted over HTTP; its answer comes later, as a request
  of the switch to the server, handled by another goroutine.  The caller registers a channel of
  capacity one under the identifier of its message, sends the message, and waits for the channel or
  for a timer; the handler of the callback removes the channel from the map and sends the answer
  into it.  Both services have the same code, over different answers \<open>'r\<close>.

  \<^item> Call number \<open>i\<close> is the goroutine that owns channel \<open>i\<close>; \<open>po_pending\<close> is the map,
    \<open>po_buffer\<close> what a channel holds, \<open>po_sending\<close> the handlers between \<open>LoadAndDelete\<close> and the
    end of their send.
  \<^item> An event is one atomic step of one goroutine; \<open>None\<close> says that the step cannot be taken now.  A
    schedule is any list of events, so the theorems are about every interleaving.
  \<^item> When the channel and the timer are both ready, \<open>select\<close> takes either: both events are possible.
\<close>

section \<open>State\<close>

datatype 'r phase = Requesting | Waiting | NotAccepted go_err | TimedOut | Answered "go_err + 'r"

record 'r call =
  ca_key :: string
  ca_phase :: "'r phase"

record 'r port =
  po_pending :: "string \<rightharpoonup> nat"
  po_buffer :: "nat \<rightharpoonup> go_err + 'r"
  po_calls :: "'r call list"
  po_sending :: "(nat \<times> (go_err + 'r)) list"
  po_notified :: "(string \<times> (go_err + 'r)) list"

definition empty_port :: "'r port" where
  "empty_port = \<lparr>po_pending = Map.empty, po_buffer = Map.empty, po_calls = [], po_sending = [],
     po_notified = []\<rparr>"

section \<open>Steps\<close>

definition phase_of :: "nat \<Rightarrow> 'r port \<Rightarrow> 'r phase option" where
  "phase_of i p = (if i < length (po_calls p) then Some (ca_phase (po_calls p ! i)) else None)"

definition set_phase :: "nat \<Rightarrow> 'r phase \<Rightarrow> 'r port \<Rightarrow> 'r port" where
  "set_phase i x p = p\<lparr>po_calls := (po_calls p)[i := (po_calls p ! i)\<lparr>ca_phase := x\<rparr>]\<rparr>"

text \<open>\<open>pending.Store(msgID, make(chan, 1))\<close>: an older channel under the same key is replaced.\<close>

definition register_call :: "string \<Rightarrow> 'r port \<Rightarrow> 'r port" where
  "register_call k p = p\<lparr>po_calls := po_calls p @ [\<lparr>ca_key = k, ca_phase = Requesting\<rparr>],
     po_pending := (po_pending p)(k \<mapsto> length (po_calls p))\<rparr>"

text \<open>The deferred \<open>pending.Delete(msgID)\<close>, whatever channel is there.\<close>

definition end_call :: "nat \<Rightarrow> 'r phase \<Rightarrow> 'r port \<Rightarrow> 'r port" where
  "end_call i x p = (set_phase i x p)\<lparr>po_pending := (po_pending p)(ca_key (po_calls p ! i) := None)\<rparr>"

text \<open>\<open>LoadAndDelete\<close>: one atomic step of the map.\<close>

definition notify :: "string \<Rightarrow> go_err + 'r \<Rightarrow> 'r port \<Rightarrow> 'r port" where
  "notify k r p = (let q = p\<lparr>po_notified := po_notified p @ [(k, r)]\<rparr> in
     case po_pending p k of
       None \<Rightarrow> q
     | Some i \<Rightarrow> q\<lparr>po_pending := (po_pending p)(k := None), po_sending := po_sending p @ [(i, r)]\<rparr>)"

datatype 'r event = CallStarts string | RequestAccepted nat | RequestFails nat go_err
  | TakesAnswer nat | TimerFires nat | Callback string "go_err + 'r" | AnswerSent nat

fun port_step :: "'r event \<Rightarrow> 'r port \<Rightarrow> 'r port option" where
  "port_step (CallStarts k) p = Some (register_call k p)"
| "port_step (RequestAccepted i) p =
     (if phase_of i p = Some Requesting then Some (set_phase i Waiting p) else None)"
| "port_step (RequestFails i e) p =
     (if phase_of i p = Some Requesting then Some (end_call i (NotAccepted e) p) else None)"
| "port_step (TakesAnswer i) p =
     (if phase_of i p = Some Waiting then case po_buffer p i of None \<Rightarrow> None
        | Some r \<Rightarrow> Some ((end_call i (Answered r) p)\<lparr>po_buffer := (po_buffer p)(i := None)\<rparr>)
      else None)"
| "port_step (TimerFires i) p =
     (if phase_of i p = Some Waiting then Some (end_call i TimedOut p) else None)"
| "port_step (Callback k r) p = Some (notify k r p)"
| "port_step (AnswerSent j) p =
     (if j < length (po_sending p) then case po_sending p ! j of (i, r) \<Rightarrow>
        if po_buffer p i \<noteq> None then None
        else Some (p\<lparr>po_buffer := (po_buffer p)(i \<mapsto> r),
               po_sending := take j (po_sending p) @ drop (Suc j) (po_sending p)\<rparr>)
      else None)"

fun run_port :: "'r event list \<Rightarrow> 'r port \<Rightarrow> 'r port option" where
  "run_port [] p = Some p"
| "run_port (e # es) p = (case port_step e p of None \<Rightarrow> None | Some q \<Rightarrow> run_port es q)"

fun_cases port_stepE: "port_step e p = Some q"

section \<open>Invariant\<close>

text \<open>
  A registered channel is empty, has no answer on the way and belongs to a call under that key
  that has not returned; a channel has at most one answer on its way, and then it is empty; what
  is on the way, in a channel or taken was notified under the key of the call.
\<close>

definition unfinished :: "'r phase \<Rightarrow> bool" where
  "unfinished x \<longleftrightarrow> x = Requesting \<or> x = Waiting"

definition for_call :: "'r port \<Rightarrow> nat \<Rightarrow> go_err + 'r \<Rightarrow> bool" where
  "for_call p i r \<longleftrightarrow> i < length (po_calls p) \<and> (ca_key (po_calls p ! i), r) \<in> set (po_notified p)"

definition registered_ok :: "'r port \<Rightarrow> bool" where
  "registered_ok p \<longleftrightarrow> (\<forall>k i. po_pending p k = Some i \<longrightarrow>
     i < length (po_calls p) \<and> ca_key (po_calls p ! i) = k \<and> unfinished (ca_phase (po_calls p ! i)) \<and>
     po_buffer p i = None \<and> i \<notin> fst ` set (po_sending p))"

definition sending_ok :: "'r port \<Rightarrow> bool" where
  "sending_ok p \<longleftrightarrow> distinct (map fst (po_sending p)) \<and>
     (\<forall>(i, r) \<in> set (po_sending p). po_buffer p i = None \<and> for_call p i r)"

definition answers_ok :: "'r port \<Rightarrow> bool" where
  "answers_ok p \<longleftrightarrow> (\<forall>i r. po_buffer p i = Some r \<longrightarrow> for_call p i r) \<and>
     (\<forall>i r. phase_of i p = Some (Answered r) \<longrightarrow> for_call p i r)"

definition port_ok :: "'r port \<Rightarrow> bool" where
  "port_ok p \<longleftrightarrow> registered_ok p \<and> sending_ok p \<and> answers_ok p"

lemma port_ok_empty: "port_ok empty_port"
  by (simp add: port_ok_def registered_ok_def sending_ok_def answers_ok_def empty_port_def phase_of_def)

lemma set_phase_sel [simp]:
  "po_pending (set_phase i x p) = po_pending p" "po_buffer (set_phase i x p) = po_buffer p"
  "po_sending (set_phase i x p) = po_sending p" "po_notified (set_phase i x p) = po_notified p"
  "length (po_calls (set_phase i x p)) = length (po_calls p)"
  by (simp_all add: set_phase_def)

lemma set_phase_key [simp]:
  "j < length (po_calls p) \<Longrightarrow> ca_key (po_calls (set_phase i x p) ! j) = ca_key (po_calls p ! j)"
  by (cases "i = j") (simp_all add: set_phase_def)

lemma set_phase_phase [simp]:
  "j < length (po_calls p) \<Longrightarrow>
   ca_phase (po_calls (set_phase i x p) ! j) = (if i = j then x else ca_phase (po_calls p ! j))"
  by (simp add: set_phase_def)

lemma end_call_sel [simp]:
  "po_pending (end_call i x p) = (po_pending p)(ca_key (po_calls p ! i) := None)"
  "po_buffer (end_call i x p) = po_buffer p" "po_sending (end_call i x p) = po_sending p"
  "po_notified (end_call i x p) = po_notified p" "po_calls (end_call i x p) = po_calls (set_phase i x p)"
  by (simp_all add: end_call_def)

lemma phase_of_SomeD: "phase_of i p = Some x \<Longrightarrow> i < length (po_calls p) \<and> ca_phase (po_calls p ! i) = x"
  by (simp add: phase_of_def split: if_splits)

lemma for_call_cong:
  "for_call p i r \<Longrightarrow> po_notified q = po_notified p \<Longrightarrow> length (po_calls q) = length (po_calls p) \<Longrightarrow>
   (\<And>j. j < length (po_calls p) \<Longrightarrow> ca_key (po_calls q ! j) = ca_key (po_calls p ! j)) \<Longrightarrow> for_call q i r"
  by (simp add: for_call_def)

lemma registeredD:
  "port_ok p \<Longrightarrow> po_pending p k = Some i \<Longrightarrow> i < length (po_calls p) \<and> ca_key (po_calls p ! i) = k \<and>
     unfinished (ca_phase (po_calls p ! i)) \<and> po_buffer p i = None \<and> i \<notin> fst ` set (po_sending p)"
  unfolding port_ok_def registered_ok_def by blast

lemma sendingD: "port_ok p \<Longrightarrow> (i, r) \<in> set (po_sending p) \<Longrightarrow> po_buffer p i = None \<and> for_call p i r"
  unfolding port_ok_def sending_ok_def by blast

lemma port_ok_register: "port_ok p \<Longrightarrow> port_ok (register_call k p)"
proof -
  assume ok: "port_ok p"
  let ?n = "length (po_calls p)"
  have b: "\<And>i r. po_buffer p i = Some r \<Longrightarrow> i < ?n"
    using ok unfolding port_ok_def answers_ok_def for_call_def by blast
  have s: "\<And>i r. (i, r) \<in> set (po_sending p) \<Longrightarrow> i < ?n"
    using ok unfolding port_ok_def sending_ok_def for_call_def by blast
  have fresh: "po_buffer p ?n = None" "?n \<notin> fst ` set (po_sending p)"
    using b [of ?n] s [of ?n] by (cases "po_buffer p ?n"; auto)+
  have key: "\<And>j. j < ?n \<Longrightarrow> po_calls (register_call k p) ! j = po_calls p ! j"
    "po_calls (register_call k p) ! ?n = \<lparr>ca_key = k, ca_phase = Requesting\<rparr>"
    by (simp_all add: register_call_def nth_append)
  have fc: "\<And>i r. for_call p i r \<Longrightarrow> for_call (register_call k p) i r"
    by (auto simp: for_call_def register_call_def nth_append)
  have "registered_ok (register_call k p)"
    unfolding registered_ok_def
  proof (intro allI impI)
    fix k' i assume "po_pending (register_call k p) k' = Some i"
    then have "k' = k \<and> i = ?n \<or> k' \<noteq> k \<and> po_pending p k' = Some i"
      by (auto simp: register_call_def split: if_splits)
    then show "i < length (po_calls (register_call k p)) \<and> ca_key (po_calls (register_call k p) ! i) = k' \<and>
      unfinished (ca_phase (po_calls (register_call k p) ! i)) \<and> po_buffer (register_call k p) i = None \<and>
      i \<notin> fst ` set (po_sending (register_call k p))"
    proof
      assume "k' = k \<and> i = ?n"
      with fresh key show ?thesis by (simp add: register_call_def unfinished_def)
    next
      assume "k' \<noteq> k \<and> po_pending p k' = Some i"
      with registeredD [OF ok, of k' i] key(1) [of i] show ?thesis by (simp add: register_call_def)
    qed
  qed
  moreover have "sending_ok (register_call k p)"
    using ok fc by (force simp: port_ok_def sending_ok_def register_call_def)
  moreover have "answers_ok (register_call k p)"
    unfolding answers_ok_def
  proof (intro conjI allI impI)
    fix i r assume "po_buffer (register_call k p) i = Some r"
    with ok show "for_call (register_call k p) i r"
      by (intro fc) (simp add: port_ok_def answers_ok_def register_call_def)
  next
    fix i r assume "phase_of i (register_call k p) = Some (Answered r)"
    then have "phase_of i p = Some (Answered r)"
      by (auto simp: phase_of_def register_call_def nth_append less_Suc_eq split: if_splits)
    with ok show "for_call (register_call k p) i r" by (intro fc) (simp add: port_ok_def answers_ok_def)
  qed
  ultimately show ?thesis by (simp add: port_ok_def)
qed

lemma port_ok_phase:
  assumes ok: "port_ok p" and i: "i < length (po_calls p)" and x: "\<And>r. x = Answered r \<Longrightarrow> for_call p i r"
    and fin: "unfinished x \<or> (\<forall>k. po_pending p k \<noteq> Some i)"
  shows "port_ok (set_phase i x p)"
proof -
  have fc: "\<And>j r. for_call p j r \<Longrightarrow> for_call (set_phase i x p) j r"
    by (erule for_call_cong) simp_all
  have "registered_ok (set_phase i x p)"
    using ok fin by (auto simp: port_ok_def registered_ok_def)
  moreover have "sending_ok (set_phase i x p)"
    using ok fc by (auto simp: port_ok_def sending_ok_def)
  moreover have "answers_ok (set_phase i x p)"
    using ok fc x by (auto simp: port_ok_def answers_ok_def phase_of_def split: if_splits)
  ultimately show ?thesis by (simp add: port_ok_def)
qed

lemma port_ok_unregister: "port_ok p \<Longrightarrow> port_ok (p\<lparr>po_pending := (po_pending p)(k := None)\<rparr>)"
  by (auto simp: port_ok_def registered_ok_def sending_ok_def answers_ok_def for_call_def phase_of_def
      split: if_splits)

lemma end_call_alt:
  "end_call i x p = set_phase i x (p\<lparr>po_pending := (po_pending p)(ca_key (po_calls p ! i) := None)\<rparr>)"
  by (simp add: end_call_def set_phase_def)

lemma port_ok_end:
  assumes ok: "port_ok p" and i: "i < length (po_calls p)" and x: "\<And>r. x = Answered r \<Longrightarrow> for_call p i r"
  shows "port_ok (end_call i x p)"
  unfolding end_call_alt
proof (rule port_ok_phase [OF port_ok_unregister [OF ok]])
  show "unfinished x \<or> (\<forall>k. po_pending (p\<lparr>po_pending := (po_pending p)(ca_key (po_calls p ! i) := None)\<rparr>) k \<noteq> Some i)"
    using ok by (auto simp: port_ok_def registered_ok_def)
qed (use i x in \<open>simp_all add: for_call_def\<close>)

lemma port_ok_notify: "port_ok p \<Longrightarrow> port_ok (notify k r p)"
proof -
  assume ok: "port_ok p"
  let ?q = "p\<lparr>po_notified := po_notified p @ [(k, r)]\<rparr>"
  have q: "port_ok ?q"
    using ok by (auto simp: port_ok_def registered_ok_def sending_ok_def answers_ok_def for_call_def phase_of_def)
  show ?thesis
  proof (cases "po_pending p k")
    case None
    with q show ?thesis by (simp add: notify_def)
  next
    case (Some i)
    with registeredD [OF ok] have i: "i < length (po_calls p)" "ca_key (po_calls p ! i) = k"
        "po_buffer p i = None" "i \<notin> fst ` set (po_sending p)" by blast+
    have other: "\<And>k'. po_pending p k' = Some i \<Longrightarrow> k' = k"
      using ok i(2) unfolding port_ok_def registered_ok_def by blast
    let ?n = "?q\<lparr>po_pending := (po_pending p)(k := None), po_sending := po_sending p @ [(i, r)]\<rparr>"
    have n: "notify k r p = ?n" using Some by (simp add: notify_def)
    have fc: "for_call ?n = for_call ?q" by (simp add: for_call_def fun_eq_iff)
    have sq: "sending_ok ?q" and fi: "for_call ?q i r"
      using q i by (simp_all add: port_ok_def for_call_def)
    have "registered_ok ?n"
      unfolding registered_ok_def
    proof (intro allI impI)
      fix k' j assume "po_pending ?n k' = Some j"
      then have j: "k' \<noteq> k" "po_pending p k' = Some j" by (simp_all split: if_splits)
      with other have "j \<noteq> i" by blast
      with registeredD [OF ok j(2)] show "j < length (po_calls ?n) \<and> ca_key (po_calls ?n ! j) = k' \<and>
          unfinished (ca_phase (po_calls ?n ! j)) \<and> po_buffer ?n j = None \<and> j \<notin> fst ` set (po_sending ?n)"
        by simp
    qed
    moreover have "sending_ok ?n"
      using sq fi i(3,4) by (simp add: sending_ok_def fc)
    moreover have "answers_ok ?n"
      using q by (simp add: port_ok_def answers_ok_def fc phase_of_def)
    ultimately show ?thesis unfolding n by (simp add: port_ok_def)
  qed
qed

lemma port_ok_deliver:
  assumes ok: "port_ok p" and j: "j < length (po_sending p)" "po_sending p ! j = (i, r)"
  shows "port_ok (p\<lparr>po_buffer := (po_buffer p)(i \<mapsto> r),
     po_sending := take j (po_sending p) @ drop (Suc j) (po_sending p)\<rparr>)" (is "port_ok ?n")
proof -
  let ?s = "take j (po_sending p) @ drop (Suc j) (po_sending p)"
  have split: "po_sending p = take j (po_sending p) @ (i, r) # drop (Suc j) (po_sending p)"
    using j by (metis id_take_nth_drop)
  have mem: "(i, r) \<in> set (po_sending p)" using j by (metis nth_mem)
  have d: "distinct (map fst (po_sending p))" using ok by (simp add: port_ok_def sending_ok_def)
  have d': "distinct (map fst ?s)" "i \<notin> fst ` set ?s"
    using d by (subst (asm) split, force)+
  have sub: "set ?s \<subseteq> set (po_sending p)" by (subst (3) split) auto
  have fc: "for_call ?n = for_call p" by (simp add: for_call_def fun_eq_iff)
  have "registered_ok ?n"
    unfolding registered_ok_def
  proof (intro allI impI)
    fix k j' assume "po_pending ?n k = Some j'"
    then have "po_pending p k = Some j'" by simp
    from registeredD [OF ok this] mem sub
    show "j' < length (po_calls ?n) \<and> ca_key (po_calls ?n ! j') = k \<and>
        unfinished (ca_phase (po_calls ?n ! j')) \<and> po_buffer ?n j' = None \<and> j' \<notin> fst ` set (po_sending ?n)"
      by (auto simp: image_iff)
  qed
  moreover have "sending_ok ?n"
    unfolding sending_ok_def fc
  proof
    show "distinct (map fst (po_sending ?n))" using d'(1) by simp
    have "po_buffer ?n a = None \<and> for_call p a b" if "(a, b) \<in> set ?s" for a b
    proof -
      have "a \<noteq> i" using that d'(2) by force
      with sendingD [OF ok, of a b] that sub show ?thesis by auto
    qed
    then show "\<forall>(a, b) \<in> set (po_sending ?n). po_buffer ?n a = None \<and> for_call p a b" by auto
  qed
  moreover have "answers_ok ?n"
    using ok mem unfolding answers_ok_def port_ok_def sending_ok_def fc phase_of_def by auto
  ultimately show ?thesis by (simp add: port_ok_def)
qed

lemma port_ok_clear: "port_ok p \<Longrightarrow> port_ok (p\<lparr>po_buffer := (po_buffer p)(i := None)\<rparr>)"
  by (auto simp: port_ok_def registered_ok_def sending_ok_def answers_ok_def for_call_def phase_of_def)

lemma port_ok_take:
  assumes ok: "port_ok p" and "i < length (po_calls p)" and r: "po_buffer p i = Some r"
  shows "port_ok ((end_call i (Answered r) p)\<lparr>po_buffer := (po_buffer p)(i := None)\<rparr>)"
proof -
  have "for_call p i r" using ok r by (simp add: port_ok_def answers_ok_def)
  then have "port_ok (end_call i (Answered r) p)"
    using ok by (intro port_ok_end) (simp_all add: for_call_def)
  from port_ok_clear [OF this, of i] show ?thesis by simp
qed

lemma port_ok_step: "port_step e p = Some q \<Longrightarrow> port_ok p \<Longrightarrow> port_ok q"
  by (cases e)
     (auto simp: unfinished_def dest!: phase_of_SomeD split: if_splits option.splits prod.splits
       intro: port_ok_register port_ok_notify port_ok_deliver port_ok_end port_ok_phase port_ok_take)

lemma port_ok_run: "run_port es p = Some q \<Longrightarrow> port_ok p \<Longrightarrow> port_ok q"
  by (induction es p rule: run_port.induct) (auto split: option.splits dest: port_ok_step)

section \<open>What a schedule can do\<close>

lemma notified_step:
  "port_step e p = Some q \<Longrightarrow> set (po_notified q) = set (po_notified p) \<union> {(k, r). e = Callback k r}"
  by (cases e) (auto simp: register_call_def notify_def Let_def split: if_splits option.splits prod.splits)

lemma notified_run:
  "run_port es p = Some q \<Longrightarrow> set (po_notified q) = set (po_notified p) \<union> {(k, r). Callback k r \<in> set es}"
proof (induction es p rule: run_port.induct)
  case (2 e es p)
  then obtain p' where s: "port_step e p = Some p'" and r: "run_port es p' = Some q"
    by (auto split: option.splits)
  from 2(1) [OF s r] notified_step [OF s] show ?case by auto
qed simp

fun port_work :: "'r phase \<Rightarrow> nat" where
  "port_work Requesting = 2"
| "port_work Waiting = 1"
| "port_work x = 0"

definition work :: "'r port \<Rightarrow> nat" where
  "work p = (\<Sum>c\<leftarrow>po_calls p. port_work (ca_phase c)) + length (po_sending p)"

lemma work_set_phase:
  assumes "phase_of i p = Some x"
  shows "work (set_phase i y p) + port_work x = work p + port_work y"
proof -
  have i: "i < length (po_calls p)" "ca_phase (po_calls p ! i) = x" using phase_of_SomeD [OF assms] by simp_all
  let ?c = "(po_calls p ! i)\<lparr>ca_phase := y\<rparr>"
  have "(\<Sum>c\<leftarrow>(po_calls p)[i := ?c]. port_work (ca_phase c)) + port_work x =
      (\<Sum>c\<leftarrow>po_calls p. port_work (ca_phase c)) + port_work y"
    using arg_cong [OF id_take_nth_drop [OF i(1)], of "\<lambda>cs. \<Sum>c\<leftarrow>cs. port_work (ca_phase c)"] i
    by (simp add: upd_conv_take_nth_drop)
  then show ?thesis by (simp add: work_def set_phase_def)
qed

definition event_work :: "'r event \<Rightarrow> nat" where
  "event_work e = (case e of CallStarts k \<Rightarrow> 3 | Callback k r \<Rightarrow> 2 | _ \<Rightarrow> 0)"

lemma work_end: "phase_of i p = Some x \<Longrightarrow> work (end_call i y p) + port_work x = work p + port_work y"
  using work_set_phase [of i p x y] by (simp add: work_def)

lemma work_other:
  "work (p\<lparr>po_buffer := b\<rparr>) = work p" "work (register_call k p) = work p + 2" "work (notify k r p) \<le> Suc (work p)"
  by (simp_all add: work_def register_call_def notify_def Let_def split: option.split)

lemma work_step: "port_step e p = Some q \<Longrightarrow> work q + 1 \<le> work p + event_work e"
proof (cases e)
  case (RequestAccepted i)
  assume "port_step e p = Some q"
  with RequestAccepted work_set_phase [of i p Requesting Waiting] show ?thesis by (simp split: if_splits)
next
  case (RequestFails i err)
  assume "port_step e p = Some q"
  with RequestFails work_end [of i p Requesting "NotAccepted err"] show ?thesis by (simp split: if_splits)
next
  case (TakesAnswer i)
  assume "port_step e p = Some q"
  with TakesAnswer work_end [of i p Waiting] show ?thesis by (auto simp: work_other split: if_splits option.splits)
next
  case (TimerFires i)
  assume "port_step e p = Some q"
  with TimerFires work_end [of i p Waiting TimedOut] show ?thesis by (simp split: if_splits)
next
  case (AnswerSent j)
  assume "port_step e p = Some q"
  with AnswerSent show ?thesis by (auto simp: work_def split: if_splits prod.splits)
qed (auto simp: work_other event_work_def)

lemma work_run: "run_port es p = Some q \<Longrightarrow> work q + length es \<le> work p + (\<Sum>e\<leftarrow>es. event_work e)"
proof (induction es p rule: run_port.induct)
  case (2 e es p)
  then obtain p' where s: "port_step e p = Some p'" and r: "run_port es p' = Some q"
    by (auto split: option.splits)
  from 2(1) [OF s r] work_step [OF s] show ?case by simp
qed simp


text \<open>The answer of call \<open>i\<close> is fixed: no channel of it is registered and whatever is on its way is \<open>r\<close>.\<close>

definition settled :: "nat \<Rightarrow> go_err + 'r \<Rightarrow> 'r port \<Rightarrow> bool" where
  "settled i r p \<longleftrightarrow> i < length (po_calls p) \<and> (\<forall>k. po_pending p k \<noteq> Some i) \<and>
     (\<forall>s. (i, s) \<in> set (po_sending p) \<longrightarrow> s = r) \<and> (\<forall>s. po_buffer p i = Some s \<longrightarrow> s = r) \<and>
     (\<forall>s. phase_of i p = Some (Answered s) \<longrightarrow> s = r)"

lemma phase_of_set_phase:
  "phase_of i (set_phase j x p) = (if i = j \<and> i < length (po_calls p) then Some x else phase_of i p)"
  by (auto simp: phase_of_def)

lemma phase_of_other [simp]:
  "phase_of i (p\<lparr>po_buffer := b\<rparr>) = phase_of i p" "phase_of i (notify k r p) = phase_of i p"
  "phase_of i (p\<lparr>po_buffer := b, po_sending := s\<rparr>) = phase_of i p"
  "phase_of i (end_call j x p) = phase_of i (set_phase j x p)"
  by (simp_all add: phase_of_def notify_def Let_def end_call_def split: option.split)

lemma phase_of_register: "i < length (po_calls p) \<Longrightarrow> phase_of i (register_call k p) = phase_of i p"
  by (simp add: phase_of_def register_call_def nth_append)

lemma settled_step: "port_step e p = Some q \<Longrightarrow> settled i r p \<Longrightarrow> settled i r q"
proof (cases e)
  case (CallStarts k)
  assume "port_step e p = Some q" and s: "settled i r p"
  with CallStarts have "q = register_call k p" by simp
  with s show ?thesis
    using phase_of_register [of i p k] by (auto simp: settled_def register_call_def)
next
  case (Callback k s)
  assume "port_step e p = Some q" and "settled i r p"
  with Callback have q: "q = notify k s p" and p: "settled i r p" by simp_all
  have "phase_of i (notify k s p) = phase_of i p" by simp
  moreover have "po_pending (notify k s p) k' = Some i \<Longrightarrow> po_pending p k' = Some i" for k'
    by (auto simp: notify_def Let_def split: option.splits if_splits)
  moreover have "(i, x) \<in> set (po_sending (notify k s p)) \<Longrightarrow> (i, x) \<in> set (po_sending p) \<or> po_pending p k = Some i" for x
    by (auto simp: notify_def Let_def split: option.splits)
  moreover have "po_buffer (notify k s p) = po_buffer p" "length (po_calls (notify k s p)) = length (po_calls p)"
    by (simp_all add: notify_def Let_def split: option.split)
  ultimately show ?thesis using p unfolding q settled_def by metis
next
  case (AnswerSent j)
  assume "port_step e p = Some q" and s: "settled i r p"
  with AnswerSent obtain a b where j: "j < length (po_sending p)" "po_sending p ! j = (a, b)"
      and q: "q = p\<lparr>po_buffer := (po_buffer p)(a \<mapsto> b),
        po_sending := take j (po_sending p) @ drop (Suc j) (po_sending p)\<rparr>"
    by (auto split: if_splits prod.splits)
  have "(a, b) \<in> set (po_sending p)" using j by (metis nth_mem)
  moreover have "(i, x) \<in> set (po_sending q) \<Longrightarrow> (i, x) \<in> set (po_sending p)" for x
    unfolding q by (auto dest: in_set_takeD in_set_dropD)
  moreover have "po_pending q = po_pending p" "phase_of i q = phase_of i p" "po_calls q = po_calls p"
    "po_buffer q i = (if i = a then Some b else po_buffer p i)"
    unfolding q by simp_all
  ultimately show ?thesis using s unfolding settled_def by (metis option.inject)
qed (auto simp: settled_def phase_of_set_phase split: if_splits option.splits)

lemma settled_run: "run_port es p = Some q \<Longrightarrow> settled i r p \<Longrightarrow> settled i r q"
  by (induction es p rule: run_port.induct) (auto split: option.splits dest: settled_step)

lemma settled_notify:
  assumes ok: "port_ok p" and k: "po_pending p k = Some i"
  shows "settled i r (notify k r p)"
proof -
  from registeredD [OF ok k] have i: "i < length (po_calls p)" "ca_key (po_calls p ! i) = k"
    "unfinished (ca_phase (po_calls p ! i))" "po_buffer p i = None" "i \<notin> fst ` set (po_sending p)" by blast+
  have other: "po_pending p k' = Some i \<Longrightarrow> k' = k" for k'
    using registeredD [OF ok, of k' i] i(2) by simp
  have s: "\<And>s. (i, s) \<notin> set (po_sending p)" using i(5) by force
  have a: "\<And>s. phase_of i p \<noteq> Some (Answered s)"
    using i(3) by (auto simp: phase_of_def unfinished_def)
  let ?n = "notify k r p"
  have n: "po_pending ?n = (po_pending p)(k := None)" "po_sending ?n = po_sending p @ [(i, r)]"
    "po_buffer ?n = po_buffer p" "po_calls ?n = po_calls p" "phase_of i ?n = phase_of i p"
    using k by (simp_all add: notify_def phase_of_def)
  have "po_pending ?n k' \<noteq> Some i" for k' using other [of k'] by (auto simp: n(1))
  then show ?thesis
    unfolding settled_def using s a by (simp add: n(2-5) i(1,4))
qed

lemma answered_under_own_key:
  assumes "run_port es empty_port = Some p" and "phase_of i p = Some (Answered r)"
  shows "Callback (ca_key (po_calls p ! i)) r \<in> set es"
proof -
  have "for_call p i r"
    using port_ok_run [OF assms(1) port_ok_empty] assms(2) by (simp add: port_ok_def answers_ok_def)
  then show ?thesis
    using notified_run [OF assms(1)] by (auto simp: for_call_def empty_port_def)
qed

end
