(* ===== verification/Port_Props.thy ===== *)
theory Port_Props
  imports Callback_Port
begin

text \<open>
  What the callers and the callback handlers of theory \<open>Callback_Port\<close> can rely on, under every
  interleaving of their steps.
\<close>

section \<open>The contract of the callbacks\<close>

text \<open>C24: The first callback under the key of a registered call decides what the call
  returns, if it returns an answer at all: no later callback, no callback under another key and no
  other call can replace it.\<close>

theorem first_callback_decides:
  assumes "run_port es empty_port = Some p" and "po_pending p k = Some i"
    and "run_port (Callback k r # es') p = Some q" and "phase_of i q = Some (Answered s)"
  shows "s = r"
proof -
  have "settled i r (notify k r p)"
    using assms(2) by (rule settled_notify [OF port_ok_run [OF assms(1) port_ok_empty]])
  then have "settled i r q" using assms(3) settled_run by fastforce
  with assms(4) show ?thesis by (simp add: settled_def)
qed

lemma event_work_sum:
  "(\<Sum>e\<leftarrow>es. event_work e) = 3 * length (filter (\<lambda>e. \<exists>k. e = CallStarts k) es) +
     2 * length (filter (\<lambda>e. \<exists>k r. e = Callback k r) es)"
  by (induction es) (auto simp: event_work_def split: event.splits)

lemma unfinished_steps:
  "i < length (po_calls p) \<Longrightarrow> unfinished (ca_phase (po_calls p ! i)) \<Longrightarrow>
   port_step (RequestAccepted i) p \<noteq> None \<or> port_step (TimerFires i) p \<noteq> None"
  by (auto simp: phase_of_def unfinished_def)

lemma handler_steps:
  assumes "port_ok p" and "j < length (po_sending p)"
  shows "port_step (AnswerSent j) p \<noteq> None"
proof -
  obtain i r where ir: "po_sending p ! j = (i, r)" by fastforce
  with assms(2) have "(i, r) \<in> set (po_sending p)" by (metis nth_mem)
  with sendingD [OF assms(1)] have "po_buffer p i = None" by blast
  with assms(2) ir show ?thesis by simp
qed

text \<open>C25: Nothing hangs.  A schedule with \<open>n\<close> calls and \<open>m\<close> callbacks has at most \<open>3 n + 2 m\<close> steps,
  and at any moment every call that has not returned has a step of its own to take, and every
  callback handler can put its answer into the channel without waiting for a reader.\<close>

theorem calls_return:
  assumes "run_port es empty_port = Some p"
  shows "length es \<le> 3 * length (filter (\<lambda>e. \<exists>k. e = CallStarts k) es) +
      2 * length (filter (\<lambda>e. \<exists>k r. e = Callback k r) es) \<and>
    (\<forall>i < length (po_calls p). unfinished (ca_phase (po_calls p ! i)) \<longrightarrow>
      port_step (RequestAccepted i) p \<noteq> None \<or> port_step (TimerFires i) p \<noteq> None) \<and>
    (\<forall>j < length (po_sending p). port_step (AnswerSent j) p \<noteq> None)"
  using work_run [OF assms] unfinished_steps [of _ p] handler_steps [OF port_ok_run [OF assms port_ok_empty]]
  by (simp add: event_work_sum work_def empty_port_def del: port_step.simps)

section \<open>Applied\<close>

text \<open>Two calls, a callback for each and a late second one for the first.\<close>

definition sample_calls :: "nat event list" where
  "sample_calls = [CallStarts ''A'', CallStarts ''B'', RequestAccepted 1, RequestAccepted 0]"

definition sample_answers :: "nat event list" where
  "sample_answers = [Callback ''B'' (Inr 2), Callback ''A'' (Inr 9), AnswerSent 0, TakesAnswer 0]"

definition after_calls :: "nat port" where
  "after_calls = the (run_port sample_calls empty_port)"

definition after_answers :: "nat port" where
  "after_answers = the (run_port (Callback ''A'' (Inr 1) # sample_answers) after_calls)"

lemma sample_runs:
  "run_port sample_calls empty_port = Some after_calls"
  "run_port (Callback ''A'' (Inr 1) # sample_answers) after_calls = Some after_answers"
proof -
  have "\<not> Option.is_none (run_port sample_calls empty_port)"
    "\<not> Option.is_none (run_port (Callback ''A'' (Inr 1) # sample_answers) after_calls)"
    by code_simp+
  then show "run_port sample_calls empty_port = Some after_calls"
    "run_port (Callback ''A'' (Inr 1) # sample_answers) after_calls = Some after_answers"
    unfolding after_calls_def after_answers_def Option.is_none_def by (simp_all only: not_None_eq option.sel) auto
qed

lemma run_port_append:
  "run_port es p = Some q \<Longrightarrow> run_port (es @ es') p = run_port es' q"
  by (induction es p rule: run_port.induct) (auto split: option.splits)

lemma first_callback_decides_witness:
  "\<exists>s. phase_of 0 after_answers = Some (Answered s) \<and> s = Inr 1"
proof -
  have "case phase_of 0 after_answers of Some (Answered s) \<Rightarrow> True | _ \<Rightarrow> False" by code_simp
  then obtain s where s: "phase_of 0 after_answers = Some (Answered s)"
    by (auto split: option.splits phase.splits)
  have "po_pending after_calls ''A'' = Some 0" by code_simp
  with first_callback_decides [OF sample_runs(1) _ sample_runs(2) s] s show ?thesis by blast
qed

lemma calls_return_witness:
  "port_step (AnswerSent 0) after_answers \<noteq> None \<and> po_sending after_answers = [(1, Inr 2)]"
proof -
  have s: "po_sending after_answers = [(1, Inr 2)]" by code_simp
  have "run_port (sample_calls @ Callback ''A'' (Inr 1) # sample_answers) empty_port = Some after_answers"
    by (simp only: run_port_append [OF sample_runs(1)] sample_runs(2))
  from calls_return [OF this] s show ?thesis by (auto simp del: port_step.simps)
qed

end
