(* ===== verification/Sealing.thy ===== *)
theory Sealing
  imports Auth SHA256
begin

text \<open>
  Sealed messages and XML signatures: \<open>src/internal/utils/crypto.go\<close>.

  \<^item> Bytes are the characters of a string.  SHA-256 and Base64 are those of theories
    \<open>SHA256\<close> and \<open>Auth\<close>; the ciphers of Go's standard library are the record \<open>crypto_lib\<close>, and what
    is relied on of them the predicates \<open>opens_what_it_seals\<close> and \<open>only_the_signer\<close>.
  \<^item> A key is a string; \<open>cr_public\<close> is the field \<open>PublicKey\<close> of a private key.
  \<^item> What \<open>rand.Reader\<close> yields is an argument: the AES key, the nonce, and the randomness that
    RSA-OAEP and RSA-PSS draw.
\<close>

section \<open>Fallible functions\<close>

definition and_then :: "'e + 'a \<Rightarrow> ('a \<Rightarrow> 'e + 'b) \<Rightarrow> 'e + 'b" where
  "and_then r k = (case r of Inl e \<Rightarrow> Inl e | Inr x \<Rightarrow> k x)"

lemma and_then_simps [simp]: "and_then (Inl e) k = Inl e" "and_then (Inr x) k = k x"
  by (simp_all add: and_then_def)

lemma and_then_Inr_iff: "and_then r k = Inr y \<longleftrightarrow> (\<exists>x. r = Inr x \<and> k x = Inr y)"
  by (cases r) simp_all

definition wrap_err :: "string \<Rightarrow> go_err + 'a \<Rightarrow> go_err + 'a" where
  "wrap_err what r = (case r of Inl e \<Rightarrow> Inl (Wrap what e) | Inr x \<Rightarrow> Inr x)"

section \<open>The ciphers\<close>

record crypto_lib =
  cr_public :: "string \<Rightarrow> string"
  cr_gcm_seal :: "string \<Rightarrow> string \<Rightarrow> string \<Rightarrow> string"
  cr_gcm_open :: "string \<Rightarrow> string \<Rightarrow> string \<Rightarrow> go_err + string"
  cr_oaep_encrypt :: "string \<Rightarrow> string \<Rightarrow> string \<Rightarrow> go_err + string"
  cr_oaep_decrypt :: "string \<Rightarrow> string \<Rightarrow> go_err + string"
  cr_pss_sign :: "string \<Rightarrow> string \<Rightarrow> string \<Rightarrow> go_err + string"
  cr_pss_verify :: "string \<Rightarrow> string \<Rightarrow> string \<Rightarrow> bool"
  cr_pkcs1_sign :: "string \<Rightarrow> string \<Rightarrow> go_err + string"

text \<open>Decryption inverts encryption, and a signature verifies under the signer's public key.\<close>

definition opens_what_it_seals :: "crypto_lib \<Rightarrow> bool" where
  "opens_what_it_seals lib \<longleftrightarrow>
     (\<forall>key nonce m. cr_gcm_open lib key nonce (cr_gcm_seal lib key nonce m) = Inr m) \<and>
     (\<forall>seed sk m c. cr_oaep_encrypt lib seed (cr_public lib sk) m = Inr c \<longrightarrow> cr_oaep_decrypt lib sk c = Inr m) \<and>
     (\<forall>seed sk d s. cr_pss_sign lib seed sk d = Inr s \<longrightarrow> cr_pss_verify lib (cr_public lib sk) d s)"

text \<open>A signature verifies under no other public key.\<close>

definition only_the_signer :: "crypto_lib \<Rightarrow> bool" where
  "only_the_signer lib \<longleftrightarrow> (\<forall>seed sk pk d s. cr_pss_sign lib seed sk d = Inr s \<longrightarrow>
     cr_pss_verify lib pk d s \<longrightarrow> pk = cr_public lib sk)"

definition sha256_string :: "string \<Rightarrow> string" where
  "sha256_string s = map char_of (sha256 (bytes_of_string s))"

text \<open>\<open>aes.NewCipher\<close> accepts the three key sizes of AES.\<close>

definition aes_key_ok :: "string \<Rightarrow> go_err + unit" where
  "aes_key_ok key = (if length key \<in> {16, 24, 32} then Inr ()
     else Inl (Msg (''crypto/aes: invalid key size '' @ show_nat (length key))))"

definition gcm_nonce_size :: nat where
  "gcm_nonce_size = 12"

section \<open>Sealed messages\<close>

record signed_message =
  sm_EncryptedPayload :: string
  sm_WrappedKey :: string
  sm_Signature :: string

record seal_random =
  rn_key :: "go_err + string"
  rn_nonce :: "go_err + string"
  rn_oaep :: string
  rn_pss :: string

text \<open>\<open>io.ReadFull\<close> of 32 and of 12 bytes.\<close>

definition seal_random_ok :: "seal_random \<Rightarrow> bool" where
  "seal_random_ok rn \<longleftrightarrow> (\<forall>k. rn_key rn = Inr k \<longrightarrow> length k = 32) \<and>
     (\<forall>n. rn_nonce rn = Inr n \<longrightarrow> length n = gcm_nonce_size)"

text \<open>The ciphertext is appended to the nonce.\<close>

definition SealMessage ::
  "crypto_lib \<Rightarrow> seal_random \<Rightarrow> string \<Rightarrow> string \<Rightarrow> string \<Rightarrow> go_err + signed_message" where
  "SealMessage lib rn plaintext senderPriv recipientPub =
     and_then (rn_key rn) (\<lambda>aesKey.
     and_then (aes_key_ok aesKey) (\<lambda>_.
     and_then (rn_nonce rn) (\<lambda>nonce.
     let ciphertext = nonce @ cr_gcm_seal lib aesKey nonce plaintext in
     and_then (cr_oaep_encrypt lib (rn_oaep rn) recipientPub aesKey) (\<lambda>wrappedKey.
     and_then (cr_pss_sign lib (rn_pss rn) senderPriv (sha256_string ciphertext)) (\<lambda>sig.
     Inr \<lparr>sm_EncryptedPayload = ciphertext, sm_WrappedKey = wrappedKey, sm_Signature = sig\<rparr>)))))"

definition OpenMessage :: "crypto_lib \<Rightarrow> signed_message \<Rightarrow> string \<Rightarrow> string \<Rightarrow> go_err + string" where
  "OpenMessage lib msg senderPub recipientPriv =
     (if \<not> cr_pss_verify lib senderPub (sha256_string (sm_EncryptedPayload msg)) (sm_Signature msg)
      then Inl (Msg ''signature verification failed'')
      else and_then (cr_oaep_decrypt lib recipientPriv (sm_WrappedKey msg)) (\<lambda>aesKey.
        and_then (aes_key_ok aesKey) (\<lambda>_.
        if length (sm_EncryptedPayload msg) < gcm_nonce_size then Inl (Msg ''ciphertext too short'')
        else cr_gcm_open lib aesKey (take gcm_nonce_size (sm_EncryptedPayload msg))
               (drop gcm_nonce_size (sm_EncryptedPayload msg)))))"

lemma SealMessage_Inr:
  assumes "SealMessage lib rn m sk pub = Inr msg"
  obtains key nonce where "rn_key rn = Inr key" and "rn_nonce rn = Inr nonce"
    and "sm_EncryptedPayload msg = nonce @ cr_gcm_seal lib key nonce m"
    and "cr_oaep_encrypt lib (rn_oaep rn) pub key = Inr (sm_WrappedKey msg)"
    and "cr_pss_sign lib (rn_pss rn) sk (sha256_string (sm_EncryptedPayload msg)) = Inr (sm_Signature msg)"
  using assms by (auto simp: SealMessage_def and_then_Inr_iff Let_def)

lemma open_sealed:
  assumes lib: "opens_what_it_seals lib" and rn: "seal_random_ok rn"
    and s: "SealMessage lib rn m sk (cr_public lib rk) = Inr msg"
  shows "OpenMessage lib msg (cr_public lib sk) rk = Inr m"
proof -
  from s obtain key nonce where k: "rn_key rn = Inr key" and n: "rn_nonce rn = Inr nonce"
    and p: "sm_EncryptedPayload msg = nonce @ cr_gcm_seal lib key nonce m"
    and w: "cr_oaep_encrypt lib (rn_oaep rn) (cr_public lib rk) key = Inr (sm_WrappedKey msg)"
    and g: "cr_pss_sign lib (rn_pss rn) sk (sha256_string (sm_EncryptedPayload msg)) = Inr (sm_Signature msg)"
    by (rule SealMessage_Inr)
  have "cr_pss_verify lib (cr_public lib sk) (sha256_string (sm_EncryptedPayload msg)) (sm_Signature msg)"
    "cr_oaep_decrypt lib rk (sm_WrappedKey msg) = Inr key"
    "cr_gcm_open lib key nonce (cr_gcm_seal lib key nonce m) = Inr m"
    using lib w g unfolding opens_what_it_seals_def by blast+
  moreover have "length key = 32" "length nonce = gcm_nonce_size"
    using rn k n by (simp_all add: seal_random_ok_def)
  ultimately show ?thesis by (simp add: OpenMessage_def aes_key_ok_def p)
qed

lemma open_forged:
  assumes "only_the_signer lib" and "SealMessage lib rn m sk pub = Inr msg" and "pk \<noteq> cr_public lib sk"
  shows "OpenMessage lib msg pk rk = Inl (Msg ''signature verification failed'')"
proof -
  from assms(2) have "cr_pss_sign lib (rn_pss rn) sk (sha256_string (sm_EncryptedPayload msg)) = Inr (sm_Signature msg)"
    by (rule SealMessage_Inr)
  with assms(1,3) show ?thesis unfolding only_the_signer_def OpenMessage_def by auto
qed

section \<open>XML signatures\<close>

definition closingTag :: string where
  "closingTag = ''</ns2:Document>''"

text \<open>\<open>attr\<close> is a name with a quoted value.\<close>

definition attr :: "string \<Rightarrow> string \<Rightarrow> string" where
  "attr name v = name @ ''='' @ CHR 0x22 # v @ [CHR 0x22]"

definition signatureBlock :: "string \<Rightarrow> string \<Rightarrow> string" where
  "signatureBlock digestB64 sigB64 =
     ''<Signature '' @ attr ''xmlns'' ''http://www.w3.org/2000/09/xmldsig#'' @ ''>''
     @ ''<SignedInfo>''
     @ ''<CanonicalizationMethod '' @ attr ''Algorithm'' ''http://www.w3.org/TR/2001/REC-xml-c14n-20010315'' @ ''/>''
     @ ''<SignatureMethod '' @ attr ''Algorithm'' ''http://www.w3.org/2001/04/xmldsig-more#rsa-sha256'' @ ''/>''
     @ ''<Reference '' @ attr ''URI'' [] @ ''>''
     @ ''<Transforms><Transform '' @ attr ''Algorithm'' ''http://www.w3.org/2000/09/xmldsig#enveloped-signature''
     @ ''/></Transforms>''
     @ ''<DigestMethod '' @ attr ''Algorithm'' ''http://www.w3.org/2001/04/xmlenc#sha256'' @ ''/>''
     @ ''<DigestValue>'' @ digestB64 @ ''</DigestValue>''
     @ ''</Reference>''
     @ ''</SignedInfo>''
     @ ''<SignatureValue>'' @ sigB64 @ ''</SignatureValue>''
     @ ''</Signature>''"

definition AppendXMLDSig :: "crypto_lib \<Rightarrow> string \<Rightarrow> string option \<Rightarrow> go_err + string" where
  "AppendXMLDSig lib xmlDoc priv = (case priv of None \<Rightarrow> Inr xmlDoc
     | Some sk \<Rightarrow>
         let digest = sha256_string xmlDoc in
         and_then (cr_pkcs1_sign lib sk digest) (\<lambda>sig.
         let block = signatureBlock (base64_encode digest) (base64_encode sig);
             idx = length xmlDoc - length closingTag
         in if length xmlDoc < length closingTag \<or> drop idx xmlDoc \<noteq> closingTag
            then Inr (xmlDoc @ block)
            else Inr (take idx xmlDoc @ block @ closingTag)))"

text \<open>A signed document is the document with one block inserted before its end tag.\<close>

lemma AppendXMLDSig_document:
  assumes "AppendXMLDSig lib (body @ closingTag) priv = Inr doc"
  shows "\<exists>block. doc = body @ block @ closingTag \<and> (priv = None \<longleftrightarrow> block = [])"
proof (cases priv)
  case None
  with assms show ?thesis by (auto simp: AppendXMLDSig_def)
next
  case (Some sk)
  with assms obtain sig where d: "doc = body @ signatureBlock (base64_encode (sha256_string (body @ closingTag)))
      (base64_encode sig) @ closingTag"
    by (auto simp: AppendXMLDSig_def and_then_Inr_iff Let_def split: if_splits)
  have "signatureBlock a b \<noteq> []" for a b by (simp add: signatureBlock_def)
  with d Some show ?thesis by blast
qed

end
