(* ===== verification/ISO20022.thy ===== *)
theory ISO20022
  imports Sealing Commons NIP_Services
begin

text \<open>
  ISO 20022 messages: \<open>src/internal/services/iso20022_service.go\<close>.

  \<^item> A document is the record of the fields the code fills in.  A field that the code leaves to its
    zero value is not there.  \<open>float64(amount) / 100.0\<close> is kept as its numerator, in hundredths.
  \<^item> \<open>encoding/xml\<close> and the moov-io types (package \<open>moov-io/iso20022\<close>, not in the repository) are the
    functions \<open>xm_marshal\<close>, \<open>xm_marshal_indent\<close> and \<open>xm_pacs002\<close>; what the code does to their text
    is here, character by character.
  \<^item> The circuit breaker runs the request or refuses with an error of its own, \<open>ie_refused\<close>; the
    HTTP exchange is the function \<open>ie_post\<close> of address and payload.
  \<^item> The clock's text and the random digits of a message identifier are arguments.
\<close>

section \<open>Documents\<close>

record credit_transfer =
  ct_InstrId :: string
  ct_EndToEndId :: string
  ct_TxId :: string
  ct_Ccy :: string
  ct_hundredths :: int
  ct_ChrgBr :: string
  ct_DbtrBIC :: string
  ct_DbtrNm :: string
  ct_CdtrMmbId :: string
  ct_CdtrNm :: string

record pacs008 =
  p8_MsgId :: string
  p8_CreDtTm :: int
  p8_NbOfTxs :: string
  p8_Ccy :: string
  p8_hundredths :: int
  p8_IntrBkSttlmDt :: int
  p8_SttlmMtd :: string
  p8_CdtTrfTxInf :: "credit_transfer list"

text \<open>\<open>ts_reason\<close> is \<open>StsRsnInf[0].Rsn.Cd\<close>, when there is one.\<close>

record tx_status =
  ts_OrgnlInstrId :: "string option"
  ts_OrgnlEndToEndId :: "string option"
  ts_OrgnlTxId :: "string option"
  ts_TxSts :: "string option"
  ts_reason :: "string option"

record pacs002 =
  p2_MsgId :: string
  p2_CreDtTm :: int
  p2_TxInfAndSts :: "tx_status list"

record acmt023 =
  a23_MsgId :: string
  a23_CreDtTm :: int
  a23_sender_name :: string
  a23_sender_bank :: string
  a23_assignee_bank :: string
  a23_Vrfctn :: "(string \<times> string \<times> string) list"

record pacs028 =
  p28_MsgId :: string
  p28_CreDtTm :: int
  p28_OrgnlGrpInf :: "(string \<times> string) list"
  p28_OrgnlTxId :: "string list"

datatype iso_doc = Pacs008 pacs008 | Pacs028 pacs028 | Acmt023 acmt023

section \<open>The service\<close>

record iso_service =
  is_senderPriv :: "string option"
  is_nibssPub :: "string option"
  is_recipientPriv :: "string option"
  is_nibssClient :: bool

text \<open>The two keys as far as their files could be read and parsed; nothing sets the other fields.\<close>

definition NewISO20022Service :: "string option \<Rightarrow> string option \<Rightarrow> iso_service" where
  "NewISO20022Service signing_key nibss_pub =
     \<lparr>is_senderPriv = signing_key, is_nibssPub = nibss_pub, is_recipientPriv = None, is_nibssClient = False\<rparr>"

datatype post_result = PostRefused go_err | PostFailed go_err | PostUnread go_err | Posted int string

record iso_env =
  ie_bank_code :: string
  ie_nip_bank_code :: string
  ie_institution :: string
  ie_base :: string
  ie_msg_stamp :: string
  ie_msg_draws :: "nat list"
  ie_refused :: "go_err option"
  ie_post :: "string \<Rightarrow> string \<Rightarrow> post_result"
  xm_marshal :: "iso_doc \<Rightarrow> go_err + string"
  xm_marshal_indent :: "iso_doc \<Rightarrow> go_err + string"
  xm_pacs002 :: "string \<Rightarrow> go_err + pacs002"
  ie_json :: "signed_message \<Rightarrow> go_err + string"
  ie_crypto :: crypto_lib
  ie_random :: seal_random

definition GetACMTBaseURL :: "iso_env \<Rightarrow> string" where
  "GetACMTBaseURL env = ie_base env @ ''/nps/acmt''"

definition GetPACSBaseURL :: "iso_env \<Rightarrow> string" where
  "GetPACSBaseURL env = ie_base env @ ''/nps/pacs''"

definition GetPAINBaseURL :: "iso_env \<Rightarrow> string" where
  "GetPAINBaseURL env = ie_base env @ ''/nps/pain''"

definition keys_missing :: go_err where
  "keys_missing = Msg ''signing keys not configured''"

definition SignXML :: "iso_env \<Rightarrow> iso_service \<Rightarrow> string \<Rightarrow> go_err + signed_message" where
  "SignXML env svc xmlData = (case (is_senderPriv svc, is_nibssPub svc) of
       (Some sk, Some pub) \<Rightarrow> SealMessage (ie_crypto env) (ie_random env) xmlData sk pub
     | _ \<Rightarrow> Inl keys_missing)"

text \<open>The signature of an inbound message is checked with the server's own public key.\<close>

definition VerifyAndOpenXML :: "iso_env \<Rightarrow> iso_service \<Rightarrow> signed_message \<Rightarrow> go_err + string" where
  "VerifyAndOpenXML env svc msg = (case (is_senderPriv svc, is_nibssPub svc) of
       (Some sk, Some pub) \<Rightarrow>
         let unwrapKey = (case is_recipientPriv svc of None \<Rightarrow> sk | Some rk \<Rightarrow> rk)
         in OpenMessage (ie_crypto env) msg (cr_public (ie_crypto env) sk) unwrapKey
     | _ \<Rightarrow> Inl keys_missing)"

section \<open>Building documents\<close>

definition sender_bank :: "iso_env \<Rightarrow> string" where
  "sender_bank env = (if ie_bank_code env = [] then ie_nip_bank_code env else ie_bank_code env)"

definition message_id :: "iso_env \<Rightarrow> string \<Rightarrow> string" where
  "message_id env bank = GenerateISO20022MsgId (ie_msg_stamp env) (ie_msg_draws env) bank"

definition CreatePacs008 :: "iso_env \<Rightarrow> int \<Rightarrow> transaction_record \<Rightarrow> pacs008" where
  "CreatePacs008 env t txn =
     \<lparr>p8_MsgId = message_id env (sender_bank env), p8_CreDtTm = t, p8_NbOfTxs = ''1'',
      p8_Ccy = tr_Currency txn, p8_hundredths = tr_Amount txn, p8_IntrBkSttlmDt = t, p8_SttlmMtd = ''CLRG'',
      p8_CdtTrfTxInf =
        [\<lparr>ct_InstrId = tr_TransactionID txn, ct_EndToEndId = tr_TransactionID txn, ct_TxId = tr_TransactionID txn,
          ct_Ccy = tr_Currency txn, ct_hundredths = tr_Amount txn, ct_ChrgBr = ''SLEV'',
          ct_DbtrBIC = ''RURALPAY'', ct_DbtrNm = tr_OriginatorAccount txn,
          ct_CdtrMmbId = tr_ToBankCode txn, ct_CdtrNm = tr_BeneficiaryAccount txn\<rparr>]\<rparr>"

text \<open>\<open>uuid\<close> is the new identifier of the report.\<close>

definition CreatePacs002 :: "string \<Rightarrow> int \<Rightarrow> transaction_record \<Rightarrow> string \<Rightarrow> pacs002" where
  "CreatePacs002 uuid t txn status =
     \<lparr>p2_MsgId = uuid, p2_CreDtTm = t, p2_TxInfAndSts =
        [\<lparr>ts_OrgnlInstrId = Some (tr_TransactionID txn), ts_OrgnlEndToEndId = Some (tr_TransactionID txn),
          ts_OrgnlTxId = Some (tr_TransactionID txn), ts_TxSts = Some status, ts_reason = None\<rparr>]\<rparr>"

text \<open>The one verification has the identifier of the message, and the account number twice: as
  the party's name and as its IBAN.\<close>

definition CreateAcmt023 :: "iso_env \<Rightarrow> int \<Rightarrow> string \<Rightarrow> string \<Rightarrow> string \<Rightarrow> string \<Rightarrow> acmt023" where
  "CreateAcmt023 env t accountNumber bankCode senderName senderBankCode =
     (let msgID = message_id env senderBankCode in
      \<lparr>a23_MsgId = msgID, a23_CreDtTm = t, a23_sender_name = senderName, a23_sender_bank = senderBankCode,
       a23_assignee_bank = bankCode, a23_Vrfctn = [(msgID, accountNumber, accountNumber)]\<rparr>)"

definition CreatePacs028 :: "iso_env \<Rightarrow> int \<Rightarrow> string \<Rightarrow> string \<Rightarrow> go_err + pacs028" where
  "CreatePacs028 env t originalMsgID originalTxID =
     (if originalMsgID = [] \<or> originalTxID = []
      then Inl (Msg ''originalMsgID and originalTxID are required'')
      else Inr \<lparr>p28_MsgId = message_id env (sender_bank env), p28_CreDtTm = t,
             p28_OrgnlGrpInf = [(originalMsgID, ''pacs.008.001.08'')], p28_OrgnlTxId = [originalTxID]\<rparr>)"

section \<open>Text of a document\<close>

text \<open>\<open>strings.ReplaceAll(s, pat, "")\<close> for a pattern that is not empty.\<close>

fun remove_all :: "string \<Rightarrow> string \<Rightarrow> string" where
  "remove_all pat [] = []"
| "remove_all pat (c # s) = (if is_prefix pat (c # s) then remove_all pat (drop (length pat - 1) s)
     else c # remove_all pat s)"

definition empty_elements :: "string list" where
  "empty_elements = [''<Othr><Id></Id></Othr>'', ''<Othr><Id/></Othr>'', ''<Agt><FinInstnId></FinInstnId></Agt>'',
     ''<Agt><FinInstnId/></Agt>'', ''<Nm></Nm>'', ''<Nm/>'', ''<Pty></Pty>'', ''<Pty/>'', ''<Cretr></Cretr>'',
     ''<Cretr/>'', ''<IBAN></IBAN>'', ''<IBAN/>'']"

definition stripAcmt023EmptyElements :: "string \<Rightarrow> string" where
  "stripAcmt023EmptyElements s = foldl (\<lambda>s pat. remove_all pat s) s empty_elements"

text \<open>The regular expression \<open><Acct><IBAN>([^<]*)</IBAN></Acct>\<close>, from the left, each match in turn.\<close>

definition iban_match :: "string \<Rightarrow> (string \<times> string) option" where
  "iban_match s = (if \<not> is_prefix ''<Acct><IBAN>'' s then None else
     let v = takeWhile (\<lambda>c. c \<noteq> CHR ''<'') (drop 12 s); rest = drop (12 + length v) s
     in if is_prefix ''</IBAN></Acct>'' rest then Some (v, drop 14 rest) else None)"

lemma iban_match_shorter: "iban_match s = Some (v, rest) \<Longrightarrow> length rest < length s"
proof -
  assume m: "iban_match s = Some (v, rest)"
  then have "s \<noteq> []" by (auto simp: iban_match_def is_prefix_def)
  moreover have "rest = drop (Suc (25 + length v)) s"
    using m by (auto simp: iban_match_def Let_def split: if_splits)
  ultimately show ?thesis by (cases s) auto
qed

function wrap_iban :: "string \<Rightarrow> string" where
  "wrap_iban s = (case s of [] \<Rightarrow> [] | c # s' \<Rightarrow> (case iban_match s of
       None \<Rightarrow> c # wrap_iban s'
     | Some (v, rest) \<Rightarrow> ''<Acct><Id><IBAN>'' @ v @ ''</IBAN></Id></Acct>'' @ wrap_iban rest))"
  by pat_completeness auto
termination
  by (relation "measure length") (auto dest: iban_match_shorter)

declare wrap_iban.simps [simp del]

definition ns_document :: "string \<Rightarrow> string \<Rightarrow> string" where
  "ns_document namespace body = ''<?xml '' @ attr ''version'' ''1.0'' @ '' '' @ attr ''encoding'' ''UTF-8'' @ '' ''
     @ attr ''standalone'' ''no'' @ ''?>'' @ ''<ns2:Document '' @ attr ''xmlns:ns2'' namespace @ ''>''
     @ body @ closingTag"

definition no_empty_iban :: "string \<Rightarrow> string" where
  "no_empty_iban s = remove_all ''<IBAN/>'' (remove_all ''<IBAN></IBAN>'' s)"

definition convertToNIBSSXML :: "iso_env \<Rightarrow> iso_service \<Rightarrow> iso_doc \<Rightarrow> string \<Rightarrow> go_err + string" where
  "convertToNIBSSXML env svc doc namespace =
     and_then (wrap_err ''failed to marshal XML: '' (xm_marshal env doc)) (\<lambda>xmlData.
       AppendXMLDSig (ie_crypto env) (ns_document namespace (no_empty_iban xmlData)) (is_senderPriv svc))"

text \<open>\<open>xml.Header\<close> ends with a line feed.\<close>

definition ConvertToXML :: "iso_env \<Rightarrow> iso_doc \<Rightarrow> go_err + string" where
  "ConvertToXML env doc =
     and_then (wrap_err ''failed to marshal XML: '' (xm_marshal_indent env doc)) (\<lambda>xmlData.
       Inr (''<?xml '' @ attr ''version'' ''1.0'' @ '' '' @ attr ''encoding'' ''UTF-8'' @ ''?>'' @ [CHR 0x0A]
            @ no_empty_iban xmlData))"

definition ConvertAcmt023ToXML :: "iso_env \<Rightarrow> iso_service \<Rightarrow> acmt023 \<Rightarrow> go_err + string" where
  "ConvertAcmt023ToXML env svc doc =
     and_then (wrap_err ''failed to marshal acmt.023 XML: '' (xm_marshal env (Acmt023 doc))) (\<lambda>xmlData.
       AppendXMLDSig (ie_crypto env)
         (ns_document ''urn:iso:std:iso:20022:tech:xsd:acmt.023.001.04''
            (wrap_iban (stripAcmt023EmptyElements xmlData)))
         (is_senderPriv svc))"

definition ConvertPacs008ToXML :: "iso_env \<Rightarrow> iso_service \<Rightarrow> pacs008 \<Rightarrow> go_err + string" where
  "ConvertPacs008ToXML env svc doc =
     convertToNIBSSXML env svc (Pacs008 doc) ''urn:iso:std:iso:20022:tech:xsd:pacs.008.001.08''"

definition ConvertPacs028ToXML :: "iso_env \<Rightarrow> iso_service \<Rightarrow> pacs028 \<Rightarrow> go_err + string" where
  "ConvertPacs028ToXML env svc doc =
     convertToNIBSSXML env svc (Pacs028 doc) ''urn:iso:std:iso:20022:tech:xsd:pacs.028.001.04''"

section \<open>Requests\<close>

text \<open>\<open>what\<close> is the message type in the error texts.\<close>

definition iso_post :: "iso_env \<Rightarrow> string \<Rightarrow> string \<times> string \<times> string \<times> string \<Rightarrow> string \<Rightarrow> (int \<Rightarrow> bool) \<Rightarrow> go_err + string" where
  "iso_post env url = (\<lambda>(created, sent, read, status) payload accepted. case ie_refused env of
       Some e \<Rightarrow> Inl e
     | None \<Rightarrow> (case ie_post env url payload of
         PostRefused e \<Rightarrow> Inl (Wrap created e)
       | PostFailed e \<Rightarrow> Inl (Wrap sent e)
       | PostUnread e \<Rightarrow> Inl (Wrap read e)
       | Posted code body \<Rightarrow> if accepted code then Inr body
           else Inl (Msg (status @ show_int code @ '': '' @ body))))"

definition read_pacs002 :: "iso_env \<Rightarrow> string \<Rightarrow> string \<Rightarrow> go_err + pacs002" where
  "read_pacs002 env what body = wrap_err what (xm_pacs002 env body)"

definition ProcessFundsTransferSettlement :: "iso_env \<Rightarrow> string \<Rightarrow> go_err + pacs002" where
  "ProcessFundsTransferSettlement env xmlData =
     and_then (iso_post env (GetPACSBaseURL env) (''failed to create request: '', ''failed to execute request: '',
         ''failed to read pacs.002 response body: '', ''NIBSS API returned status '') xmlData (\<lambda>code. code = 200))
       (read_pacs002 env ''failed to decode pacs.002 response: '')"

definition RequestPaymentStatus :: "iso_env \<Rightarrow> string \<Rightarrow> go_err + pacs002" where
  "RequestPaymentStatus env xmlData =
     and_then (iso_post env (GetPACSBaseURL env) (''failed to create pacs.028 request: '', ''pacs.028 request failed: '',
         ''failed to read pacs.028 response body: '', ''NIBSS pacs.028 API returned status '') xmlData (\<lambda>code. code = 200))
       (read_pacs002 env ''failed to decode pacs.002 status response: '')"

text \<open>The first status of a report, with its reason when it is a rejection.\<close>

definition first_status :: "pacs002 \<Rightarrow> go_err + string \<times> string \<times> string" where
  "first_status doc = (case p2_TxInfAndSts doc of
       [] \<Rightarrow> Inl (Msg ''pacs.002 response missing TxInfAndSts'')
     | s # _ \<Rightarrow> (case ts_TxSts s of
         None \<Rightarrow> Inl (Msg ''pacs.002 TxSts is nil'')
       | Some status \<Rightarrow> Inr (status, (case ts_OrgnlTxId s of None \<Rightarrow> [] | Some i \<Rightarrow> i),
           if status = ''RJCT'' then (case ts_reason s of None \<Rightarrow> [] | Some c \<Rightarrow> c) else [])))"

definition settlement_payload :: "iso_env \<Rightarrow> iso_service \<Rightarrow> string \<Rightarrow> go_err + string" where
  "settlement_payload env svc xmlData =
     (if is_senderPriv svc = None \<or> is_nibssPub svc = None then Inr xmlData
      else and_then (wrap_err ''failed to sign pacs.008: '' (SignXML env svc xmlData)) (\<lambda>signed.
        wrap_err ''failed to marshal signed message: '' (ie_json env signed)))"

text \<open>A rejected settlement returns the result beside the error; no caller looks at it then.\<close>

definition SendToSettlement :: "iso_env \<Rightarrow> iso_service \<Rightarrow> pacs008 \<Rightarrow> go_err + funds_transfer_result" where
  "SendToSettlement env svc doc =
     and_then (wrap_err ''failed to convert pacs.008 to XML: '' (ConvertToXML env (Pacs008 doc))) (\<lambda>xmlData.
     and_then (settlement_payload env svc xmlData) (\<lambda>payload.
     if \<not> is_nibssClient svc
     then Inl (Msg ''failed to send pacs.008 to settlement: NIBSS client not configured'')
     else and_then (wrap_err ''failed to send pacs.008 to settlement: '' (ProcessFundsTransferSettlement env payload))
       (\<lambda>report. and_then (first_status report) (\<lambda>(status, txid, reason).
          if status \<noteq> ''ACSC'' \<and> status \<noteq> ''ACCP''
          then Inl (Msg (''settlement rejected with status: '' @ status @ '', reason: '' @ reason))
          else Inr \<lparr>ft_SessionID = txid, ft_Reference = [], ft_Status = status, ft_RejectReason = reason\<rparr>))))"

record settlement_result =
  sr_Status :: string
  sr_TransactionID :: string
  sr_RejectReason :: string

definition RequestTxPaymentStatus ::
  "iso_env \<Rightarrow> iso_service \<Rightarrow> int \<Rightarrow> string \<Rightarrow> string \<Rightarrow> go_err + settlement_result" where
  "RequestTxPaymentStatus env svc t originalMsgID originalTxID =
     and_then (wrap_err ''failed to build pacs.028: '' (CreatePacs028 env t originalMsgID originalTxID)) (\<lambda>doc.
     and_then (wrap_err ''failed to convert pacs.028 to XML: '' (ConvertPacs028ToXML env svc doc)) (\<lambda>xmlData.
     if \<not> is_nibssClient svc
     then Inl (Msg ''failed to request payment status: NIBSS client not configured'')
     else and_then (wrap_err ''failed to request payment status: '' (RequestPaymentStatus env xmlData)) (\<lambda>report.
       and_then (first_status report) (\<lambda>(status, txid, reason).
         Inr \<lparr>sr_Status = status, sr_TransactionID = txid, sr_RejectReason = reason\<rparr>))))"

section \<open>Endpoints\<close>

text \<open>The body as far as it decodes, and whether its fields pass the validator.\<close>

definition with_transaction ::
  "transaction_record option \<Rightarrow> bool \<Rightarrow> (transaction_record \<Rightarrow> go_err + http_response) \<Rightarrow> http_response" where
  "with_transaction body valid act = (case body of
       None \<Rightarrow> SendErrorResponse ''Unable To Process This Request At This Time'' 400
     | Some txn \<Rightarrow> if \<not> valid then SendErrorResponse (Response ValidationError) 400
         else case act txn of Inl e \<Rightarrow> SendErrorResponse (err_text e) 424 | Inr r \<Rightarrow> r)"

definition ConvertToISO20022 :: "iso_env \<Rightarrow> int \<Rightarrow> transaction_record option \<Rightarrow> bool \<Rightarrow> http_response" where
  "ConvertToISO20022 env t body valid = with_transaction body valid (\<lambda>txn.
     and_then (ConvertToXML env (Pacs008 (CreatePacs008 env t txn))) (\<lambda>xmlData.
       Inr (SendSuccessResponse ''Successfully converted to ISO20022''
         (JObj [(''messageType'', JStr ''pacs.008.001.08''), (''xml'', JStr xmlData)]) 200)))"

definition ProcessSettlement ::
  "iso_env \<Rightarrow> iso_service \<Rightarrow> int \<Rightarrow> transaction_record option \<Rightarrow> bool \<Rightarrow> http_response" where
  "ProcessSettlement env svc t body valid = with_transaction body valid (\<lambda>txn.
     and_then (SendToSettlement env svc (CreatePacs008 env t txn)) (\<lambda>r.
       Inr (SendSuccessResponse ''Successful''
         (JObj [(''messageType'', JStr ''pacs.002.001.08''),
            (''response'', JObj [(''SessionID'', JStr (ft_SessionID r)), (''Reference'', JStr (ft_Reference r)),
               (''Status'', JStr (ft_Status r)), (''RejectReason'', JStr (ft_RejectReason r))])]) 200)))"

text \<open>As the service is constructed, no settlement and no status request is ever sent.\<close>

lemma settlement_never_sent: "SendToSettlement env (NewISO20022Service sk pub) doc \<noteq> Inr r"
  by (auto simp: SendToSettlement_def NewISO20022Service_def and_then_Inr_iff)

lemma ProcessSettlement_fails: "\<not> hr_success (ProcessSettlement env (NewISO20022Service sk pub) t body valid)"
proof (cases body)
  case None
  then show ?thesis by (simp add: ProcessSettlement_def with_transaction_def)
next
  case (Some txn)
  have "\<exists>e. SendToSettlement env (NewISO20022Service sk pub) (CreatePacs008 env t txn) = Inl e"
    using settlement_never_sent by (metis sum.exhaust)
  then show ?thesis using Some by (auto simp: ProcessSettlement_def with_transaction_def)
qed

end
