(* ===== verification/ISO_Services.thy ===== *)
theory ISO_Services
  imports ISO20022 Callback_Port
begin

text \<open>
  The ISO 20022 side of the funds transfer and of the name enquiry:
  \<open>ISO20022FundsTransferImpl\<close> in \<open>src/internal/services/funds_transfer.go\<close> and
  \<open>ISO20022NameEnquiry\<close> in \<open>name_enquiry.go\<close>.

  A call builds its message, registers in the port of theory \<open>Callback_Port\<close> under the identifier of
  the message, sends the message and waits.  Here is the call's own code, with what the port does
  to it as an argument: the phase in which its call ended.  \<open>request_event\<close> ties the two together:
  it is the event by which the call's request enters the schedule of the port.
\<close>

section \<open>Funds transfer\<close>

text \<open>The record made of a payment request: no currency, no bank code.\<close>

definition settlement_record :: "payment_request \<Rightarrow> transaction_record" where
  "settlement_record req =
     \<lparr>tr_ID = 0, tr_TransactionID = pr_TransactionID req, tr_Reference = [],
      tr_OriginatorAccount = pr_FromAccount req, tr_BeneficiaryAccount = pr_BeneficiaryAccountNumber req,
      tr_Amount = pr_Amount req, tr_Fee = 0, tr_TotalAmount = 0, tr_Currency = [], tr_Status = [],
      tr_Narration = pr_Narration req, tr_Type = [], tr_Signature = [], tr_DeviceID = [],
      tr_Location = \<lparr>loc_Latitude = ''0'', loc_Longitude = ''0'', loc_Accuracy = ''0'', loc_Address = []\<rparr>,
      tr_SyncStatus = [], tr_ErrorMessage = [], tr_Metadata = pr_Metadata req, tr_ToBankCode = [],
      tr_CreatedAt = 0, tr_UpdatedAt = 0, tr_SettledAt = None, tr_ProcessedAt = None\<rparr>"

text \<open>Any status below 400 is an acceptance.\<close>

definition sendPacs008 :: "iso_env \<Rightarrow> iso_service \<Rightarrow> pacs008 \<Rightarrow> go_err + unit" where
  "sendPacs008 env svc doc =
     and_then (wrap_err ''failed to convert pacs.008 to XML: '' (ConvertPacs008ToXML env svc doc)) (\<lambda>payload.
     and_then (iso_post env (GetPACSBaseURL env) (''failed to create pacs.008 request: '', ''pacs.008 request failed: '',
         ''failed to read pacs.008 response body: '', ''NIBSS pacs.008 API returned status '') payload (\<lambda>code. code < 400))
       (\<lambda>_. Inr ()))"

text \<open>The end of the call, from the phase its call has reached.\<close>

definition settlement_answer :: "string \<Rightarrow> 'r phase \<Rightarrow> (go_err + 'r) option" where
  "settlement_answer what x = (case x of
       Requesting \<Rightarrow> None | Waiting \<Rightarrow> None
     | NotAccepted e \<Rightarrow> Some (Inl e)
     | TimedOut \<Rightarrow> Some (Inl (Msg what))
     | Answered r \<Rightarrow> Some r)"

definition transfer_document :: "iso_env \<Rightarrow> int \<Rightarrow> payment_request \<Rightarrow> pacs008" where
  "transfer_document env t req = CreatePacs008 env t (settlement_record req)"

definition transfer_starts :: "iso_env \<Rightarrow> int \<Rightarrow> payment_request \<Rightarrow> 'r event" where
  "transfer_starts env t req = CallStarts (p8_MsgId (transfer_document env t req))"

definition request_event :: "nat \<Rightarrow> go_err + unit \<Rightarrow> 'r event" where
  "request_event i sent = (case sent of Inl e \<Rightarrow> RequestFails i e | Inr _ \<Rightarrow> RequestAccepted i)"

definition iso_DoTransaction ::
  "funds_transfer_result phase \<Rightarrow> payment_request \<Rightarrow> (go_err + funds_transfer_result) option" where
  "iso_DoTransaction x req = settlement_answer
     (''timed out waiting for pacs.002 settlement callback for tx '' @ pr_TransactionID req) x"

type_synonym funds_port = "funds_transfer_result port"

definition NotifyPacs002 :: "string \<Rightarrow> go_err + funds_transfer_result \<Rightarrow> funds_port \<Rightarrow> funds_port" where
  "NotifyPacs002 orgnlMsgID r p = notify orgnlMsgID r p"

section \<open>Name enquiry\<close>

definition acmt_err :: "go_err \<Rightarrow> go_err" where
  "acmt_err e = Wrap ''ACMT.023 Name Enquiry Failed: '' e"

definition sendAcmt023 :: "iso_env \<Rightarrow> string \<Rightarrow> go_err + unit" where
  "sendAcmt023 env xmlData =
     and_then (iso_post env (GetACMTBaseURL env) (''failed to create ACMT.023 request: '', ''ACMT.023 request failed: '',
         ''failed to read ACMT.023 response body: '', ''NIBSS ACMT.023 API returned status '') xmlData (\<lambda>code. code < 400))
       (\<lambda>_. Inr ())"

definition enquiry_document :: "iso_env \<Rightarrow> int \<Rightarrow> string \<Rightarrow> string \<Rightarrow> acmt023" where
  "enquiry_document env t accountNumber bankCode =
     CreateAcmt023 env t accountNumber bankCode (ie_institution env) (sender_bank env)"

text \<open>What the call returns once its message is made: the failed conversion and the failed request
  end it, the phase of its call gives the answer.\<close>

definition enquiry_answer ::
  "iso_env \<Rightarrow> iso_service \<Rightarrow> int \<Rightarrow> identification_response phase \<Rightarrow> string \<Rightarrow> string \<Rightarrow>
     go_err + identification_response" where
  "enquiry_answer env svc t x accountNumber bankCode =
     (case and_then (ConvertAcmt023ToXML env svc (enquiry_document env t accountNumber bankCode)) (sendAcmt023 env) of
        Inl e \<Rightarrow> Inl (acmt_err e)
      | Inr _ \<Rightarrow> (case settlement_answer ''timed out waiting for acmt.024 callback'' x of
            Some (Inr r) \<Rightarrow> Inr r
          | Some (Inl e) \<Rightarrow> Inl (acmt_err e)
          | None \<Rightarrow> Inl (acmt_err (Msg ''timed out waiting for acmt.024 callback''))))"

text \<open>The account number of the request is stored, not the one of the answer.\<close>

definition iso_cache_name :: "int \<Rightarrow> string \<Rightarrow> string \<Rightarrow> identification_response \<Rightarrow> unit go" where
  "iso_cache_name ttl accountNumber bankCode resp =
     catching (redis_hset (name_key accountNumber bankCode)
         [(''AccountName'', iv_AccountName resp), (''AccountNumber'', accountNumber), (''BankCode'', bankCode)])
       (\<lambda>_. ret ()) (\<lambda>_. ignoring (redis_expire (name_key accountNumber bankCode) ttl))"

text \<open>\<open>x\<close> is the phase in which the call ends; the answer is cached before it is looked at.\<close>

definition iso_EnquireName ::
  "iso_env \<Rightarrow> iso_service \<Rightarrow> int \<Rightarrow> identification_response phase \<Rightarrow> string \<Rightarrow> string \<Rightarrow> ne_result go" where
  "iso_EnquireName env svc ttl x accountNumber bankCode =
     bind (cachedNameEnquiry accountNumber bankCode) (\<lambda>cached. case cached of
       Some r \<Rightarrow> ret r
     | None \<Rightarrow> bind (gets now) (\<lambda>t.
         case enquiry_answer env svc t x accountNumber bankCode of
           Inl e \<Rightarrow> fail e
         | Inr resp \<Rightarrow> bind (iso_cache_name ttl accountNumber bankCode resp) (\<lambda>_.
             if \<not> iv_Verified resp then fail (acmt_err (Msg ''account not verified''))
             else ret \<lparr>nr_AccountName = iv_AccountName resp,
                    nr_AccountNumber = (if iv_AccountNumber resp \<noteq> [] then iv_AccountNumber resp else accountNumber),
                    nr_BankCode = bankCode, nr_BankName = [], nr_NameEnquirySessionId = [],
                    nr_BankVerificationNumber = [], nr_KYCLevel = []\<rparr>)))"

type_synonym name_port = "identification_response port"

definition NotifyAcmt024 :: "string \<Rightarrow> go_err + identification_response \<Rightarrow> name_port \<Rightarrow> name_port" where
  "NotifyAcmt024 msgID r p = notify msgID r p"

end
