(* ===== verification/Callbacks.thy ===== *)
theory Callbacks
  imports ISO_Services
begin

text \<open>
  The callbacks of the ISO 20022 switch: \<open>src/internal/handlers/iso20022_callback_handler.go\<close>.

  \<^item> A handler answers the switch and may notify one of the two ports of theory \<open>ISO_Services\<close>; the
    inbound payments and status requests (pacs.008, pacs.028) are only logged, the services they
    are handed to return at once.
  \<^item> \<open>encoding/json\<close> and \<open>encoding/xml\<close> are the record \<open>body_reader\<close>: \<open>rd_json\<close> says how many bytes
    of the body the decoder has read and what envelope it found, if it found one with a payload;
    the other functions are \<open>xml.Unmarshal\<close> into the fields the handler looks at.
  \<^item> A body is read up to a megabyte; \<open>Inl\<close> is a read error of the connection.
\<close>

section \<open>Reading a body\<close>

record report_line =
  rl_verified :: bool
  rl_name :: "string option"
  rl_iban :: "string option"

record body_reader =
  rd_json :: "string \<Rightarrow> nat \<times> signed_message option"
  rd_pacs008 :: "string \<Rightarrow> (string \<times> string) option"
  rd_pacs002 :: "string \<Rightarrow> pacs002 option"
  rd_pacs028 :: "string \<Rightarrow> (string \<times> string list) option"
  rd_acmt023 :: "string \<Rightarrow> (string \<times> nat) option"
  rd_acmt024 :: "string \<Rightarrow> (string \<times> report_line list) option"
  rd_admi002 :: "string \<Rightarrow> (string \<times> string \<times> string \<times> string) option"

definition body_limit :: nat where
  "body_limit = 1048576"

definition limited :: "string \<Rightarrow> string" where
  "limited s = take body_limit s"

lemma limited_id: "length s \<le> 1048576 \<Longrightarrow> limited s = s"
  by (simp add: limited_def body_limit_def)

text \<open>\<open>connection\<close> is what the body still yields; the second read continues after the first.\<close>

definition decryptBody :: "iso_env \<Rightarrow> iso_service \<Rightarrow> body_reader \<Rightarrow> go_err + string \<Rightarrow> go_err + string" where
  "decryptBody env svc rd connection = (case connection of Inl e \<Rightarrow> Inl e
     | Inr body \<Rightarrow> (case rd_json rd (limited body) of
         (consumed, None) \<Rightarrow> Inr (limited (drop consumed body))
       | (consumed, Some msg) \<Rightarrow> VerifyAndOpenXML env svc msg))"

section \<open>Handlers\<close>

record callback_handler =
  ch_service :: iso_service
  ch_has_name :: bool
  ch_has_funds :: bool

definition bad_body :: http_response where
  "bad_body = SendErrorResponse ''Failed to read request body'' 400"

text \<open>Read the body, parse it, then act on the document.\<close>

definition with_document ::
  "go_err + string \<Rightarrow> (string \<Rightarrow> 'd option) \<Rightarrow> string \<Rightarrow> ('d \<Rightarrow> http_response \<times> 'n) \<Rightarrow> 'n \<Rightarrow> http_response \<times> 'n" where
  "with_document body parse invalid act nothing = (case body of
       Inl _ \<Rightarrow> (bad_body, nothing)
     | Inr text \<Rightarrow> (case parse text of
         None \<Rightarrow> (SendErrorResponse invalid 400, nothing)
       | Some doc \<Rightarrow> act doc))"

definition received :: "string \<Rightarrow> (string \<times> json) list \<Rightarrow> http_response" where
  "received message details = SendSuccessResponse message (JObj details) 200"

definition ReceivePacs008 :: "iso_env \<Rightarrow> callback_handler \<Rightarrow> body_reader \<Rightarrow> go_err + string \<Rightarrow> http_response" where
  "ReceivePacs008 env h rd connection = fst (with_document (decryptBody env (ch_service h) rd connection)
     (rd_pacs008 rd) ''Invalid pacs.008 message'' (\<lambda>(msgId, nbOfTxs).
       (received ''pacs.008 received'' [(''messageType'', JStr ''pacs.008.001.08''), (''msgId'', JStr msgId),
          (''nbOfTxs'', JStr nbOfTxs)], ())) ())"

text \<open>The status and the transaction of the first report line; empty when absent.\<close>

definition pacs002_status :: "pacs002 \<Rightarrow> string" where
  "pacs002_status doc = (case p2_TxInfAndSts doc of [] \<Rightarrow> []
     | s # _ \<Rightarrow> (case ts_TxSts s of None \<Rightarrow> [] | Some x \<Rightarrow> x))"

definition pacs002_transaction :: "pacs002 \<Rightarrow> string" where
  "pacs002_transaction doc = (case p2_TxInfAndSts doc of [] \<Rightarrow> []
     | s # _ \<Rightarrow> (case ts_OrgnlTxId s of None \<Rightarrow> [] | Some x \<Rightarrow> x))"

text \<open>The notification a report leads to: its key is the transaction of the report.\<close>

definition pacs002_notification :: "callback_handler \<Rightarrow> pacs002 \<Rightarrow> (string \<times> (go_err + funds_transfer_result)) option" where
  "pacs002_notification h doc = (let orgnlTxId = pacs002_transaction doc; txStatus = pacs002_status doc in
     if \<not> ch_has_funds h \<or> orgnlTxId = [] then None
     else Some (orgnlTxId,
       if txStatus = ''RJCT'' then Inl (Msg (''settlement rejected with status: '' @ txStatus))
       else Inr \<lparr>ft_SessionID = orgnlTxId, ft_Reference = [], ft_Status = txStatus, ft_RejectReason = []\<rparr>))"

definition notify_funds :: "(string \<times> (go_err + funds_transfer_result)) option \<Rightarrow> funds_port \<Rightarrow> funds_port" where
  "notify_funds n p = (case n of None \<Rightarrow> p | Some (k, r) \<Rightarrow> NotifyPacs002 k r p)"

definition ReceivePacs002 ::
  "iso_env \<Rightarrow> callback_handler \<Rightarrow> body_reader \<Rightarrow> go_err + string \<Rightarrow> funds_port \<Rightarrow> http_response \<times> funds_port" where
  "ReceivePacs002 env h rd connection p = with_document (decryptBody env (ch_service h) rd connection)
     (rd_pacs002 rd) ''Invalid pacs.002 message'' (\<lambda>doc.
       (received ''pacs.002 received'' [(''messageType'', JStr ''pacs.002.001.08''), (''msgId'', JStr (p2_MsgId doc)),
          (''txStatus'', JStr (pacs002_status doc)), (''orgnlTxId'', JStr (pacs002_transaction doc))],
        notify_funds (pacs002_notification h doc) p)) p"

definition ReceivePacs028 :: "iso_env \<Rightarrow> callback_handler \<Rightarrow> body_reader \<Rightarrow> go_err + string \<Rightarrow> http_response" where
  "ReceivePacs028 env h rd connection = fst (with_document (decryptBody env (ch_service h) rd connection)
     (rd_pacs028 rd) ''Invalid pacs.028 message'' (\<lambda>(msgId, originals).
       (received ''pacs.028 received'' [(''messageType'', JStr ''pacs.028.001.04''), (''msgId'', JStr msgId),
          (''orgnlMsgId'', JStr (case originals of [] \<Rightarrow> [] | i # _ \<Rightarrow> i))], ())) ())"

definition ReceiveAcmt023 :: "iso_env \<Rightarrow> callback_handler \<Rightarrow> body_reader \<Rightarrow> go_err + string \<Rightarrow> http_response" where
  "ReceiveAcmt023 env h rd connection = fst (with_document (decryptBody env (ch_service h) rd connection)
     (rd_acmt023 rd) ''Invalid acmt.023 message'' (\<lambda>(msgId, n).
       (received ''acmt.023 received'' [(''messageType'', JStr ''acmt.023.001.02''), (''msgId'', JStr msgId),
          (''vrfctnCount'', JInt (int n))], ())) ())"

definition acmt024_response :: "report_line list \<Rightarrow> identification_response" where
  "acmt024_response lines = (case lines of
       [] \<Rightarrow> \<lparr>iv_Verified = False, iv_AccountName = [], iv_AccountNumber = [], iv_OriginalMsgId = [],
              iv_BVN = [], iv_RiskRating = []\<rparr>
     | l # _ \<Rightarrow> \<lparr>iv_Verified = rl_verified l,
              iv_AccountName = (case rl_name l of None \<Rightarrow> [] | Some x \<Rightarrow> x),
              iv_AccountNumber = (case rl_iban l of None \<Rightarrow> [] | Some x \<Rightarrow> x), iv_OriginalMsgId = [],
              iv_BVN = [], iv_RiskRating = []\<rparr>)"

text \<open>The key is the identifier of the report itself.\<close>

definition ReceiveAcmt024 ::
  "iso_env \<Rightarrow> callback_handler \<Rightarrow> body_reader \<Rightarrow> go_err + string \<Rightarrow> name_port \<Rightarrow> http_response \<times> name_port" where
  "ReceiveAcmt024 env h rd connection p = with_document (decryptBody env (ch_service h) rd connection)
     (rd_acmt024 rd) ''Invalid acmt.024 message'' (\<lambda>(msgId, lines). let resp = acmt024_response lines in
       (received ''acmt.024 received'' [(''messageType'', JStr ''acmt.024.001.02''), (''msgId'', JStr msgId),
          (''verified'', JBool (iv_Verified resp)), (''accountName'', JStr (iv_AccountName resp)),
          (''accountNumber'', JStr (iv_AccountNumber resp))],
        if ch_has_name h then NotifyAcmt024 msgId (Inr resp) p else p)) p"

definition reject_error :: "string \<Rightarrow> string \<Rightarrow> string \<Rightarrow> go_err" where
  "reject_error code desc dttm = Msg (''NIBSS rejected message ['' @ code @ '']: '' @ desc @ '' - '' @ dttm)"

text \<open>A message reject is read as it comes, never as an envelope, and goes to both ports.\<close>

definition ReceiveAdmi002 ::
  "callback_handler \<Rightarrow> body_reader \<Rightarrow> go_err + string \<Rightarrow> name_port \<times> funds_port \<Rightarrow>
     http_response \<times> name_port \<times> funds_port" where
  "ReceiveAdmi002 h rd connection ports =
     with_document (case connection of Inl e \<Rightarrow> Inl e | Inr body \<Rightarrow> Inr (limited body))
     (rd_admi002 rd) ''Invalid admi.002 message'' (\<lambda>(orgnlMsgId, rejectCode, rejectDtTm, rejectDesc).
       (received ''admi.002 received'' [(''messageType'', JStr ''admi.002.001.01''), (''orgnlMsgId'', JStr orgnlMsgId),
          (''rejectCode'', JStr rejectCode), (''rejectDtTm'', JStr rejectDtTm), (''rejectDesc'', JStr rejectDesc)],
        (let err = reject_error rejectCode rejectDesc rejectDtTm in
         (if ch_has_name h \<and> orgnlMsgId \<noteq> [] then NotifyAcmt024 orgnlMsgId (Inl err) (fst ports) else fst ports,
          if ch_has_funds h \<and> orgnlMsgId \<noteq> [] then NotifyPacs002 orgnlMsgId (Inl err) (snd ports) else snd ports)))) ports"

text \<open>What the handler parses of a message that is no envelope starts after the bytes that the
  attempt to read an envelope has consumed.\<close>

lemma plain_body_truncated:
  assumes "rd_json rd (limited body) = (consumed, None)"
  shows "decryptBody env svc rd (Inr body) = Inr (limited (drop consumed body))"
  using assms by (simp add: decryptBody_def)

end
