(* ===== verification/Callback_Props.thy ===== *)
theory Callback_Props
  imports Callbacks
begin

text \<open>
  The callbacks meet the calls that wait for them: sealed messages, payment reports, and names
  that were not verified.
\<close>

section \<open>Sealed messages\<close>

text \<open>C26: a message that the service signs and seals is opened by the receiver: whoever holds the private
  key that belongs to the configured public key, and checks with the sender's public key, gets the
  text back, whatever the random values were.\<close>

theorem sealed_message_opens:
  assumes "opens_what_it_seals (ie_crypto env)" and "seal_random_ok (ie_random env)"
    and "is_senderPriv svc = Some sk" and "is_nibssPub svc = Some (cr_public (ie_crypto env) rk)"
    and "SignXML env svc plain = Inr msg"
  shows "OpenMessage (ie_crypto env) msg (cr_public (ie_crypto env) sk) rk = Inr plain"
  using assms by (intro open_sealed) (simp_all add: SignXML_def)


section \<open>Payment reports\<close>

lemma set_phase_keys: "map ca_key (po_calls (set_phase i x p)) = map ca_key (po_calls p)"
  by (rule nth_equalityI) simp_all

lemma call_keys_step:
  "port_step e p = Some q \<Longrightarrow>
   map ca_key (po_calls q) = map ca_key (po_calls p) @ (case e of CallStarts k \<Rightarrow> [k] | _ \<Rightarrow> [])"
proof (cases e)
  case (CallStarts k)
  assume "port_step e p = Some q"
  with CallStarts show ?thesis by (auto simp: register_call_def)
qed (auto simp: notify_def Let_def set_phase_keys split: if_splits option.splits prod.splits)

lemma call_keys_run:
  "run_port es p = Some q \<Longrightarrow> set (map ca_key (po_calls q)) \<subseteq> set (map ca_key (po_calls p)) \<union> {k. CallStarts k \<in> set es}"
proof (induction es p rule: run_port.induct)
  case (2 e es p)
  then obtain p' where s: "port_step e p = Some p'" and r: "run_port es p' = Some q"
    by (auto split: option.splits)
  from 2(1) [OF s r] call_keys_step [OF s] show ?case by (auto split: event.splits)
qed simp

lemma message_id_length:
  "length (message_id env bank) = length bank + length (ie_msg_stamp env) + min (length (ie_msg_draws env)) 15"
  by (simp add: message_id_def GenerateISO20022MsgId_def generateRandomNumericString_def)

text \<open>A well configured sender: a bank code of six characters, a time of fourteen, enough digits.\<close>

definition sender_ok :: "iso_env \<Rightarrow> bool" where
  "sender_ok env \<longleftrightarrow> length (sender_bank env) = 6 \<and> length (ie_msg_stamp env) = 14 \<and> 15 \<le> length (ie_msg_draws env)"

text \<open>C28: no transfer over ISO 20022 ever returns a result.  A call waits under the identifier of its
  message, which has 35 characters; the handler of a payment report notifies under the identifier of
  the transaction.  Under any interleaving of transfers with reports about transactions whose
  identifiers have another length, every transfer ends with an error or is still waiting.\<close>

theorem payment_reports_never_match:
  assumes "run_port es empty_port = Some p"
    and "\<And>k. CallStarts k \<in> set es \<Longrightarrow> \<exists>env t req. sender_ok env \<and> CallStarts k = (transfer_starts env t req :: funds_transfer_result event)"
    and "\<And>k r. Callback k r \<in> set es \<Longrightarrow> \<exists>h uuid t txn status. length (tr_TransactionID txn) \<noteq> 35 \<and>
      pacs002_notification h (CreatePacs002 uuid t txn status) = Some (k, r)"
    and "i < length (po_calls p)"
  shows "iso_DoTransaction (ca_phase (po_calls p ! i)) req \<noteq> Some (Inr result)"
proof
  assume a: "iso_DoTransaction (ca_phase (po_calls p ! i)) req = Some (Inr result)"
  then have "phase_of i p = Some (Answered (Inr result))"
    using assms(4) by (auto simp: iso_DoTransaction_def settlement_answer_def phase_of_def split: phase.splits)
  with assms(1) have "Callback (ca_key (po_calls p ! i)) (Inr result) \<in> set es"
    by (rule answered_under_own_key)
  with assms(3) obtain h uuid t txn status where "length (tr_TransactionID txn) \<noteq> 35"
    and "pacs002_notification h (CreatePacs002 uuid t txn status) = Some (ca_key (po_calls p ! i), Inr result)"
    by blast
  then have "length (ca_key (po_calls p ! i)) \<noteq> 35"
    by (auto simp: pacs002_notification_def pacs002_transaction_def CreatePacs002_def Let_def split: if_splits)
  moreover have "CallStarts (ca_key (po_calls p ! i)) \<in> set es"
    using call_keys_run [OF assms(1)] nth_mem [OF assms(4)] by (auto simp: empty_port_def)
  with assms(2) obtain env t' req' where "sender_ok env"
    and "CallStarts (ca_key (po_calls p ! i)) = (transfer_starts env t' req' :: funds_transfer_result event)"
    by blast
  then have "length (ca_key (po_calls p ! i)) = 35"
    by (simp add: transfer_starts_def transfer_document_def CreatePacs008_def message_id_length sender_ok_def)
  ultimately show False by simp
qed

section \<open>Names\<close>

lemma iso_cache_stores:
  assumes "redis_live (name_key a b) w = None" and "faults w = []" and "0 < ttl" and "now w < redis_forever"
  obtains w1 where "iso_cache_name ttl a b resp w = (Done (), w1)" and "faults w1 = []"
    and "redis_live (name_key a b) w1 =
      Some (RHash [(''AccountName'', iv_AccountName resp), (''AccountNumber'', a), (''BankCode'', b)])"
  using assms
  by (auto simp: iso_cache_name_def catching_def bind_def attempt_def redis_hset_def redis_expire_def ret_def
      ignoring_def next_fault_def used_fault_def redis_live_def redis_put_def split: if_splits)

text \<open>An account that the switch did not verify is accepted the second time.  The first
  enquiry stores the name before it looks at the answer and then fails; an enquiry for the same
  account within the lifetime takes the stored name and asks nobody.\<close>

theorem unverified_name_accepted:
  assumes "redis_live (name_key a b) w = None" and "faults w = []" and "0 < ttl" and "now w < redis_forever"
    and "enquiry_answer env svc (now w) x a b = Inr resp" and "\<not> iv_Verified resp"
  shows "\<exists>e w1 r w2. iso_EnquireName env svc ttl x a b w = (Failed e, w1) \<and>
    iso_EnquireName env' svc' ttl' x' a b w1 = (Done r, w2) \<and> nr_AccountName r = iv_AccountName resp"
proof -
  obtain w1 where c: "iso_cache_name ttl a b resp w = (Done (), w1)" and f: "faults w1 = []"
    and l: "redis_live (name_key a b) w1 =
      Some (RHash [(''AccountName'', iv_AccountName resp), (''AccountNumber'', a), (''BankCode'', b)])"
    by (rule iso_cache_stores [OF assms(1-4), of resp])
  have "cachedNameEnquiry a b w = (Done None, w)"
    using assms(1,2) by (simp add: cachedNameEnquiry_def catching_def bind_def attempt_def
        redis_hgetall_def ret_def next_fault_def used_fault_def)
  then have "iso_EnquireName env svc ttl x a b w = (Failed (acmt_err (Msg ''account not verified'')), w1)"
    using assms(5,6) c by (simp add: iso_EnquireName_def bind_def gets_def fail_def)
  moreover have "\<exists>r w2. iso_EnquireName env' svc' ttl' x' a b w1 = (Done r, w2) \<and> nr_AccountName r = iv_AccountName resp"
    using cached_read [OF l] f by (simp add: iso_EnquireName_def bind_def ret_def next_fault_def hash_field_def)
  ultimately show ?thesis by blast
qed

section \<open>Applied\<close>

text \<open>Ciphers that hide nothing: a signature is the signer's key, and keys are told apart.\<close>

definition sample_crypto :: crypto_lib where
  "sample_crypto = \<lparr>cr_public = (\<lambda>sk. ''P'' @ sk), cr_gcm_seal = (\<lambda>key nonce m. m),
     cr_gcm_open = (\<lambda>key nonce c. Inr c), cr_oaep_encrypt = (\<lambda>seed pub m. Inr m),
     cr_oaep_decrypt = (\<lambda>sk c. Inr c), cr_pss_sign = (\<lambda>seed sk d. Inr sk),
     cr_pss_verify = (\<lambda>pub d s. pub = ''P'' @ s), cr_pkcs1_sign = (\<lambda>sk d. Inr sk)\<rparr>"

definition sample_random :: seal_random where
  "sample_random = \<lparr>rn_key = Inr (replicate 32 (CHR ''k'')), rn_nonce = Inr (replicate 12 (CHR ''n'')),
     rn_oaep = [], rn_pss = []\<rparr>"

definition sample_iso_env :: iso_env where
  "sample_iso_env = \<lparr>ie_bank_code = ''999001'', ie_nip_bank_code = [], ie_institution = ''RURALPAY'', ie_base = ''nps'',
     ie_msg_stamp = ''20250101120000'', ie_msg_draws = replicate 15 7, ie_refused = None,
     ie_post = (\<lambda>url payload. Posted 202 []), xm_marshal = (\<lambda>doc. Inr ''<Doc/>''),
     xm_marshal_indent = (\<lambda>doc. Inr ''<Doc/>''), xm_pacs002 = (\<lambda>body. Inl (ExtErr ''EOF'')),
     ie_json = (\<lambda>msg. Inr []), ie_crypto = sample_crypto, ie_random = sample_random\<rparr>"

definition sample_service :: iso_service where
  "sample_service = NewISO20022Service (Some ''OURS'') (Some ''PTHEIRS'')"

lemma sample_crypto_opens: "opens_what_it_seals sample_crypto"
  by (simp add: opens_what_it_seals_def sample_crypto_def)

lemma sample_crypto_signer: "only_the_signer sample_crypto"
  by (simp add: only_the_signer_def sample_crypto_def)

lemma sample_random_ok: "seal_random_ok sample_random"
  by (simp add: seal_random_ok_def sample_random_def gcm_nonce_size_def)

text \<open>A message sealed with the key \<open>sk\<close>.\<close>

definition sealed_with :: "string \<Rightarrow> signed_message" where
  "sealed_with sk = \<lparr>sm_EncryptedPayload = replicate 12 (CHR ''n'') @ ''<Doc/>'',
     sm_WrappedKey = replicate 32 (CHR ''k''), sm_Signature = sk\<rparr>"

lemma sample_sealed: "SealMessage sample_crypto sample_random ''<Doc/>'' sk pub = Inr (sealed_with sk)"
  by (simp add: SealMessage_def sample_crypto_def sample_random_def aes_key_ok_def sealed_with_def)

lemma sample_env_crypto: "ie_crypto sample_iso_env = sample_crypto" "ie_random sample_iso_env = sample_random"
  by (simp_all add: sample_iso_env_def)

lemma sealed_message_opens_witness:
  "OpenMessage sample_crypto (sealed_with ''OURS'') ''POURS'' ''THEIRS'' = Inr ''<Doc/>''"
proof -
  have "SignXML sample_iso_env sample_service ''<Doc/>'' = Inr (sealed_with ''OURS'')"
    by (simp add: SignXML_def sample_service_def NewISO20022Service_def sample_env_crypto sample_sealed)
  from sealed_message_opens [OF _ _ _ _ this, of "''OURS''" "''THEIRS''"] show ?thesis
    by (simp add: sample_env_crypto sample_crypto_opens sample_random_ok sample_service_def NewISO20022Service_def)
       (simp add: sample_crypto_def)
qed

definition sample_reader :: body_reader where
  "sample_reader = \<lparr>rd_json = (\<lambda>body. (length body, Some (sealed_with ''THEIRS''))), rd_pacs008 = (\<lambda>x. None),
     rd_pacs002 = (\<lambda>x. None), rd_pacs028 = (\<lambda>x. None), rd_acmt023 = (\<lambda>x. None), rd_acmt024 = (\<lambda>x. None),
     rd_admi002 = (\<lambda>x. None)\<rparr>"

definition sample_handler :: callback_handler where
  "sample_handler = \<lparr>ch_service = sample_service, ch_has_name = True, ch_has_funds = True\<rparr>"


definition sample_settlement :: payment_request where
  "sample_settlement = \<lparr>pr_TransactionID = ''TX1'', pr_UserID = ''7'', pr_FromAccount = ''1000000001'',
     pr_BeneficiaryAccountNumber = ''2000000001'', pr_BeneficiaryAccountName = ''OBI'', pr_BeneficiaryBankName = [],
     pr_BeneficiaryBankCode = ''044'', pr_Amount = 500, pr_Currency = ''NGN'', pr_Metadata = Map.empty,
     pr_Narration = [], pr_TxType = [], pr_PaymentMode = [], pr_SaveBeneficiary = False, pr_OneTimeCode = [],
     pr_TwoFAType = [], pr_Location = None, pr_IPAddress = []\<rparr>"

definition sample_report :: "string \<times> (go_err + funds_transfer_result)" where
  "sample_report = the (pacs002_notification sample_handler
     (CreatePacs002 ''U1'' 0 (settlement_record sample_settlement) ''ACSC''))"

definition sample_schedule :: "funds_transfer_result event list" where
  "sample_schedule = [transfer_starts sample_iso_env 0 sample_settlement, RequestAccepted 0,
     Callback (fst sample_report) (snd sample_report), TimerFires 0]"

definition sample_end :: funds_port where
  "sample_end = the (run_port sample_schedule empty_port)"

lemma payment_reports_never_match_witness:
  "\<forall>result. iso_DoTransaction (ca_phase (po_calls sample_end ! 0)) sample_settlement \<noteq> Some (Inr result)"
proof
  fix result
  have run: "run_port sample_schedule empty_port = Some sample_end"
    by (simp add: sample_end_def sample_schedule_def transfer_starts_def register_call_def empty_port_def phase_of_def
        set_phase_def notify_def Let_def split: option.split)
  have ok: "sender_ok sample_iso_env"
    by (simp add: sender_ok_def sender_bank_def sample_iso_env_def)
  have n: "pacs002_notification sample_handler (CreatePacs002 ''U1'' 0 (settlement_record sample_settlement) ''ACSC'')
      = Some sample_report" and l: "length (tr_TransactionID (settlement_record sample_settlement)) \<noteq> 35"
    by (simp_all add: sample_report_def pacs002_notification_def sample_handler_def CreatePacs002_def
        pacs002_transaction_def settlement_record_def sample_settlement_def Let_def)
  show "iso_DoTransaction (ca_phase (po_calls sample_end ! 0)) sample_settlement \<noteq> Some (Inr result)"
  proof (rule payment_reports_never_match [OF run])
    show "\<exists>env t req. sender_ok env \<and> CallStarts k = (transfer_starts env t req :: funds_transfer_result event)"
      if "CallStarts k \<in> set sample_schedule" for k
      using that ok by (auto simp: sample_schedule_def)
    show "\<exists>h uuid t txn status. length (tr_TransactionID txn) \<noteq> 35 \<and>
        pacs002_notification h (CreatePacs002 uuid t txn status) = Some (k, r)"
      if "Callback k r \<in> set sample_schedule" for k r
    proof -
      have "(k, r) = sample_report" using that by (auto simp: sample_schedule_def transfer_starts_def)
      with n l show ?thesis by metis
    qed
    show "0 < length (po_calls sample_end)"
      using call_keys_step [of "transfer_starts sample_iso_env 0 sample_settlement"] run
      by (simp add: sample_end_def sample_schedule_def transfer_starts_def register_call_def empty_port_def phase_of_def
        set_phase_def notify_def Let_def split: option.splits)
  qed
qed

definition unverified :: identification_response where
  "unverified = \<lparr>iv_Verified = False, iv_AccountName = ''OBI'', iv_AccountNumber = [], iv_OriginalMsgId = [],
     iv_BVN = [], iv_RiskRating = []\<rparr>"

definition empty_cache :: world where
  "empty_cache = sample_world\<lparr>redis := Map.empty, faults := []\<rparr>"

lemma unverified_name_accepted_witness:
  "\<exists>e w1 r w2. iso_EnquireName sample_iso_env sample_service 300 (Answered (Inr unverified)) ''2000000001'' ''044'' empty_cache
      = (Failed e, w1) \<and>
    iso_EnquireName sample_iso_env sample_service 300 TimedOut ''2000000001'' ''044'' w1 = (Done r, w2) \<and>
    nr_AccountName r = ''OBI''"
proof -
  have "ie_post sample_iso_env u x = Posted 202 []" "ie_refused sample_iso_env = None" for u x
    by (simp_all add: sample_iso_env_def)
  then have "sendAcmt023 sample_iso_env x = Inr ()" for x by (simp add: sendAcmt023_def iso_post_def)
  moreover have "\<exists>x. ConvertAcmt023ToXML sample_iso_env sample_service d = Inr x" for d
    by (simp add: ConvertAcmt023ToXML_def AppendXMLDSig_def sample_service_def NewISO20022Service_def Let_def)
       (simp add: sample_iso_env_def wrap_err_def sample_crypto_def)
  ultimately have "and_then (ConvertAcmt023ToXML sample_iso_env sample_service d) (sendAcmt023 sample_iso_env) = Inr ()" for d
    by (metis and_then_simps(2))
  then have "enquiry_answer sample_iso_env sample_service t (Answered (Inr unverified)) a b = Inr unverified" for t a b
    by (simp add: enquiry_answer_def settlement_answer_def)
  then show ?thesis
    using unverified_name_accepted [of "''2000000001''" "''044''" empty_cache 300 sample_iso_env sample_service
        "Answered (Inr unverified)" unverified sample_iso_env sample_service 300 TimedOut]
    by (simp add: empty_cache_def redis_live_def sample_world_def redis_forever_def unverified_def)
qed

end
