(* ===== verification/Callback_Auth.thy ===== *)
theory Callback_Auth
  imports SHA256 Sealing
begin

text \<open>
  Who may call back: \<open>src/internal/middleware/iso20022_callback_auth.go\<close> and the signatures of
  \<open>src/internal/utils/iso20022_signature.go\<close>.

  \<^item> HMAC-SHA256 is defined over the SHA-256 of theory \<open>SHA256\<close> (blocks of 64 bytes); a signature is
    its lower-case hexadecimal text, and both files compare texts.
  \<^item> A request is what the middleware looks at: path, header, body, and the client certificate of
    the TLS connection when there is one.  Times are nanoseconds.
\<close>

unbundle bit_operations_syntax

section \<open>HMAC\<close>

definition byte_xor :: "nat \<Rightarrow> nat \<Rightarrow> nat" where
  "byte_xor a b = unat (word_of_nat a XOR word_of_nat b :: 8 word)"

definition hmac_key :: "nat list \<Rightarrow> nat list" where
  "hmac_key key = (let k = (if 64 < length key then sha256 key else key) in k @ replicate (64 - length k) 0)"

definition hmac_sha256 :: "nat list \<Rightarrow> nat list \<Rightarrow> nat list" where
  "hmac_sha256 key body = (let k = hmac_key key in
     sha256 (map (byte_xor 0x5C) k @ sha256 (map (byte_xor 0x36) k @ body)))"

definition hmac_hex :: "string \<Rightarrow> string \<Rightarrow> string" where
  "hmac_hex secret body = hex_encode (hmac_sha256 (bytes_of_string secret) (bytes_of_string body))"

section \<open>The signature utility\<close>

definition GenerateSignature :: "string \<Rightarrow> string \<Rightarrow> string" where
  "GenerateSignature secret body = ''sha256='' @ hmac_hex secret body"

text \<open>\<open>strings.SplitN(s, "=", 2)\<close>: \<open>None\<close> when there is only one part.\<close>

definition split_equals :: "string \<Rightarrow> (string \<times> string) option" where
  "split_equals s = (case dropWhile (\<lambda>c. c \<noteq> CHR ''='') s of
       [] \<Rightarrow> None | _ # rest \<Rightarrow> Some (takeWhile (\<lambda>c. c \<noteq> CHR ''='') s, rest))"

text \<open>\<open>strings.TrimPrefix\<close>.\<close>

definition trim_prefix :: "string \<Rightarrow> string \<Rightarrow> string" where
  "trim_prefix p s = (if is_prefix p s then drop (length p) s else s)"

definition VerifySignature :: "string \<Rightarrow> string \<Rightarrow> string \<Rightarrow> go_err + bool" where
  "VerifySignature secret body signatureHeader = (case split_equals signatureHeader of
       None \<Rightarrow> Inl (Msg ''invalid signature format, expected sha256=<hex>'')
     | Some (algorithm, providedSignature) \<Rightarrow>
         if algorithm \<noteq> ''sha256''
         then Inl (Msg (''unsupported algorithm: '' @ algorithm @ '', expected sha256''))
         else Inr (trim_prefix ''sha256='' (GenerateSignature secret body) = providedSignature))"

definition hex_val :: "char \<Rightarrow> nat option" where
  "hex_val c = (if is_digit c then Some (digit_val c)
     else if CHR ''a'' \<le> c \<and> c \<le> CHR ''f'' then Some (of_char c - 87)
     else if CHR ''A'' \<le> c \<and> c \<le> CHR ''F'' then Some (of_char c - 55) else None)"

text \<open>\<open>hex.DecodeString\<close>: pairs of digits, in either case.\<close>

fun hex_decode :: "string \<Rightarrow> string option" where
  "hex_decode [] = Some []"
| "hex_decode [c] = None"
| "hex_decode (a # b # s) = (case (hex_val a, hex_val b, hex_decode s) of
       (Some x, Some y, Some r) \<Rightarrow> Some (char_of (16 * x + y) # r) | _ \<Rightarrow> None)"

definition ValidateSignatureFormat :: "string \<Rightarrow> go_err option" where
  "ValidateSignatureFormat signatureHeader =
     (if signatureHeader = [] then Some (Msg ''signature header is empty'')
      else case split_equals signatureHeader of
        None \<Rightarrow> Some (Msg (''invalid format: expected '' @ CHR 0x27 # ''algorithm=value'' @ [CHR 0x27]))
      | Some (algorithm, signatureValue) \<Rightarrow>
          if algorithm \<noteq> ''sha256'' then Some (Msg (''unsupported algorithm: '' @ algorithm @ '', expected sha256''))
          else if signatureValue = [] then Some (Msg ''signature value is empty'')
          else if hex_decode signatureValue = None
          then Some (Wrap ''signature value is not valid hex: '' (ExtErr ''encoding/hex''))
          else if length signatureValue \<noteq> 64
          then Some (Msg (''invalid SHA256 hex length: got '' @ show_nat (length signatureValue) @ '', expected 64''))
          else None)"

section \<open>The middleware\<close>

record client_cert =
  cc_NotBefore :: int
  cc_NotAfter :: int
  cc_Issuer :: string
  cc_SerialNumber :: string

record callback_request =
  cq_path :: string
  cq_signature :: string
  cq_body :: "go_err + string"
  cq_tls :: "client_cert list option"

record callback_config =
  cb_tls_enabled :: bool
  cb_secret :: string
  cb_allowed_issuers :: "string list"
  cb_whitelisted_serials :: "string list"

definition verifyHMACSignature :: "callback_config \<Rightarrow> callback_request \<Rightarrow> go_err option" where
  "verifyHMACSignature cfg r =
     (if cq_signature r = [] then Some (Msg ''missing X-Signature header'')
      else case split_equals (cq_signature r) of
        None \<Rightarrow> Some (Msg ''invalid X-Signature format, expected sha256=<hex>'')
      | Some (algorithm, providedSignature) \<Rightarrow>
          if algorithm \<noteq> ''sha256'' then Some (Msg ''invalid X-Signature format, expected sha256=<hex>'')
          else case cq_body r of
            Inl e \<Rightarrow> Some (Wrap ''failed to read request body: '' e)
          | Inr body \<Rightarrow>
              if cb_secret cfg = [] then Some (Msg ''ISO20022_CALLBACK_HMAC_SECRET not configured'')
              else if hmac_hex (cb_secret cfg) body \<noteq> providedSignature then Some (Msg ''signature mismatch'')
              else None)"

definition checkAllowedIssuers :: "callback_config \<Rightarrow> string \<Rightarrow> go_err option" where
  "checkAllowedIssuers cfg issuer =
     (if cb_allowed_issuers cfg = [] \<or> (\<exists>a \<in> set (cb_allowed_issuers cfg). is_substring a issuer) then None
      else Some (Msg ''client certificate issuer not in allowed list''))"

definition checkWhitelistedSerials :: "callback_config \<Rightarrow> string \<Rightarrow> go_err option" where
  "checkWhitelistedSerials cfg serial =
     (if cb_whitelisted_serials cfg = [] \<or> serial \<in> set (cb_whitelisted_serials cfg) then None
      else Some (Msg ''client certificate serial not whitelisted''))"

definition verifyMutualTLS :: "callback_config \<Rightarrow> int \<Rightarrow> callback_request \<Rightarrow> go_err option" where
  "verifyMutualTLS cfg t r = (case cq_tls r of
       None \<Rightarrow> Some (Msg ''TLS connection information not available'')
     | Some [] \<Rightarrow> Some (Msg ''client certificate not provided'')
     | Some (clientCert # _) \<Rightarrow>
         if t < cc_NotBefore clientCert then Some (Msg ''certificate not yet valid'')
         else if cc_NotAfter clientCert < t then Some (Msg ''certificate expired'')
         else (case checkAllowedIssuers cfg (cc_Issuer clientCert) of
             Some e \<Rightarrow> Some e
           | None \<Rightarrow> checkWhitelistedSerials cfg (cc_SerialNumber clientCert)))"

definition callbackEndpoints :: "string list" where
  "callbackEndpoints = [''/pacs008'', ''/pacs002'', ''/pacs028'', ''/acmt023'', ''/acmt024'']"

text \<open>\<open>None\<close>: the next handler runs; otherwise the text of the 401 answer.\<close>

definition ISO20022CallbackAuth :: "callback_config \<Rightarrow> int \<Rightarrow> callback_request \<Rightarrow> string option" where
  "ISO20022CallbackAuth cfg t r =
     (if cq_path r \<notin> set callbackEndpoints then None
      else if cb_tls_enabled cfg
      then (if verifyMutualTLS cfg t r \<noteq> None then Some ''MTLS verification failed'' else None)
      else (if verifyHMACSignature cfg r \<noteq> None then Some ''HMAC verification failed'' else None))"

section \<open>Signatures agree\<close>

lemma split_equals_Some_iff:
  "split_equals s = Some (a, b) \<longleftrightarrow> s = a @ CHR ''='' # b \<and> CHR ''='' \<notin> set a"
proof
  assume h: "split_equals s = Some (a, b)"
  then obtain c where d: "dropWhile (\<lambda>c. c \<noteq> CHR ''='') s = c # b" and a: "a = takeWhile (\<lambda>c. c \<noteq> CHR ''='') s"
    by (auto simp: split_equals_def split: list.splits)
  have "c = CHR ''=''" using hd_dropWhile [of "\<lambda>c. c \<noteq> CHR ''=''" s] d by simp
  moreover have "s = a @ c # b" using takeWhile_dropWhile_id [of "\<lambda>c. c \<noteq> CHR ''=''" s] d a by simp
  ultimately show "s = a @ CHR ''='' # b \<and> CHR ''='' \<notin> set a" using a by (auto dest: set_takeWhileD)
next
  assume "s = a @ CHR ''='' # b \<and> CHR ''='' \<notin> set a"
  then show "split_equals s = Some (a, b)"
    by (auto simp: split_equals_def takeWhile_append dropWhile_append)
qed

lemma trim_generated: "trim_prefix ''sha256='' (GenerateSignature secret body) = hmac_hex secret body"
  by (simp add: trim_prefix_def GenerateSignature_def is_prefix_def)

lemma length_hmac_hex: "length (hmac_hex secret body) = 64"
  by (simp add: hmac_hex_def hmac_sha256_def length_hex_encode length_sha256 Let_def)

end
