(* ===== verification/Rate_Limit.thy ===== *)
theory Rate_Limit
  imports USSD Handlers
begin

text \<open>
  The request counter in front of every endpoint: \<open>src/internal/middleware/ratelimit.go\<close>.

  A request is its path and the client's address (\<open>RealIP\<close> of theory \<open>Commons\<close>); the answer is the
  limit and the remaining number of the response headers, and whether the next handler runs.  The
  pipeline of \<open>INCR\<close> and \<open>EXPIRE\<close> is the one of theory \<open>USSD\<close>.  Redis counts in 64 bits.
\<close>

record rate_config =
  rl_Limit :: int
  rl_Window :: int

definition AuthStrict :: rate_config where
  "AuthStrict = \<lparr>rl_Limit = 5, rl_Window = 15 * 60 * second\<rparr>"

definition AuthGeneral :: rate_config where
  "AuthGeneral = \<lparr>rl_Limit = 10, rl_Window = 10 * 60 * second\<rparr>"

definition GlobalLimit :: rate_config where
  "GlobalLimit = \<lparr>rl_Limit = 60, rl_Window = 60 * second\<rparr>"

text \<open>A request goes on, with or without the counter's headers, or is refused with status 429 and
  the seconds of \<open>Retry-After\<close>.\<close>

datatype rate_answer = PassUncounted | PassCounted int int | TooMany int int int

definition limit_key :: "string \<Rightarrow> string \<Rightarrow> string" where
  "limit_key path ip = ''rl:'' @ path @ '':'' @ ip"

definition increment :: "string \<Rightarrow> int \<Rightarrow> int go" where
  "increment key window = redis_incr_expire key window"

definition RateLimiter :: "rate_config \<Rightarrow> string \<Rightarrow> string \<Rightarrow> rate_answer go" where
  "RateLimiter cfg path ip =
     catching (increment (limit_key path ip) (rl_Window cfg)) (\<lambda>_. ret PassUncounted) (\<lambda>count.
       let remaining = max 0 (rl_Limit cfg - count) in
       if rl_Limit cfg < count then ret (TooMany (rl_Limit cfg) remaining (rl_Window cfg div second))
       else ret (PassCounted (rl_Limit cfg) remaining))"

definition passes :: "rate_answer \<Rightarrow> bool" where
  "passes a \<longleftrightarrow> (case a of TooMany _ _ _ \<Rightarrow> False | _ \<Rightarrow> True)"

section \<open>Sequences of requests\<close>

definition wait :: "int \<Rightarrow> world \<Rightarrow> world" where
  "wait d w = w\<lparr>now := now w + d\<rparr>"

text \<open>The same client and path again and again, after the given times.\<close>

fun request_run :: "rate_config \<Rightarrow> string \<Rightarrow> string \<Rightarrow> int list \<Rightarrow> world \<Rightarrow> rate_answer outcome list" where
  "request_run cfg path ip [] w = []"
| "request_run cfg path ip (d # ds) w =
     (case RateLimiter cfg path ip (wait d w) of (r, w') \<Rightarrow> r # request_run cfg path ip ds w')"

text \<open>The counter stands at \<open>n\<close> and lives for the whole window.\<close>

definition counted :: "rate_config \<Rightarrow> string \<Rightarrow> int \<Rightarrow> world \<Rightarrow> bool" where
  "counted cfg k n w \<longleftrightarrow> faults w = [] \<and> (if n = 0 then redis_live k w = None
     else redis w k = Some (RInt n, now w + rl_Window cfg))"

lemma RateLimiter_counted:
  assumes "counted cfg (limit_key path ip) n w" and "0 \<le> n" and "0 \<le> d" and "d < rl_Window cfg"
    and "n = 0 \<Longrightarrow> redis_live (limit_key path ip) (wait d w) = None"
  shows "\<exists>w'. RateLimiter cfg path ip (wait d w) = (Done (if rl_Limit cfg < n + 1
      then TooMany (rl_Limit cfg) (max 0 (rl_Limit cfg - (n + 1))) (rl_Window cfg div second)
      else PassCounted (rl_Limit cfg) (max 0 (rl_Limit cfg - (n + 1)))), w') \<and>
    counted cfg (limit_key path ip) (n + 1) w'"
proof -
  let ?k = "limit_key path ip"
  let ?w' = "redis_put ?k (RInt (n + 1)) (rl_Window cfg) (used_fault (wait d w))"
  have f: "faults (wait d w) = []" using assms(1) by (simp add: counted_def wait_def)
  have l: "(case redis_live ?k (wait d w) of Some (RInt n) \<Rightarrow> n + 1 | _ \<Rightarrow> 1) = n + 1"
  proof (cases "n = 0")
    case True
    then show ?thesis using assms(5) by simp
  next
    case False
    with assms(1,4) show ?thesis by (simp add: counted_def redis_live_def wait_def)
  qed
  have i: "increment ?k (rl_Window cfg) (wait d w) = (Done (n + 1), ?w')"
    using f l by (simp add: increment_def redis_incr_expire_def next_fault_def Let_def)
  have "counted cfg ?k (n + 1) ?w'"
    using assms(2) f by (simp add: counted_def redis_put_def used_fault_def)
  then show ?thesis by (simp add: RateLimiter_def catching_def attempt_def bind_def i ret_def)
qed

lemma not_live_later: "redis_live k w = None \<Longrightarrow> 0 \<le> d \<Longrightarrow> redis_live k (wait d w) = None"
  by (auto simp: redis_live_def wait_def split: option.splits if_splits)

lemma request_run_counted:
  assumes "counted cfg (limit_key path ip) n w" and "0 \<le> n" and "\<forall>d \<in> set ds. 0 \<le> d \<and> d < rl_Window cfg"
  shows "map (\<lambda>r. \<exists>a. r = Done a \<and> passes a) (request_run cfg path ip ds w) =
    map (\<lambda>i. n + int i < rl_Limit cfg) [0..<length ds]"
  using assms
proof (induction ds arbitrary: n w)
  case (Cons d ds)
  have z: "n = 0 \<Longrightarrow> redis_live (limit_key path ip) (wait d w) = None"
    using Cons.prems(1,3) not_live_later by (simp add: counted_def)
  obtain w' where r: "RateLimiter cfg path ip (wait d w) = (Done (if rl_Limit cfg < n + 1
      then TooMany (rl_Limit cfg) (max 0 (rl_Limit cfg - (n + 1))) (rl_Window cfg div second)
      else PassCounted (rl_Limit cfg) (max 0 (rl_Limit cfg - (n + 1)))), w')"
    and c: "counted cfg (limit_key path ip) (n + 1) w'"
    using RateLimiter_counted [OF Cons.prems(1,2) _ _ z] Cons.prems(3) by auto
  have "map (\<lambda>r. \<exists>a. r = Done a \<and> passes a) (request_run cfg path ip ds w') =
      map (\<lambda>i. n + 1 + int i < rl_Limit cfg) [0..<length ds]"
    using Cons.IH [OF c] Cons.prems(2,3) by simp
  moreover have "[0..<length (d # ds)] = 0 # map Suc [0..<length ds]"
    by (simp only: list.size map_Suc_upt upt_conv_Cons [of 0]) (simp add: upt_conv_Cons)
  ultimately show ?case by (simp add: r passes_def comp_def add.commute add.left_commute)
qed simp

end
