(* ===== verification/Gateway_Props.thy ===== *)
theory Gateway_Props
  imports Callback_Auth Rate_Limit
begin

text \<open>
  The two gates in front of the handlers: the signature of a callback and the number of requests.
\<close>

unbundle bit_operations_syntax

section \<open>Signatures\<close>

lemma split_generated:
  "split_equals (GenerateSignature secret body) = Some (''sha256'', hmac_hex secret body)"
  by (simp add: split_equals_Some_iff GenerateSignature_def)

lemma GenerateSignature_neq [simp]: "GenerateSignature secret body \<noteq> []" "[] \<noteq> GenerateSignature secret body"
  by (simp_all add: GenerateSignature_def)

lemma split_sha256: "split_equals h = Some (''sha256'', x) \<longleftrightarrow> h = ''sha256='' @ x"
  by (auto simp: split_equals_Some_iff)

lemma verifyHMACSignature_iff:
  "verifyHMACSignature cfg r = None \<longleftrightarrow> (\<exists>body. cq_body r = Inr body \<and> cb_secret cfg \<noteq> [] \<and>
     cq_signature r = GenerateSignature (cb_secret cfg) body)"
proof (cases "\<exists>body. cq_signature r = GenerateSignature (cb_secret cfg) body \<and> cq_body r = Inr body")
  case True
  then show ?thesis by (auto simp: verifyHMACSignature_def split_generated)
next
  case False
  then show ?thesis
    by (auto simp: verifyHMACSignature_def split_sha256 GenerateSignature_def split: option.splits sum.splits if_splits)
qed

lemma VerifySignature_iff:
  "VerifySignature secret body header = Inr True \<longleftrightarrow> header = GenerateSignature secret body"
proof (cases "header = GenerateSignature secret body")
  case True
  then show ?thesis by (simp add: VerifySignature_def trim_generated split_generated)
next
  case False
  then show ?thesis unfolding VerifySignature_def trim_generated
    by (auto simp: split_sha256 GenerateSignature_def split: option.splits if_splits)
qed

lemma hex_val_digit: "d < 16 \<Longrightarrow> hex_val (hex_digit d) = Some d"
proof -
  assume "d < 16"
  then have "d \<in> set [0..<16]" by simp
  moreover have "list_all (\<lambda>d. hex_val (hex_digit d) = Some d) [0..<16]" by code_simp
  ultimately show ?thesis unfolding list_all_iff by blast
qed

lemma hex_decode_encode: "\<forall>b \<in> set bs. b < 256 \<Longrightarrow> hex_decode (hex_encode bs) = Some (map char_of bs)"
  by (induction bs) (simp_all add: hex_encode_def hex_val_digit less_mult_imp_div_less)

lemma low_byte: "unat (x AND 255 :: 32 word) < 256"
  using word_and_le1 [of x 255] by (simp add: word_le_nat_alt)

lemma sha256_bytes: "b \<in> set (sha256 m) \<Longrightarrow> b < 256"
  by (auto simp: sha256_def Let_def bytes_of_word_def intro: low_byte)


text \<open>The path of message rejects is not among the protected ones.\<close>

lemma rejects_unprotected: "cq_path r = ''/admi002'' \<Longrightarrow> ISO20022CallbackAuth cfg t r = None"
  by (simp add: ISO20022CallbackAuth_def callbackEndpoints_def)

section \<open>Requests\<close>


section \<open>Applied\<close>

definition sample_gate :: callback_config where
  "sample_gate = \<lparr>cb_tls_enabled = False, cb_secret = ''s'', cb_allowed_issuers = [], cb_whitelisted_serials = []\<rparr>"

definition sample_callback :: callback_request where
  "sample_callback = \<lparr>cq_path = ''/pacs002'', cq_signature = GenerateSignature ''s'' ''<x/>'',
     cq_body = Inr ''<x/>'', cq_tls = None\<rparr>"



end
