(* ===== verification/DES.thy ===== *)
theory DES
  imports "HOL-Library.Word" SHA256
begin

text \<open>
  The block cipher of the card network, as the Go library's \<open>crypto/des\<close> and \<open>crypto/cipher\<close> compute
  it: DES after FIPS 46-3, the triple DES of \<open>des.NewTripleDESCipher\<close> and the chaining of
  \<open>cipher.NewCBCEncrypter\<close>.

  \<^item> A byte is an \<open>8 word\<close>, a bit a \<open>bool\<close>, the first bit of a list the most significant; the tables
    count the bits from one, as the standard does.
  \<^item> Decryption inverts encryption whatever the tables of the round function hold: each round is
    undone by itself (\<open>rounds_back\<close>), and the initial and the final permutation are inverse.
\<close>

type_synonym bytes = "8 word list"

section \<open>Bits\<close>

definition byte_bits :: "8 word \<Rightarrow> bool list" where
  "byte_bits b = map (bit b) [7, 6, 5, 4, 3, 2, 1, 0]"

definition byte_of_bits :: "bool list \<Rightarrow> 8 word" where
  "byte_of_bits bs = horner_sum of_bool 2 (rev bs)"

definition block_bits :: "bytes \<Rightarrow> bool list" where
  "block_bits bs = concat (map byte_bits bs)"

definition block_of_bits :: "bool list \<Rightarrow> bytes" where
  "block_of_bits bs = map byte_of_bits (chunks 8 8 bs)"

definition xor_bits :: "bool list \<Rightarrow> bool list \<Rightarrow> bool list" where
  "xor_bits a b = map2 (\<noteq>) a b"

definition permute :: "nat list \<Rightarrow> 'a list \<Rightarrow> 'a list" where
  "permute t b = map (\<lambda>i. b ! (i - 1)) t"

section \<open>Tables\<close>

definition initial_table :: "nat list" where
  "initial_table =
    [58, 50, 42, 34, 26, 18, 10, 2, 60, 52, 44, 36, 28, 20, 12, 4,
     62, 54, 46, 38, 30, 22, 14, 6, 64, 56, 48, 40, 32, 24, 16, 8,
     57, 49, 41, 33, 25, 17, 9, 1, 59, 51, 43, 35, 27, 19, 11, 3,
     61, 53, 45, 37, 29, 21, 13, 5, 63, 55, 47, 39, 31, 23, 15, 7]"

definition final_table :: "nat list" where
  "final_table =
    [40, 8, 48, 16, 56, 24, 64, 32, 39, 7, 47, 15, 55, 23, 63, 31,
     38, 6, 46, 14, 54, 22, 62, 30, 37, 5, 45, 13, 53, 21, 61, 29,
     36, 4, 44, 12, 52, 20, 60, 28, 35, 3, 43, 11, 51, 19, 59, 27,
     34, 2, 42, 10, 50, 18, 58, 26, 33, 1, 41, 9, 49, 17, 57, 25]"

definition expand_table :: "nat list" where
  "expand_table =
    [32, 1, 2, 3, 4, 5, 4, 5, 6, 7, 8, 9, 8, 9, 10, 11,
     12, 13, 12, 13, 14, 15, 16, 17, 16, 17, 18, 19, 20, 21, 20, 21,
     22, 23, 24, 25, 24, 25, 26, 27, 28, 29, 28, 29, 30, 31, 32, 1]"

definition round_table :: "nat list" where
  "round_table =
    [16, 7, 20, 21, 29, 12, 28, 17, 1, 15, 23, 26, 5, 18, 31, 10,
     2, 8, 24, 14, 32, 27, 3, 9, 19, 13, 30, 6, 22, 11, 4, 25]"

definition key_table :: "nat list" where
  "key_table =
    [57, 49, 41, 33, 25, 17, 9, 1, 58, 50, 42, 34, 26, 18, 10, 2,
     59, 51, 43, 35, 27, 19, 11, 3, 60, 52, 44, 36, 63, 55, 47, 39,
     31, 23, 15, 7, 62, 54, 46, 38, 30, 22, 14, 6, 61, 53, 45, 37,
     29, 21, 13, 5, 28, 20, 12, 4]"

definition round_key_table :: "nat list" where
  "round_key_table =
    [14, 17, 11, 24, 1, 5, 3, 28, 15, 6, 21, 10, 23, 19, 12, 4,
     26, 8, 16, 7, 27, 20, 13, 2, 41, 52, 31, 37, 47, 55, 30, 40,
     51, 45, 33, 48, 44, 49, 39, 56, 34, 53, 46, 42, 50, 36, 29, 32]"

definition key_shifts :: "nat list" where
  "key_shifts = [1, 1, 2, 2, 2, 2, 2, 2, 1, 2, 2, 2, 2, 2, 2, 1]"

definition s_boxes :: "nat list list" where
  "s_boxes = [
    [14, 4, 13, 1, 2, 15, 11, 8, 3, 10, 6, 12, 5, 9, 0, 7, 0, 15, 7, 4, 14, 2, 13, 1, 10, 6, 12, 11, 9, 5, 3, 8,
     4, 1, 14, 8, 13, 6, 2, 11, 15, 12, 9, 7, 3, 10, 5, 0, 15, 12, 8, 2, 4, 9, 1, 7, 5, 11, 3, 14, 10, 0, 6, 13],
    [15, 1, 8, 14, 6, 11, 3, 4, 9, 7, 2, 13, 12, 0, 5, 10, 3, 13, 4, 7, 15, 2, 8, 14, 12, 0, 1, 10, 6, 9, 11, 5,
     0, 14, 7, 11, 10, 4, 13, 1, 5, 8, 12, 6, 9, 3, 2, 15, 13, 8, 10, 1, 3, 15, 4, 2, 11, 6, 7, 12, 0, 5, 14, 9],
    [10, 0, 9, 14, 6, 3, 15, 5, 1, 13, 12, 7, 11, 4, 2, 8, 13, 7, 0, 9, 3, 4, 6, 10, 2, 8, 5, 14, 12, 11, 15, 1,
     13, 6, 4, 9, 8, 15, 3, 0, 11, 1, 2, 12, 5, 10, 14, 7, 1, 10, 13, 0, 6, 9, 8, 7, 4, 15, 14, 3, 11, 5, 2, 12],
    [7, 13, 14, 3, 0, 6, 9, 10, 1, 2, 8, 5, 11, 12, 4, 15, 13, 8, 11, 5, 6, 15, 0, 3, 4, 7, 2, 12, 1, 10, 14, 9,
     10, 6, 9, 0, 12, 11, 7, 13, 15, 1, 3, 14, 5, 2, 8, 4, 3, 15, 0, 6, 10, 1, 13, 8, 9, 4, 5, 11, 12, 7, 2, 14],
    [2, 12, 4, 1, 7, 10, 11, 6, 8, 5, 3, 15, 13, 0, 14, 9, 14, 11, 2, 12, 4, 7, 13, 1, 5, 0, 15, 10, 3, 9, 8, 6,
     4, 2, 1, 11, 10, 13, 7, 8, 15, 9, 12, 5, 6, 3, 0, 14, 11, 8, 12, 7, 1, 14, 2, 13, 6, 15, 0, 9, 10, 4, 5, 3],
    [12, 1, 10, 15, 9, 2, 6, 8, 0, 13, 3, 4, 14, 7, 5, 11, 10, 15, 4, 2, 7, 12, 9, 5, 6, 1, 13, 14, 0, 11, 3, 8,
     9, 14, 15, 5, 2, 8, 12, 3, 7, 0, 4, 10, 1, 13, 11, 6, 4, 3, 2, 12, 9, 5, 15, 10, 11, 14, 1, 7, 6, 0, 8, 13],
    [4, 11, 2, 14, 15, 0, 8, 13, 3, 12, 9, 7, 5, 10, 6, 1, 13, 0, 11, 7, 4, 9, 1, 10, 14, 3, 5, 12, 2, 15, 8, 6,
     1, 4, 11, 13, 12, 3, 7, 14, 10, 15, 6, 8, 0, 5, 9, 2, 6, 11, 13, 8, 1, 4, 10, 7, 9, 5, 0, 15, 14, 2, 3, 12],
    [13, 2, 8, 4, 6, 15, 11, 1, 10, 9, 3, 14, 5, 0, 12, 7, 1, 15, 13, 8, 10, 3, 7, 4, 12, 5, 6, 11, 0, 14, 9, 2,
     7, 11, 4, 1, 9, 12, 14, 2, 0, 6, 10, 13, 15, 3, 5, 8, 2, 1, 14, 7, 4, 10, 8, 13, 15, 12, 9, 0, 3, 5, 6, 11]]"

section \<open>Rounds\<close>

definition nibble_bits :: "nat \<Rightarrow> bool list" where
  "nibble_bits n = [odd (n div 8), odd (n div 4), odd (n div 2), odd n]"

definition bits_value :: "bool list \<Rightarrow> nat" where
  "bits_value bs = foldl (\<lambda>n b. 2 * n + of_bool b) 0 bs"

text \<open>The outer two bits choose the row of a table, the inner four the column.\<close>

definition s_box :: "nat list \<Rightarrow> bool list \<Rightarrow> bool list" where
  "s_box t c = nibble_bits (t ! (bits_value [c ! 0, c ! 5] * 16 + bits_value (take 4 (tl c))))"

definition round_function :: "bool list \<Rightarrow> bool list \<Rightarrow> bool list" where
  "round_function k r = permute round_table
     (concat (map2 s_box s_boxes (chunks 8 6 (xor_bits (permute expand_table r) k))))"

definition rounds :: "bool list list \<Rightarrow> bool list \<times> bool list \<Rightarrow> bool list \<times> bool list" where
  "rounds ks s = foldl (\<lambda>(l, r) k. (r, xor_bits l (round_function k r))) s ks"

text \<open>The sixteen round keys: both halves rotated, then chosen from.\<close>

fun round_keys :: "nat list \<Rightarrow> bool list \<Rightarrow> bool list \<Rightarrow> bool list list" where
  "round_keys [] c d = []"
| "round_keys (n # ns) c d = (let c' = rotate n c; d' = rotate n d in
     permute round_key_table (c' @ d') # round_keys ns c' d')"

definition key_schedule :: "bytes \<Rightarrow> bool list list" where
  "key_schedule key = (let b = permute key_table (block_bits key) in
     round_keys key_shifts (take 28 b) (drop 28 b))"

definition des_block :: "bool list list \<Rightarrow> bytes \<Rightarrow> bytes" where
  "des_block ks b = (let x = permute initial_table (block_bits b);
       (l, r) = rounds ks (take 32 x, drop 32 x)
     in block_of_bits (permute final_table (r @ l)))"

definition des_encrypt :: "bytes \<Rightarrow> bytes \<Rightarrow> bytes" where
  "des_encrypt key b = des_block (key_schedule key) b"

definition des_decrypt :: "bytes \<Rightarrow> bytes \<Rightarrow> bytes" where
  "des_decrypt key b = des_block (rev (key_schedule key)) b"

text \<open>\<open>des.NewTripleDESCipher\<close>: the key is three keys of eight bytes.\<close>

definition tdes_encrypt :: "bytes \<Rightarrow> bytes \<Rightarrow> bytes" where
  "tdes_encrypt key b = des_encrypt (drop 16 key) (des_decrypt (take 8 (drop 8 key)) (des_encrypt (take 8 key) b))"

definition tdes_decrypt :: "bytes \<Rightarrow> bytes \<Rightarrow> bytes" where
  "tdes_decrypt key b = des_decrypt (take 8 key) (des_encrypt (take 8 (drop 8 key)) (des_decrypt (drop 16 key) b))"

section \<open>Chaining\<close>

unbundle bit_operations_syntax

definition xor_bytes :: "bytes \<Rightarrow> bytes \<Rightarrow> bytes" where
  "xor_bytes a b = map2 (\<lambda>x y. x XOR y) a b"

text \<open>\<open>CryptBlocks\<close> for a number of blocks of eight bytes.\<close>

fun cbc_encrypt :: "(bytes \<Rightarrow> bytes) \<Rightarrow> nat \<Rightarrow> bytes \<Rightarrow> bytes \<Rightarrow> bytes" where
  "cbc_encrypt enc 0 iv p = []"
| "cbc_encrypt enc (Suc n) iv p = (let c = enc (xor_bytes (take 8 p) iv) in c @ cbc_encrypt enc n c (drop 8 p))"

fun cbc_decrypt :: "(bytes \<Rightarrow> bytes) \<Rightarrow> nat \<Rightarrow> bytes \<Rightarrow> bytes \<Rightarrow> bytes" where
  "cbc_decrypt dec 0 iv c = []"
| "cbc_decrypt dec (Suc n) iv c = xor_bytes (dec (take 8 c)) iv @ cbc_decrypt dec n (take 8 c) (drop 8 c)"

section \<open>A cipher and its chaining\<close>

text \<open>What the chaining asks of a cipher, and what it gives then.\<close>

lemma length_xor_bytes [simp]: "length (xor_bytes a b) = min (length a) (length b)"
  by (simp add: xor_bytes_def)

lemma xor_bytes_twice: "length a \<le> length b \<Longrightarrow> xor_bytes (xor_bytes a b) b = a"
  by (rule nth_equalityI) (simp_all add: xor_bytes_def xor.assoc)

locale block_cipher =
  fixes enc dec :: "bytes \<Rightarrow> bytes"
  assumes dec_enc: "length b = 8 \<Longrightarrow> dec (enc b) = b"
    and length_enc: "length b = 8 \<Longrightarrow> length (enc b) = 8"
begin

lemma length_cbc: "length iv = 8 \<Longrightarrow> length p = 8 * n \<Longrightarrow> length (cbc_encrypt enc n iv p) = 8 * n"
  by (induction n arbitrary: iv p) (simp_all add: length_enc Let_def)

lemma cbc_decrypt_encrypt:
  "length iv = 8 \<Longrightarrow> length p = 8 * n \<Longrightarrow> cbc_decrypt dec n iv (cbc_encrypt enc n iv p) = p"
proof (induction n arbitrary: iv p)
  case (Suc n)
  let ?x = "xor_bytes (take 8 p) iv"
  have x: "length ?x = 8" using Suc.prems by simp
  have "xor_bytes (dec (enc ?x)) iv = take 8 p"
    using dec_enc [OF x] xor_bytes_twice [of "take 8 p" iv] Suc.prems by simp
  moreover have "cbc_decrypt dec n (enc ?x) (cbc_encrypt enc n (enc ?x) (drop 8 p)) = drop 8 p"
    using Suc.IH [of "enc ?x" "drop 8 p"] length_enc [OF x] Suc.prems by simp
  ultimately show ?case using length_enc [OF x] by (simp add: Let_def)
qed simp

end

section \<open>DES is such a cipher\<close>

lemma length_chunks: "length (chunks k n xs) = k"
  by (induction k n xs rule: chunks.induct) simp_all

lemma concat_chunks: "length xs = k * n \<Longrightarrow> concat (chunks k n xs) = xs"
  by (induction k n xs rule: chunks.induct) simp_all

lemma chunks_concat: "\<forall>x \<in> set xs. length x = n \<Longrightarrow> chunks (length xs) n (concat xs) = xs"
  by (induction xs) simp_all

lemma chunks_lengths: "length xs = k * n \<Longrightarrow> x \<in> set (chunks k n xs) \<Longrightarrow> length x = n"
  by (induction k n xs rule: chunks.induct) auto

lemma length_byte_bits [simp]: "length (byte_bits b) = 8"
  by (simp add: byte_bits_def)

lemma byte_bits_rev: "byte_bits b = rev (map (bit b) [0..<8])"
  by (simp add: byte_bits_def upt_rec numeral_eq_Suc)

lemma byte_round_trip: "byte_of_bits (byte_bits b) = b"
  by (simp add: byte_of_bits_def byte_bits_rev horner_sum_bit_eq_take_bit take_bit_word_eq_self)

lemma bits_round_trip: "length x = 8 \<Longrightarrow> byte_bits (byte_of_bits x) = x"
  by (rule nth_equalityI)
     (auto simp: byte_of_bits_def byte_bits_rev rev_nth bit_horner_sum_bit_iff)

lemma length_block_bits [simp]: "length (block_bits b) = 8 * length b"
  by (induction b) (simp_all add: block_bits_def)

lemma length_block_of_bits [simp]: "length (block_of_bits x) = 8"
  by (simp add: block_of_bits_def length_chunks)

lemma block_round_trip: "length b = 8 \<Longrightarrow> block_of_bits (block_bits b) = b"
proof -
  assume b: "length b = 8"
  then have "chunks 8 8 (block_bits b) = map byte_bits b"
    using chunks_concat [of "map byte_bits b" 8] by (simp add: block_bits_def)
  then show ?thesis by (simp add: block_of_bits_def byte_round_trip map_idI)
qed

lemma block_bits_of_bits: "length x = 64 \<Longrightarrow> block_bits (block_of_bits x) = x"
proof -
  assume x: "length x = 64"
  have "map byte_bits (map byte_of_bits (chunks 8 8 x)) = chunks 8 8 x"
    using chunks_lengths [of x 8 8] x by (simp add: map_idI bits_round_trip)
  then show ?thesis using concat_chunks [of x 8 8] x by (simp add: block_bits_def block_of_bits_def)
qed

lemma length_permute [simp]: "length (permute t b) = length t"
  by (simp add: permute_def)

lemma permute_permute:
  assumes "\<forall>i \<in> set u. i - 1 < length t"
  shows "permute u (permute t b) = permute (map (\<lambda>i. t ! (i - 1)) u) b"
  using assms by (simp add: permute_def)

lemma permute_id: "length b = n \<Longrightarrow> permute [1..<Suc n] b = b"
  by (rule nth_equalityI) (simp_all add: permute_def del: upt_Suc)

lemma length_tables: "length initial_table = 64" "length final_table = 64" "length round_table = 32"
  by code_simp+

lemma final_initial: "length b = 64 \<Longrightarrow> permute final_table (permute initial_table b) = b"
proof -
  assume "length b = 64"
  moreover have "\<forall>i \<in> set final_table. i - 1 < length initial_table" by code_simp
  moreover have "map (\<lambda>i. initial_table ! (i - 1)) final_table = [1..<Suc 64]" by code_simp
  ultimately show ?thesis using permute_permute permute_id by metis
qed

lemma initial_final: "length b = 64 \<Longrightarrow> permute initial_table (permute final_table b) = b"
proof -
  assume "length b = 64"
  moreover have "\<forall>i \<in> set initial_table. i - 1 < length final_table" by code_simp
  moreover have "map (\<lambda>i. final_table ! (i - 1)) initial_table = [1..<Suc 64]" by code_simp
  ultimately show ?thesis using permute_permute permute_id by metis
qed

lemma length_round_function: "length (round_function k r) = 32"
  by (simp add: round_function_def length_tables)

lemma xor_bits_twice: "length a \<le> length b \<Longrightarrow> xor_bits (xor_bits a b) b = a"
  by (rule nth_equalityI) (auto simp: xor_bits_def)

lemma length_rounds:
  "length l = 32 \<Longrightarrow> length r = 32 \<Longrightarrow> length (fst (rounds ks (l, r))) = 32 \<and> length (snd (rounds ks (l, r))) = 32"
  by (induction ks arbitrary: l r) (simp_all add: rounds_def xor_bits_def length_round_function)

text \<open>Running the rounds in the opposite order on the swapped halves leads back.\<close>

lemma rounds_back:
  assumes "length l = 32" and "length r = 32" and "rounds ks (l, r) = (l', r')"
  shows "rounds (rev ks) (r', l') = (r, l)"
  using assms
proof (induction ks arbitrary: l r)
  case Nil
  then show ?case by (simp add: rounds_def)
next
  case (Cons k ks)
  let ?r = "xor_bits l (round_function k r)"
  have "rounds ks (r, ?r) = (l', r')" using Cons.prems by (simp add: rounds_def)
  moreover have "length ?r = 32" using Cons.prems by (simp add: xor_bits_def length_round_function)
  ultimately have "rounds (rev ks) (r', l') = (?r, r)" using Cons.IH Cons.prems by blast
  then show ?case using xor_bits_twice [of l "round_function k r"] Cons.prems
    by (simp add: rounds_def length_round_function)
qed

lemma des_block_back: "length b = 8 \<Longrightarrow> des_block (rev ks) (des_block ks b) = b"
proof -
  assume b: "length b = 8"
  let ?x = "permute initial_table (block_bits b)"
  obtain l r where lr: "rounds ks (take 32 ?x, drop 32 ?x) = (l, r)" by fastforce
  have x: "length ?x = 64" by (simp add: length_tables)
  have len: "length l = 32" "length r = 32" using length_rounds [of "take 32 ?x" "drop 32 ?x" ks] lr x by simp_all
  have e: "des_block ks b = block_of_bits (permute final_table (r @ l))" by (simp add: des_block_def lr)
  have i: "permute initial_table (block_bits (des_block ks b)) = r @ l"
    using initial_final [of "r @ l"] len by (simp add: e block_bits_of_bits length_tables)
  have "rounds (rev ks) (r, l) = (drop 32 ?x, take 32 ?x)" using rounds_back [OF _ _ lr] x by simp
  then have "des_block (rev ks) (des_block ks b) = block_of_bits (permute final_table ?x)"
    unfolding des_block_def [of "rev ks"] i using len by simp
  then show ?thesis using final_initial [of "block_bits b"] b by (simp add: block_round_trip)
qed

lemma length_des_block [simp]: "length (des_block ks b) = 8"
  by (simp add: des_block_def Let_def split: prod.split)

lemma des_inverse: "length b = 8 \<Longrightarrow> des_decrypt k (des_encrypt k b) = b" "length b = 8 \<Longrightarrow> des_encrypt k (des_decrypt k b) = b"
  using des_block_back [of b "key_schedule k"] des_block_back [of b "rev (key_schedule k)"]
  by (simp_all add: des_encrypt_def des_decrypt_def)

lemma length_des [simp]: "length (des_encrypt k b) = 8" "length (des_decrypt k b) = 8"
  by (simp_all add: des_encrypt_def des_decrypt_def)

interpretation tdes: block_cipher "tdes_encrypt key" "tdes_decrypt key" for key
  by unfold_locales (simp_all add: tdes_encrypt_def tdes_decrypt_def des_inverse)

end
