(* ===== verification/ISO8583.thy ===== *)
theory ISO8583
  imports Sealing DES Audit_Log
begin

text \<open>
  The messages of the card network, \<open>src/internal/services/iso8583_service.go\<close>.

  \<^item> The message library (\<open>moov-io/iso8583\<close>) is not part of the program: its messages are a type
    variable and its operations the record \<open>moov\<close>.  What the program relies on is \<open>moov_ok\<close>: the
    specification a message was made with stays with it, and a field the specification does
    not have can be neither set nor read.
  \<^item> The specifications are data: a length, an encoding and a prefix for each field.
  \<^item> The clock's texts in the layouts \<open>0102150405\<close>, \<open>150405\<close> and \<open>0102\<close> are arguments, as are the
    configured texts.
\<close>

section \<open>Specifications\<close>

datatype encoding = ASCII | BCD | Binary
datatype prefix = Fixed | LL | LLL | BinaryFixed | BinaryLLL

record field_spec =
  fs_Bitmap :: bool
  fs_Length :: nat
  fs_Enc :: encoding
  fs_Pref :: prefix

type_synonym message_spec = "(nat \<times> field_spec) list"

definition ascii :: "nat \<Rightarrow> prefix \<Rightarrow> field_spec" where
  "ascii n p = \<lparr>fs_Bitmap = False, fs_Length = n, fs_Enc = ASCII, fs_Pref = p\<rparr>"

definition createISO8583MessageSpec :: message_spec where
  "createISO8583MessageSpec =
    [(0, ascii 4 Fixed),
     (1, \<lparr>fs_Bitmap = True, fs_Length = 0, fs_Enc = Binary, fs_Pref = BinaryFixed\<rparr>),
     (2, ascii 19 LL), (3, ascii 6 Fixed), (4, ascii 12 Fixed), (11, ascii 6 Fixed),
     (12, ascii 6 Fixed), (13, ascii 4 Fixed), (14, ascii 4 Fixed), (15, ascii 4 Fixed),
     (18, ascii 4 Fixed), (22, ascii 3 Fixed), (25, ascii 2 Fixed), (26, ascii 2 Fixed),
     (28, ascii 9 Fixed), (32, ascii 11 LL), (33, ascii 11 LL), (35, ascii 37 LL),
     (37, ascii 12 Fixed), (40, ascii 3 Fixed), (41, ascii 8 Fixed), (42, ascii 15 Fixed),
     (43, ascii 40 Fixed), (38, ascii 6 Fixed), (39, ascii 2 Fixed),
     (55, \<lparr>fs_Bitmap = False, fs_Length = 999, fs_Enc = Binary, fs_Pref = BinaryLLL\<rparr>),
     (90, ascii 42 Fixed)]"

definition CreateISO8583_0800_MessageSpec1987 :: message_spec where
  "CreateISO8583_0800_MessageSpec1987 =
    [(0, ascii 4 Fixed),
     (1, \<lparr>fs_Bitmap = True, fs_Length = 8, fs_Enc = Binary, fs_Pref = BinaryFixed\<rparr>),
     (3, ascii 6 Fixed), (7, ascii 10 Fixed), (11, ascii 6 Fixed), (12, ascii 6 Fixed),
     (13, ascii 4 Fixed), (41, ascii 8 Fixed)]"

definition CreateISO8583MessageSpec1987 :: message_spec where
  "CreateISO8583MessageSpec1987 =
    [(0, \<lparr>fs_Bitmap = False, fs_Length = 4, fs_Enc = BCD, fs_Pref = Fixed\<rparr>),
     (1, \<lparr>fs_Bitmap = True, fs_Length = 8, fs_Enc = Binary, fs_Pref = BinaryFixed\<rparr>),
     (2, ascii 19 LL), (32, ascii 11 LL), (35, ascii 37 LL),
     (55, ascii 510 LLL), (120, ascii 999 LLL), (123, ascii 15 LLL),
     (3, ascii 6 Fixed), (4, ascii 12 Fixed), (7, ascii 10 Fixed), (11, ascii 6 Fixed),
     (12, ascii 6 Fixed), (13, ascii 4 Fixed), (14, ascii 4 Fixed), (15, ascii 4 Fixed),
     (16, ascii 4 Fixed), (18, ascii 4 Fixed), (22, ascii 3 Fixed), (23, ascii 3 Fixed),
     (25, ascii 2 Fixed), (26, ascii 2 Fixed), (28, ascii 9 Fixed), (37, ascii 12 Fixed),
     (40, ascii 3 Fixed), (41, ascii 8 Fixed), (42, ascii 15 Fixed), (43, ascii 40 Fixed),
     (49, ascii 3 Fixed), (128, ascii 64 Fixed)]"

definition spec_ids :: "message_spec \<Rightarrow> nat set" where
  "spec_ids s = fst ` set s"

section \<open>The library\<close>

record 'm moov =
  mv_new :: "message_spec \<Rightarrow> 'm"
  mv_spec :: "'m \<Rightarrow> message_spec"
  mv_mti :: "string \<Rightarrow> 'm \<Rightarrow> 'm"
  mv_get_mti :: "'m \<Rightarrow> go_err + string"
  mv_set :: "nat \<Rightarrow> string \<Rightarrow> 'm \<Rightarrow> go_err + 'm"
  mv_set_binary :: "nat \<Rightarrow> bytes \<Rightarrow> 'm \<Rightarrow> go_err + 'm"
  mv_get :: "nat \<Rightarrow> 'm \<Rightarrow> go_err + string"
  mv_get_bytes :: "nat \<Rightarrow> 'm \<Rightarrow> go_err + bytes"
  mv_unset :: "nat \<Rightarrow> 'm \<Rightarrow> 'm"
  mv_clone :: "'m \<Rightarrow> go_err + 'm"
  mv_pack :: "'m \<Rightarrow> go_err + bytes"
  mv_unpack :: "bytes \<Rightarrow> 'm \<Rightarrow> go_err + 'm"

definition moov_ok :: "'m moov \<Rightarrow> bool" where
  "moov_ok lib \<longleftrightarrow>
     (\<forall>s. mv_spec lib (mv_new lib s) = s) \<and>
     (\<forall>t m. mv_spec lib (mv_mti lib t m) = mv_spec lib m) \<and>
     (\<forall>i v m m'. mv_set lib i v m = Inr m' \<longrightarrow> mv_spec lib m' = mv_spec lib m) \<and>
     (\<forall>b m m'. mv_unpack lib b m = Inr m' \<longrightarrow> mv_spec lib m' = mv_spec lib m) \<and>
     (\<forall>i m. i \<notin> spec_ids (mv_spec lib m) \<longrightarrow>
        (\<exists>e. mv_get lib i m = Inl e) \<and> (\<exists>e. mv_get_bytes lib i m = Inl e) \<and>
        (\<forall>v. \<exists>e. mv_set lib i v m = Inl e) \<and> (\<forall>v. \<exists>e. mv_set_binary lib i v m = Inl e))"

text \<open>\<open>_ = msg.Field(i, v)\<close>.\<close>

definition set_field :: "'m moov \<Rightarrow> 'm \<Rightarrow> nat \<times> string \<Rightarrow> 'm" where
  "set_field lib m p = (case mv_set lib (fst p) (snd p) m of Inl _ \<Rightarrow> m | Inr m' \<Rightarrow> m')"

definition with_fields :: "'m moov \<Rightarrow> message_spec \<Rightarrow> string \<Rightarrow> (nat \<times> string) list \<Rightarrow> 'm" where
  "with_fields lib spec mti fs = foldl (set_field lib) (mv_mti lib mti (mv_new lib spec)) fs"

section \<open>Small conversions\<close>

definition processingCode :: "string \<Rightarrow> string" where
  "processingCode txType =
     (if txType = ''CREDIT'' \<or> txType = ''REFUND'' then ''200000''
      else if txType = ''WITHDRAWAL'' then ''010000''
      else ''000000'')"

definition is_hex :: "char \<Rightarrow> bool" where
  "is_hex c \<longleftrightarrow> is_digit c \<or> (CHR ''a'' \<le> c \<and> c \<le> CHR ''f'') \<or> (CHR ''A'' \<le> c \<and> c \<le> CHR ''F'')"

definition isValidEMVHex :: "string \<Rightarrow> bool" where
  "isValidEMVHex s \<longleftrightarrow> \<not> (length s = 0 \<or> 510 < length s \<or> length s mod 2 \<noteq> 0) \<and> list_all is_hex s"

text \<open>\<open>fmt.Sscanf(s, "%d", &n)\<close>: leading blanks, a sign, digits; \<open>n\<close> stays 0 on an error.\<close>

definition parseInstitutionID :: "string \<Rightarrow> int" where
  "parseInstitutionID s =
     (let t = dropWhile (\<lambda>c. is_space c \<and> c \<noteq> CHR 0x0A) s;
          sign = takeWhile (\<lambda>c. c = CHR ''-'' \<or> c = CHR ''+'') (take 1 t);
          ds = takeWhile is_digit (drop (length sign) t)
      in case parse_int (sign @ ds) of None \<Rightarrow> 0 | Some n \<Rightarrow> n)"

text \<open>Slices of a five-byte text; \<open>MM/YY\<close> becomes \<open>YYMM\<close>.\<close>

definition expiryToYYMM :: "string \<Rightarrow> string" where
  "expiryToYYMM expiry =
     (if length expiry \<noteq> 5 \<or> expiry ! 2 \<noteq> CHR ''/'' then ''0000''
      else take 2 (drop 3 expiry) @ take 2 expiry)"

text \<open>\<open>%0kd\<close> counts the sign among its \<open>k\<close> characters.\<close>

definition show_int_pad :: "nat \<Rightarrow> int \<Rightarrow> string" where
  "show_int_pad k i = (if i < 0 then ''-'' @ show_pad (k - 1) (nat (- i)) else show_pad k (nat i))"

text \<open>\<open>%-40s\<close>: blanks on the right.\<close>

definition pad_right :: "nat \<Rightarrow> string \<Rightarrow> string" where
  "pad_right k s = s @ replicate (k - length s) (CHR '' '')"

section \<open>Messages\<close>

record iso8583_config =
  ic_terminalID :: string
  ic_acquiringInstitutionID :: string
  ic_merchantID :: string
  ic_acceptorName :: string
  ic_forwarding :: string
  ic_receiving :: string

definition BuildISO0800Message :: "'m moov \<Rightarrow> 'm" where
  "BuildISO0800Message lib = with_fields lib CreateISO8583_0800_MessageSpec1987 ''0800''
     [(3, ''000000''), (7, ''0312083643''), (11, ''000217''), (12, ''083643''), (13, ''0312''),
      (41, ''2011E169'')]"

definition test_icc :: string where
  "test_icc = ''9F03060000000000009F26084F2282A42BFB77719F2701809F100706010A03A4A0049F37044586EB309F36020B0F950508C00080009A03260312500a566973612044656269749C01009F02060000000040005F2A020566820238009F1A0205669F3303E0F8C89F34034103029F1E0850333930393030308407A00000000310109B02E8009F090201409F410400000002''"

definition test_fields :: "(nat \<times> string) list" where
  "test_fields =
    [(0, ''0200''), (2, ''4187451802934507''), (3, ''000000''), (4, ''000000004000''),
     (7, ''0312083643''), (11, ''000217''), (12, ''083643''), (13, ''0312''), (14, ''2506''),
     (15, ''0312''), (16, ''0312''), (18, ''1234''), (22, ''051''), (23, ''001''), (25, ''00''),
     (26, ''06''), (28, ''C00000000''), (32, ''418745''), (35, ''5399237066431798=1209''),
     (37, ''007941000217''), (40, ''226''), (41, ''2011E169''), (42, ''3662DA447419008''),
     (43, ''PAYZEEP                30 TOWN PLANNLANG''), (49, ''566''), (55, test_icc),
     (120, ''010806.582240209003.56566''), (123, ''510101511344101''),
     (128, ''0A9D1397683307E32D0FD4F5D55E48D5E2B071FEC746A2A2A32E647816F95EDD'')]"

definition BuildISO0200MessageTest :: "'m moov \<Rightarrow> 'm" where
  "BuildISO0200MessageTest lib = with_fields lib CreateISO8583MessageSpec1987 ''0200'' test_fields"

definition request_fields ::
  "iso8583_config \<Rightarrow> string \<Rightarrow> string \<Rightarrow> string \<Rightarrow> string \<Rightarrow> card_payment_request \<Rightarrow> (nat \<times> string) list" where
  "request_fields cfg stamp localTime localDate pan cardReq =
    (let info = cp_CardInfo cardReq;
         stan = show_int_pad 6 (ci_ATC info);
         expiry = expiryToYYMM (ci_ExpiryDate info);
         currencyCode = (if ci_CurrencyCode info = [] then ''566'' else ci_CurrencyCode info)
     in [(2, pan), (3, processingCode (cp_TxType cardReq)), (4, show_int_pad 12 (cp_Amount cardReq)),
      (7, stamp), (11, stan), (12, localTime), (13, localDate), (14, expiry), (15, localDate),
      (18, ''5011''), (22, ''051''), (25, ''00''), (26, ''04''), (28, ''D00000000''),
      (32, ic_acquiringInstitutionID cfg), (33, ic_forwarding cfg), (35, pan @ ''='' @ expiry),
      (37, localDate @ take 2 localTime @ show_int_pad 6 (ci_ATC info)), (40, ''601''),
      (41, ic_terminalID cfg), (42, ic_merchantID cfg), (43, pad_right 40 (ic_acceptorName cfg)),
      (49, currencyCode), (59, show_int_pad 18 (cp_Amount cardReq)),
      (90, ''0200'' @ stan @ stamp @ show_int_pad 11 (parseInstitutionID (ic_acquiringInstitutionID cfg)) @
         show_int_pad 11 (parseInstitutionID (ic_forwarding cfg))),
      (100, ic_receiving cfg), (102, show_int_pad 9 (cp_Amount cardReq)),
      (103, show_int_pad 9 (cp_Amount cardReq)), (123, ''511201513344002''),
      (128, ''088ecae48e4f2acef0c33aeb531a37534f0e58d6eac66d793e38ea2415fa3e12'')])"

definition BuildISO0200Message ::
  "'m moov \<Rightarrow> iso8583_config \<Rightarrow> (string \<Rightarrow> go_err + string) \<Rightarrow> string \<Rightarrow> string \<Rightarrow> string \<Rightarrow>
     card_payment_request \<Rightarrow> go_err + 'm" where
  "BuildISO0200Message lib cfg decryptPII stamp localTime localDate cardReq =
     and_then (wrap_err ''failed to decrypt PAN: '' (decryptPII (ci_EncryptedPAN (cp_CardInfo cardReq)))) (\<lambda>pan.
       Inr (with_fields lib CreateISO8583MessageSpec1987 ''0200''
         (request_fields cfg stamp localTime localDate pan cardReq)))"

definition bytes_hash_hex :: "bytes \<Rightarrow> string" where
  "bytes_hash_hex bs = hex_encode (sha256 (map unat bs))"

definition computeSecondaryHash :: "'m moov \<Rightarrow> 'm \<Rightarrow> go_err + string" where
  "computeSecondaryHash lib msg =
     and_then (wrap_err ''cloning message for hash: '' (mv_clone lib msg)) (\<lambda>clone.
     and_then (wrap_err ''packing for hash: '' (mv_pack lib (mv_unset lib 128 clone))) (\<lambda>packed.
       Inr (bytes_hash_hex packed)))"

section \<open>The log\<close>

text \<open>\<open>xml.EscapeText\<close>, on ASCII text; other control characters become the replacement character.\<close>

definition escape_char :: "char \<Rightarrow> string" where
  "escape_char c =
     (if c = CHR 0x22 then ''&#34;'' else if c = CHR 0x27 then ''&#39;''
      else if c = CHR ''&'' then ''&amp;'' else if c = CHR ''<'' then ''&lt;''
      else if c = CHR ''>'' then ''&gt;'' else if c = CHR 0x09 then ''&#x9;''
      else if c = CHR 0x0A then ''&#xA;'' else if c = CHR 0x0D then ''&#xD;''
      else if c < CHR '' '' then [CHR 0xEF, CHR 0xBF, CHR 0xBD] else [c])"

definition xmlEscape :: "string \<Rightarrow> string" where
  "xmlEscape s = concat (map escape_char s)"

end
