(* ===== verification/NIBSS_Client.thy ===== *)
theory NIBSS_Client
  imports ISO8583 Callback_Auth
begin

text \<open>
  The client of the NIBSS services, \<open>src/internal/services/nibss_client.go\<close>: BVN checks and mandates over
  HTTP, and card settlement over TLS sockets with messages of theory \<open>ISO8583\<close> and the ciphers of theory
  \<open>DES\<close>.

  \<^item> The socket operations are programs over \<open>card_net\<close>: what the dials, the reads and the writes to
    come will give, and what was written so far.  A read that finds nothing more runs into its
    deadline.
  \<^item> A circuit breaker either refuses a call with an error or runs it: \<open>breaker\<close>.
  \<^item> A client may be missing (\<open>None\<close>): its fields are dereferenced by \<open>DialISO8583\<close>, \<open>buildCombinedKey\<close>
    and the breakers; the methods that read no field run.
\<close>

section \<open>Construction\<close>

record nibss_client =
  nc_mandateBaseURL :: string
  nc_iso8583BaseURL :: string
  nc_bvnBaseURL :: string
  nc_apiKey :: string
  nc_componentKey1 :: bytes
  nc_componentKey2 :: bytes
  nc_useISO :: bool
  nc_defaultTimeout :: int
  nc_bvnTimeout :: int
  nc_mandateTimeout :: int
  nc_cardSettlementTimeout :: int

definition fallback :: "string \<Rightarrow> string \<Rightarrow> string" where
  "fallback primary fallbackURL = (if primary \<noteq> [] then primary else fallbackURL)"

text \<open>\<open>hex.DecodeString\<close> with its error ignored: the bytes decoded before it.\<close>

fun hex_prefix :: "string \<Rightarrow> bytes" where
  "hex_prefix (a # b # s) = (case (hex_val a, hex_val b) of
       (Some x, Some y) \<Rightarrow> of_nat (16 * x + y) # hex_prefix s | _ \<Rightarrow> [])"
| "hex_prefix _ = []"

text \<open>\<open>cfg\<close> and \<open>flag\<close> are the configured values; the four services of the client follow \<open>useISO\<close>.\<close>

definition NewNIBSSClient :: "(string \<Rightarrow> string) \<Rightarrow> (string \<Rightarrow> bool) \<Rightarrow> (string \<Rightarrow> int \<Rightarrow> int) \<Rightarrow> nibss_client" where
  "NewNIBSSClient cfg flag timeout =
     (let nibssBase = cfg ''nibss.base_url'' in
      \<lparr>nc_mandateBaseURL = fallback (cfg ''nibss.mandate_url'') nibssBase,
       nc_iso8583BaseURL = fallback (cfg ''nibss.iso8583.base_url'') nibssBase,
       nc_bvnBaseURL = fallback (cfg ''nibss.bvn_url'') nibssBase,
       nc_apiKey = cfg ''nibss.api_key'',
       nc_componentKey1 = hex_prefix (cfg ''nibss.iso8583.component_key_1''),
       nc_componentKey2 = hex_prefix (cfg ''nibss.iso8583.component_key_2''),
       nc_useISO = flag ''useNIBSSISOzNIPSwitch'',
       nc_defaultTimeout = timeout ''nibss.http_timeout'' 30,
       nc_bvnTimeout = timeout ''nibss.bvn_timeout'' 15,
       nc_mandateTimeout = timeout ''nibss.mandate_timeout'' 10,
       nc_cardSettlementTimeout = timeout ''nibss.card_settlement_timeout'' 30\<rparr>)"

section \<open>BVN and mandates\<close>

text \<open>A request is not made, not answered, or answered with a status and a body; \<open>decode\<close> reads the body.\<close>

datatype 'b http_answer = NotMade go_err | NotAnswered go_err | Reply int 'b

record bvn_response =
  bv_BVN :: string
  bv_FirstName :: string
  bv_LastName :: string
  bv_PhoneNumber :: string
  bv_PhoneMatches :: bool
  bv_Status :: string

record mandate_response =
  ma_AccountName :: string
  ma_AccountNumber :: string
  ma_BankName :: string
  ma_BankCode :: string
  ma_Status :: string

definition VerifyBVN ::
  "go_err option \<Rightarrow> (string \<Rightarrow> json \<Rightarrow> 'b http_answer) \<Rightarrow> ('b \<Rightarrow> go_err + bvn_response) \<Rightarrow> nibss_client \<Rightarrow>
     string \<Rightarrow> string \<Rightarrow> go_err + bvn_response" where
  "VerifyBVN breaker http decode c bvn phoneNumber = (case breaker of Some e \<Rightarrow> Inl e
     | None \<Rightarrow> (case http (nc_bvnBaseURL c @ ''/kyc/bvn/verify'')
           (JObj [(''bvn'', JStr bvn), (''phoneNumber'', JStr phoneNumber)]) of
         NotMade e \<Rightarrow> Inl (Wrap ''failed to create BVN request: '' e)
       | NotAnswered e \<Rightarrow> Inl (Wrap ''BVN verification request failed: '' e)
       | Reply code body \<Rightarrow>
           if 500 \<le> code then Inl (Msg (''NIBSS BVN API returned status '' @ show_int code))
           else if code = 404 then Inl (Msg ''BVN not found'')
           else if code \<noteq> 200 then Inl (Msg (''NIBSS BVN API returned status '' @ show_int code))
           else wrap_err ''failed to decode BVN response: '' (decode body)))"

definition GetAccountMandate ::
  "go_err option \<Rightarrow> (string \<Rightarrow> json \<Rightarrow> 'b http_answer) \<Rightarrow> ('b \<Rightarrow> go_err + mandate_response) \<Rightarrow> nibss_client \<Rightarrow>
     string \<Rightarrow> string \<Rightarrow> go_err + mandate_response" where
  "GetAccountMandate breaker http decode c bankCode accountNumber = (case breaker of Some e \<Rightarrow> Inl e
     | None \<Rightarrow> (case http (nc_mandateBaseURL c @ ''/mandate/inquiry'')
           (JObj [(''bankCode'', JStr bankCode), (''accountNumber'', JStr accountNumber)]) of
         NotMade e \<Rightarrow> Inl (Wrap ''failed to create request: '' e)
       | NotAnswered e \<Rightarrow> Inl (Wrap ''failed to execute request: '' e)
       | Reply code body \<Rightarrow>
           if 500 \<le> code then Inl (Msg (''NIBSS mandate API returned status '' @ show_int code))
           else if code \<noteq> 200 then Inl (Msg (''NIBSS mandate API returned status '' @ show_int code))
           else wrap_err ''failed to decode response: '' (decode body)))"

section \<open>Sockets\<close>

type_synonym stream = "(bytes \<times> go_err option) list"

record card_net =
  nt_dials :: "(go_err + stream) list"
  nt_stream :: stream
  nt_writes :: "go_err option list"
  nt_sent :: "bytes list"

type_synonym 'a net = "(card_net, 'a) prog"

definition deadline_exceeded :: go_err where
  "deadline_exceeded = ExtErr ''i/o timeout''"

definition EOF :: go_err where
  "EOF = ExtErr ''EOF''"

text \<open>\<open>conn.Write\<close>, and the next result of \<open>conn.Read\<close> into a buffer of \<open>n\<close> bytes.\<close>

definition conn_write :: "bytes \<Rightarrow> unit net" where
  "conn_write b s = (case nt_writes s of
       Some e # ws \<Rightarrow> (Failed e, s\<lparr>nt_writes := ws\<rparr>)
     | _ \<Rightarrow> (Done (), s\<lparr>nt_writes := tl (nt_writes s), nt_sent := nt_sent s @ [b]\<rparr>))"

fun read_some :: "nat \<Rightarrow> stream \<Rightarrow> bytes \<times> go_err option \<times> stream" where
  "read_some n [] = ([], Some deadline_exceeded, [])"
| "read_some n ((b, e) # s) = (if length b \<le> n then (b, e, s) else (take n b, None, (drop n b, e) # s))"

text \<open>\<open>io.ReadFull\<close>: reads until \<open>n\<close> bytes are there; an error with the last of them is not reported.\<close>

fun read_full :: "nat \<Rightarrow> bytes \<Rightarrow> stream \<Rightarrow> (go_err + bytes) \<times> stream" where
  "read_full n got [] = (if n \<le> length got then Inr got else Inl deadline_exceeded, [])"
| "read_full n got ((b, e) # s) =
     (if n \<le> length got then (Inr got, (b, e) # s)
      else if n \<le> length got + length b
        then (Inr (got @ take (n - length got) b),
              if n = length got + length b then s else (drop (n - length got) b, e) # s)
      else case e of
        None \<Rightarrow> read_full n (got @ b) s
      | Some err \<Rightarrow> (Inl (if err = EOF \<and> got @ b \<noteq> [] then ExtErr ''unexpected EOF'' else err), s))"

definition conn_read_full :: "nat \<Rightarrow> bytes net" where
  "conn_read_full n s = (case read_full n [] (nt_stream s) of
       (Inl e, r) \<Rightarrow> (Failed e, s\<lparr>nt_stream := r\<rparr>)
     | (Inr b, r) \<Rightarrow> (Done b, s\<lparr>nt_stream := r\<rparr>))"

definition wrapping :: "string \<Rightarrow> ('s, 'a) prog \<Rightarrow> ('s, 'a) prog" where
  "wrapping what m = catching m (\<lambda>e. fail (Wrap what e)) ret"

definition returning :: "go_err + 'a \<Rightarrow> ('s, 'a) prog" where
  "returning r = (case r of Inl e \<Rightarrow> fail e | Inr x \<Rightarrow> ret x)"

definition string_bytes :: "string \<Rightarrow> bytes" where
  "string_bytes s = map of_char s"

definition fixed_0800 :: string where
  "fixed_0800 = ''08002238000000800000000000031208364300021708364303122011E169''"

text \<open>The message of the caller is not looked at: a constant one is framed and written, twice.\<close>

definition SendAndReceive :: "bytes \<Rightarrow> bytes net" where
  "SendAndReceive packed =
     (let n = length fixed_0800;
          frame = [of_nat (n div 256), of_nat (n mod 256)] @ string_bytes fixed_0800
      in bind (wrapping ''write failed: '' (conn_write (frame @ string_bytes fixed_0800))) (\<lambda>_.
         bind (wrapping ''read header failed: '' (conn_read_full 2)) (\<lambda>lenBuf.
         wrapping ''read body failed: '' (conn_read_full (256 * unat (lenBuf ! 0) + unat (lenBuf ! 1))))))"

definition SendISOMessage :: "'m moov \<Rightarrow> 'm \<Rightarrow> unit net" where
  "SendISOMessage lib msg =
     bind (wrapping ''failed to pack ISO message: '' (returning (mv_pack lib msg))) (\<lambda>packed.
     wrapping ''failed to send ISO message: '' (conn_write packed))"

text \<open>The reading loop: it ends with the first four bytes, with an error after some bytes, or with the
  end of the stream.\<close>

fun read_message :: "bytes \<Rightarrow> stream \<Rightarrow> (go_err + bytes) \<times> stream" where
  "read_message raw [] = (if raw \<noteq> [] then (Inr raw, []) else (Inl (Wrap ''read failed: '' deadline_exceeded), []))"
| "read_message raw ((b, e) # s) = (case read_some 4096 [(b, e)] of (c, err, rest) \<Rightarrow>
     (case err of
        Some er \<Rightarrow> if er = EOF \<or> raw @ c \<noteq> [] then (Inr (raw @ c), s) else (Inl (Wrap ''read failed: '' er), s)
      | None \<Rightarrow> if 4 \<le> length (raw @ c) then (Inr (raw @ c), rest @ s) else read_message (raw @ c) s))"

definition ReadISOMessage :: "'m moov \<Rightarrow> message_spec \<Rightarrow> 'm net" where
  "ReadISOMessage lib nibssSpec s = (case read_message [] (nt_stream s) of
       (Inl e, r) \<Rightarrow> (Failed e, s\<lparr>nt_stream := r\<rparr>)
     | (Inr raw, r) \<Rightarrow>
         (if raw = [] then fail (Msg ''read header failed: EOF (read 0 bytes)'')
          else wrapping ''failed to unpack ISO message: ''
            (returning (mv_unpack lib raw (mv_new lib nibssSpec)))) (s\<lparr>nt_stream := r\<rparr>))"

definition show_err :: "go_err option \<Rightarrow> string" where
  "show_err e = (case e of None \<Rightarrow> ''<nil>'' | Some err \<Rightarrow> err_text err)"

text \<open>Field 39 of an answer, when it is there and is \<open>00\<close>.\<close>

definition approved_code :: "'m moov \<Rightarrow> string \<Rightarrow> string \<Rightarrow> 'm \<Rightarrow> go_err + string" where
  "approved_code lib before after resp = (case mv_get lib 39 resp of
       Inl e \<Rightarrow> Inl (Msg (before @ after @ '' (err: '' @ show_err (Some e) @ '')''))
     | Inr rc \<Rightarrow> if rc \<noteq> ''00'' then Inl (Msg (before @ rc @ after @ '' (err: '' @ show_err None @ '')'')) else Inr rc)"

definition extractSessionKeyFrom0810 :: "'m moov \<Rightarrow> 'm \<Rightarrow> go_err + bytes" where
  "extractSessionKeyFrom0810 lib resp =
     and_then (wrap_err ''failed to get MTI: '' (mv_get_mti lib resp)) (\<lambda>MTI.
     if MTI \<noteq> ''0810'' then Inl (Msg (''unexpected MTI: '' @ MTI @ '', expected 0810''))
     else and_then (approved_code lib ''key exchange failed, RC='' [] resp) (\<lambda>_.
       wrap_err ''failed to get session key from field 53: '' (mv_get_bytes lib 53 resp)))"

section \<open>Keys and ciphers\<close>

text \<open>Byte by byte along the first component; a shorter second one is an index out of range.\<close>

definition buildCombinedKey :: "nibss_client \<Rightarrow> bytes option" where
  "buildCombinedKey c =
     (if length (nc_componentKey2 c) < length (nc_componentKey1 c) then None
      else Some (xor_bytes (nc_componentKey1 c) (nc_componentKey2 c)))"

definition key_size_error :: "bytes \<Rightarrow> go_err" where
  "key_size_error key = Msg (''crypto/des: invalid key size '' @ show_nat (length key))"

definition DecryptSessionKey :: "nibss_client \<Rightarrow> bytes \<Rightarrow> ('s, bytes) prog" where
  "DecryptSessionKey c encryptedKey = (case buildCombinedKey c of
       None \<Rightarrow> panic ''index out of range''
     | Some combinedKey \<Rightarrow>
         if length combinedKey \<noteq> 24 then fail (key_size_error combinedKey)
         else if length encryptedKey \<noteq> 8
         then fail (Msg (''encrypted key length '' @ show_nat (length encryptedKey) @
                '' is not a multiple of block size 8''))
         else ret (tdes_decrypt combinedKey encryptedKey))"

definition pkcs5Pad :: "bytes \<Rightarrow> nat \<Rightarrow> bytes" where
  "pkcs5Pad data blockSize =
     (let padding = blockSize - length data mod blockSize in data @ replicate padding (of_nat padding))"

definition pkcs5Unpad :: "bytes \<Rightarrow> nat \<Rightarrow> go_err + bytes" where
  "pkcs5Unpad data blockSize =
     (if length data = 0 then Inl (Msg ''pkcs5: data is empty'')
      else if length data mod blockSize \<noteq> 0 then Inl (Msg ''pkcs5: data is not block-aligned'')
      else let padding = unat (data ! (length data - 1)) in
        if blockSize < padding \<or> padding = 0 then Inl (Msg ''pkcs5: invalid padding'')
        else case find (\<lambda>i. data ! (length data - 1 - i) \<noteq> of_nat padding) [0..<padding] of
            Some i \<Rightarrow> Inl (Msg (''pkcs5: invalid padding byte at position '' @ show_nat (length data - 1 - i)))
          | None \<Rightarrow> Inr (take (length data - padding) data))"

definition zero_iv :: bytes where
  "zero_iv = replicate 8 0"

definition encrypt3DESCBC :: "bytes \<Rightarrow> bytes \<Rightarrow> go_err + bytes" where
  "encrypt3DESCBC data key =
     (if length key \<noteq> 24 then Inl (key_size_error key)
      else let padded = pkcs5Pad data 8
        in Inr (cbc_encrypt (tdes_encrypt key) (length padded div 8) zero_iv padded))"

text \<open>On a padding error the bytes are returned as well; the caller does not look at them.\<close>

definition decrypt3DESCBC :: "bytes \<Rightarrow> bytes \<Rightarrow> go_err + bytes" where
  "decrypt3DESCBC data key =
     (if length key \<noteq> 24 then Inl (key_size_error key)
      else if length data mod 8 \<noteq> 0 then Inl (Msg ''encrypted data is not a multiple of the block size'')
      else wrap_err ''failed to unpad decrypted data: ''
        (pkcs5Unpad (cbc_decrypt (tdes_decrypt key) (length data div 8) zero_iv data) 8))"

text \<open>ISO 9797-1, method 2: a marker, then zeros up to the next full block.\<close>

function fill_block :: "bytes \<Rightarrow> bytes" where
  "fill_block padded = (if length padded mod 8 \<noteq> 0 then fill_block (padded @ [0]) else padded)"
  by auto
termination
  by (relation "measure (\<lambda>p. if length p mod 8 = 0 then 0 else 8 - length p mod 8)") (auto simp: mod_Suc)

declare fill_block.simps [simp del]

definition iso9797Pad :: "bytes \<Rightarrow> bytes" where
  "iso9797Pad data = fill_block (data @ [0x80])"

definition computeMAC :: "bytes \<Rightarrow> bytes \<Rightarrow> go_err + bytes" where
  "computeMAC data key =
     (if length key \<noteq> 24 then Inl (key_size_error key)
      else let paddedData = iso9797Pad data;
               out = cbc_encrypt (tdes_encrypt key) (length paddedData div 8) zero_iv paddedData
        in Inr (drop (length out - 8) out))"

section \<open>Settlement\<close>

text \<open>A missing client is dereferenced for its timeout.\<close>

definition DialISO8583 :: "nibss_client option \<Rightarrow> unit net" where
  "DialISO8583 c = (case c of None \<Rightarrow> panic ''nil pointer dereference: nibssClient''
     | Some _ \<Rightarrow> (\<lambda>s. case nt_dials s of
         Inr stream # ds \<Rightarrow> (Done (), s\<lparr>nt_dials := ds, nt_stream := stream\<rparr>)
       | Inl e # ds \<Rightarrow> (Failed (Wrap ''failed to connect to ISO 8583 socket: '' e), s\<lparr>nt_dials := ds\<rparr>)
       | [] \<Rightarrow> (Failed (Wrap ''failed to connect to ISO 8583 socket: '' deadline_exceeded), s)))"

record card_settlement_response =
  cs_Status :: string
  cs_Message :: string

text \<open>The key exchange: its connection is closed before the next one is made.\<close>

definition exchange_key :: "'m moov \<Rightarrow> nibss_client \<Rightarrow> 'm \<Rightarrow> bytes net" where
  "exchange_key lib c req0800 =
     bind (DialISO8583 (Some c)) (\<lambda>_.
     bind (SendISOMessage lib req0800) (\<lambda>_.
     bind (ReadISOMessage lib CreateISO8583_0800_MessageSpec1987) (\<lambda>resp0810.
     bind (returning (extractSessionKeyFrom0810 lib resp0810)) (\<lambda>encryptedSessionKey.
     DecryptSessionKey c encryptedSessionKey))))"

text \<open>The settlement under the session key, on a fresh connection.\<close>

definition settle_with_key ::
  "'m moov \<Rightarrow> (bytes \<Rightarrow> go_err + card_settlement_response) \<Rightarrow> nibss_client \<Rightarrow> bytes \<Rightarrow> 'm \<Rightarrow>
     card_settlement_response net" where
  "settle_with_key lib unmarshal c sessionKey isoMsgPayload =
     (let iccData = (case mv_get_bytes lib 55 isoMsgPayload of Inl _ \<Rightarrow> [] | Inr d \<Rightarrow> d) in
     bind (returning (encrypt3DESCBC iccData sessionKey)) (\<lambda>encryptedPayload.
     bind (returning (wrap_err ''failed to set encrypted payload (field 48): ''
         (mv_set_binary lib 48 encryptedPayload isoMsgPayload))) (\<lambda>msg48.
     bind (returning (wrap_err ''failed to pack message for MAC computation: '' (mv_pack lib msg48))) (\<lambda>packedForMAC.
     bind (returning (computeMAC packedForMAC sessionKey)) (\<lambda>mac.
     bind (returning (wrap_err ''failed to attach MAC to field 128: '' (mv_set_binary lib 128 mac msg48))) (\<lambda>msg128.
     bind (DialISO8583 (Some c)) (\<lambda>_.
     bind (SendISOMessage lib msg128) (\<lambda>_.
     bind (ReadISOMessage lib CreateISO8583MessageSpec1987) (\<lambda>resp0210.
     bind (returning (approved_code lib ''settlement failed with response code: '' [] resp0210)) (\<lambda>_.
     bind (returning (wrap_err ''could not get encrypted response payload from field 48: ''
         (mv_get_bytes lib 48 resp0210))) (\<lambda>encryptedRespPayload.
     bind (returning (decrypt3DESCBC encryptedRespPayload sessionKey)) (\<lambda>decrypted.
     returning (wrap_err ''failed to unmarshal settlement response: '' (unmarshal decrypted))))))))))))))"

definition ProcessCardSettlementWithKeyExchange ::
  "'m moov \<Rightarrow> go_err option \<Rightarrow> (bytes \<Rightarrow> go_err + card_settlement_response) \<Rightarrow> nibss_client \<Rightarrow> 'm \<Rightarrow> 'm \<Rightarrow>
     card_settlement_response net" where
  "ProcessCardSettlementWithKeyExchange lib breaker unmarshal c req0800 isoMsgPayload =
     (case breaker of Some e \<Rightarrow> fail e
      | None \<Rightarrow> bind (exchange_key lib c req0800) (\<lambda>sessionKey.
          settle_with_key lib unmarshal c sessionKey isoMsgPayload))"

definition ProcessCardSettlement ::
  "'m moov \<Rightarrow> go_err option \<Rightarrow> nibss_client \<Rightarrow> 'm \<Rightarrow> card_settlement_response net" where
  "ProcessCardSettlement lib breaker c isoMsgPayload =
     (case breaker of Some e \<Rightarrow> fail e | None \<Rightarrow>
     bind (DialISO8583 (Some c)) (\<lambda>_.
     bind (SendISOMessage lib isoMsgPayload) (\<lambda>_.
     bind (ReadISOMessage lib CreateISO8583MessageSpec1987) (\<lambda>resp0210.
     bind (returning (approved_code lib ''settlement failed with response code: '' [] resp0210)) (\<lambda>rc.
     ret \<lparr>cs_Status = rc, cs_Message = ''approved''\<rparr>)))))"

end
