(* ===== verification/Card.thy ===== *)
theory Card
  imports NIBSS_Client Provider_Base Commons
begin

text \<open>
  Card payments, \<open>src/internal/providers/card_provider.go\<close>, and the card endpoints of
  \<open>src/internal/services/card_service.go\<close>.

  \<^item> A card payment runs over the tables and Redis (\<open>world\<close>) and over the sockets (\<open>card_net\<close>): a
    program on the pair, with \<open>on_world\<close> and \<open>on_net\<close> for the calls to either side.
  \<^item> The provider's client of the card network is an option; \<open>NewCardPaymentProvider\<close> does not set it.
  \<^item> The year and month of the clock are arguments of the expiry check.
\<close>

type_synonym 'a card_go = "(world \<times> card_net, 'a) prog"

definition on_world :: "'a go \<Rightarrow> 'a card_go" where
  "on_world m s = (case m (fst s) of (r, w) \<Rightarrow> (r, (w, snd s)))"

definition on_net :: "'a net \<Rightarrow> 'a card_go" where
  "on_net m s = (case m (snd s) of (r, n) \<Rightarrow> (r, (fst s, n)))"

section \<open>Validation\<close>

definition card_ValidatePayment ::
  "string option \<Rightarrow> card_payment_request option \<Rightarrow> payment_request \<Rightarrow> ('s, unit) prog" where
  "card_ValidatePayment merchantCtx cardReq req =
     (if pr_FromAccount req = [] then fail (Msg ''debit Card is required'')
      else if pr_Amount req \<le> 0 then fail (Msg ''amount must be positive'')
      else case parse_int (case merchantCtx of None \<Rightarrow> [] | Some m \<Rightarrow> m) of
        None \<Rightarrow> fail (Msg ''invalid merchant ID'')
      | Some merchantId \<Rightarrow>
          if merchantId \<le> 0 then fail (Msg ''invalid merchant ID'')
          else case cardReq of
            None \<Rightarrow> panic ''interface conversion: metadata is not a card payment request''
          | Some c \<Rightarrow> if merchantId \<noteq> cp_MerchantID c then fail (Msg ''payment merchant mismatch'') else ret ())"

text \<open>Errors of the number parser are ignored: a month that is no number is 0.\<close>

definition checkExpiredCard :: "int \<Rightarrow> int \<Rightarrow> string \<Rightarrow> bool" where
  "checkExpiredCard currentYear currentMonth expiryDate = (case split_char (CHR ''/'') expiryDate of
       [m, y] \<Rightarrow> (let month = atoi0 m; year = wrap64 (2000 + atoi0 y)
         in year < currentYear \<or> (year = currentYear \<and> month < currentMonth))
     | _ \<Rightarrow> True)"

section \<open>Processing\<close>

record card_provider =
  ca_HSM :: hsm_iface
  ca_DecryptPII :: "string \<Rightarrow> go_err + string"
  ca_client :: "nibss_client option"

definition NewCardPaymentProvider :: "hsm_iface \<Rightarrow> (string \<Rightarrow> go_err + string) \<Rightarrow> card_provider" where
  "NewCardPaymentProvider HSM decryptPII = \<lparr>ca_HSM = HSM, ca_DecryptPII = decryptPII, ca_client = None\<rparr>"

definition card_event :: "int \<Rightarrow> payment_request \<Rightarrow> card_payment_request \<Rightarrow> audit_event" where
  "card_event t req cardReq = \<lparr>ae_Timestamp = t, ae_EventType = ''TRANSFER'', ae_TxRequest = req, ae_Error = [],
     ae_Details = [''merchantID'' \<mapsto> JInt (cp_MerchantID cardReq)]\<rparr>"

definition sql_set_txn_status :: "string \<Rightarrow> string \<Rightarrow> unit stmt" where
  "sql_set_txn_status status txid d = Some ((), d\<lparr>transactions :=
     map (\<lambda>r. if txn_id r = txid then r\<lparr>txn_status := status\<rparr> else r) (transactions d)\<rparr>)"

definition card_failed :: "string \<Rightarrow> int \<Rightarrow> payment_request \<Rightarrow> go_err option \<Rightarrow> provider_result card_go" where
  "card_failed message t req err = ret (req, Some (failure_response ''CARD'' message t req), err)"

text \<open>The messages of the payment: the fixed 0800, its answer, and the fixed 0200.  An answer that is no
  0810 ends the payment without an error.\<close>

definition card_messages ::
  "'m moov \<Rightarrow> card_provider \<Rightarrow> go_err option \<Rightarrow> int \<Rightarrow> payment_request \<Rightarrow> provider_result card_go" where
  "card_messages lib p breaker t req =
     (let cardISO0800 = (case mv_pack lib (BuildISO0800Message lib) of Inl _ \<Rightarrow> [] | Inr b \<Rightarrow> b);
          refuse = (\<lambda>e. card_failed (Response ProcessingFailed) t req e)
      in catching (on_net (DialISO8583 (ca_client p))) (\<lambda>e. refuse (Some e)) (\<lambda>_.
         catching (on_net (SendAndReceive cardISO0800)) (\<lambda>e. refuse (Some e)) (\<lambda>_.
         catching (on_net (ReadISOMessage lib CreateISO8583_0800_MessageSpec1987)) (\<lambda>e. refuse (Some e)) (\<lambda>resp0810.
         case mv_get_mti lib resp0810 of
           Inl e \<Rightarrow> refuse (Some e)
         | Inr MTI \<Rightarrow>
             if MTI \<noteq> ''0810'' then refuse None
             else catching (on_net (ProcessCardSettlement lib breaker (the (ca_client p)) (BuildISO0200MessageTest lib)))
               (\<lambda>e. bind (on_world (ignoring (db_run (sql_set_txn_status ''FAILED_SETTLEMENT'' (pr_TransactionID req)))))
                  (\<lambda>_. refuse (Some e)))
               (\<lambda>resp. bind (on_world (ignoring (db_run (\<lambda>d. Some ((), d))))) (\<lambda>_.
                  ret (req, Some (success_response ''CARD'' (Response PaymentSuccessful) t req), None)))))))"

text \<open>\<open>today\<close> is the year and the month.  The error of the audit logger is not looked at: the test that
  follows looks at the error of \<open>BeginTx\<close> again.\<close>

definition card_ProcessPayment ::
  "'m moov \<Rightarrow> card_provider \<Rightarrow> go_err option \<Rightarrow> int \<times> int \<Rightarrow> string \<Rightarrow> card_payment_request option \<Rightarrow> payment_request \<Rightarrow>
     provider_result card_go" where
  "card_ProcessPayment lib p breaker today nonce metadataReq req =
     bind (on_world (gets now)) (\<lambda>t.
     case metadataReq of
       None \<Rightarrow> card_failed ''Invalid Card Payment Request'' t req (Some (Msg ''invalid Card Payment Request''))
     | Some cardReq \<Rightarrow>
         if checkExpiredCard (fst today) (snd today) (ci_ExpiryDate (cp_CardInfo cardReq))
         then card_failed ''Expired Card'' t req (Some (Msg ''expired Card''))
         else deferring
           (catching (on_world tx_begin) (\<lambda>e. ret (req, None, Some e)) (\<lambda>_.
            bind (on_world (ignoring (LogTransaction (ca_HSM p) nonce (card_event t req cardReq)))) (\<lambda>_.
            card_messages lib p breaker t req)))
           (\<lambda>s. (tx_rollback (fst s), snd s)))"

definition DecryptPIICredentials :: "card_provider \<Rightarrow> string \<Rightarrow> string" where
  "DecryptPIICredentials p encryptedText = (case ca_DecryptPII p encryptedText of Inl _ \<Rightarrow> [] | Inr x \<Rightarrow> x)"

section \<open>The handler\<close>

datatype card_body = CardDecodeFailed | CardMultiple | CardBody card_payment_request

definition replayed :: "string \<Rightarrow> string \<Rightarrow> string \<Rightarrow> http_response" where
  "replayed txID status mode = SendSuccessResponse ''Payment Already Processed''
     (JObj [(''transactionId'', JStr txID), (''status'', JStr status), (''paymentMode'', JStr mode)]) 200"

definition card_request :: "int \<Rightarrow> string \<Rightarrow> card_payment_request \<Rightarrow> payment_request" where
  "card_request userID pan cardReq =
     \<lparr>pr_TransactionID = cp_TransactionID cardReq, pr_UserID = show_int userID, pr_FromAccount = pan,
      pr_BeneficiaryAccountNumber = pan, pr_BeneficiaryAccountName = [], pr_BeneficiaryBankName = [],
      pr_BeneficiaryBankCode = [], pr_Amount = cp_Amount cardReq, pr_Currency = [], pr_Metadata = Map.empty,
      pr_Narration = [], pr_TxType = [], pr_PaymentMode = ''CARD'', pr_SaveBeneficiary = False,
      pr_OneTimeCode = [], pr_TwoFAType = [], pr_Location = cp_Location cardReq, pr_IPAddress = []\<rparr>"

text \<open>The decoded request travels in the metadata, beside the map of the model.\<close>

definition card_HandlePayment ::
  "'m moov \<Rightarrow> card_provider \<Rightarrow> go_err option \<Rightarrow> int \<times> int \<Rightarrow> string \<Rightarrow> int \<Rightarrow> card_body \<Rightarrow> http_response card_go" where
  "card_HandlePayment lib p breaker today nonce userID body = (case body of
       CardDecodeFailed \<Rightarrow> ret (SendErrorResponse (Response InvalidRequestError) 400)
     | CardMultiple \<Rightarrow> ret (SendErrorResponse (Response SingleObjectError) 400)
     | CardBody cardReq \<Rightarrow>
         let decryptedPAN = DecryptPIICredentials p (ci_EncryptedPAN (cp_CardInfo cardReq)) in
         if decryptedPAN = [] then ret (SendErrorResponse (Response ProcessingFailed) 424)
         else bind (on_world (checkIdempotency (cp_TransactionID cardReq))) (\<lambda>(cachedStatus, found).
           if found then
             (if cachedStatus = ''COMPLETED'' \<or> cachedStatus = ''PENDING''
              then ret (replayed (cp_TransactionID cardReq) cachedStatus ''CARD'')
              else ret (SendErrorResponse (Response ProcessingFailed) 400))
           else bind (on_world (setIdempotency (cp_TransactionID cardReq) ''PENDING'')) (\<lambda>_.
             bind (card_ProcessPayment lib p breaker today nonce (Some cardReq) (card_request userID decryptedPAN cardReq))
               (\<lambda>(req, response, err). case err of
                  Some e \<Rightarrow> bind (on_world (setIdempotency (pr_TransactionID req) ''FAILED''))
                    (\<lambda>_. ret (SendErrorResponse (Response ProcessingFailed) 424))
                | None \<Rightarrow> (case response of
                    None \<Rightarrow> panic ''nil pointer dereference: response''
                  | Some r \<Rightarrow> bind (on_world (setIdempotency (pr_TransactionID req) (rs_Status r))) (\<lambda>_.
                      if rs_Success r
                      then ret (SendSuccessResponse (Response PaymentSuccessful) (response_json r) 200)
                      else ret (SendErrorResponse (Response ProcessingFailed) 400)))))))"

section \<open>Card endpoints\<close>

text \<open>A body that decodes strictly, alone, and passes its validation tags; the endpoints keep nothing.\<close>

datatype 'a checked_body = BadJson | ManyJson | Invalid json | Valid 'a

definition plain_status :: "string \<Rightarrow> json" where
  "plain_status s = JObj [(''status'', JStr s)]"

definition simple_request :: "'a checked_body \<Rightarrow> json \<Rightarrow> http_response + json" where
  "simple_request body answer = (case body of
       BadJson \<Rightarrow> Inl (SendErrorResponse ''Unable To Process This Request At This Time'' 400)
     | ManyJson \<Rightarrow> Inl (SendErrorResponse (Response SingleObjectError) 400)
     | Invalid e \<Rightarrow> Inl ((SendErrorResponse (Response ValidationError) 400)\<lparr>hr_details := e\<rparr>)
     | Valid _ \<Rightarrow> Inr answer)"

record provision_request =
  pv_UserID :: int
  pv_CardType :: string
  pv_InitialBalance :: string

record activation_request =
  av_CardID :: string
  av_ActivationCode :: string

definition ProvisionCard :: "provision_request checked_body \<Rightarrow> http_response + json" where
  "ProvisionCard body = simple_request body (plain_status ''provisioned'')"

definition ActivateCard :: "activation_request checked_body \<Rightarrow> http_response + json" where
  "ActivateCard body = simple_request body (plain_status ''activated'')"

definition GetCard :: "string \<Rightarrow> json" where
  "GetCard cardID = JObj [(''cardId'', JStr cardID), (''status'', JStr ''active'')]"

definition SuspendCard :: "string \<Rightarrow> json" where
  "SuspendCard cardID = JObj [(''cardId'', JStr cardID), (''status'', JStr ''suspended'')]"

definition local_bin :: "string \<Rightarrow> string \<Rightarrow> string \<Rightarrow> string \<Rightarrow> bin_response" where
  "local_bin b scheme bank type = \<lparr>bn_BIN = b, bn_Scheme = scheme, bn_IssuerBank = bank, bn_IssuerBankLogo = [],
     bn_Type = type, bn_Country = ''NG'', bn_Currency = ''NGN'', bn_Source = ''internal''\<rparr>"

definition seedData :: "(string \<times> bin_response) list" where
  "seedData = map (\<lambda>b. (bn_BIN b, b))
     [local_bin ''539983'' ''Mastercard'' ''GTBank'' ''Debit'', local_bin ''506109'' ''Verve'' ''Interswitch'' ''Debit'',
      local_bin ''402345'' ''Visa'' ''Zenith Bank'' ''Classic'', local_bin ''519911'' ''Mastercard'' ''UBA'' ''Gold'',
      local_bin ''528641'' ''Mastercard'' ''Access Bank'' ''Standard'']"

text \<open>The decoded answer of the directory: scheme, bank, type, country and currency.  \<open>strings.Title\<close>, on
  a text of lower-case letters, starts every word with a capital; a word starts after a character
  that is neither a letter, a digit nor an underscore.\<close>

type_synonym bin_answer = "string \<times> string \<times> string \<times> string \<times> string"

fun title_from :: "bool \<Rightarrow> string \<Rightarrow> string" where
  "title_from start [] = []"
| "title_from start (c # s) = (if start then to_upper c else c) # title_from (\<not> (is_alnum c \<or> c = CHR ''_'')) s"

definition fetchFromBinList :: "(string \<Rightarrow> 'b http_answer) \<Rightarrow> ('b \<Rightarrow> go_err + bin_answer) \<Rightarrow> string \<Rightarrow> go_err + bin_response" where
  "fetchFromBinList http decode bin = (case http (''https://lookup.binlist.net/'' @ bin) of
       NotMade e \<Rightarrow> Inl e
     | NotAnswered e \<Rightarrow> Inl e
     | Reply code body \<Rightarrow>
         if code \<noteq> 200 then Inl (Msg (''external API error: '' @ show_int code))
         else and_then (decode body) (\<lambda>(scheme, bank, type, country, currency).
           Inr \<lparr>bn_BIN = bin, bn_Scheme = ToUpper scheme, bn_IssuerBank = bank, bn_IssuerBankLogo = [],
             bn_Type = title_from True (ToLower type), bn_Country = country, bn_Currency = currency,
             bn_Source = ''external_api''\<rparr>))"

definition fallback_bin :: "string \<Rightarrow> string \<Rightarrow> bin_response" where
  "fallback_bin bin scheme = \<lparr>bn_BIN = bin, bn_Scheme = scheme, bn_IssuerBank = [], bn_IssuerBankLogo = [],
     bn_Type = [], bn_Country = [], bn_Currency = [], bn_Source = ''fallback''\<rparr>"

definition bin_json :: "bin_response \<Rightarrow> json" where
  "bin_json b = JObj ([(''bin'', JStr (bn_BIN b)), (''scheme'', JStr (bn_Scheme b)), (''issuerBank'', JStr (bn_IssuerBank b))]
     @ (if bn_IssuerBankLogo b = [] then [] else [(''issuerBankLogo'', JStr (bn_IssuerBankLogo b))])
     @ [(''type'', JStr (bn_Type b)), (''country'', JStr (bn_Country b)), (''currency'', JStr (bn_Currency b)),
        (''source'', JStr (bn_Source b))])"

definition QueryCardBin :: "(string \<Rightarrow> 'b http_answer) \<Rightarrow> ('b \<Rightarrow> go_err + bin_answer) \<Rightarrow> string \<Rightarrow> http_response" where
  "QueryCardBin http decode query =
     (if query = [] then SendErrorResponse ''BIN is required'' 400
      else if length query < 6 then SendErrorResponse ''Invalid BIN length'' 400
      else let bin = filter (\<lambda>c. c \<noteq> CHR '' '') query in
        if length bin < 6 then SendErrorResponse ''Invalid BIN length'' 400
        else case map_of seedData (take 6 bin) of
            Some b \<Rightarrow> SendSuccessResponse ''Fetched From Cache'' (bin_json b) 200
          | None \<Rightarrow> (case fetchFromBinList http decode bin of
              Inr b \<Rightarrow> SendSuccessResponse ''Fetched From API'' (bin_json b) 200
            | Inl _ \<Rightarrow>
                if is_prefix ''4'' bin then SendSuccessResponse ''Fetched From Fallback'' (bin_json (fallback_bin bin ''Visa'')) 200
                else if is_prefix ''5'' bin
                then SendSuccessResponse ''Fetched From Fallback'' (bin_json (fallback_bin bin ''Mastercard'')) 200
                else if is_prefix ''506'' bin \<or> is_prefix ''65'' bin
                then SendSuccessResponse ''Fetched From Fallback'' (bin_json (fallback_bin bin ''Verve'')) 200
                else SendErrorResponse ''BIN information not found'' 404))"

end
