(* ===== verification/Payment_Routing.thy ===== *)
theory Payment_Routing
  imports Card Providers Bank_Transfer
begin

text \<open>
  The endpoint of all payments, \<open>src/internal/handlers/payment_handler.go\<close>, down to the JSON body.

  \<^item> The body is read once by this handler, as a payment request, and once more by the provider, as a
    request of its own: both see the same JSON value, and whether a second value follows it.
  \<^item> \<open>encoding/json\<close> into a structure: every member of the object must name a field (in any case of
    letters) when unknown fields are disallowed, a member of another JSON type is an error, null leaves
    the field, an object member is decoded into what is there.  Field tables give the names and types;
    the decoder of a location, whose numbers are no integers, is an argument.
\<close>

section \<open>Decoding\<close>

type_synonym 'r putter = "json \<Rightarrow> 'r \<Rightarrow> 'r option"

definition put_str :: "(string \<Rightarrow> 'r \<Rightarrow> 'r) \<Rightarrow> 'r putter" where
  "put_str f v r = (case v of JStr s \<Rightarrow> Some (f s r) | JNull \<Rightarrow> Some r | _ \<Rightarrow> None)"

definition put_int :: "(int \<Rightarrow> 'r \<Rightarrow> 'r) \<Rightarrow> 'r putter" where
  "put_int f v r = (case v of JInt n \<Rightarrow> if in_int64 n then Some (f n r) else None | JNull \<Rightarrow> Some r | _ \<Rightarrow> None)"

definition put_bool :: "(bool \<Rightarrow> 'r \<Rightarrow> 'r) \<Rightarrow> 'r putter" where
  "put_bool f v r = (case v of JBool b \<Rightarrow> Some (f b r) | JNull \<Rightarrow> Some r | _ \<Rightarrow> None)"

definition put_map :: "((metadata \<Rightarrow> metadata) \<Rightarrow> 'r \<Rightarrow> 'r) \<Rightarrow> 'r putter" where
  "put_map f v r = (case v of JObj kvs \<Rightarrow> Some (f (\<lambda>m. fold (\<lambda>(k, x) m. m(k \<mapsto> x)) kvs m) r)
     | JNull \<Rightarrow> Some (f (\<lambda>_. Map.empty) r) | _ \<Rightarrow> None)"

text \<open>A pointer to a location.\<close>

definition put_location :: "(json \<Rightarrow> location option) \<Rightarrow> (location option \<Rightarrow> 'r \<Rightarrow> 'r) \<Rightarrow> 'r putter" where
  "put_location loc f v r = (if v = JNull then Some (f None r)
     else case loc v of None \<Rightarrow> None | Some l \<Rightarrow> Some (f (Some l) r))"

definition put_member :: "bool \<Rightarrow> (string \<times> 'r putter) list \<Rightarrow> string \<times> json \<Rightarrow> 'r option \<Rightarrow> 'r option" where
  "put_member strict tab kv acc = (case acc of None \<Rightarrow> None
     | Some r \<Rightarrow> (case map_of tab (ToLower (fst kv)) of
         None \<Rightarrow> if strict then None else Some r
       | Some put \<Rightarrow> put (snd kv) r))"

definition decode_into :: "bool \<Rightarrow> (string \<times> 'r putter) list \<Rightarrow> 'r putter" where
  "decode_into strict tab v r = (case v of
       JObj kvs \<Rightarrow> fold (put_member strict tab) kvs (Some r)
     | JNull \<Rightarrow> Some r
     | _ \<Rightarrow> None)"

definition payment_fields :: "(json \<Rightarrow> location option) \<Rightarrow> (string \<times> payment_request putter) list" where
  "payment_fields loc =
    [(''transactionid'', put_str (\<lambda>s r. r\<lparr>pr_TransactionID := s\<rparr>)),
     (''userid'', put_str (\<lambda>s r. r\<lparr>pr_UserID := s\<rparr>)),
     (''fromaccount'', put_str (\<lambda>s r. r\<lparr>pr_FromAccount := s\<rparr>)),
     (''beneficiaryaccountnumber'', put_str (\<lambda>s r. r\<lparr>pr_BeneficiaryAccountNumber := s\<rparr>)),
     (''beneficiaryaccountname'', put_str (\<lambda>s r. r\<lparr>pr_BeneficiaryAccountName := s\<rparr>)),
     (''beneficiarybankname'', put_str (\<lambda>s r. r\<lparr>pr_BeneficiaryBankName := s\<rparr>)),
     (''beneficiarybankcode'', put_str (\<lambda>s r. r\<lparr>pr_BeneficiaryBankCode := s\<rparr>)),
     (''amount'', put_int (\<lambda>n r. r\<lparr>pr_Amount := n\<rparr>)),
     (''currency'', put_str (\<lambda>s r. r\<lparr>pr_Currency := s\<rparr>)),
     (''metadata'', put_map (\<lambda>f r. r\<lparr>pr_Metadata := f (pr_Metadata r)\<rparr>)),
     (''narration'', put_str (\<lambda>s r. r\<lparr>pr_Narration := s\<rparr>)),
     (''txtype'', put_str (\<lambda>s r. r\<lparr>pr_TxType := s\<rparr>)),
     (''paymentmode'', put_str (\<lambda>s r. r\<lparr>pr_PaymentMode := s\<rparr>)),
     (''savebeneficiary'', put_bool (\<lambda>b r. r\<lparr>pr_SaveBeneficiary := b\<rparr>)),
     (''onetimecode'', put_str (\<lambda>s r. r\<lparr>pr_OneTimeCode := s\<rparr>)),
     (''twofatype'', put_str (\<lambda>s r. r\<lparr>pr_TwoFAType := s\<rparr>)),
     (''location'', put_location loc (\<lambda>l r. r\<lparr>pr_Location := l\<rparr>)),
     (''ipaddress'', put_str (\<lambda>s r. r\<lparr>pr_IPAddress := s\<rparr>))]"

definition empty_payment :: payment_request where
  "empty_payment = \<lparr>pr_TransactionID = [], pr_UserID = [], pr_FromAccount = [], pr_BeneficiaryAccountNumber = [],
     pr_BeneficiaryAccountName = [], pr_BeneficiaryBankName = [], pr_BeneficiaryBankCode = [], pr_Amount = 0,
     pr_Currency = [], pr_Metadata = Map.empty, pr_Narration = [], pr_TxType = [], pr_PaymentMode = [],
     pr_SaveBeneficiary = False, pr_OneTimeCode = [], pr_TwoFAType = [], pr_Location = None, pr_IPAddress = []\<rparr>"

definition decode_payment :: "(json \<Rightarrow> location option) \<Rightarrow> json \<Rightarrow> payment_request option" where
  "decode_payment loc v = decode_into True (payment_fields loc) v empty_payment"

definition card_info_fields :: "(string \<times> card_info putter) list" where
  "card_info_fields =
    [(''pan'', put_str (\<lambda>s r. r\<lparr>ci_EncryptedPAN := s\<rparr>)), (''pin'', put_str (\<lambda>s r. r\<lparr>ci_EncryptedPIN := s\<rparr>)),
     (''expirydate'', put_str (\<lambda>s r. r\<lparr>ci_ExpiryDate := s\<rparr>)), (''atc'', put_int (\<lambda>n r. r\<lparr>ci_ATC := n\<rparr>)),
     (''cvr'', put_str (\<lambda>s r. r\<lparr>ci_CVR := s\<rparr>)), (''cryptogram'', put_str (\<lambda>s r. r\<lparr>ci_Cryptogram := s\<rparr>)),
     (''issuerappdata'', put_str (\<lambda>s r. r\<lparr>ci_IssuerAppData := s\<rparr>)),
     (''countrycode'', put_str (\<lambda>s r. r\<lparr>ci_CountryCode := s\<rparr>)),
     (''currencycode'', put_str (\<lambda>s r. r\<lparr>ci_CurrencyCode := s\<rparr>))]"

definition card_fields :: "(json \<Rightarrow> location option) \<Rightarrow> (string \<times> card_payment_request putter) list" where
  "card_fields loc =
    [(''transactionid'', put_str (\<lambda>s r. r\<lparr>cp_TransactionID := s\<rparr>)),
     (''transactiondate'', put_int (\<lambda>n r. r\<lparr>cp_TransactionDate := n\<rparr>)),
     (''merchantid'', put_int (\<lambda>n r. r\<lparr>cp_MerchantID := n\<rparr>)),
     (''amount'', put_int (\<lambda>n r. r\<lparr>cp_Amount := n\<rparr>)),
     (''paymentmode'', put_str (\<lambda>s r. r\<lparr>cp_PaymentMode := s\<rparr>)),
     (''cardinfo'', \<lambda>v r. map_option (\<lambda>c. r\<lparr>cp_CardInfo := c\<rparr>) (decode_into False card_info_fields v (cp_CardInfo r))),
     (''txtype'', put_str (\<lambda>s r. r\<lparr>cp_TxType := s\<rparr>)),
     (''location'', put_location loc (\<lambda>l r. r\<lparr>cp_Location := l\<rparr>))]"

definition empty_card :: card_payment_request where
  "empty_card = \<lparr>cp_TransactionID = [], cp_TransactionDate = 0, cp_MerchantID = 0, cp_Amount = 0, cp_PaymentMode = [],
     cp_CardInfo = \<lparr>ci_EncryptedPAN = [], ci_EncryptedPIN = [], ci_ExpiryDate = [], ci_ATC = 0, ci_CVR = [],
       ci_Cryptogram = [], ci_IssuerAppData = [], ci_CountryCode = [], ci_CurrencyCode = []\<rparr>,
     cp_TxType = [], cp_Location = None\<rparr>"

definition decode_card :: "(json \<Rightarrow> location option) \<Rightarrow> json \<Rightarrow> card_payment_request option" where
  "decode_card loc v = decode_into False (card_fields loc) v empty_card"

text \<open>A list of strings: null is the empty one, every element is decoded in turn.\<close>

definition put_strings :: "(string list \<Rightarrow> 'r \<Rightarrow> 'r) \<Rightarrow> 'r putter" where
  "put_strings f v r = (case v of
       JNull \<Rightarrow> Some (f [] r)
     | JArr vs \<Rightarrow> if list_all (\<lambda>x. case x of JStr _ \<Rightarrow> True | JNull \<Rightarrow> True | _ \<Rightarrow> False) vs
         then Some (f (map (\<lambda>x. case x of JStr s \<Rightarrow> s | _ \<Rightarrow> []) vs) r) else None
     | _ \<Rightarrow> None)"

definition voucher_fields :: "(string \<times> voucher putter) list" where
  "voucher_fields =
    [(''id'', put_int (\<lambda>n r. r\<lparr>vo_ID := n\<rparr>)), (''vouchercode'', put_str (\<lambda>s r. r\<lparr>vo_VoucherCode := s\<rparr>)),
     (''voucherdescription'', put_str (\<lambda>s r. r\<lparr>vo_VoucherDescription := s\<rparr>)),
     (''voucherdiscountamount'', put_int (\<lambda>n r. r\<lparr>vo_VoucherDiscountAmount := n\<rparr>)),
     (''vouchertype'', put_str (\<lambda>s r. r\<lparr>vo_VoucherType := s\<rparr>)),
     (''voucherallowedservices'', put_strings (\<lambda>l r. r\<lparr>vo_VoucherAllowedServices := l\<rparr>))]"

definition airtime_fields :: "(json \<Rightarrow> location option) \<Rightarrow> (string \<times> airtime_data_request putter) list" where
  "airtime_fields loc =
    [(''transactionid'', put_str (\<lambda>s r. r\<lparr>ad_TransactionID := s\<rparr>)),
     (''debitaccount'', put_str (\<lambda>s r. r\<lparr>ad_DebitAccount := s\<rparr>)),
     (''beneficiaryphonenumber'', put_str (\<lambda>s r. r\<lparr>ad_PhoneNumber := s\<rparr>)),
     (''network'', put_str (\<lambda>s r. r\<lparr>ad_Network := s\<rparr>)),
     (''service'', put_str (\<lambda>s r. r\<lparr>ad_Service := s\<rparr>)),
     (''dataplanid'', put_str (\<lambda>s r. r\<lparr>ad_DataPlan := s\<rparr>)),
     (''amount'', put_int (\<lambda>n r. r\<lparr>ad_Amount := n\<rparr>)),
     (''narration'', put_str (\<lambda>s r. r\<lparr>ad_Narration := s\<rparr>)),
     (''paymentmode'', put_str (\<lambda>s r. r\<lparr>ad_PaymentMode := s\<rparr>)),
     (''voucher'', \<lambda>v r. map_option (\<lambda>x. r\<lparr>ad_Voucher := x\<rparr>) (decode_into True voucher_fields v (ad_Voucher r))),
     (''onetimecode'', put_str (\<lambda>s r. r\<lparr>ad_OneTimeCode := s\<rparr>)),
     (''twofatype'', put_str (\<lambda>s r. r\<lparr>ad_TwoFAType := s\<rparr>)),
     (''location'', put_location loc (\<lambda>l r. r\<lparr>ad_Location := l\<rparr>))]"

definition empty_airtime :: airtime_data_request where
  "empty_airtime = \<lparr>ad_TransactionID = [], ad_DebitAccount = [], ad_PhoneNumber = [], ad_Network = [], ad_Service = [],
     ad_DataPlan = [], ad_Amount = 0, ad_Narration = [], ad_PaymentMode = [],
     ad_Voucher = \<lparr>vo_ID = 0, vo_VoucherCode = [], vo_VoucherDescription = [], vo_VoucherDiscountAmount = 0,
       vo_VoucherType = [], vo_VoucherAllowedServices = []\<rparr>,
     ad_OneTimeCode = [], ad_TwoFAType = [], ad_Location = None\<rparr>"

definition decode_airtime :: "(json \<Rightarrow> location option) \<Rightarrow> json \<Rightarrow> airtime_data_request option" where
  "decode_airtime loc v = decode_into True (airtime_fields loc) v empty_airtime"

section \<open>Routing\<close>

text \<open>What the providers are made from.\<close>

record 'm payment_env =
  pe_location :: "json \<Rightarrow> location option"
  pe_HSM :: hsm_iface
  pe_DecryptPII :: "string \<Rightarrow> go_err + string"
  pe_nip :: nip_env
  pe_moov :: "'m moov"
  pe_breaker :: "go_err option"
  pe_today :: "int \<times> int"
  pe_nonce :: string
  pe_ip :: string

definition request_body_of :: "(json \<Rightarrow> location option) \<Rightarrow> json \<Rightarrow> request_body" where
  "request_body_of loc v = (case decode_payment loc v of None \<Rightarrow> DecodeFailed | Some req \<Rightarrow> Body req)"

definition card_body_of :: "(json \<Rightarrow> location option) \<Rightarrow> json \<Rightarrow> card_body" where
  "card_body_of loc v = (case decode_card loc v of None \<Rightarrow> CardDecodeFailed | Some req \<Rightarrow> CardBody req)"

definition airtime_body_of :: "(json \<Rightarrow> location option) \<Rightarrow> json \<Rightarrow> airtime_body" where
  "airtime_body_of loc v = (case decode_airtime loc v of None \<Rightarrow> AirtimeDecodeFailed | Some req \<Rightarrow> AirtimeBody req)"

definition base_handler :: "'m payment_env \<Rightarrow> int \<Rightarrow> payment_provider \<Rightarrow> json \<Rightarrow> http_response card_go" where
  "base_handler env userID provider v = on_world (HandlePaymentRequest (pe_HSM env) (pe_nonce env) userID (pe_ip env)
     provider (request_body_of (pe_location env) v))"

definition providerMap :: "'m payment_env \<Rightarrow> int \<Rightarrow> string \<Rightarrow> (json \<Rightarrow> http_response card_go) option" where
  "providerMap env userID mode = map_of
    [(''CARD'', \<lambda>v. card_HandlePayment (pe_moov env) (NewCardPaymentProvider (pe_HSM env) (pe_DecryptPII env))
        (pe_breaker env) (pe_today env) (pe_nonce env) userID (card_body_of (pe_location env) v)),
     (''QR'', base_handler env userID qrProvider),
     (''BANK_TRANSFER'', base_handler env userID (bankTransferProvider (pe_HSM env) (pe_nonce env) (pe_nip env))),
     (''USSD'', base_handler env userID ussdProvider),
     (''VOICE'', base_handler env userID voiceProvider),
     (''AIRTIME'', \<lambda>v. on_world (airtime_HandlePayment userID (airtime_body_of (pe_location env) v))),
     (''DATA'', \<lambda>v. on_world (data_HandlePayment userID (airtime_body_of (pe_location env) v)))] mode"

text \<open>The second factor of a top-up.  The interface asks a provider for this check; the two handlers of the
  map do not call it.\<close>

definition topup_ValidatePayment :: "payment_request \<Rightarrow> go_err option go" where
  "topup_ValidatePayment req =
     bind (ValidateUser2FA True (pr_UserID req) (pr_OneTimeCode req) (pr_TwoFAType req)) (\<lambda>valid.
     ret (if valid then None else Some (Msg (Response MultiFactorAuthError))))"

datatype payment_body = NotRead | NoJson | JsonThen json bool

definition route :: "'m payment_env \<Rightarrow> int \<Rightarrow> json \<Rightarrow> payment_request \<Rightarrow> http_response card_go" where
  "route env userID v req =
     (if pr_PaymentMode req = [] then ret (SendErrorResponse (Response InvalidPaymentMode) 400)
      else case providerMap env userID (pr_PaymentMode req) of
        None \<Rightarrow> ret (SendErrorResponse (Response InvalidPaymentMode) 400)
      | Some provider \<Rightarrow>
          bind (if pr_TransactionID req = [] then ret ([], False) else on_world (checkIdempotency (pr_TransactionID req)))
            (\<lambda>(cachedStatus, found).
              if found then
                (if cachedStatus = ''COMPLETED'' \<or> cachedStatus = ''PENDING''
                 then ret (replayed (pr_TransactionID req) cachedStatus (pr_PaymentMode req))
                 else ret (SendErrorResponse (Response PaymentFailed) 400))
              else provider v))"

definition HandlePayment :: "'m payment_env \<Rightarrow> int \<Rightarrow> payment_body \<Rightarrow> http_response card_go" where
  "HandlePayment env userID body = (case body of
       NotRead \<Rightarrow> ret (SendErrorResponse (Response InvalidRequestError) 400)
     | NoJson \<Rightarrow> ret (SendErrorResponse (Response InvalidRequestError) 400)
     | JsonThen v extra \<Rightarrow> (case decode_payment (pe_location env) v of
         None \<Rightarrow> ret (SendErrorResponse (Response InvalidRequestError) 400)
       | Some req \<Rightarrow> if extra then ret (SendErrorResponse (Response SingleObjectError) 400)
           else route env userID v req))"

end
