(* ===== verification/NIBSS_Props.thy ===== *)
theory NIBSS_Props
  imports NIBSS_Client
begin

text \<open>
  Padding, encryption and settlement of the card network client.
\<close>

section \<open>Padding\<close>

lemma last_of_padding:
  assumes "0 < p" and "i < p"
  shows "(d @ replicate p x) ! (length d + p - 1 - i) = x"
proof -
  have "\<not> length d + p - 1 - i < length d" and "length d + p - 1 - i - length d < p" using assms by auto
  then show ?thesis by (simp add: nth_append)
qed

lemma pkcs5_round_trip:
  assumes "0 < blockSize" and "blockSize < 256"
  shows "pkcs5Unpad (pkcs5Pad data blockSize) blockSize = Inr data"
proof -
  let ?p = "blockSize - length data mod blockSize"
  have p: "0 < ?p" "?p \<le> blockSize" "?p < 256" using assms by (simp_all add: mod_less_divisor less_imp_diff_less)
  let ?d = "data @ replicate ?p (of_nat ?p :: 8 word)"
  have len: "length ?d = length data + ?p" by simp
  have "(length data + ?p) mod blockSize = (length data mod blockSize + ?p) mod blockSize"
    by (metis mod_add_left_eq)
  then have al: "length ?d mod blockSize = 0" using assms by (simp add: mod_less_divisor order.strict_implies_order)
  have last: "?d ! (length ?d - 1 - i) = of_nat ?p" if "i < ?p" for i
    unfolding len using p(1) that by (rule last_of_padding)
  have u: "unat (of_nat ?p :: 8 word) = ?p" using p(3) by (simp add: unat_of_nat)
  have l0: "?d ! (length ?d - 1) = of_nat ?p" using last [of 0] p(1) by simp
  have "find (\<lambda>i. ?d ! (length ?d - 1 - i) \<noteq> of_nat ?p) [0..<?p] = None"
    unfolding find_None_iff using last by auto
  then show ?thesis
    unfolding pkcs5Unpad_def pkcs5Pad_def Let_def l0 u using al p len by simp
qed

lemma pkcs5_length:
  "length (pkcs5Pad data 8) mod 8 = 0 \<and> length data < length (pkcs5Pad data 8) \<and>
   length (pkcs5Pad data 8) \<le> length data + 8"
proof -
  have "(length data + (8 - length data mod 8)) mod 8 = 0" by presburger
  then show ?thesis by (simp add: pkcs5Pad_def Let_def)
qed

text \<open>A block size of 256 does not fit the padding byte.\<close>

lemma pkcs5_too_large: "pkcs5Unpad (pkcs5Pad [] 256) 256 = Inl (Msg ''pkcs5: invalid padding'')"
  by (simp add: pkcs5Unpad_def pkcs5Pad_def Let_def)

lemma fill_block_zeros: "\<exists>k < 8. fill_block p = p @ replicate k 0 \<and> (length p + k) mod 8 = 0"
proof (induction p rule: fill_block.induct)
  case (1 p)
  show ?case
  proof (cases "length p mod 8 = 0")
    case True
    then have "fill_block p = p" by (subst fill_block.simps) simp
    with True show ?thesis by (intro exI [of _ 0]) simp
  next
    case False
    with 1 obtain k where k: "k < 8" "fill_block (p @ [0]) = (p @ [0]) @ replicate k 0"
      "(length p + Suc k) mod 8 = 0" by auto
    have "k \<noteq> 7"
    proof
      assume "k = 7"
      with k(3) have "(length p + 8) mod 8 = 0" by (simp only: Suc_numeral) simp
      with False show False by (metis mod_add_self2)
    qed
    moreover have "fill_block p = p @ replicate (Suc k) 0"
      using False k(2) by (subst fill_block.simps) simp
    ultimately show ?thesis using k(1,3) by (intro exI [of _ "Suc k"]) linarith
  qed
qed

lemma drop_zeros: "dropWhile (\<lambda>b. b = (0 :: 8 word)) (replicate k 0 @ 0x80 # xs) = 0x80 # xs"
  by (induction k) simp_all

lemma strip_marker: "dropWhile (\<lambda>b. b = (0 :: 8 word)) (rev (iso9797Pad data)) = 0x80 # rev data"
proof -
  obtain k where k: "fill_block (data @ [0x80]) = (data @ [0x80]) @ replicate k 0"
    using fill_block_zeros [of "data @ [0x80]"] by (elim exE conjE)
  show ?thesis unfolding iso9797Pad_def k using drop_zeros [of k "rev data"] by simp
qed

text \<open>No two messages have the same padding, so no two share the input of the authentication code.\<close>

lemma iso9797Pad_inject: "iso9797Pad a = iso9797Pad b \<Longrightarrow> a = b"
  by (metis strip_marker list.inject rev_rev_ident)

lemma iso9797Pad_aligned: "length (iso9797Pad data) mod 8 = 0"
proof -
  obtain k where k: "fill_block (data @ [0x80]) = (data @ [0x80]) @ replicate k 0"
      "(length (data @ [0x80]) + k) mod 8 = 0"
    using fill_block_zeros [of "data @ [0x80]"] by (elim exE conjE)
  have "length (iso9797Pad data) = length (data @ [0x80]) + k"
    unfolding iso9797Pad_def k(1) by (simp only: length_append length_replicate)
  with k(2) show ?thesis by (simp only:)
qed

section \<open>Encryption\<close>

text \<open>C31: What the client encrypts under a session key of 24 bytes comes back: any data, the empty one
  included, is encrypted to whole blocks, one to eight bytes longer than it, and decrypted to
  itself.\<close>

theorem encrypted_data_returns:
  assumes "length key = 24"
  shows "\<exists>c. encrypt3DESCBC data key = Inr c \<and> decrypt3DESCBC c key = Inr data \<and>
    length c mod 8 = 0 \<and> length data < length c \<and> length c \<le> length data + 8"
proof -
  let ?p = "pkcs5Pad data 8"
  let ?n = "length ?p div 8"
  let ?c = "cbc_encrypt (tdes_encrypt key) ?n zero_iv ?p"
  have n: "length ?p = 8 * ?n" using pkcs5_length [of data] by auto
  have iv: "length zero_iv = 8" by (simp add: zero_iv_def)
  have c: "length ?c = length ?p" using tdes.length_cbc [OF iv n] n by simp
  have "cbc_decrypt (tdes_decrypt key) (length ?c div 8) zero_iv ?c = ?p"
    unfolding c by (rule tdes.cbc_decrypt_encrypt [OF iv n])
  then have "decrypt3DESCBC ?c key = Inr data"
    using assms pkcs5_length [of data] c
    by (simp add: decrypt3DESCBC_def pkcs5_round_trip wrap_err_def)
  with assms c pkcs5_length [of data] show ?thesis
    by (auto simp: encrypt3DESCBC_def Let_def)
qed

section \<open>Settlement\<close>

lemma DecryptSessionKey_length: "DecryptSessionKey c k s = (Done x, t) \<Longrightarrow> length x = 8"
  by (auto simp: DecryptSessionKey_def prog_defs tdes_decrypt_def split: option.splits if_splits)

lemma fst_Done_iff: "fst (m s) = Done x \<longleftrightarrow> (\<exists>t. m s = (Done x, t))"
  by (cases "m s") auto

lemma settle_with_short_key:
  "length key = 8 \<Longrightarrow> settle_with_key lib unmarshal c key payload s = (Failed (key_size_error key), s)"
  by (simp add: settle_with_key_def Let_def encrypt3DESCBC_def returning_def bind_def fail_def)

lemma exchanged_key_length: "exchange_key lib c req0800 s = (Done key, t) \<Longrightarrow> length key = 8"
  unfolding exchange_key_def by (elim bind_DoneE) (rule DecryptSessionKey_length)

lemma key_exchange_fails:
  "fst (ProcessCardSettlementWithKeyExchange lib breaker unmarshal c req0800 payload s) \<noteq> Done r"
proof (cases breaker)
  case None
  obtain x t where e: "exchange_key lib c req0800 s = (x, t)" by fastforce
  show ?thesis
  proof (cases x)
    case (Done key)
    with e have "length key = 8" using exchanged_key_length [of lib c req0800 s key t] by simp
    then show ?thesis
      by (simp add: ProcessCardSettlementWithKeyExchange_def None bind_def e Done settle_with_short_key)
  qed (simp_all add: ProcessCardSettlementWithKeyExchange_def None bind_def e)
qed (simp add: ProcessCardSettlementWithKeyExchange_def fail_def)

text \<open>The answer to a settlement has no response code as far as the library can tell.\<close>

lemma no_code_39: "39 \<notin> spec_ids CreateISO8583MessageSpec1987"
  by (simp add: spec_ids_def CreateISO8583MessageSpec1987_def)

lemma read_message_spec:
  assumes "moov_ok lib" and "ReadISOMessage lib spec s = (Done m, t)"
  shows "mv_spec lib m = spec"
  using assms
  by (auto simp: ReadISOMessage_def moov_ok_def prog_defs wrapping_def catching_def returning_def
      split: prod.splits sum.splits outcome.splits if_splits)

lemma never_approved:
  assumes "moov_ok lib" and "ReadISOMessage lib CreateISO8583MessageSpec1987 s = (Done m, t)"
  shows "\<exists>e. approved_code lib before after m = Inl e"
proof -
  have "\<exists>e. mv_get lib 39 m = Inl e"
    using assms no_code_39 read_message_spec [OF assms] by (auto simp: moov_ok_def)
  then show ?thesis by (auto simp: approved_code_def)
qed

lemma read_message_no_panic: "fst (ReadISOMessage lib spec s) \<noteq> Panics p"
  by (auto simp: ReadISOMessage_def prog_defs wrapping_def catching_def returning_def
      split: prod.splits sum.splits outcome.splits)

lemma read_message_sent: "ReadISOMessage lib spec s = (x, t) \<Longrightarrow> nt_sent t = nt_sent s"
  by (auto simp: ReadISOMessage_def prog_defs wrapping_def catching_def returning_def
      split: prod.splits sum.splits outcome.splits if_splits)


section \<open>Applied\<close>

lemma encrypted_data_returns_witness:
  "\<exists>c. encrypt3DESCBC [] (replicate 24 7) = Inr c \<and> decrypt3DESCBC c (replicate 24 7) = Inr [] \<and>
    length c mod 8 = 0 \<and> length ([] :: bytes) < length c \<and> length c \<le> length ([] :: bytes) + 8"
  by (rule encrypted_data_returns) simp

text \<open>A message library that keeps the values of the fields its specification has.\<close>

type_synonym sample_message = "message_spec \<times> string \<times> (nat \<rightharpoonup> string)"

definition known_field :: "nat \<Rightarrow> sample_message \<Rightarrow> 'a \<Rightarrow> go_err + 'a" where
  "known_field i m x = (if i \<in> spec_ids (fst m) then Inr x else Inl (Msg ''no such field''))"

definition sample_moov :: "sample_message moov" where
  "sample_moov = \<lparr>mv_new = (\<lambda>s. (s, [], Map.empty)), mv_spec = fst,
     mv_mti = (\<lambda>t m. (fst m, t, snd (snd m))), mv_get_mti = (\<lambda>m. Inr (fst (snd m))),
     mv_set = (\<lambda>i v m. known_field i m (fst m, fst (snd m), (snd (snd m))(i \<mapsto> v))),
     mv_set_binary = (\<lambda>i v m. known_field i m m),
     mv_get = (\<lambda>i m. known_field i m (case snd (snd m) i of None \<Rightarrow> [] | Some v \<Rightarrow> v)),
     mv_get_bytes = (\<lambda>i m. known_field i m (case snd (snd m) i of None \<Rightarrow> [] | Some v \<Rightarrow> string_bytes v)),
     mv_unset = (\<lambda>i m. (fst m, fst (snd m), (snd (snd m))(i := None))), mv_clone = Inr,
     mv_pack = (\<lambda>m. Inr (string_bytes (fst (snd m)))), mv_unpack = (\<lambda>b m. Inr m)\<rparr>"

lemma sample_moov_ok: "moov_ok sample_moov"
  by (auto simp: moov_ok_def sample_moov_def known_field_def split: if_splits)

definition sample_client :: nibss_client where
  "sample_client = NewNIBSSClient (\<lambda>k. []) (\<lambda>k. False) (\<lambda>k d. d * second)"

definition sample_net :: card_net where
  "sample_net = \<lparr>nt_dials = [Inr [(string_bytes ''0210'', None)]], nt_stream = [], nt_writes = [], nt_sent = []\<rparr>"

definition sample_0200 :: sample_message where
  "sample_0200 = mv_mti sample_moov ''0200'' (mv_new sample_moov CreateISO8583MessageSpec1987)"


end
