(* ===== verification/Card_Props.thy ===== *)
theory Card_Props
  imports Card NIBSS_Props
begin

text \<open>
  What becomes of a card payment, as the provider is constructed.
\<close>

section \<open>What the audit logger leaves alone\<close>

definition logging :: "account list \<Rightarrow> (string \<rightharpoonup> rvalue \<times> int) \<Rightarrow> int \<Rightarrow> world \<Rightarrow> bool" where
  "logging as R t w \<longleftrightarrow> accounts (committed w) = as \<and> (\<forall>d b. tx w = Some (d, b) \<longrightarrow> accounts d = as) \<and>
     redis w = R \<and> now w = t \<and> faults w = []"

lemma logging_tx_run [keeps_intros]:
  assumes "\<And>d x d'. st d = Some (x, d') \<Longrightarrow> accounts d' = accounts d"
  shows "keeps (logging as R t) (tx_run st)"
proof (rule keepsI)
  fix w assume l: "logging as R t w"
  show "logging as R t (snd (tx_run st w))"
  proof (cases "tx w")
    case (Some db)
    obtain d b where db: "db = (d, b)" by fastforce
    show ?thesis
    proof (cases "st d")
      case None
      with l Some show ?thesis by (simp add: logging_def tx_run_def db used_fault_def)
    next
      case s: (Some y)
      obtain x d' where y: "y = (x, d')" by fastforce
      have "accounts d' = accounts d" using assms s y by blast
      with l Some s show ?thesis by (simp add: logging_def tx_run_def db y used_fault_def)
    qed
  qed (use l in \<open>simp add: tx_run_def\<close>)
qed

lemma logging_tx_commit [keeps_intros]: "keeps (logging as R t) tx_commit"
  by (rule keepsI) (auto simp: logging_def tx_commit_def used_fault_def next_fault_def split: option.splits prod.splits)

lemma LogTransaction_logging: "keeps (logging as R t) (LogTransaction HSM nonce event)"
  unfolding LogTransaction_def Let_def
  by (intro keeps_intros) (auto dest: sql_insert_audit_frame sql_insert_transaction_frame)

section \<open>Without a client\<close>

lemma no_client_panics:
  "ca_client p = None \<Longrightarrow> card_messages lib p breaker t req s = (Panics ''nil pointer dereference: nibssClient'', s)"
  by (simp add: card_messages_def Let_def catching_def on_net_def DialISO8583_def prog_defs)

lemma ProcessPayment_panics:
  assumes "ca_client p = None" and "faults w = []" and "tx w = None"
    and "\<not> checkExpiredCard (fst today) (snd today) (ci_ExpiryDate (cp_CardInfo cardReq))"
  shows "\<exists>why w'. card_ProcessPayment lib p breaker today nonce (Some cardReq) req (w, n) = (Panics why, (w', n)) \<and>
    logging (accounts (committed w)) (redis w) (now w) w'"
proof -
  let ?P = "logging (accounts (committed w)) (redis w) (now w)"
  let ?b = "w\<lparr>tx := Some (committed w, False)\<rparr>"
  let ?log = "LogTransaction (ca_HSM p) nonce (card_event (now w) req cardReq)"
  have b: "tx_begin w = (Done (), ?b)" using assms(2) by (simp add: tx_begin_def next_fault_def used_fault_def)
  have "?P ?b" using assms(2) by (simp add: logging_def)
  then have P: "?P (snd (?log ?b))" by (rule keepsD [OF LogTransaction_logging])
  obtain r w2 where l: "?log ?b = (r, w2)" by fastforce
  have "\<exists>why. (bind (on_world (ignoring ?log)) (\<lambda>_. card_messages lib p breaker (now w) req)) (?b, n) =
      (Panics why, (w2, n))"
  proof (cases r)
    case (Panics q)
    then show ?thesis by (simp add: l on_world_def prog_defs)
  qed (simp_all add: l on_world_def prog_defs no_client_panics [OF assms(1), simplified prog_defs])
  then obtain why where m: "(bind (on_world (ignoring ?log)) (\<lambda>_. card_messages lib p breaker (now w) req)) (?b, n) =
      (Panics why, (w2, n))" by blast
  have "card_ProcessPayment lib p breaker today nonce (Some cardReq) req (w, n) = (Panics why, (tx_rollback w2, n))"
    using assms(4) m b
    by (simp add: card_ProcessPayment_def on_world_def gets_def bind_def deferring_def catching_def attempt_def)
  moreover have "?P (tx_rollback w2)" using P l by (simp add: logging_def)
  ultimately show ?thesis by blast
qed

text \<open>A card payment that crashed is reported as processed.  As the provider is constructed, every card
  payment whose card number decrypts and whose card is not expired panics at the missing client, with
  no balance changed; and the same request, sent again within a day, is answered with success.\<close>

theorem crashed_card_payment_replayed:
  assumes "p = NewCardPaymentProvider HSM decryptPII"
    and "decryptPII (ci_EncryptedPAN (cp_CardInfo cardReq)) = Inr pan" and "pan \<noteq> []"
    and "\<not> checkExpiredCard (fst today) (snd today) (ci_ExpiryDate (cp_CardInfo cardReq))"
    and "faults w = []" and "tx w = None" and "redis_live (idempotency_key (cp_TransactionID cardReq)) w = None"
    and "0 \<le> d" and "d < 24 * 3600 * second"
  shows "\<exists>why w'. card_HandlePayment lib p breaker today nonce userID (CardBody cardReq) (w, n) = (Panics why, (w', n)) \<and>
    accounts (committed w') = accounts (committed w) \<and>
    card_HandlePayment lib p breaker today nonce userID (CardBody cardReq) (w'\<lparr>now := now w' + d\<rparr>, n) =
      (Done (replayed (cp_TransactionID cardReq) ''PENDING'' ''CARD''), (w'\<lparr>now := now w' + d\<rparr>, n))"
proof -
  let ?k = "idempotency_key (cp_TransactionID cardReq)"
  let ?req = "card_request userID pan cardReq"
  let ?w1 = "redis_put ?k (RStr ''PENDING'') (24 * 3600 * second) w"
  have pan: "DecryptPIICredentials p (ci_EncryptedPAN (cp_CardInfo cardReq)) = pan"
    using assms(1,2) by (simp add: DecryptPIICredentials_def NewCardPaymentProvider_def)
  have f: "used_fault w = w" "next_fault w = False" using assms(5) by (simp_all add: used_fault_def next_fault_def)
  have c: "checkIdempotency (cp_TransactionID cardReq) w = (Done ([], False), w)"
    using f assms(7) by (simp add: checkIdempotency_def catching_def redis_get_def bind_def attempt_def ret_def)
  have s: "setIdempotency (cp_TransactionID cardReq) ''PENDING'' w = (Done (), ?w1)"
    using f by (simp add: setIdempotency_def ignoring_def redis_set_def bind_def attempt_def ret_def)
  have "ca_client p = None" using assms(1) by (simp add: NewCardPaymentProvider_def)
  then obtain why w2 where p: "card_ProcessPayment lib p breaker today nonce (Some cardReq) ?req (?w1, n) = (Panics why, (w2, n))"
    and l: "logging (accounts (committed ?w1)) (redis ?w1) (now ?w1) w2"
    using ProcessPayment_panics [of p ?w1 today cardReq lib breaker nonce ?req n] assms(4,5,6)
    by (auto simp: redis_put_def)
  have first: "card_HandlePayment lib p breaker today nonce userID (CardBody cardReq) (w, n) = (Panics why, (w2, n))"
    using assms(3) c s p by (simp add: card_HandlePayment_def Let_def pan on_world_def bind_def)
  let ?w3 = "w2\<lparr>now := now w2 + d\<rparr>"
  have "redis_live ?k ?w3 = Some (RStr ''PENDING'')" "faults ?w3 = []"
    using l assms(9) by (simp_all add: logging_def redis_live_def redis_put_def)
  then have "checkIdempotency (cp_TransactionID cardReq) ?w3 = (Done (''PENDING'', True), ?w3)"
    by (simp add: checkIdempotency_def catching_def redis_get_def bind_def attempt_def ret_def next_fault_def used_fault_def)
  then have "card_HandlePayment lib p breaker today nonce userID (CardBody cardReq) (?w3, n) =
      (Done (replayed (cp_TransactionID cardReq) ''PENDING'' ''CARD''), (?w3, n))"
    using assms(3) by (simp add: card_HandlePayment_def Let_def pan on_world_def bind_def ret_def)
  with first l show ?thesis by (auto simp: logging_def)
qed

text \<open>A card number whose issuer starts it with 506, outside the list, is a Mastercard by the fallback.\<close>

lemma verve_taken_for_mastercard:
  assumes "fetchFromBinList http decode bin = Inl e" and "is_prefix ''506'' bin" and "6 \<le> length bin"
    and "CHR '' '' \<notin> set bin" and "take 6 bin \<noteq> ''506109''"
  shows "QueryCardBin http decode bin = SendSuccessResponse ''Fetched From Fallback'' (bin_json (fallback_bin bin ''Mastercard'')) 200"
proof -
  obtain t where t: "bin = ''506'' @ t" using assms(2) by (auto simp: is_prefix_iff)
  have "filter (\<lambda>c. c \<noteq> CHR '' '') bin = bin" using assms(4) by (auto simp: filter_id_conv)
  moreover have "map_of seedData (take 6 bin) = None"
    using assms(5) by (simp add: t seedData_def local_bin_def)
  ultimately show ?thesis using assms(1,3) by (simp add: QueryCardBin_def Let_def t is_prefix_def)
qed

section \<open>Applied\<close>

definition sample_hsm :: hsm_iface where
  "sample_hsm = \<lparr>hsm_SignTransaction = (\<lambda>x. Inr ''s''), hsm_EncryptPAN = (\<lambda>x. Inr ''p'')\<rparr>"

definition sample_card :: card_payment_request where
  "sample_card = \<lparr>cp_TransactionID = ''T1'', cp_TransactionDate = 0, cp_MerchantID = 3, cp_Amount = 100,
     cp_PaymentMode = ''CARD'', cp_CardInfo = \<lparr>ci_EncryptedPAN = ''x'', ci_EncryptedPIN = [], ci_ExpiryDate = ''09/28'',
       ci_ATC = 1, ci_CVR = [], ci_Cryptogram = [], ci_IssuerAppData = [], ci_CountryCode = [], ci_CurrencyCode = []\<rparr>,
     cp_TxType = ''DEBIT'', cp_Location = None\<rparr>"

lemma crashed_card_payment_replayed_witness:
  "\<exists>why w'. card_HandlePayment sample_moov (NewCardPaymentProvider sample_hsm (\<lambda>e. Inr ''4187''))
      None (2027, 5) ''n'' 7 (CardBody sample_card) (sample_world, sample_net) = (Panics why, (w', sample_net)) \<and>
    accounts (committed w') = accounts (committed sample_world) \<and>
    card_HandlePayment sample_moov (NewCardPaymentProvider sample_hsm (\<lambda>e. Inr ''4187''))
      None (2027, 5) ''n'' 7 (CardBody sample_card) (w'\<lparr>now := now w' + 60 * second\<rparr>, sample_net) =
      (Done (replayed (cp_TransactionID sample_card) ''PENDING'' ''CARD''), (w'\<lparr>now := now w' + 60 * second\<rparr>, sample_net))"
proof (rule crashed_card_payment_replayed [OF refl, where pan = "''4187''"])
  have "split_char (CHR ''/'') ''09/28'' = [''09'', ''28'']" by code_simp
  moreover have "atoi0 ''09'' = 9" "atoi0 ''28'' = 28" by code_simp+
  ultimately show "\<not> checkExpiredCard (fst (2027, 5)) (snd (2027, 5)) (ci_ExpiryDate (cp_CardInfo sample_card))"
    by (simp add: checkExpiredCard_def sample_card_def wrap64_id in_int64_def)
qed (simp_all add: sample_world_def redis_live_def second_def)

end
