(* ===== verification/HSM.thy ===== *)
theory HSM
  imports Sealing Base64 Audit_Log "HOL-Library.AList"
begin

text \<open>
  The software security module, \<open>src/internal/hsm/hsm.go\<close>: its key table, the files it keeps them in, and
  what it encrypts, signs and hashes.

  \<^item> A method takes the module's lock and may never return: the lock is not reentrant, and a method that
    takes it while its caller holds it blocks for ever.  A run is an option, \<open>None\<close> is such a run.
    Readers exclude writers only; as no method here runs beside another, one flag stands for both
    kinds of holder.
  \<^item> RSA, AES-GCM, NaCl's secret box, Argon2 and the JSON, PEM and X.509 codecs are functions of the
    record \<open>hsm_lib\<close>; random bytes and new keys are the record \<open>hsm_random\<close>.  Base64 is theory \<open>Base64\<close>,
    SHA-256 theory \<open>SHA256\<close>.
  \<^item> The directory of the key store is a list of names and contents; \<open>hs_write_error\<close> and its like say
    which accesses fail.  A file that cannot be written is left as it was.
\<close>

section \<open>State\<close>

text \<open>The two halves of an RSA key are kept apart, as the structure has them.\<close>

record key_pair =
  kp_ID :: string
  kp_PublicKey :: string
  kp_PrivateKey :: string
  kp_CreatedAt :: int
  kp_ExpiresAt :: int
  kp_IsActive :: bool

record hsm =
  hs_keys :: "(string \<times> key_pair) list"
  hs_masterKey :: string
  hs_path :: string
  hs_locked :: bool
  hs_files :: "(string \<times> string) list"
  hs_read_error :: "string \<Rightarrow> go_err option"
  hs_write_error :: "string \<Rightarrow> go_err option"
  hs_remove_error :: "string \<Rightarrow> go_err option"
  hs_list_error :: "go_err option"

record hsm_lib =
  hl_public :: "string \<Rightarrow> string"
  hl_sign :: "string \<Rightarrow> string \<Rightarrow> go_err + string"
  hl_verify :: "string \<Rightarrow> string \<Rightarrow> string \<Rightarrow> bool"
  hl_seal :: "string \<Rightarrow> string \<Rightarrow> string \<Rightarrow> string"
  hl_open :: "string \<Rightarrow> string \<Rightarrow> string \<Rightarrow> go_err + string"
  hl_oaep_decrypt :: "string \<Rightarrow> string \<Rightarrow> go_err + string"
  hl_box_open :: "string \<Rightarrow> string \<Rightarrow> string \<Rightarrow> string option"
  hl_argon2 :: "string \<Rightarrow> string \<Rightarrow> nat \<Rightarrow> nat \<Rightarrow> nat \<Rightarrow> nat \<Rightarrow> string"
  hl_key_json :: "key_pair \<Rightarrow> go_err + string"
  hl_json_key :: "string \<Rightarrow> go_err + key_pair"
  hl_tx_json :: "hsm_tx \<Rightarrow> go_err + string"
  hl_pem :: "string \<Rightarrow> (string \<times> string) option"
  hl_pkix :: "string \<Rightarrow> go_err + string option"
  hl_pkcs1 :: "string \<Rightarrow> go_err + string"
  hl_to_pkcs1 :: "string \<Rightarrow> string"
  hl_to_pkix :: "string \<Rightarrow> go_err + string"
  hl_to_pem :: "string \<Rightarrow> string \<Rightarrow> string"

record hsm_random =
  hr_key :: "go_err + string"
  hr_nonce :: "go_err + string"
  hr_salt :: "go_err + string"

type_synonym 'a run = "hsm \<Rightarrow> ((go_err + 'a) \<times> hsm) option"

definition hret :: "go_err + 'a \<Rightarrow> 'a run" where
  "hret r h = Some (r, h)"

definition hbind :: "'a run \<Rightarrow> ('a \<Rightarrow> 'b run) \<Rightarrow> 'b run" where
  "hbind m k h = (case m h of None \<Rightarrow> None
     | Some (Inl e, h') \<Rightarrow> Some (Inl e, h')
     | Some (Inr x, h') \<Rightarrow> k x h')"

definition hwrap :: "string \<Rightarrow> 'a run \<Rightarrow> 'a run" where
  "hwrap what m h = map_option (\<lambda>(r, h'). (wrap_err what r, h')) (m h)"

text \<open>\<open>mu.Lock()\<close> with the deferred \<open>Unlock\<close>.\<close>

definition locking :: "'a run \<Rightarrow> 'a run" where
  "locking m h = (if hs_locked h then None
     else map_option (\<lambda>(r, h'). (r, h'\<lparr>hs_locked := False\<rparr>)) (m (h\<lparr>hs_locked := True\<rparr>)))"

section \<open>Key identifiers\<close>

text \<open>\<open>filepath.Clean\<close> on slashes: empty and dot elements vanish, a parent element takes one away.\<close>

fun clean_parts :: "bool \<Rightarrow> string list \<Rightarrow> string list \<Rightarrow> string list" where
  "clean_parts rooted acc [] = rev acc"
| "clean_parts rooted acc (p # ps) =
     (if p = [] \<or> p = ''.'' then clean_parts rooted acc ps
      else if p = ''..'' then
        (case acc of a # as \<Rightarrow> if a \<noteq> ''..'' then clean_parts rooted as ps else clean_parts rooted (p # acc) ps
         | [] \<Rightarrow> if rooted then clean_parts rooted [] ps else clean_parts rooted [p] ps)
      else clean_parts rooted (p # acc) ps)"

fun join_parts :: "string list \<Rightarrow> string" where
  "join_parts [] = []"
| "join_parts [p] = p"
| "join_parts (p # ps) = p @ ''/'' @ join_parts ps"

definition is_abs :: "string \<Rightarrow> bool" where
  "is_abs s \<longleftrightarrow> is_prefix ''/'' s"

definition clean_path :: "string \<Rightarrow> string" where
  "clean_path s = (let p = join_parts (clean_parts (is_abs s) [] (split_char (CHR ''/'') s))
     in if is_abs s then ''/'' @ p else if p = [] then ''.'' else p)"

definition key_char :: "char \<Rightarrow> bool" where
  "key_char c \<longleftrightarrow> is_alnum c \<or> c = CHR ''_'' \<or> c = CHR ''-''"

definition validateKeyID :: "string \<Rightarrow> go_err option" where
  "validateKeyID keyID =
     (if keyID = [] then Some (Msg ''key ID cannot be empty'')
      else if is_abs keyID then Some (Msg ''key ID cannot be an absolute path'')
      else if clean_path keyID \<noteq> keyID then Some (Msg ''key ID contains invalid path elements'')
      else if \<not> list_all key_char keyID then Some (Msg ''key ID contains invalid characters'')
      else None)"

section \<open>The key store\<close>

definition encryptWithMasterKey :: "hsm_lib \<Rightarrow> go_err + string \<Rightarrow> string \<Rightarrow> string \<Rightarrow> go_err + string" where
  "encryptWithMasterKey lib nonce masterKey data =
     and_then (aes_key_ok masterKey) (\<lambda>_. and_then nonce (\<lambda>n. Inr (n @ hl_seal lib masterKey n data)))"

definition decryptWithMasterKey :: "hsm_lib \<Rightarrow> string \<Rightarrow> string \<Rightarrow> go_err + string" where
  "decryptWithMasterKey lib masterKey data =
     and_then (aes_key_ok masterKey) (\<lambda>_.
     if length data < gcm_nonce_size then Inl (Msg ''ciphertext too short'')
     else hl_open lib masterKey (take gcm_nonce_size data) (drop gcm_nonce_size data))"

definition write_file :: "string \<Rightarrow> string \<Rightarrow> unit run" where
  "write_file name content h = (case hs_write_error h name of
       Some e \<Rightarrow> Some (Inl e, h)
     | None \<Rightarrow> Some (Inr (), h\<lparr>hs_files := AList.update name content (hs_files h)\<rparr>))"

definition saveKeyToDisk :: "hsm_lib \<Rightarrow> hsm_random \<Rightarrow> key_pair \<Rightarrow> unit run" where
  "saveKeyToDisk lib rn keyPair h =
     (if hs_path h = [] then Some (Inr (), h)
      else hbind (hret (hl_key_json lib keyPair)) (\<lambda>keyData.
           hbind (hret (encryptWithMasterKey lib (hr_nonce rn) (hs_masterKey h) keyData)) (\<lambda>encrypted.
           case validateKeyID (kp_ID keyPair) of
             Some e \<Rightarrow> hret (Inl (Wrap ''invalid key ID: '' e))
           | None \<Rightarrow> write_file (kp_ID keyPair @ ''.key'') encrypted)) h)"

definition key_lifetime :: int where
  "key_lifetime = 365 * 24 * 3600 * second"

definition set_key :: "string \<Rightarrow> key_pair \<Rightarrow> hsm \<Rightarrow> hsm" where
  "set_key k p h = h\<lparr>hs_keys := AList.update k p (hs_keys h)\<rparr>"

definition drop_key_pair :: "string \<Rightarrow> hsm \<Rightarrow> hsm" where
  "drop_key_pair k h = h\<lparr>hs_keys := AList.delete k (hs_keys h)\<rparr>"

definition new_key_pair :: "hsm_lib \<Rightarrow> int \<Rightarrow> string \<Rightarrow> string \<Rightarrow> key_pair" where
  "new_key_pair lib t keyID sk = \<lparr>kp_ID = keyID, kp_PublicKey = hl_public lib sk, kp_PrivateKey = sk,
     kp_CreatedAt = t, kp_ExpiresAt = t + key_lifetime, kp_IsActive = True\<rparr>"

definition generateKeyPairInternal :: "hsm_lib \<Rightarrow> hsm_random \<Rightarrow> int \<Rightarrow> string \<Rightarrow> key_pair run" where
  "generateKeyPairInternal lib rn t keyID = locking (\<lambda>h.
     case validateKeyID keyID of
       Some e \<Rightarrow> Some (Inl (Wrap ''invalid key ID: '' e), h)
     | None \<Rightarrow>
         if map_of (hs_keys h) keyID \<noteq> None
         then Some (Inl (Msg (''key with ID '' @ keyID @ '' already exists'')), h)
         else case hr_key rn of
           Inl e \<Rightarrow> Some (Inl (Wrap ''failed to generate RSA key: '' e), h)
         | Inr sk \<Rightarrow> (let keyPair = new_key_pair lib t keyID sk in
             case saveKeyToDisk lib rn keyPair (set_key keyID keyPair h) of
               None \<Rightarrow> None
             | Some (Inl e, h') \<Rightarrow> Some (Inl (Wrap ''failed to save key to disk: '' e), drop_key_pair keyID h')
             | Some (Inr _, h') \<Rightarrow> Some (Inr keyPair, h')))"

text \<open>Files that cannot be read, decrypted or parsed are skipped; the directory is read in order of names.\<close>

definition load_file :: "hsm_lib \<Rightarrow> string \<times> string \<Rightarrow> hsm \<Rightarrow> hsm" where
  "load_file lib f h = (case hs_read_error h (fst f) of Some _ \<Rightarrow> h
     | None \<Rightarrow> (case decryptWithMasterKey lib (hs_masterKey h) (snd f) of Inl _ \<Rightarrow> h
       | Inr decrypted \<Rightarrow> (case hl_json_key lib decrypted of Inl _ \<Rightarrow> h
         | Inr keyPair \<Rightarrow> set_key (kp_ID keyPair) keyPair h)))"

definition loadKeys :: "hsm_lib \<Rightarrow> unit run" where
  "loadKeys lib h =
     (if hs_path h = [] then Some (Inr (), h)
      else case hs_list_error h of
        Some e \<Rightarrow> Some (Inl e, h)
      | None \<Rightarrow> Some (Inr (), fold (load_file lib) (sort_key fst (hs_files h)) h))"

definition generateDefaultKeys :: "hsm_lib \<Rightarrow> hsm_random \<Rightarrow> int \<Rightarrow> unit run" where
  "generateDefaultKeys lib rn t =
     hbind (generateKeyPairInternal lib rn t ''transaction_signing'') (\<lambda>_. hret (Inr ()))"

definition deriveKey :: "hsm_lib \<Rightarrow> string \<Rightarrow> string \<Rightarrow> nat \<Rightarrow> string" where
  "deriveKey lib password salt keyLen = hl_argon2 lib password salt 3 (32 * 1024) 4 keyLen"

record hsm_config =
  hc_type :: string
  hc_MasterKey :: string
  hc_KeyStorePath :: string
  hc_Salt :: "string option"

text \<open>\<open>disk\<close> is the directory found at the path, with no key loaded and no lock held.\<close>

definition NewSoftwareHSM :: "hsm_lib \<Rightarrow> hsm_random \<Rightarrow> int \<Rightarrow> hsm_config \<Rightarrow> hsm \<Rightarrow> ((go_err + unit) \<times> hsm) option" where
  "NewSoftwareHSM lib rn t cfg disk =
     (if hc_MasterKey cfg = [] then Some (Inl (Msg ''master Key Required for software HSM''), disk)
      else case (case hc_Salt cfg of Some s \<Rightarrow> Inr s | None \<Rightarrow> wrap_err ''failed to generate salt: '' (hr_salt rn)) of
        Inl e \<Rightarrow> Some (Inl e, disk)
      | Inr salt \<Rightarrow>
          hbind (hwrap ''failed to load keys: '' (loadKeys lib)) (\<lambda>_ h.
            if hs_keys h = [] then hwrap ''failed to generate default keys: '' (generateDefaultKeys lib rn t) h
            else Some (Inr (), h))
          (disk\<lparr>hs_keys := [], hs_masterKey := deriveKey lib (hc_MasterKey cfg) salt 32,
             hs_path := hc_KeyStorePath cfg, hs_locked := False\<rparr>))"

text \<open>The hardware module is a placeholder, all of whose methods return errors.\<close>

definition InitHSM :: "hsm_lib \<Rightarrow> hsm_random \<Rightarrow> int \<Rightarrow> hsm_config \<Rightarrow> hsm \<Rightarrow> ((go_err + hsm option) \<times> hsm) option" where
  "InitHSM lib rn t cfg disk =
     (if hc_type cfg = ''hardware'' then Some (Inr None, disk)
      else if hc_type cfg = ''software'' then
        map_option (\<lambda>(r, h). (and_then r (\<lambda>_. Inr (Some h)), h)) (NewSoftwareHSM lib rn t cfg disk)
      else Some (Inl (Msg (''invalid HSM Type: '' @ hc_type cfg)), disk))"

section \<open>Reading keys\<close>

text \<open>A method that holds the lock to read changes nothing; \<open>None\<close> is again a run that blocks.\<close>

type_synonym 'a reading = "hsm \<Rightarrow> (go_err + 'a) option"

definition reading :: "(hsm \<Rightarrow> go_err + 'a) \<Rightarrow> 'a reading" where
  "reading m h = (if hs_locked h then None else Some (m h))"

definition read_then :: "(go_err + 'a) option \<Rightarrow> ('a \<Rightarrow> (go_err + 'b) option) \<Rightarrow> (go_err + 'b) option" where
  "read_then r k = (case r of None \<Rightarrow> None | Some (Inl e) \<Rightarrow> Some (Inl e) | Some (Inr x) \<Rightarrow> k x)"

definition not_active :: "string \<Rightarrow> go_err" where
  "not_active keyID = Msg (''key '' @ keyID @ '' is not active'')"

definition not_found :: "string \<Rightarrow> go_err" where
  "not_found keyID = Msg (''key '' @ keyID @ '' not found'')"

definition pem_path :: "hsm \<Rightarrow> string \<Rightarrow> string" where
  "pem_path h keyID = (if hs_path h = [] then keyID @ ''.pem'' else clean_path (hs_path h @ ''/'' @ keyID @ ''.pem''))"

text \<open>\<open>os.ReadFile\<close>: nothing where there is no such file.\<close>

definition read_file :: "string \<Rightarrow> hsm \<Rightarrow> go_err + string option" where
  "read_file name h = (case hs_read_error h name of Some e \<Rightarrow> Inl e | None \<Rightarrow> Inr (map_of (hs_files h) name))"

definition GetPublicKey :: "hsm_lib \<Rightarrow> string \<Rightarrow> string reading" where
  "GetPublicKey lib keyID = reading (\<lambda>h. case map_of (hs_keys h) keyID of
     Some keyPair \<Rightarrow> if \<not> kp_IsActive keyPair then Inl (not_active keyID) else Inr (kp_PublicKey keyPair)
   | None \<Rightarrow>
       let pemPath = pem_path h keyID in
       and_then (wrap_err (''failed to read public key file '' @ pemPath @ '': '') (read_file (keyID @ ''.pem'') h)) (\<lambda>file.
       case file of
         None \<Rightarrow> Inl (Msg (''key '' @ keyID @ '' not found in memory or as a PEM file''))
       | Some pemData \<Rightarrow> (case hl_pem lib pemData of
           None \<Rightarrow> Inl (Msg (''failed to decode PEM block containing public key from '' @ pemPath))
         | Some (type, block) \<Rightarrow>
             if type \<noteq> ''PUBLIC KEY'' then Inl (Msg (''failed to decode PEM block containing public key from '' @ pemPath))
             else and_then (wrap_err (''failed to parse public key from '' @ pemPath @ '': '') (hl_pkix lib block)) (\<lambda>pub.
               case pub of None \<Rightarrow> Inl (Msg (''key in '' @ pemPath @ '' is not an RSA public key''))
               | Some rsaPub \<Rightarrow> Inr rsaPub))))"

definition GetPrivateKey :: "hsm_lib \<Rightarrow> string \<Rightarrow> string reading" where
  "GetPrivateKey lib keyID = reading (\<lambda>h. case map_of (hs_keys h) keyID of
     Some keyPair \<Rightarrow> if \<not> kp_IsActive keyPair then Inl (not_active keyID) else Inr (kp_PrivateKey keyPair)
   | None \<Rightarrow>
       and_then (wrap_err (''failed to read private key file '' @ pem_path h keyID @ '': '')
         (read_file (keyID @ ''.pem'') h)) (\<lambda>file.
       case file of
         None \<Rightarrow> Inl (not_found keyID)
       | Some pemData \<Rightarrow> (case hl_pem lib pemData of
           None \<Rightarrow> Inl (Msg (''failed to decode PEM block for key '' @ keyID))
         | Some (type, block) \<Rightarrow> hl_pkcs1 lib block)))"

section \<open>Encryption\<close>

definition EncryptData :: "hsm_lib \<Rightarrow> go_err + string \<Rightarrow> string \<Rightarrow> string \<Rightarrow> string reading" where
  "EncryptData lib nonce keyID plaintext = reading (\<lambda>h. case map_of (hs_keys h) keyID of
     None \<Rightarrow> Inl (not_found keyID)
   | Some _ \<Rightarrow>
       and_then (wrap_err ''failed to generate nonce: '' nonce) (\<lambda>n.
       and_then (wrap_err ''failed to create cipher: '' (aes_key_ok (hs_masterKey h))) (\<lambda>_.
       Inr (n @ hl_seal lib (hs_masterKey h) n plaintext))))"

text \<open>The length of the wrapped key leads the payload, in two bytes, the low one first; twelve bytes of the
  nonce follow the wrapped key.\<close>

definition le16 :: "string \<Rightarrow> nat" where
  "le16 s = of_char (s ! 0) + 256 * of_char (s ! 1)"

definition too_short :: "nat \<Rightarrow> nat \<Rightarrow> go_err" where
  "too_short need got = Msg (''payload too short: need '' @ show_nat need @ '' bytes, got '' @ show_nat got)"

definition DecryptData :: "hsm_lib \<Rightarrow> string \<Rightarrow> string \<Rightarrow> string reading" where
  "DecryptData lib keyID payload h =
     (if length payload < 2 then Some (Inl (Msg (''payload too short: got '' @ show_nat (length payload) @ '' bytes'')))
      else read_then (map_option (wrap_err ''failed to get private key: '') (GetPrivateKey lib keyID h)) (\<lambda>privateKey. Some (
        let rsaKeyLen = le16 payload in
        if 2 + rsaKeyLen + 12 > length payload then Inl (too_short (2 + rsaKeyLen + 12) (length payload))
        else
          let encryptedKey = take rsaKeyLen (drop 2 payload) in
          and_then (wrap_err ''RSA decryption failed: '' (hl_oaep_decrypt lib privateKey encryptedKey)) (\<lambda>keyBytes.
          if length keyBytes \<noteq> 32
          then Inl (Msg (''decrypted key has unexpected length '' @ show_nat (length keyBytes) @ '', want 32''))
          else
            let nonce = take 12 (drop (2 + rsaKeyLen) payload) @ replicate 12 (CHR 0x00);
                ciphertext = drop (2 + rsaKeyLen + 12) payload
            in case hl_box_open lib keyBytes nonce ciphertext of
                 None \<Rightarrow> Inl (Msg ''secretbox decryption failed: authentication tag mismatch'')
               | Some plaintext \<Rightarrow> Inr plaintext))))"

definition base64_bytes :: "string \<Rightarrow> string \<Rightarrow> go_err + string" where
  "base64_bytes what s = (case base64_decode s of None \<Rightarrow> Inl (Wrap what (Msg ''illegal base64 data'')) | Some b \<Rightarrow> Inr b)"

definition DecryptPII :: "hsm_lib \<Rightarrow> string \<Rightarrow> string reading" where
  "DecryptPII lib encryptedData h =
     read_then (Some (base64_bytes ''invalid Base64 PII Data: '' encryptedData)) (\<lambda>payload.
     map_option (wrap_err ''failed to Decrypt PII: '') (DecryptData lib ''app_signing_private'' payload h))"

text \<open>Card numbers are kept under the master key; these methods take no lock.\<close>

definition EncryptPAN :: "hsm_lib \<Rightarrow> go_err + string \<Rightarrow> string \<Rightarrow> hsm \<Rightarrow> go_err + string" where
  "EncryptPAN lib nonce pan h =
     and_then (wrap_err ''failed to create cipher: '' (aes_key_ok (hs_masterKey h))) (\<lambda>_.
     and_then (wrap_err ''failed to generate nonce: '' nonce) (\<lambda>n.
     Inr (base64_encode (n @ hl_seal lib (hs_masterKey h) n pan))))"

definition DecryptPAN :: "hsm_lib \<Rightarrow> string \<Rightarrow> hsm \<Rightarrow> go_err + string" where
  "DecryptPAN lib encrypted h =
     and_then (base64_bytes ''invalid base64: '' encrypted) (\<lambda>data.
     and_then (wrap_err ''failed to create cipher: '' (aes_key_ok (hs_masterKey h))) (\<lambda>_.
     if length data < gcm_nonce_size then Inl (Msg ''ciphertext too short'')
     else wrap_err ''decryption failed: ''
       (hl_open lib (hs_masterKey h) (take gcm_nonce_size data) (drop gcm_nonce_size data))))"

text \<open>\<open>cardData\<close> is the card data as \<open>json.Marshal\<close> writes it.\<close>

definition EncryptCardData :: "hsm_lib \<Rightarrow> go_err + string \<Rightarrow> go_err + string \<Rightarrow> string reading" where
  "EncryptCardData lib nonce cardData h =
     read_then (Some (wrap_err ''failed to marshal card data: '' cardData)) (\<lambda>data.
     read_then (map_option (wrap_err ''failed to encrypt card data: '') (EncryptData lib nonce ''user_encryption'' data h))
       (\<lambda>encrypted. Some (Inr (base64_encode encrypted))))"

section \<open>Signatures\<close>

definition SignData :: "hsm_lib \<Rightarrow> string \<Rightarrow> string \<Rightarrow> string reading" where
  "SignData lib keyID data = reading (\<lambda>h. case map_of (hs_keys h) keyID of
     None \<Rightarrow> Inl (not_found keyID)
   | Some keyPair \<Rightarrow>
       if \<not> kp_IsActive keyPair then Inl (not_active keyID)
       else wrap_err ''failed to sign data: '' (hl_sign lib (kp_PrivateKey keyPair) (sha256_string data)))"

text \<open>An inactive key still verifies.\<close>

definition hsm_VerifySignature :: "hsm_lib \<Rightarrow> string \<Rightarrow> string \<Rightarrow> string \<Rightarrow> bool reading" where
  "hsm_VerifySignature lib keyID data signature = reading (\<lambda>h. case map_of (hs_keys h) keyID of
     None \<Rightarrow> Inl (not_found keyID)
   | Some keyPair \<Rightarrow> Inr (hl_verify lib (kp_PublicKey keyPair) (sha256_string data) signature))"

definition SignTransaction :: "hsm_lib \<Rightarrow> hsm_tx \<Rightarrow> string reading" where
  "SignTransaction lib transaction h =
     read_then (Some (wrap_err ''failed to marshal transaction for signing: '' (hl_tx_json lib transaction))) (\<lambda>data.
     read_then (map_option (wrap_err ''failed to sign transaction: '') (SignData lib ''transaction_signing'' data h))
       (\<lambda>signature. Some (Inr (base64_encode signature))))"

text \<open>The errors of the single verifications are ignored: they count as failures.\<close>

fun verify_any :: "hsm_lib \<Rightarrow> string list \<Rightarrow> string \<Rightarrow> string \<Rightarrow> bool reading" where
  "verify_any lib [] data sig h = Some (Inr False)"
| "verify_any lib (k # ks) data sig h = (case hsm_VerifySignature lib k data sig h of
       None \<Rightarrow> None
     | Some r \<Rightarrow> if r = Inr True then Some (Inr True) else verify_any lib ks data sig h)"

definition archived :: "hsm \<Rightarrow> string list" where
  "archived h = filter (is_prefix ''transaction_signing_'') (map fst (hs_keys h))"

definition VerifyTransaction :: "hsm_lib \<Rightarrow> hsm_tx \<Rightarrow> string \<Rightarrow> bool reading" where
  "VerifyTransaction lib transaction signature h =
     read_then (Some (wrap_err ''failed to marshal transaction for verification: '' (hl_tx_json lib transaction))) (\<lambda>data.
     read_then (Some (base64_bytes ''invalid signature format: '' signature)) (\<lambda>sigBytes.
     verify_any lib (''transaction_signing'' # archived h) data sigBytes h))"

section \<open>PINs\<close>

definition pin_hash :: "hsm_lib \<Rightarrow> string \<Rightarrow> string \<Rightarrow> string" where
  "pin_hash lib pin salt = hl_argon2 lib pin salt 1 (64 * 1024) 4 32"

definition HashPIN :: "hsm_lib \<Rightarrow> go_err + string \<Rightarrow> string \<Rightarrow> string \<Rightarrow> go_err + string" where
  "HashPIN lib random pin salt0 =
     and_then (if salt0 = [] then wrap_err ''failed to generate salt: '' random else Inr salt0) (\<lambda>salt.
     Inr (base64_encode (salt @ pin_hash lib pin salt)))"

definition VerifyPIN :: "hsm_lib \<Rightarrow> string \<Rightarrow> string \<Rightarrow> go_err + bool" where
  "VerifyPIN lib pin hashedPIN =
     and_then (base64_bytes ''invalid PIN hash format: '' hashedPIN) (\<lambda>decoded.
     if length decoded < 16 then Inl (Msg ''PIN hash too short'')
     else Inr (pin_hash lib pin (take 16 decoded) = drop 16 decoded))"

section \<open>Rotation and deletion\<close>

definition to_rotate :: "int \<Rightarrow> hsm \<Rightarrow> string list" where
  "to_rotate t h = map fst (filter (\<lambda>(keyID, p). (t > kp_ExpiresAt p \<or> \<not> kp_IsActive p) \<and> \<not> is_substring ''_1'' keyID)
     (hs_keys h))"

text \<open>One round: archive the old key, generate a new one, store it.  \<open>rn\<close> gives the random values of the
  three steps; the errors of the two saves are ignored, and so is a failed generation.\<close>

definition rotate_key :: "hsm_lib \<Rightarrow> (nat \<Rightarrow> hsm_random) \<Rightarrow> int \<Rightarrow> string \<Rightarrow> hsm \<Rightarrow> hsm option" where
  "rotate_key lib rn t keyID h = (case map_of (hs_keys h) keyID of
     None \<Rightarrow> Some h
   | Some old \<Rightarrow>
       let archiveID = keyID @ ''_'' @ show_int (t div second);
           archivedKey = old\<lparr>kp_ID := archiveID, kp_IsActive := False\<rparr>
       in Option.bind (saveKeyToDisk lib (rn 0) archivedKey (set_key archiveID archivedKey h)) (\<lambda>(_, h1).
          Option.bind (generateKeyPairInternal lib (rn 1) t keyID h1) (\<lambda>(r, h2).
          case r of
            Inl e \<Rightarrow> Some h2
          | Inr newKeyPair \<Rightarrow>
              map_option snd (saveKeyToDisk lib (rn 2) newKeyPair (set_key keyID newKeyPair h2)))))"

text \<open>Go ranges over the table in any order; here it is the order of the table.\<close>

definition RotateKeys :: "hsm_lib \<Rightarrow> (string \<Rightarrow> nat \<Rightarrow> hsm_random) \<Rightarrow> int \<Rightarrow> unit run" where
  "RotateKeys lib rn t = locking (\<lambda>h. map_option (Pair (Inr ()))
     (fold (\<lambda>keyID r. Option.bind r (rotate_key lib (rn keyID) t keyID)) (to_rotate t h) (Some h)))"

text \<open>\<open>os.Remove\<close>: a file that is not there is no failure.\<close>

definition remove_file :: "string \<Rightarrow> unit run" where
  "remove_file name h = (case hs_remove_error h name of
       Some e \<Rightarrow> Some (Inl e, h)
     | None \<Rightarrow> Some (Inr (), h\<lparr>hs_files := AList.delete name (hs_files h)\<rparr>))"

definition DeleteKey :: "string \<Rightarrow> unit run" where
  "DeleteKey keyID = locking (\<lambda>h.
     if map_of (hs_keys h) keyID = None then Some (Inl (not_found keyID), h)
     else let h1 = drop_key_pair keyID h in
       case validateKeyID keyID of
         Some e \<Rightarrow> Some (Inl (Wrap ''invalid key ID: '' e), h1)
       | None \<Rightarrow> hwrap ''failed to delete key file: '' (remove_file (keyID @ ''.key'')) h1)"

section \<open>Keys for the clients\<close>

text \<open>The private key is written before the public one; opening a file empties it.\<close>

definition GenerateAndSaveKeyPairExternal :: "hsm_lib \<Rightarrow> hsm_random \<Rightarrow> int \<Rightarrow> string \<Rightarrow> key_pair run" where
  "GenerateAndSaveKeyPairExternal lib rn t keyID =
     hbind (hret (wrap_err ''failed to generate private key: '' (hr_key rn))) (\<lambda>sk.
     hbind (write_file (keyID @ ''_private.pem'') (hl_to_pem lib ''RSA PRIVATE KEY'' (hl_to_pkcs1 lib sk))) (\<lambda>_.
     hbind (write_file (keyID @ ''_public.pem'') []) (\<lambda>_.
     hbind (hret (hl_to_pkix lib (hl_public lib sk))) (\<lambda>pubBytes.
     hbind (write_file (keyID @ ''_public.pem'') (hl_to_pem lib ''PUBLIC KEY'' pubBytes)) (\<lambda>_.
     hret (Inr (new_key_pair lib t keyID sk)))))))"

end
