(* ===== verification/HSM_Service.thy ===== *)
theory HSM_Service
  imports HSM
begin

text \<open>
  The keys outside the module: \<open>src/internal/services/hsm_key_service.go\<close>.

  \<^item> \<open>SyncKeysToDatabase\<close> writes the public key of \<open>transaction_signing\<close> to the table \<open>hsm_keys\<close>,
    here a map, through the SQL function \<open>upsert_hsm_key\<close> of
    \<open>src/migrations/009_populate_hsm_keys.sql\<close>; \<open>db_error\<close> is an error of that statement.
  \<^item> The endpoints \<open>PUT /encryption/keys\<close> and \<open>GET /encryption/keys\<close> make and serve the key pair
    \<open>app_signing\<close>, with which clients encrypt what \<open>DecryptPII\<close> reads.
\<close>

section \<open>The key table of the database\<close>

record key_row =
  kr_key_type :: string
  kr_key_usage :: string
  kr_key_size :: nat
  kr_public_key :: string
  kr_encrypted_private_key :: string
  kr_is_active :: bool
  kr_expires_at :: int
  kr_metadata :: json

type_synonym key_rows = "string \<rightharpoonup> key_row"

text \<open>On a conflict the type, the usage and the size stay.\<close>

definition upsert_hsm_key :: "string \<Rightarrow> key_row \<Rightarrow> key_rows \<Rightarrow> key_rows" where
  "upsert_hsm_key keyID row rows = rows(keyID \<mapsto> (case rows keyID of None \<Rightarrow> row
     | Some old \<Rightarrow> old\<lparr>kr_public_key := kr_public_key row, kr_encrypted_private_key := kr_encrypted_private_key row,
         kr_is_active := kr_is_active row, kr_expires_at := kr_expires_at row, kr_metadata := kr_metadata row\<rparr>))"

text \<open>\<open>rsa_size\<close> is \<open>rsaKey.Size()\<close>, in bytes.\<close>

definition getKeyTypeAndSize :: "hsm_lib \<Rightarrow> (string \<Rightarrow> nat) \<Rightarrow> string \<Rightarrow> string \<Rightarrow> string \<times> nat" where
  "getKeyTypeAndSize lib rsa_size keyID publicKeyPEM =
     (if keyID = ''user_encryption'' then (''AES'', 256)
      else case hl_pem lib publicKeyPEM of
        None \<Rightarrow> (''RSA'', 2048)
      | Some (type, block) \<Rightarrow> (case hl_pkix lib block of
          Inr (Some rsaKey) \<Rightarrow> (''RSA'', rsa_size rsaKey * 8)
        | _ \<Rightarrow> (''RSA'', 2048)))"

definition syncKeyToDatabase ::
  "hsm_lib \<Rightarrow> (string \<Rightarrow> nat) \<Rightarrow> go_err option \<Rightarrow> int \<Rightarrow> hsm \<Rightarrow> string \<Rightarrow> key_rows \<Rightarrow> (go_err + key_rows) option" where
  "syncKeyToDatabase lib rsa_size db_error t h keyID rows =
     read_then (map_option (wrap_err ''failed to get public key: '') (GetPublicKey lib keyID h)) (\<lambda>publicKey.
     read_then (Some (wrap_err ''failed to marshal public key: '' (hl_to_pkix lib publicKey))) (\<lambda>publicKeyBytes.
     let publicKeyPEM = hl_to_pem lib ''PUBLIC KEY'' publicKeyBytes;
         (keyType, keySize) = getKeyTypeAndSize lib rsa_size keyID publicKeyPEM
     in Some (case db_error of
          Some e \<Rightarrow> Inl (Wrap ''failed to upsert key to database: '' e)
        | None \<Rightarrow> Inr (upsert_hsm_key keyID
            \<lparr>kr_key_type = keyType, kr_key_usage = keyID, kr_key_size = keySize, kr_public_key = publicKeyPEM,
             kr_encrypted_private_key = ''ENCRYPTED_BY_HSM'', kr_is_active = True, kr_expires_at = t + key_lifetime,
             kr_metadata = JObj [(''synced_from_hsm'', JBool True)]\<rparr> rows))))"

text \<open>The loop over the one key identifier.\<close>

definition SyncKeysToDatabase ::
  "hsm_lib \<Rightarrow> (string \<Rightarrow> nat) \<Rightarrow> go_err option \<Rightarrow> int \<Rightarrow> hsm \<Rightarrow> key_rows \<Rightarrow> (go_err + key_rows) option" where
  "SyncKeysToDatabase lib rsa_size db_error t h rows =
     fold (\<lambda>keyID r. read_then r (\<lambda>rows'. map_option (wrap_err (''failed to sync key '' @ keyID @ '': ''))
        (syncKeyToDatabase lib rsa_size db_error t h keyID rows'))) [''transaction_signing''] (Some (Inr rows))"

section \<open>The endpoints\<close>

definition CreateNewKeysExternal :: "hsm_lib \<Rightarrow> hsm_random \<Rightarrow> int \<Rightarrow> hsm \<Rightarrow> (http_response \<times> hsm) option" where
  "CreateNewKeysExternal lib rn t h =
     map_option (\<lambda>(r, h'). (case r of
         Inl e \<Rightarrow> SendErrorResponse ''Public Key Not Found'' 404
       | Inr _ \<Rightarrow> SendSuccessResponse ''Key Generated Successfully'' JNull 200, h'))
     (GenerateAndSaveKeyPairExternal lib rn t ''app_signing'' h)"

text \<open>\<open>use_encrypted\<close> is \<open>auth.use_encrypted_password\<close>.\<close>

definition GetUserPublicKeys :: "hsm_lib \<Rightarrow> bool \<Rightarrow> hsm \<Rightarrow> http_response option" where
  "GetUserPublicKeys lib use_encrypted h =
     map_option (\<lambda>r. case r of
         Inl e \<Rightarrow> SendErrorResponse ''Public Key Not Found'' 404
       | Inr publicKey \<Rightarrow> (case hl_to_pkix lib publicKey of
           Inl e \<Rightarrow> SendErrorResponse ''Failed to Generate Public Key'' 400
         | Inr publicKeyBytes \<Rightarrow> SendSuccessResponse ''Retrieved Key Configuration Successfully''
             (JObj [(''useEncryptedPayload'', JBool use_encrypted),
                    (''publicKey'', JStr (hl_to_pem lib ''PUBLIC KEY'' publicKeyBytes)),
                    (''algorithm'', JStr ''RSA-OAEP''), (''hash'', JStr ''SHA-256'')]) 200))
     (GetPublicKey lib ''app_signing_public'' h)"

end
