(* ===== verification/HSM_Props.thy ===== *)
theory HSM_Props
  imports HSM_Service
begin

text \<open>
  What the security module keeps: its identifiers, its key store across a restart, PINs, card numbers,
  signatures and the keys of the clients; and when its rotation of keys blocks.
\<close>

section \<open>What is relied on of the library\<close>

definition file_key :: "hsm_lib \<Rightarrow> string \<Rightarrow> string \<Rightarrow> go_err + key_pair" where
  "file_key lib mk c = and_then (decryptWithMasterKey lib mk c) (hl_json_key lib)"

text \<open>Decoders invert encoders, an opened box is what was sealed, a signature verifies, a hash has the
  length asked for, and a PEM text is no ciphertext of a key.\<close>

definition ciphers_ok :: "hsm_lib \<Rightarrow> bool" where
  "ciphers_ok lib \<longleftrightarrow> (\<forall>k n m. hl_open lib k n (hl_seal lib k n m) = Inr m) \<and>
     (\<forall>sk d s. hl_sign lib sk d = Inr s \<longrightarrow> hl_verify lib (hl_public lib sk) d s) \<and>
     (\<forall>p s t m th l. length (hl_argon2 lib p s t m th l) = l)"

definition codecs_ok :: "hsm_lib \<Rightarrow> bool" where
  "codecs_ok lib \<longleftrightarrow> (\<forall>p j. hl_key_json lib p = Inr j \<longrightarrow> hl_json_key lib j = Inr p) \<and>
     (\<forall>type b. hl_pem lib (hl_to_pem lib type b) = Some (type, b)) \<and>
     (\<forall>sk. hl_pkcs1 lib (hl_to_pkcs1 lib sk) = Inr sk) \<and>
     (\<forall>pk b. hl_to_pkix lib pk = Inr b \<longrightarrow> hl_pkix lib b = Inr (Some pk)) \<and>
     (\<forall>mk type b p. file_key lib mk (hl_to_pem lib type b) \<noteq> Inr p)"

definition readable :: "hsm \<Rightarrow> bool" where
  "readable h \<longleftrightarrow> hs_list_error h = None \<and> hs_read_error h = (\<lambda>_. None)"

section \<open>Identifiers\<close>

lemma key_char_neqs: "key_char c \<Longrightarrow> c \<noteq> CHR ''/'' \<and> c \<noteq> CHR ''.''"
  by (auto simp: key_char_def is_alnum_def is_digit_def)

lemma split_without: "c \<notin> set s \<Longrightarrow> split_char c s = [s]"
  by (induction s) auto

lemma clean_plain:
  assumes "list_all key_char s" and "s \<noteq> []"
  shows "\<not> is_abs s \<and> clean_path s = s"
proof -
  have c: "c \<noteq> CHR ''/'' \<and> c \<noteq> CHR ''.''" if "c \<in> set s" for c
    using assms(1) that by (intro key_char_neqs) (simp add: list_all_iff)
  then have "CHR ''/'' \<notin> set s" "CHR ''.'' \<notin> set s" by blast+
  moreover from this(2) have "s \<noteq> ''.''" "s \<noteq> ''..''" by auto
  moreover from c assms(2) have "\<not> is_abs s" by (cases s) (auto simp: is_abs_def is_prefix_def)
  ultimately show ?thesis using assms(2) by (simp add: clean_path_def split_without)
qed

text \<open>A key identifier is accepted exactly when it is a non-empty string of letters, digits, underscores
  and hyphens; the checks for absolute paths and for path elements refuse nothing more.\<close>

theorem accepted_key_ids: "validateKeyID keyID = None \<longleftrightarrow> keyID \<noteq> [] \<and> list_all key_char keyID"
  using clean_plain [of keyID] by (auto simp: validateKeyID_def)

section \<open>Rotation\<close>

definition same_rest :: "hsm \<Rightarrow> hsm \<Rightarrow> bool" where
  "same_rest h h' \<longleftrightarrow> hs_locked h' = hs_locked h \<and> hs_read_error h' = hs_read_error h \<and> hs_list_error h' = hs_list_error h"

lemma same_rest_refl: "same_rest h h"
  by (simp add: same_rest_def)

lemma write_file_returns: "\<exists>r h'. write_file name c h = Some (r, h') \<and> same_rest h h'"
  by (auto simp: write_file_def same_rest_def split: option.split)

lemma save_returns: "\<exists>r h'. saveKeyToDisk lib rn p h = Some (r, h') \<and> same_rest h h'"
  using write_file_returns
  by (auto simp: saveKeyToDisk_def hbind_def hret_def same_rest_refl split: sum.split option.split)

lemma generate_keeps_rest:
  assumes "generateKeyPairInternal lib rn t keyID h = Some (r, h')"
  shows "same_rest h h'"
proof -
  have "same_rest g g'" if "saveKeyToDisk lib rn p g = Some (s, g')" for p s g g'
    using save_returns [of lib rn p g] that by auto
  then show ?thesis using assms
    by (fastforce simp: generateKeyPairInternal_def locking_def same_rest_def set_key_def drop_key_pair_def Let_def
        split: if_splits option.splits sum.splits)
qed

lemma rotate_key_blocks:
  assumes "hs_locked h" and "map_of (hs_keys h) keyID \<noteq> None"
  shows "rotate_key lib rn t keyID h = None"
proof -
  obtain old where o: "map_of (hs_keys h) keyID = Some old" using assms(2) by blast
  define a where "a = old\<lparr>kp_ID := keyID @ ''_'' @ show_int (t div second), kp_IsActive := False\<rparr>"
  obtain r h1 where "saveKeyToDisk lib (rn 0) a (set_key (kp_ID a) a h) = Some (r, h1)" and "hs_locked h1"
    using save_returns [of lib "rn 0" a "set_key (kp_ID a) a h"] assms(1) by (auto simp: set_key_def same_rest_def)
  then show ?thesis using o by (simp add: rotate_key_def a_def generateKeyPairInternal_def locking_def Let_def)
qed

lemma fold_bind_None: "fold (\<lambda>k r. Option.bind r (f k)) ks None = None"
  by (induction ks) simp_all

text \<open>C34: Rotation of the keys never completes when there is a key to rotate: the generation of the
  new key waits for the lock that the rotation holds.  It returns only where no base key is expired or
  inactive, and then does nothing.\<close>

theorem rotation_blocks:
  "RotateKeys lib rn t h =
     (if hs_locked h \<or> (\<exists>(keyID, p) \<in> set (hs_keys h). (t > kp_ExpiresAt p \<or> \<not> kp_IsActive p) \<and> \<not> is_substring ''_1'' keyID)
      then None else Some (Inr (), h))"
proof (cases "hs_locked h \<or> to_rotate t h = []")
  case True
  then show ?thesis
    by (cases h) (auto simp: RotateKeys_def locking_def to_rotate_def filter_empty_conv)
next
  case False
  then obtain k ks where k: "to_rotate t (h\<lparr>hs_locked := True\<rparr>) = k # ks"
    by (cases "to_rotate t h") (auto simp: to_rotate_def)
  then have "k \<in> set (to_rotate t (h\<lparr>hs_locked := True\<rparr>))" by simp
  then have m: "k \<in> fst ` set (hs_keys h)" and
    e: "\<exists>(keyID, p) \<in> set (hs_keys h). (t > kp_ExpiresAt p \<or> \<not> kp_IsActive p) \<and> \<not> is_substring ''_1'' keyID"
    by (force simp: to_rotate_def)+
  have "rotate_key lib (rn k) t k (h\<lparr>hs_locked := True\<rparr>) = None"
    using m by (intro rotate_key_blocks) (simp_all add: map_of_eq_None_iff)
  then have "RotateKeys lib rn t h = None"
    using False k by (simp add: RotateKeys_def locking_def fold_bind_None)
  with e show ?thesis by simp
qed

section \<open>The key store\<close>

definition on_disk :: "hsm_lib \<Rightarrow> string \<Rightarrow> (string \<times> string) list \<Rightarrow> string \<Rightarrow> key_pair option" where
  "on_disk lib mk files k = (case map_of files (k @ ''.key'') of None \<Rightarrow> None
     | Some c \<Rightarrow> (case file_key lib mk c of Inl _ \<Rightarrow> None | Inr p \<Rightarrow> Some p))"

definition well_named :: "hsm_lib \<Rightarrow> string \<Rightarrow> (string \<times> string) list \<Rightarrow> bool" where
  "well_named lib mk files \<longleftrightarrow> distinct (map fst files) \<and>
     (\<forall>f c p. map_of files f = Some c \<longrightarrow> file_key lib mk c = Inr p \<longrightarrow> f = kp_ID p @ ''.key'')"

text \<open>The table in memory is the one in the files.\<close>

definition synced :: "hsm_lib \<Rightarrow> hsm \<Rightarrow> bool" where
  "synced lib h \<longleftrightarrow> hs_path h \<noteq> [] \<and> aes_key_ok (hs_masterKey h) = Inr () \<and>
     well_named lib (hs_masterKey h) (hs_files h) \<and> on_disk lib (hs_masterKey h) (hs_files h) = map_of (hs_keys h)"

lemma load_file_key:
  "hs_read_error h = (\<lambda>_. None) \<Longrightarrow> load_file lib f h =
     (case file_key lib (hs_masterKey h) (snd f) of Inl _ \<Rightarrow> h | Inr p \<Rightarrow> set_key (kp_ID p) p h)"
  by (auto simp: load_file_def file_key_def and_then_def split: sum.split)

lemma well_named_tail: "well_named lib mk (f # fs) \<Longrightarrow> well_named lib mk fs"
proof -
  assume w: "well_named lib mk (f # fs)"
  then have "map_of fs (fst f) = None" by (cases f) (simp add: well_named_def map_of_eq_None_iff)
  then have "g \<noteq> fst f" if "map_of fs g = Some c" for g c using that by auto
  then have "map_of (f # fs) g = Some c" if "map_of fs g = Some c" for g c
    using that by (cases f) auto
  moreover have "distinct (map fst fs)" using w by (simp add: well_named_def)
  ultimately show ?thesis using w unfolding well_named_def by blast
qed

lemma loaded_keys:
  assumes "well_named lib (hs_masterKey h) fs" and "hs_read_error h = (\<lambda>_. None)"
  shows "map_of (hs_keys (fold (load_file lib) fs h)) = map_of (hs_keys h) ++ on_disk lib (hs_masterKey h) fs"
  using assms
proof (induction fs arbitrary: h)
  case Nil
  show ?case by (simp add: on_disk_def map_add_def)
next
  case (Cons f fs)
  let ?mk = "hs_masterKey h"
  have tl: "well_named lib ?mk fs" using Cons.prems(1) by (rule well_named_tail)
  have fresh: "map_of fs (fst f) = None"
    using Cons.prems(1) by (cases f) (simp add: well_named_def map_of_eq_None_iff)
  show ?case
  proof (cases "file_key lib ?mk (snd f)")
    case (Inl e)
    then have "on_disk lib ?mk (f # fs) = on_disk lib ?mk fs"
      using fresh by (cases f) (auto simp: on_disk_def fun_eq_iff)
    then show ?thesis using Cons.IH [OF tl Cons.prems(2)] Inl by (simp add: load_file_key [OF Cons.prems(2)])
  next
    case (Inr p)
    have n: "fst f = kp_ID p @ ''.key''" using Cons.prems(1) Inr by (cases f) (simp add: well_named_def)
    have c: "on_disk lib ?mk (f # fs) = (on_disk lib ?mk fs)(kp_ID p \<mapsto> p)"
      using Inr n by (cases f) (auto simp: on_disk_def fun_eq_iff)
    have no: "on_disk lib ?mk fs (kp_ID p) = None" using fresh n by (simp add: on_disk_def)
    have k: "map_of (hs_keys (set_key (kp_ID p) p h)) = (map_of (hs_keys h))(kp_ID p \<mapsto> p)"
      by (simp add: set_key_def update_conv')
    have "map_of (hs_keys (fold (load_file lib) (f # fs) h)) =
        (map_of (hs_keys h))(kp_ID p \<mapsto> p) ++ on_disk lib ?mk fs"
      using Cons.IH [of "set_key (kp_ID p) p h"] tl Cons.prems(2) Inr k
      by (simp add: load_file_key set_key_def)
    with c no show ?thesis by (auto simp: fun_eq_iff map_add_def split: option.split)
  qed
qed

lemma sorted_names: "distinct (map fst fs) \<Longrightarrow> distinct (map fst (sort_key fst (fs :: (string \<times> string) list)))"
  by (simp add: distinct_map distinct_sort)

lemma map_of_sorted: "distinct (map fst fs) \<Longrightarrow> map_of (sort_key fst fs) = map_of (fs :: (string \<times> string) list)"
proof (rule ext)
  fix k
  assume d: "distinct (map fst fs)"
  note d' = sorted_names [OF d]
  show "map_of (sort_key fst fs) k = map_of fs k"
    using map_of_eq_Some_iff [OF d, of k] map_of_eq_Some_iff [OF d', of k]
    by (metis not_None_eq set_sort)
qed

lemma load_keeps_rest: "fold (load_file lib) fs g = g\<lparr>hs_keys := hs_keys (fold (load_file lib) fs g)\<rparr>"
proof (induction fs arbitrary: g)
  case (Cons f fs)
  have "load_file lib f g = g \<or> (\<exists>p. load_file lib f g = set_key (kp_ID p) p g)"
    by (auto simp: load_file_def split: option.split sum.split)
  moreover have "\<exists>ks. g = g\<lparr>hs_keys := ks\<rparr>" by (rule exI [of _ "hs_keys g"]) simp
  ultimately have "\<exists>ks. load_file lib f g = g\<lparr>hs_keys := ks\<rparr>"
  proof (elim disjE exE)
    fix p assume "load_file lib f g = set_key (kp_ID p) p g"
    then show ?thesis unfolding set_key_def by blast
  next
    fix ks assume "load_file lib f g = g" "g = g\<lparr>hs_keys := ks\<rparr>"
    then have "load_file lib f g = g\<lparr>hs_keys := ks\<rparr>" by (rule trans)
    then show ?thesis by (rule exI)
  qed
  then obtain ks where "load_file lib f g = g\<lparr>hs_keys := ks\<rparr>" ..
  then have "fold (load_file lib) (f # fs) g = fold (load_file lib) fs (g\<lparr>hs_keys := ks\<rparr>)" by simp
  moreover have "fold (load_file lib) fs (g\<lparr>hs_keys := ks\<rparr>) =
      g\<lparr>hs_keys := hs_keys (fold (load_file lib) fs (g\<lparr>hs_keys := ks\<rparr>))\<rparr>"
    using Cons.IH [of "g\<lparr>hs_keys := ks\<rparr>"] by (rule trans) simp
  ultimately show ?case by simp
qed simp

text \<open>What loading a well-named directory gives.\<close>

lemma loadKeys_reads:
  assumes w: "well_named lib (hs_masterKey h) (hs_files h)" and "readable h" and "hs_path h \<noteq> []"
  shows "\<exists>ks. loadKeys lib (h\<lparr>hs_keys := []\<rparr>) = Some (Inr (), h\<lparr>hs_keys := ks\<rparr>) \<and>
    map_of ks = on_disk lib (hs_masterKey h) (hs_files h)"
proof -
  let ?mk = "hs_masterKey h" and ?fs = "sort_key fst (hs_files h)"
  let ?ks = "hs_keys (fold (load_file lib) ?fs (h\<lparr>hs_keys := []\<rparr>))"
  have m: "map_of ?fs = map_of (hs_files h)" using w by (simp add: well_named_def map_of_sorted)
  from w have "distinct (map fst ?fs)" by (simp add: well_named_def sorted_names)
  with w m have "well_named lib ?mk ?fs" by (simp add: well_named_def)
  then have "map_of ?ks = on_disk lib ?mk ?fs"
    using loaded_keys [of lib "h\<lparr>hs_keys := []\<rparr>" ?fs] assms(2) by (simp add: readable_def)
  also have "\<dots> = on_disk lib ?mk (hs_files h)" using m by (simp add: on_disk_def fun_eq_iff)
  finally have "map_of ?ks = on_disk lib ?mk (hs_files h)" .
  moreover have "loadKeys lib (h\<lparr>hs_keys := []\<rparr>) = Some (Inr (), h\<lparr>hs_keys := ?ks\<rparr>)"
    using assms(2,3) load_keeps_rest [of lib ?fs "h\<lparr>hs_keys := []\<rparr>"] by (cases h) (simp add: loadKeys_def readable_def)
  ultimately show ?thesis by blast
qed

lemma restart_finds:
  assumes "synced lib h" and "readable h"
  shows "\<exists>h'. loadKeys lib (h\<lparr>hs_keys := []\<rparr>) = Some (Inr (), h') \<and> map_of (hs_keys h') = map_of (hs_keys h)"
  using loadKeys_reads [of lib h] assms by (auto simp: synced_def)


text \<open>A file written or removed, and a key set or dropped with it.\<close>

lemma on_disk_update: "on_disk lib mk (AList.update f c files) =
    (\<lambda>k. if k @ ''.key'' = f then (case file_key lib mk c of Inl _ \<Rightarrow> None | Inr p \<Rightarrow> Some p) else on_disk lib mk files k)"
  by (auto simp: on_disk_def update_conv' fun_eq_iff)

lemma on_disk_delete: "on_disk lib mk (AList.delete f files) =
    (\<lambda>k. if k @ ''.key'' = f then None else on_disk lib mk files k)"
  by (auto simp: on_disk_def delete_conv' fun_eq_iff)

lemma well_named_update:
  "well_named lib mk files \<Longrightarrow> (\<And>p. file_key lib mk c = Inr p \<Longrightarrow> f = kp_ID p @ ''.key'') \<Longrightarrow>
    well_named lib mk (AList.update f c files)"
  by (simp add: well_named_def update_conv' distinct_update)

lemma well_named_delete: "well_named lib mk files \<Longrightarrow> well_named lib mk (AList.delete f files)"
  by (simp add: well_named_def delete_conv' distinct_delete)

lemma synced_write_key:
  assumes "synced lib h" and "file_key lib (hs_masterKey h) c = Inr p"
  shows "synced lib ((set_key (kp_ID p) p h)\<lparr>hs_files := AList.update (kp_ID p @ ''.key'') c (hs_files h)\<rparr>)"
  using assms by (auto simp: synced_def set_key_def on_disk_update update_conv' fun_eq_iff intro: well_named_update)

lemma synced_delete_key:
  assumes "synced lib h"
  shows "synced lib ((drop_key_pair k h)\<lparr>hs_files := AList.delete (k @ ''.key'') (hs_files h)\<rparr>)"
  using assms by (auto simp: synced_def drop_key_pair_def on_disk_delete delete_conv' fun_eq_iff intro: well_named_delete)

lemma synced_write_other:
  assumes "synced lib h" and "\<And>p. file_key lib (hs_masterKey h) c \<noteq> Inr p" and "\<And>k. k @ ''.key'' \<noteq> name"
    and "write_file name c h = Some (r, h')"
  shows "synced lib h' \<and> hs_masterKey h' = hs_masterKey h"
proof -
  have "well_named lib (hs_masterKey h) (AList.update name c (hs_files h))"
    using assms(1,2) by (auto simp: synced_def intro!: well_named_update)
  with assms show ?thesis by (auto simp: write_file_def synced_def on_disk_update split: option.splits)
qed

lemma synced_same_keys: "synced lib h \<Longrightarrow> map_of ks = map_of (hs_keys h) \<Longrightarrow> synced lib (h\<lparr>hs_keys := ks\<rparr>)"
  by (simp add: synced_def)

lemma synced_lock [simp]: "synced lib (h\<lparr>hs_locked := b\<rparr>) = synced lib h"
  by (simp add: synced_def)

lemma set_then_drop: "map_of (hs_keys h) k = None \<Longrightarrow>
    map_of (hs_keys (drop_key_pair k (set_key k p h))) = map_of (hs_keys h)"
  by (auto simp: drop_key_pair_def set_key_def delete_conv' update_conv' fun_eq_iff)

definition random_ok :: "hsm_random \<Rightarrow> bool" where
  "random_ok rn \<longleftrightarrow> (\<forall>n. hr_nonce rn = Inr n \<longrightarrow> length n = gcm_nonce_size) \<and>
     (\<forall>s. hr_salt rn = Inr s \<longrightarrow> length s = 16)"

lemma encrypted_file:
  assumes "ciphers_ok lib" and "codecs_ok lib" and "hl_key_json lib p = Inr j" and "random_ok rn"
    and "encryptWithMasterKey lib (hr_nonce rn) mk j = Inr c"
  shows "file_key lib mk c = Inr p"
  using assms by (auto simp: encryptWithMasterKey_def file_key_def decryptWithMasterKey_def and_then_Inr_iff
      ciphers_ok_def codecs_ok_def random_ok_def)

lemma save_effect:
  assumes "saveKeyToDisk lib rn p h = Some (r, h')" and "hs_path h \<noteq> []"
    and "ciphers_ok lib" and "codecs_ok lib" and "random_ok rn"
  shows "(\<exists>e. r = Inl e \<and> h' = h) \<or>
    (\<exists>c. r = Inr () \<and> file_key lib (hs_masterKey h) c = Inr p \<and>
      h' = h\<lparr>hs_files := AList.update (kp_ID p @ ''.key'') c (hs_files h)\<rparr>)"
proof (cases "hl_key_json lib p")
  case (Inr j)
  then show ?thesis using assms
    by (cases "encryptWithMasterKey lib (hr_nonce rn) (hs_masterKey h) j")
      (auto simp: saveKeyToDisk_def hbind_def hret_def write_file_def split: option.splits dest: encrypted_file)
qed (use assms in \<open>auto simp: saveKeyToDisk_def hbind_def hret_def\<close>)

lemma generate_synced:
  assumes "generateKeyPairInternal lib rn t keyID h = Some (r, h')" and "synced lib h"
    and ok: "ciphers_ok lib" "codecs_ok lib" "random_ok rn"
  shows "synced lib h'"
proof (cases "\<not> hs_locked h \<and> validateKeyID keyID = None \<and> map_of (hs_keys h) keyID = None")
  case False
  with assms(1,2) show ?thesis
    by (cases h) (auto simp: generateKeyPairInternal_def locking_def synced_def split: if_splits option.splits)
next
  case True
  show ?thesis
  proof (cases "hr_key rn")
    case (Inl e)
    with True assms(1,2) show ?thesis
      by (cases h) (auto simp: generateKeyPairInternal_def locking_def synced_def)
  next
    case (Inr sk)
    let ?p = "new_key_pair lib t keyID sk" and ?h = "h\<lparr>hs_locked := True\<rparr>"
    have id: "kp_ID ?p = keyID" by (simp add: new_key_pair_def)
    obtain s h1 where s: "saveKeyToDisk lib rn ?p (set_key keyID ?p ?h) = Some (s, h1)"
      using save_returns by blast
    have p: "hs_path (set_key keyID ?p ?h) \<noteq> []" using assms(2) by (simp add: synced_def set_key_def)
    have h': "h' = (case s of Inl e \<Rightarrow> drop_key_pair keyID h1 | Inr _ \<Rightarrow> h1)\<lparr>hs_locked := False\<rparr>"
      using assms(1) True Inr s by (auto simp: generateKeyPairInternal_def locking_def Let_def split: sum.splits)
    have y: "synced lib ?h" using assms(2) by simp
    from save_effect [OF s p ok] show ?thesis
    proof
      assume "\<exists>e. s = Inl e \<and> h1 = set_key keyID ?p ?h"
      moreover have "map_of (hs_keys (drop_key_pair keyID (set_key keyID ?p ?h))) = map_of (hs_keys ?h)"
        using True by (intro set_then_drop) simp
      ultimately show ?thesis
        using y h' by (auto simp: synced_def drop_key_pair_def set_key_def)
    next
      assume "\<exists>c. s = Inr () \<and> file_key lib (hs_masterKey (set_key keyID ?p ?h)) c = Inr ?p \<and>
        h1 = (set_key keyID ?p ?h)\<lparr>hs_files := AList.update (kp_ID ?p @ ''.key'') c (hs_files (set_key keyID ?p ?h))\<rparr>"
      then obtain c where c: "s = Inr ()" "file_key lib (hs_masterKey ?h) c = Inr ?p"
        "h1 = (set_key (kp_ID ?p) ?p ?h)\<lparr>hs_files := AList.update (kp_ID ?p @ ''.key'') c (hs_files ?h)\<rparr>"
        by (auto simp: id set_key_def)
      with synced_write_key [OF y c(2)] h' show ?thesis by simp
    qed
  qed
qed

lemma delete_synced:
  assumes "DeleteKey keyID h = Some (Inr (), h')" and "synced lib h"
  shows "synced lib h'"
proof -
  from assms(1) have "h' = ((drop_key_pair keyID h)\<lparr>hs_files := AList.delete (keyID @ ''.key'') (hs_files h)\<rparr>)\<lparr>hs_locked := False\<rparr>"
    by (auto simp: DeleteKey_def locking_def hwrap_def remove_file_def wrap_err_def drop_key_pair_def Let_def
        split: if_splits option.splits)
  with synced_delete_key [OF assms(2)] show ?thesis by simp
qed

lemma no_key_name: "k @ ''.key'' \<noteq> i @ ''_private.pem''" "k @ ''.key'' \<noteq> i @ ''_public.pem''"
proof -
  have "last (k @ ''.key'') \<noteq> last (i @ ''_private.pem'')" "last (k @ ''.key'') \<noteq> last (i @ ''_public.pem'')" by simp_all
  then show "k @ ''.key'' \<noteq> i @ ''_private.pem''" "k @ ''.key'' \<noteq> i @ ''_public.pem''" by metis+
qed

lemma no_key_in_nothing: "file_key lib mk [] \<noteq> Inr p"
  by (auto simp: file_key_def decryptWithMasterKey_def and_then_Inr_iff gcm_nonce_size_def)

definition preserves :: "(hsm \<Rightarrow> bool) \<Rightarrow> 'a run \<Rightarrow> bool" where
  "preserves Q m \<longleftrightarrow> (\<forall>h r h'. Q h \<longrightarrow> m h = Some (r, h') \<longrightarrow> Q h')"

lemma preserves_hret: "preserves Q (hret r)"
  by (simp add: preserves_def hret_def)

lemma preserves_hbind:
  assumes "preserves Q m" and "\<And>x. preserves Q (k x)"
  shows "preserves Q (hbind m k)"
  unfolding preserves_def
proof (intro allI impI)
  fix h r h' assume "Q h" and run: "hbind m k h = Some (r, h')"
  then obtain s h1 where s: "m h = Some (s, h1)" by (auto simp: hbind_def split: option.splits)
  then have "Q h1" using assms(1) \<open>Q h\<close> unfolding preserves_def by blast
  with run s assms(2) show "Q h'" by (cases s) (auto simp: hbind_def preserves_def)
qed

lemma preserves_write:
  assumes "\<And>mk p. file_key lib mk c \<noteq> Inr p" and "\<And>k. k @ ''.key'' \<noteq> name"
  shows "preserves (synced lib) (write_file name c)"
  unfolding preserves_def using synced_write_other [OF _ assms(1) assms(2)] by blast

lemma external_synced:
  assumes "codecs_ok lib"
  shows "preserves (synced lib) (GenerateAndSaveKeyPairExternal lib rn t keyID)"
proof -
  have pem: "file_key lib mk (hl_to_pem lib type b) \<noteq> Inr p" for mk type b p
    using assms by (simp add: codecs_ok_def)
  show ?thesis unfolding GenerateAndSaveKeyPairExternal_def
    by (intro preserves_hbind preserves_hret preserves_write pem no_key_name no_key_in_nothing)
qed

section \<open>The module in operation\<close>

text \<open>What changes the key table or the files: a generated key, whether or not it succeeds, a deleted key
  and a key pair for the clients.  Rotation changes nothing when it returns (\<open>rotation_blocks\<close>).\<close>

inductive key_operation :: "hsm_lib \<Rightarrow> hsm \<Rightarrow> hsm \<Rightarrow> bool" for lib where
  generated: "generateKeyPairInternal lib rn t keyID h = Some (r, h') \<Longrightarrow> random_ok rn \<Longrightarrow> key_operation lib h h'"
| deleted: "DeleteKey keyID h = Some (Inr (), h') \<Longrightarrow> key_operation lib h h'"
| for_clients: "GenerateAndSaveKeyPairExternal lib rn t keyID h = Some (r, h') \<Longrightarrow> key_operation lib h h'"

lemma operation_synced:
  assumes "key_operation lib h h'" and "synced lib h" and "ciphers_ok lib" and "codecs_ok lib"
  shows "synced lib h'"
  using assms
proof cases
  case generated
  then show ?thesis using assms generate_synced by blast
next
  case deleted
  then show ?thesis using assms delete_synced by blast
next
  case for_clients
  then show ?thesis using assms external_synced unfolding preserves_def by blast
qed



text \<open>A module that starts on a directory of well-named files is in such a state.\<close>

lemma started_synced:
  assumes "NewSoftwareHSM lib rn t cfg disk = Some (Inr (), h)" and "hc_KeyStorePath cfg \<noteq> []" and "readable disk"
    and ok: "ciphers_ok lib" "codecs_ok lib" "random_ok rn"
    and "\<And>mk. well_named lib mk (hs_files disk)"
  shows "synced lib h"
proof -
  obtain salt where salt: "(case hc_Salt cfg of Some s \<Rightarrow> Inr s | None \<Rightarrow> wrap_err ''failed to generate salt: '' (hr_salt rn)) = Inr salt"
    using assms(1) by (auto simp: NewSoftwareHSM_def split: if_splits sum.splits)
  define g where "g = disk\<lparr>hs_keys := [], hs_masterKey := deriveKey lib (hc_MasterKey cfg) salt 32,
     hs_path := hc_KeyStorePath cfg, hs_locked := False\<rparr>"
  have "length (hs_masterKey g) = 32" using ok(1) by (simp add: g_def deriveKey_def ciphers_ok_def)
  then have a: "aes_key_ok (hs_masterKey g) = Inr ()" by (simp add: aes_key_ok_def)
  have w: "well_named lib (hs_masterKey g) (hs_files g)" and r: "readable g" and p: "hs_path g \<noteq> []"
    using assms(2,3,7) by (simp_all add: g_def readable_def)
  have "g\<lparr>hs_keys := []\<rparr> = g" by (simp add: g_def)
  with loadKeys_reads [OF w r p] obtain ks where l: "loadKeys lib g = Some (Inr (), g\<lparr>hs_keys := ks\<rparr>)"
    and k: "map_of ks = on_disk lib (hs_masterKey g) (hs_files g)" by auto
  have y: "synced lib (g\<lparr>hs_keys := ks\<rparr>)" using a w p k by (simp add: synced_def)
  show ?thesis
  proof (cases "ks = []")
    case False
    with assms(1) salt l y show ?thesis
      by (auto simp: NewSoftwareHSM_def hbind_def hwrap_def wrap_err_def g_def split: if_splits)
  next
    case True
    then have "hwrap ''failed to generate default keys: '' (generateDefaultKeys lib rn t) (g\<lparr>hs_keys := ks\<rparr>) = Some (Inr (), h)"
      using assms(1) salt l by (auto simp: NewSoftwareHSM_def hbind_def hwrap_def wrap_err_def g_def split: if_splits)
    then obtain r where "generateKeyPairInternal lib rn t ''transaction_signing'' (g\<lparr>hs_keys := ks\<rparr>) = Some (r, h)"
      by (auto simp: hwrap_def generateDefaultKeys_def hbind_def hret_def split: option.splits sum.splits)
    from generate_synced [OF this y ok] show ?thesis .
  qed
qed

section \<open>PINs, card numbers and signatures\<close>


lemma pan_round_trip:
  assumes "ciphers_ok lib" and "\<And>n. nonce = Inr n \<Longrightarrow> length n = gcm_nonce_size" and "EncryptPAN lib nonce pan h = Inr c"
    and "hs_masterKey h' = hs_masterKey h"
  shows "DecryptPAN lib c h' = Inr pan"
proof -
  obtain n where "aes_key_ok (hs_masterKey h) = Inr ()" "length n = gcm_nonce_size"
    "c = base64_encode (n @ hl_seal lib (hs_masterKey h) n pan)"
    using assms(2,3) by (auto simp: EncryptPAN_def and_then_Inr_iff wrap_err_def split: sum.splits)
  then show ?thesis
    using assms(1,4) by (simp add: DecryptPAN_def base64_bytes_def base64_round_trip wrap_err_def ciphers_ok_def)
qed

text \<open>A signature still verifies when the signing key is kept under an archived identifier only.\<close>

lemma verify_any_True:
  assumes "\<not> hs_locked h" and "k \<in> set ks" and "map_of (hs_keys h) k = Some p"
    and "hl_verify lib (kp_PublicKey p) (sha256_string data) sig"
  shows "verify_any lib ks data sig h = Some (Inr True)"
  using assms(2)
proof (induction ks)
  case (Cons x ks)
  obtain r where "hsm_VerifySignature lib x data sig h = Some r" using assms(1) by (simp add: hsm_VerifySignature_def reading_def)
  moreover have "hsm_VerifySignature lib k data sig h = Some (Inr True)"
    using assms by (simp add: hsm_VerifySignature_def reading_def)
  ultimately show ?case using Cons by auto
qed simp

lemma signed_verifies:
  assumes "ciphers_ok lib" and "SignTransaction lib transaction h = Some (Inr sig)"
    and "map_of (hs_keys h) ''transaction_signing'' = Some p" and "kp_PublicKey p = hl_public lib (kp_PrivateKey p)"
    and "\<not> hs_locked h'" and "map_of (hs_keys h') k = Some p'" and "kp_PublicKey p' = kp_PublicKey p"
    and "k = ''transaction_signing'' \<or> is_prefix ''transaction_signing_'' k"
  shows "VerifyTransaction lib transaction sig h' = Some (Inr True)"
proof -
  from assms(2,3) obtain data s where j: "hl_tx_json lib transaction = Inr data" and "sig = base64_encode s"
    and g: "hl_sign lib (kp_PrivateKey p) (sha256_string data) = Inr s"
    by (auto simp: SignTransaction_def read_then_def SignData_def reading_def wrap_err_def
        split: sum.splits option.splits if_splits)
  moreover have "k \<in> set (''transaction_signing'' # archived h')"
    using assms(6,8) map_of_SomeD by (force simp: archived_def)
  moreover from g have "hl_verify lib (kp_PublicKey p') (sha256_string data) s"
    using assms(1,4,7) by (simp add: ciphers_ok_def)
  ultimately show ?thesis
    using verify_any_True [OF assms(5) _ assms(6)]
    by (simp add: VerifyTransaction_def read_then_def wrap_err_def base64_bytes_def base64_round_trip
        del: verify_any.simps)
qed

section \<open>What the clients encrypt\<close>

lemma no_pii: "\<exists>e. DecryptPII lib [] h = Some (Inl e)"
  by (simp add: DecryptPII_def read_then_def base64_bytes_def base64_decode_def DecryptData_def wrap_err_def)

text \<open>The payload of the client: the wrapped key after its length, twelve bytes of nonce, the sealed box.\<close>

definition client_payload :: "string \<Rightarrow> string \<Rightarrow> string \<Rightarrow> string" where
  "client_payload wrapped iv box = (let n = length wrapped in char_of (n mod 256) # char_of (n div 256) # wrapped @ iv @ box)"

lemma client_payload_length: "length wrapped < 65536 \<Longrightarrow> le16 (client_payload wrapped iv box) = length wrapped"
proof -
  assume "length wrapped < 65536"
  then have "length wrapped div 256 < 256" by simp
  then show ?thesis by (simp add: client_payload_def Let_def le16_def)
qed


lemma client_payload_parts:
  assumes "length wrapped < 65536" and "length iv = 12"
  shows "take (length wrapped) (drop 2 (client_payload wrapped iv box)) = wrapped"
    and "take 12 (drop (2 + length wrapped) (client_payload wrapped iv box)) = iv"
    and "drop (2 + length wrapped + 12) (client_payload wrapped iv box) = box"
    and "length (client_payload wrapped iv box) = 2 + length wrapped + 12 + length box"
proof -
  let ?head = "[char_of (length wrapped mod 256), char_of (length wrapped div 256)] @ wrapped @ iv"
  have "client_payload wrapped iv box = ?head @ box" by (simp add: client_payload_def Let_def)
  moreover have "2 + length wrapped + 12 = length ?head" using assms(2) by simp
  ultimately show "drop (2 + length wrapped + 12) (client_payload wrapped iv box) = box"
    by (metis append_eq_conv_conj)
qed (use assms in \<open>simp_all add: client_payload_def Let_def\<close>)

lemma decrypts_client_payload:
  assumes "GetPrivateKey lib keyID h = Some (Inr sk)" and "length wrapped < 65536" and "length iv = 12"
    and "hl_oaep_decrypt lib sk wrapped = Inr key" and "length key = 32"
    and "hl_box_open lib key (iv @ replicate 12 (CHR 0x00)) box = Some m"
  shows "DecryptData lib keyID (client_payload wrapped iv box) h = Some (Inr m)"
  using assms client_payload_parts [OF assms(2,3)]
  by (simp add: DecryptData_def read_then_def wrap_err_def client_payload_length Let_def)

lemma keys_written:
  assumes "CreateNewKeysExternal lib rn t h = Some (r, h')" and "hr_success r"
  shows "\<exists>sk b. hr_key rn = Inr sk \<and> hl_to_pkix lib (hl_public lib sk) = Inr b \<and>
    hs_keys h' = hs_keys h \<and> hs_locked h' = hs_locked h \<and> hs_read_error h' = hs_read_error h \<and>
    map_of (hs_files h') ''app_signing_private.pem'' = Some (hl_to_pem lib ''RSA PRIVATE KEY'' (hl_to_pkcs1 lib sk)) \<and>
    map_of (hs_files h') ''app_signing_public.pem'' = Some (hl_to_pem lib ''PUBLIC KEY'' b)"
proof -
  from assms obtain p where "GenerateAndSaveKeyPairExternal lib rn t ''app_signing'' h = Some (Inr p, h')"
    unfolding CreateNewKeysExternal_def by (auto simp: CreateNewKeysExternal_def) (metis old.sum.exhaust old.sum.simps(5) response_success(1))
  then show ?thesis
    by (auto simp: GenerateAndSaveKeyPairExternal_def hbind_def hret_def wrap_err_def write_file_def update_conv'
        split: sum.splits option.splits)
qed

text \<open>C37: What a client encrypts with the key it was served is decrypted.  After the endpoint has made
  new keys, the other endpoint serves the public key, and card data wrapped for that key is what
  \<open>DecryptPII\<close> returns.\<close>

theorem client_data_opens:
  assumes "codecs_ok lib" and "CreateNewKeysExternal lib rn t h = Some (r, h')" and "hr_success r" and "hr_key rn = Inr sk"
    and "\<not> hs_locked h" and "hs_read_error h = (\<lambda>_. None)"
    and "map_of (hs_keys h) ''app_signing_public'' = None" and "map_of (hs_keys h) ''app_signing_private'' = None"
    and "hl_oaep_decrypt lib sk wrapped = Inr key" and "length wrapped < 65536" and "length iv = 12" and "length key = 32"
    and "hl_box_open lib key (iv @ replicate 12 (CHR 0x00)) box = Some m"
  shows "DecryptPII lib (base64_encode (client_payload wrapped iv box)) h' = Some (Inr m) \<and>
    (\<exists>b d. hl_to_pkix lib (hl_public lib sk) = Inr b \<and>
      GetUserPublicKeys lib use h' = Some (SendSuccessResponse ''Retrieved Key Configuration Successfully'' (JObj d) 200) \<and>
      map_of d ''publicKey'' = Some (JStr (hl_to_pem lib ''PUBLIC KEY'' b)))"
proof
  from keys_written [OF assms(2,3)] assms(4) obtain b where b: "hl_to_pkix lib (hl_public lib sk) = Inr b"
    and same: "hs_keys h' = hs_keys h" "hs_locked h' = hs_locked h" "hs_read_error h' = hs_read_error h"
    and files: "map_of (hs_files h') ''app_signing_private.pem'' = Some (hl_to_pem lib ''RSA PRIVATE KEY'' (hl_to_pkcs1 lib sk))"
      "map_of (hs_files h') ''app_signing_public.pem'' = Some (hl_to_pem lib ''PUBLIC KEY'' b)" by auto
  have "GetPrivateKey lib ''app_signing_private'' h' = Some (Inr sk)"
    using same files assms(1,5,6,8) by (simp add: GetPrivateKey_def reading_def read_file_def wrap_err_def codecs_ok_def)
  from decrypts_client_payload [OF this assms(10,11,9,12,13)]
  show "DecryptPII lib (base64_encode (client_payload wrapped iv box)) h' = Some (Inr m)"
    by (simp add: DecryptPII_def read_then_def base64_bytes_def base64_round_trip wrap_err_def)
  have "GetPublicKey lib ''app_signing_public'' h' = Some (Inr (hl_public lib sk))"
    using same files b assms(1,5,6,7) by (simp add: GetPublicKey_def reading_def read_file_def wrap_err_def codecs_ok_def Let_def)
  with b show "\<exists>b d. hl_to_pkix lib (hl_public lib sk) = Inr b \<and>
      GetUserPublicKeys lib use h' = Some (SendSuccessResponse ''Retrieved Key Configuration Successfully'' (JObj d) 200) \<and>
      map_of d ''publicKey'' = Some (JStr (hl_to_pem lib ''PUBLIC KEY'' b))"
    by (intro exI [of _ b] exI [of _ "[(''useEncryptedPayload'', JBool use), (''publicKey'', JStr (hl_to_pem lib ''PUBLIC KEY'' b)),
        (''algorithm'', JStr ''RSA-OAEP''), (''hash'', JStr ''SHA-256'')]"]) (simp add: GetUserPublicKeys_def)
qed

section \<open>A module\<close>

text \<open>Ciphers that mark what they seal, and codecs for one key.  A PEM text is led by a count of its type.\<close>

definition sample_pair :: key_pair where
  "sample_pair = \<lparr>kp_ID = ''transaction_signing'', kp_PublicKey = ''pub-sk'', kp_PrivateKey = ''sk'', kp_CreatedAt = 5,
     kp_ExpiresAt = 5 + key_lifetime, kp_IsActive = True\<rparr>"

definition sample_lib :: hsm_lib where
  "sample_lib = \<lparr>hl_public = (\<lambda>sk. ''pub-'' @ sk), hl_sign = (\<lambda>sk d. Inr (''pub-'' @ sk @ d)), hl_verify = (\<lambda>pk d s. s = pk @ d),
     hl_seal = (\<lambda>k n m. CHR ''S'' # m),
     hl_open = (\<lambda>k n c. case c of x # m \<Rightarrow> if x = CHR ''S'' then Inr m else Inl (Msg ''cipher: message authentication failed'')
        | [] \<Rightarrow> Inl (Msg ''cipher: message authentication failed'')),
     hl_oaep_decrypt = (\<lambda>sk c. Inr (replicate 32 (CHR ''K''))), hl_box_open = (\<lambda>k n c. Some c),
     hl_argon2 = (\<lambda>p s t m th l. replicate l (if p = ''1234'' then CHR ''a'' else CHR ''b'')),
     hl_key_json = (\<lambda>p. if p = sample_pair then Inr ''{}'' else Inl (Msg ''unsupported'')), hl_json_key = (\<lambda>j. Inr sample_pair),
     hl_tx_json = (\<lambda>t. Inr (ht_ID t)),
     hl_pem = (\<lambda>s. let n = length (takeWhile (\<lambda>c. c = CHR ''-'') s); r = drop (n + 1) s in Some (take (n - 20) r, drop (n - 20) r)),
     hl_pkix = (\<lambda>b. Inr (Some b)), hl_pkcs1 = (\<lambda>b. Inr b), hl_to_pkcs1 = (\<lambda>sk. sk), hl_to_pkix = (\<lambda>pk. Inr pk),
     hl_to_pem = (\<lambda>type b. replicate (length type + 20) (CHR ''-'') @ CHR '' '' # type @ b)\<rparr>"

definition sample_random :: hsm_random where
  "sample_random = \<lparr>hr_key = Inr ''sk'', hr_nonce = Inr (replicate 12 (CHR ''n'')), hr_salt = Inr (replicate 16 (CHR ''s''))\<rparr>"

definition sample_hsm :: hsm where
  "sample_hsm = \<lparr>hs_keys = [], hs_masterKey = replicate 32 (CHR ''b''), hs_path = ''/keys'', hs_locked = False, hs_files = [],
     hs_read_error = (\<lambda>_. None), hs_write_error = (\<lambda>_. None), hs_remove_error = (\<lambda>_. None), hs_list_error = None\<rparr>"

definition sample_signing :: hsm where
  "sample_signing = snd (the (generateKeyPairInternal sample_lib sample_random 5 ''transaction_signing'' sample_hsm))"

lemma sample_ciphers: "ciphers_ok sample_lib"
  by (simp add: ciphers_ok_def sample_lib_def)

lemma sample_pem: "hl_pem sample_lib (hl_to_pem sample_lib type b) = Some (type, b)"
proof -
  have "takeWhile (\<lambda>c. c = CHR ''-'') (replicate n (CHR ''-'') @ CHR '' '' # type @ b) = replicate n (CHR ''-'')" for n
    by (simp add: takeWhile_tail)
  then show ?thesis by (simp add: sample_lib_def Let_def)
qed

lemma sample_codecs: "codecs_ok sample_lib"
proof -
  have "drop 12 (hl_to_pem sample_lib type b) = CHR ''-'' # replicate (length type + 7) (CHR ''-'') @ CHR '' '' # type @ b" for type b
  proof -
    have r: "replicate (length type + 20) (CHR ''-'') = replicate 12 (CHR ''-'') @ CHR ''-'' # replicate (length type + 7) (CHR ''-'')"
      by (simp add: replicate_add [symmetric] replicate_app_Cons_same flip: replicate_Suc)
    show ?thesis by (simp add: sample_lib_def r)
  qed
  then have "file_key sample_lib mk (hl_to_pem sample_lib type b) \<noteq> Inr p" for mk type b p
    by (auto simp: file_key_def decryptWithMasterKey_def and_then_Inr_iff gcm_nonce_size_def)
      (simp add: sample_lib_def)
  moreover have "hl_key_json sample_lib p = Inr j \<Longrightarrow> hl_json_key sample_lib j = Inr p" for p j
    by (simp add: sample_lib_def split: if_splits)
  ultimately show ?thesis using sample_pem by (auto simp: codecs_ok_def) (simp_all add: sample_lib_def)
qed

lemma sample_synced: "synced sample_lib sample_hsm"
  by (simp add: synced_def sample_hsm_def aes_key_ok_def well_named_def on_disk_def fun_eq_iff)

lemma sample_key_generated: "generateKeyPairInternal sample_lib sample_random 5 ''transaction_signing'' sample_hsm =
    Some (Inr sample_pair, sample_signing)"
proof -
  have "map_option fst (generateKeyPairInternal sample_lib sample_random 5 ''transaction_signing'' sample_hsm) = Some (Inr sample_pair)"
    by code_simp
  then show ?thesis by (auto simp: sample_signing_def)
qed

lemma sample_readable: "readable sample_signing"
  using generate_keeps_rest [OF sample_key_generated] by (simp add: readable_def same_rest_def sample_hsm_def)


text \<open>A year and a second later the rotation blocks; before, it has nothing to do.\<close>

lemma rotation_blocks_witness:
  "RotateKeys sample_lib (\<lambda>_ _. sample_random) (6 + key_lifetime) sample_signing = None \<and>
    RotateKeys sample_lib (\<lambda>_ _. sample_random) 5 sample_signing = Some (Inr (), sample_signing)"
proof -
  have "hs_keys sample_signing = [(''transaction_signing'', sample_pair)]" "\<not> hs_locked sample_signing" by code_simp+
  moreover have "\<not> is_substring ''_1'' ''transaction_signing''" by code_simp
  ultimately show ?thesis by (simp add: rotation_blocks sample_pair_def key_lifetime_def second_def)
qed


definition sample_new_keys :: hsm where
  "sample_new_keys = snd (the (CreateNewKeysExternal sample_lib sample_random 5 sample_signing))"

lemma client_data_opens_witness:
  "DecryptPII sample_lib (base64_encode (client_payload ''wrapped'' (replicate 12 (CHR ''i'')) ''5061''))
     sample_new_keys = Some (Inr ''5061'')"
proof -
  have c: "CreateNewKeysExternal sample_lib sample_random 5 sample_signing =
      Some (SendSuccessResponse ''Key Generated Successfully'' JNull 200, sample_new_keys)"
  proof -
    have "map_option fst (CreateNewKeysExternal sample_lib sample_random 5 sample_signing) =
        Some (SendSuccessResponse ''Key Generated Successfully'' JNull 200)" by code_simp
    then show ?thesis by (auto simp: sample_new_keys_def)
  qed
  have "map_of (hs_keys sample_signing) ''app_signing_public'' = None" "map_of (hs_keys sample_signing) ''app_signing_private'' = None"
    "\<not> hs_locked sample_signing" by code_simp+
  moreover have "hs_read_error sample_signing = (\<lambda>_. None)" using sample_readable by (simp add: readable_def)
  ultimately show ?thesis
    using client_data_opens [OF sample_codecs c, where wrapped = "''wrapped''" and key = "replicate 32 (CHR ''K'')"
        and iv = "replicate 12 (CHR ''i'')" and box = "''5061''" and m = "''5061''" and sk = "''sk''"]
    by (simp add: sample_random_def sample_lib_def)
qed

end
