(* ===== verification/Routing_Props.thy ===== *)
theory Routing_Props
  imports Payment_Routing Card_Props HSM_Props
begin

text \<open>
  Which payments can reach their provider through the endpoint.
\<close>

section \<open>What strict decoding says about the body\<close>

lemma fold_put_None [simp]: "fold (put_member strict tab) kvs None = None"
  by (induction kvs) (simp_all add: put_member_def)

lemma strict_members:
  "fold (put_member True tab) kvs (Some r) = Some r' \<Longrightarrow> kv \<in> set kvs \<Longrightarrow> map_of tab (ToLower (fst kv)) \<noteq> None"
proof (induction kvs arbitrary: r)
  case (Cons x kvs)
  from Cons.prems(1) obtain r1 where r1: "put_member True tab x (Some r) = Some r1"
    by (cases "put_member True tab x (Some r)") simp_all
  with Cons.prems(1) have "fold (put_member True tab) kvs (Some r1) = Some r'" by simp
  moreover have "map_of tab (ToLower (fst x)) \<noteq> None" using r1 by (auto simp: put_member_def split: option.splits)
  ultimately show ?case using Cons by auto
qed simp

text \<open>A field that no member of the body names keeps its value.\<close>

definition leaves :: "('r \<Rightarrow> 'b) \<Rightarrow> 'r putter \<Rightarrow> bool" where
  "leaves f put \<longleftrightarrow> (\<forall>v r r'. put v r = Some r' \<longrightarrow> f r' = f r)"

lemma fold_leaves:
  assumes "\<And>kv put. kv \<in> set kvs \<Longrightarrow> map_of tab (ToLower (fst kv)) = Some put \<Longrightarrow> leaves f put"
    and "fold (put_member strict tab) kvs (Some r) = Some r'"
  shows "f r' = f r"
  using assms
proof (induction kvs arbitrary: r)
  case (Cons x kvs)
  from Cons.prems(2) obtain r1 where r1: "put_member strict tab x (Some r) = Some r1"
    by (cases "put_member strict tab x (Some r)") simp_all
  with Cons.prems(2) have "fold (put_member strict tab) kvs (Some r1) = Some r'" by simp
  then have "f r' = f r1" using Cons.IH [of r1] Cons.prems(1) by (meson list.set_intros(2))
  moreover have "f r1 = f r"
  proof (cases "map_of tab (ToLower (fst x))")
    case None
    with r1 show ?thesis by (auto simp: put_member_def split: if_splits)
  next
    case (Some put)
    then have "leaves f put" using Cons.prems(1) [of x put] by simp
    with r1 Some show ?thesis by (simp add: put_member_def leaves_def)
  qed
  ultimately show ?case by simp
qed simp

lemma leaves_intros:
  "(\<And>s r. f (g s r) = f r) \<Longrightarrow> leaves f (put_str g)"
  "(\<And>n r. f (h n r) = f r) \<Longrightarrow> leaves f (put_int h)"
  "(\<And>l r. f (p l r) = f r) \<Longrightarrow> leaves f (put_location loc p)"
  by (auto simp: leaves_def put_str_def put_int_def put_location_def split: json.splits if_splits option.splits)

lemma leaves_inner: "(\<And>x r. f (g x r) = f r) \<Longrightarrow> leaves f (\<lambda>v r. map_option (\<lambda>x. g x r) (dec v r))"
  by (auto simp: leaves_def)

lemma payment_members:
  assumes "decode_payment loc v = Some req" and "v = JObj kvs" and "kv \<in> set kvs"
  shows "ToLower (fst kv) \<in> fst ` set (payment_fields loc)"
proof -
  from assms(1,2) have "fold (put_member True (payment_fields loc)) kvs (Some empty_payment) = Some req"
    by (simp add: decode_payment_def decode_into_def)
  from strict_members [OF this assms(3)] show ?thesis by (metis map_of_eq_None_iff)
qed

lemma payment_body_shape: "decode_payment loc v = Some req \<Longrightarrow> v = JNull \<or> (\<exists>kvs. v = JObj kvs)"
  by (cases v) (simp_all add: decode_payment_def decode_into_def)

lemma airtime_account_missing:
  assumes "decode_payment loc v = Some req" and "decode_airtime loc v = Some a"
  shows "ad_DebitAccount a = []"
proof (cases "v = JNull")
  case True
  with assms(2) show ?thesis by (auto simp: decode_airtime_def decode_into_def empty_airtime_def)
next
  case False
  then obtain kvs where v: "v = JObj kvs" using payment_body_shape [OF assms(1)] by blast
  have "leaves ad_DebitAccount put" if "kv \<in> set kvs" "map_of (airtime_fields loc) (ToLower (fst kv)) = Some put" for kv put
  proof -
    have "ToLower (fst kv) \<noteq> ''debitaccount''"
    proof
      assume "ToLower (fst kv) = ''debitaccount''"
      then have "''debitaccount'' \<in> fst ` set (payment_fields loc)"
        using payment_members [OF assms(1) v that(1)] by simp
      then show False by (simp add: payment_fields_def)
    qed
    then show ?thesis using that(2)
      by (auto simp: airtime_fields_def intro!: leaves_intros leaves_inner split: if_splits)
  qed
  moreover have "fold (put_member True (airtime_fields loc)) kvs (Some empty_airtime) = Some a"
    using assms(2) by (simp add: decode_airtime_def decode_into_def v)
  ultimately have "ad_DebitAccount a = ad_DebitAccount empty_airtime" by (rule fold_leaves)
  then show ?thesis by (simp add: empty_airtime_def)
qed

lemma card_number_missing:
  assumes "decode_payment loc v = Some req" and "decode_card loc v = Some c"
  shows "ci_EncryptedPAN (cp_CardInfo c) = []"
proof (cases "v = JNull")
  case True
  with assms(2) show ?thesis by (auto simp: decode_card_def decode_into_def empty_card_def)
next
  case False
  then obtain kvs where v: "v = JObj kvs" using payment_body_shape [OF assms(1)] by blast
  have "leaves cp_CardInfo put" if "kv \<in> set kvs" "map_of (card_fields loc) (ToLower (fst kv)) = Some put" for kv put
  proof -
    have "ToLower (fst kv) \<noteq> ''cardinfo''"
    proof
      assume "ToLower (fst kv) = ''cardinfo''"
      then have "''cardinfo'' \<in> fst ` set (payment_fields loc)"
        using payment_members [OF assms(1) v that(1)] by simp
      then show False by (simp add: payment_fields_def)
    qed
    then show ?thesis using that(2)
      by (auto simp: card_fields_def intro!: leaves_intros split: if_splits)
  qed
  moreover have "fold (put_member False (card_fields loc)) kvs (Some empty_card) = Some c"
    using assms(2) by (simp add: decode_card_def decode_into_def v)
  ultimately have "cp_CardInfo c = cp_CardInfo empty_card" by (rule fold_leaves)
  then show ?thesis by (simp add: empty_card_def)
qed

section \<open>Modes that cannot be reached\<close>

lemma checkIdempotency_Done: "\<exists>x w'. checkIdempotency k w = (Done x, w') \<and> committed w' = committed w"
  by (auto simp: checkIdempotency_def catching_def redis_get_def bind_def attempt_def ret_def split: option.splits rvalue.splits)

text \<open>The provider of such a mode refuses what the endpoint lets through.\<close>

lemma provider_refuses:
  assumes "decode_payment (pe_location env) v = Some req"
    and "pr_PaymentMode req \<in> {''CARD'', ''AIRTIME'', ''DATA''}" and "pe_DecryptPII env [] = Inl e"
  shows "\<exists>provider. providerMap env userID (pr_PaymentMode req) = Some provider \<and> (\<exists>r. provider v = ret r \<and> \<not> hr_success r)"
proof -
  have card: "\<exists>r. card_HandlePayment (pe_moov env) (NewCardPaymentProvider (pe_HSM env) (pe_DecryptPII env))
      (pe_breaker env) (pe_today env) (pe_nonce env) userID (card_body_of (pe_location env) v) = ret r \<and> \<not> hr_success r"
    using card_number_missing [OF assms(1)] assms(3)
    by (auto simp: card_HandlePayment_def card_body_of_def DecryptPIICredentials_def NewCardPaymentProvider_def
        split: option.split)
  have topup: "\<exists>r. on_world (topup_HandlePayment texts userID (airtime_body_of (pe_location env) v)) = ret r \<and>
      \<not> hr_success r" for texts
    using airtime_account_missing [OF assms(1)]
    by (auto simp: topup_HandlePayment_def airtime_body_of_def validateRequest_def on_world_def ret_def fun_eq_iff
        split: option.split)
  show "\<exists>provider. providerMap env userID (pr_PaymentMode req) = Some provider \<and> (\<exists>r. provider v = ret r \<and> \<not> hr_success r)"
    using assms(2)
  proof (elim insertE emptyE)
    assume "pr_PaymentMode req = ''CARD''"
    with card show ?thesis by (simp add: providerMap_def)
  next
    assume "pr_PaymentMode req = ''AIRTIME''"
    with topup [of airtime_texts] show ?thesis by (simp add: providerMap_def airtime_HandlePayment_def)
  next
    assume "pr_PaymentMode req = ''DATA''"
    with topup [of data_texts] show ?thesis by (simp add: providerMap_def data_HandlePayment_def)
  qed
qed

text \<open>C33: The endpoint cannot take a card payment, an airtime or a data purchase.  Its own strict decoding
  admits only the members of a payment request, so the card number and the debit account never reach
  the providers that need them: such a request changes no table, and is never answered with success
  unless it repeats a transaction already marked.\<close>

theorem card_and_airtime_unreachable:
  assumes "decode_payment (pe_location env) v = Some req"
    and "pr_PaymentMode req \<in> {''CARD'', ''AIRTIME'', ''DATA''}" and "pe_DecryptPII env [] = Inl e"
  shows "\<exists>r s'. HandlePayment env userID (JsonThen v False) s = (Done r, s') \<and> committed (fst s') = committed (fst s) \<and>
    (hr_success r \<longrightarrow> (\<exists>status. r = replayed (pr_TransactionID req) status (pr_PaymentMode req)))"
proof -
  let ?id = "pr_TransactionID req"
  define check :: "(string \<times> bool) card_go" where
    "check = (if ?id = [] then ret ([], False) else on_world (checkIdempotency ?id))"
  obtain status found s1 where c: "check s = (Done (status, found), s1)" and d: "committed (fst s1) = committed (fst s)"
    using checkIdempotency_Done [of ?id "fst s"]
    by (cases "?id = []") (auto simp: check_def ret_def on_world_def)
  obtain provider where p: "providerMap env userID (pr_PaymentMode req) = Some provider"
    and refuses: "\<exists>r. provider v = ret r \<and> \<not> hr_success r"
    using provider_refuses [OF assms] by blast
  have h: "HandlePayment env userID (JsonThen v False) s = bind check (\<lambda>(cachedStatus, found).
      if found then
        (if cachedStatus = ''COMPLETED'' \<or> cachedStatus = ''PENDING'' then ret (replayed ?id cachedStatus (pr_PaymentMode req))
         else ret (SendErrorResponse (Response PaymentFailed) 400))
      else provider v) s"
    using assms(1,2) p by (auto simp: HandlePayment_def route_def check_def)
  from refuses obtain r where r: "provider v = ret r" "\<not> hr_success r" by blast
  let ?r = "if found then (if status = ''COMPLETED'' \<or> status = ''PENDING''
      then replayed ?id status (pr_PaymentMode req) else SendErrorResponse (Response PaymentFailed) 400) else r"
  have "HandlePayment env userID (JsonThen v False) s = (Done ?r, s1)"
    unfolding h using r by (simp add: bind_def c ret_def)
  moreover have "hr_success ?r \<longrightarrow> (\<exists>status. ?r = replayed ?id status (pr_PaymentMode req))"
    using r(2) by auto
  ultimately show ?thesis using d by blast
qed

text \<open>A gateway whose card provider decrypts with the module of theory \<open>HSM_Props\<close>.\<close>

definition sample_gateway :: "sample_message payment_env" where
  "sample_gateway = \<lparr>pe_location = (\<lambda>_. None), pe_HSM = Card_Props.sample_hsm,
     pe_DecryptPII = (\<lambda>x. the (DecryptPII sample_lib x sample_signing)), pe_nip = sample_env False,
     pe_moov = sample_moov, pe_breaker = None, pe_today = (2027, 5), pe_nonce = ''n'', pe_ip = ''10.0.0.1''\<rparr>"

lemma card_and_airtime_unreachable_witness:
  "\<exists>r s'. HandlePayment sample_gateway 7 (JsonThen (JObj [(''paymentMode'', JStr ''AIRTIME'')]) False)
      (sample_world, NIBSS_Props.sample_net) = (Done r, s') \<and> committed (fst s') = committed sample_world"
proof -
  have "ToLower ''paymentMode'' = ''paymentmode''" by code_simp
  then have d: "decode_payment (pe_location sample_gateway) (JObj [(''paymentMode'', JStr ''AIRTIME'')]) =
      Some (empty_payment\<lparr>pr_PaymentMode := ''AIRTIME''\<rparr>)"
    by (simp add: decode_payment_def decode_into_def put_member_def payment_fields_def put_str_def)
  obtain e where "pe_DecryptPII sample_gateway [] = Inl e"
    using no_pii [of sample_lib sample_signing] by (auto simp: sample_gateway_def)
  from card_and_airtime_unreachable [OF d _ this, where s = "(sample_world, NIBSS_Props.sample_net)" and userID = 7]
  show ?thesis by fastforce
qed

end
