(* ===== verification/Circuit_Breaker.thy ===== *)
theory Circuit_Breaker
  imports Store
begin

text \<open>
  The registry of circuit breakers, \<open>src/internal/circuitbreaker/breaker.go\<close>.

  The breaker itself is \<open>gobreaker\<close>, which is not part of the program: \<open>mk\<close>, an argument, makes one
  from settings.  The registry and its settings are here.  \<open>ReadyToTrip\<close> compares a quotient of two
  32-bit counts with \<open>0.6\<close> (or \<open>0.5\<close>) as \<open>float64\<close>: the quotient is rounded correctly, to the nearest
  number, and a quotient other than \<open>3/5\<close> is further from it than rounding reaches, so the
  comparison is the one of the fractions, written without division.
\<close>

record counts =
  Requests :: nat
  TotalFailures :: nat

record breaker_settings =
  bs_Name :: string
  bs_MaxRequests :: nat
  bs_Interval :: int
  bs_Timeout :: int
  ReadyToTrip :: "counts \<Rightarrow> bool"

type_synonym 'b breakers = "string \<rightharpoonup> 'b"

definition Get :: "(breaker_settings \<Rightarrow> 'b) \<Rightarrow> string \<Rightarrow> breaker_settings \<Rightarrow> 'b breakers \<Rightarrow> 'b \<times> 'b breakers" where
  "Get mk name settings reg = (case reg name of
       Some cb \<Rightarrow> (cb, reg)
     | None \<Rightarrow> (let cb = mk (settings\<lparr>bs_Name := name\<rparr>) in (cb, reg(name \<mapsto> cb))))"

definition NIBSSSettlementSettings :: breaker_settings where
  "NIBSSSettlementSettings = \<lparr>bs_Name = [], bs_MaxRequests = 1, bs_Interval = 60 * second,
     bs_Timeout = 30 * second,
     ReadyToTrip = (\<lambda>c. 5 \<le> Requests c \<and> 3 * Requests c \<le> 5 * TotalFailures c)\<rparr>"

definition NIBSSBVNSettings :: breaker_settings where
  "NIBSSBVNSettings = \<lparr>bs_Name = [], bs_MaxRequests = 1, bs_Interval = 60 * second,
     bs_Timeout = 30 * second,
     ReadyToTrip = (\<lambda>c. 3 \<le> Requests c \<and> 3 * Requests c \<le> 5 * TotalFailures c)\<rparr>"

definition NIBSSMandateSettings :: breaker_settings where
  "NIBSSMandateSettings = \<lparr>bs_Name = [], bs_MaxRequests = 1, bs_Interval = 60 * second,
     bs_Timeout = 30 * second,
     ReadyToTrip = (\<lambda>c. 5 \<le> Requests c \<and> 3 * Requests c \<le> 5 * TotalFailures c)\<rparr>"

definition NIBSSISO20022Settings :: breaker_settings where
  "NIBSSISO20022Settings = \<lparr>bs_Name = [], bs_MaxRequests = 2, bs_Interval = 60 * second,
     bs_Timeout = 45 * second,
     ReadyToTrip = (\<lambda>c. 5 \<le> Requests c \<and> Requests c \<le> 2 * TotalFailures c)\<rparr>"

text \<open>A sequence of calls, with the breakers they return.\<close>

fun get_all :: "(breaker_settings \<Rightarrow> 'b) \<Rightarrow> (string \<times> breaker_settings) list \<Rightarrow> 'b breakers \<Rightarrow> 'b list \<times> 'b breakers" where
  "get_all mk [] reg = ([], reg)"
| "get_all mk ((name, settings) # cs) reg = (case Get mk name settings reg of
       (cb, reg') \<Rightarrow> (case get_all mk cs reg' of (cbs, reg'') \<Rightarrow> (cb # cbs, reg'')))"

lemma get_all_known: "reg name = Some cb \<Longrightarrow> snd (get_all mk cs reg) name = Some cb"
proof (induction cs arbitrary: reg)
  case (Cons c cs)
  obtain n s where c: "c = (n, s)" by fastforce
  have "snd (Get mk n s reg) name = Some cb"
    using Cons.prems by (auto simp: Get_def Let_def split: option.split)
  then have "snd (get_all mk cs (snd (Get mk n s reg))) name = Some cb" by (rule Cons.IH)
  then show ?case by (cases "Get mk n s reg"; cases "get_all mk cs (snd (Get mk n s reg))") (simp add: c)
qed simp

text \<open>
  The first call for a name decides its breaker: every later call for the name returns the same
  one, whatever settings it brings and whatever calls came between.
\<close>

lemma first_settings_win:
  assumes "Get mk name settings reg = (cb, reg')" and "reg name = None"
  shows "cb = mk (settings\<lparr>bs_Name := name\<rparr>) \<and>
    Get mk name settings' (snd (get_all mk cs reg')) = (cb, snd (get_all mk cs reg'))"
proof -
  have r: "cb = mk (settings\<lparr>bs_Name := name\<rparr>)" "reg' name = Some cb"
    using assms by (auto simp: Get_def Let_def)
  then show ?thesis using get_all_known [of reg' name cb mk cs] by (simp add: Get_def)
qed

text \<open>A breaker that trips stays tripping as failures add up.\<close>

lemma trips_monotone:
  assumes "s \<in> {NIBSSSettlementSettings, NIBSSBVNSettings, NIBSSMandateSettings, NIBSSISO20022Settings}"
    and "ReadyToTrip s c"
  shows "ReadyToTrip s (c\<lparr>Requests := Requests c + n, TotalFailures := TotalFailures c + n\<rparr>)"
  using assms
  by (auto simp: NIBSSSettlementSettings_def NIBSSBVNSettings_def NIBSSMandateSettings_def
      NIBSSISO20022Settings_def)

end
