(* ===== verification/Merchants.thy ===== *)
theory Merchants
  imports Commons Store
begin

text \<open>
  Merchants, \<open>src/internal/services/merchant_service.go\<close>: onboarding, changes, status, account, list and
  statistics.

  \<^item> The table \<open>merchants\<close> is a list of rows of its own; \<open>mer_row\<close> gives the columns that the other
    services read of it.  A commission rate is a number of hundredths of a percent, what the column
    \<open>DECIMAL(5,2)\<close> holds; an amount a number of hundredths.
  \<^item> A statement is refused (\<open>None\<close>) by an external failure, \<open>fault\<close>, or by the schema: its check on the
    status, its unique columns, and the column \<open>account_id\<close>, which may be missing.  \<open>migrated\<close> is the
    schema that \<open>src/migrations\<close> make, numbers 021 and 025.
  \<^item> A sum of a \<open>DECIMAL(15,2)\<close> column arrives as a text with two decimals; \<open>database/sql\<close> reads an \<open>int64\<close>
    from it with \<open>strconv.ParseInt\<close>, and \<open>Scan\<close> stops at the first column it cannot read.
\<close>

section \<open>The table\<close>

record merchant =
  mc_ID :: int
  mc_UserID :: int
  mc_BusinessName :: string
  mc_BusinessType :: string
  mc_TaxID :: string
  mc_AccountID :: "string option"
  mc_Status :: string
  mc_CommissionRate :: int
  mc_SettlementCycle :: string
  mc_CreatedAt :: int
  mc_UpdatedAt :: int

definition mer_row :: "merchant \<Rightarrow> merchant_row" where
  "mer_row m = \<lparr>mer_id = show_int (mc_ID m), mer_name = mc_BusinessName m, mer_status = mc_Status m,
     mer_account = mc_AccountID m, mer_user = mc_UserID m\<rparr>"

record schema =
  sc_status :: "string \<Rightarrow> bool"
  sc_account :: bool

definition migrated :: schema where
  "migrated = \<lparr>sc_status = (\<lambda>s. s \<in> {''PENDING'', ''ACTIVE'', ''SUSPENDED'', ''REJECTED''}), sc_account = False\<rparr>"

definition cycles :: "string list" where
  "cycles = [''DAILY'', ''WEEKLY'', ''MONTHLY'']"

text \<open>What the table accepts; identifiers come from a sequence.\<close>

definition table_ok :: "schema \<Rightarrow> merchant list \<Rightarrow> bool" where
  "table_ok sc ms \<longleftrightarrow> list_all (\<lambda>m. sc_status sc (mc_Status m) \<and> mc_SettlementCycle m \<in> set cycles) ms \<and>
     distinct (map mc_UserID ms) \<and> distinct (map mc_TaxID ms)"

definition statement :: "schema \<Rightarrow> bool \<Rightarrow> merchant list \<Rightarrow> merchant list option" where
  "statement sc fault ms' = (if fault \<or> \<not> table_ok sc ms' then None else Some ms')"

text \<open>An \<open>UPDATE\<close> of the rows that \<open>hit\<close>: the number of rows, and the table after it.\<close>

definition update_rows ::
  "schema \<Rightarrow> bool \<Rightarrow> (merchant \<Rightarrow> bool) \<Rightarrow> (merchant \<Rightarrow> merchant) \<Rightarrow> merchant list \<Rightarrow> (nat \<times> merchant list) option" where
  "update_rows sc fault hit f ms =
     map_option (\<lambda>ms'. (length (filter hit ms), ms')) (statement sc fault (map (\<lambda>m. if hit m then f m else m) ms))"

section \<open>Requests\<close>

datatype 'a decoded = Undecodable | Request 'a

record onboard_request =
  on_BusinessName :: string
  on_BusinessType :: string
  on_TaxID :: string
  on_CommissionRate :: int
  on_SettlementCycle :: string

record update_request =
  up_BusinessName :: string
  up_BusinessType :: string
  up_CommissionRate :: int
  up_SettlementCycle :: string

record status_request =
  st_MerchantID :: int
  st_Status :: string

definition onboard_valid :: "onboard_request \<Rightarrow> bool" where
  "onboard_valid req \<longleftrightarrow> 2 \<le> length (on_BusinessName req) \<and> on_BusinessType req \<noteq> [] \<and> on_TaxID req \<noteq> [] \<and>
     0 \<le> on_CommissionRate req \<and> on_CommissionRate req \<le> 10000 \<and> on_SettlementCycle req \<in> set cycles"

text \<open>\<open>omitempty\<close>: an empty text or a zero rate passes.\<close>

definition update_valid :: "update_request \<Rightarrow> bool" where
  "update_valid req \<longleftrightarrow> 0 \<le> up_CommissionRate req \<and> up_CommissionRate req \<le> 10000 \<and>
     (up_SettlementCycle req = [] \<or> up_SettlementCycle req \<in> set cycles)"

definition status_valid :: "status_request \<Rightarrow> bool" where
  "status_valid req \<longleftrightarrow> st_MerchantID req \<noteq> 0 \<and> st_Status req \<in> {''active'', ''suspended'', ''rejected''}"

text \<open>An answer of the service is an envelope, a plain JSON value, or nothing.\<close>

datatype reply = Envelope http_response | Plain json | NoBody

definition refuse :: "string \<Rightarrow> int \<Rightarrow> reply" where
  "refuse message code = Envelope (SendErrorResponse message code)"

definition rate_json :: "int \<Rightarrow> json" where
  "rate_json n = JStr (show_int (n div 100) @ ''.'' @ show_pad 2 (nat (n mod 100)))"

text \<open>The times as the standard library prints them, \<open>show_time\<close>; a rate as its decimal text.\<close>

definition merchant_json :: "(int \<Rightarrow> string) \<Rightarrow> merchant \<Rightarrow> json" where
  "merchant_json show_time m = JObj [(''id'', JInt (mc_ID m)), (''userId'', JInt (mc_UserID m)),
     (''businessName'', JStr (mc_BusinessName m)), (''businessType'', JStr (mc_BusinessType m)),
     (''taxId'', JStr (mc_TaxID m)), (''status'', JStr (mc_Status m)), (''commissionRate'', rate_json (mc_CommissionRate m)),
     (''settlementCycle'', JStr (mc_SettlementCycle m)), (''createdAt'', JStr (show_time (mc_CreatedAt m))),
     (''updatedAt'', JStr (show_time (mc_UpdatedAt m)))]"

section \<open>Operations\<close>

text \<open>A user number arrives as text; the database reads it as an \<open>INTEGER\<close>.\<close>

definition sql_integer :: "string \<Rightarrow> int option" where
  "sql_integer s = (case parse_int s of None \<Rightarrow> None
     | Some n \<Rightarrow> if in_int4 n then Some n else None)"

definition fresh_id :: "merchant list \<Rightarrow> int" where
  "fresh_id ms = fold (\<lambda>m n. max n (mc_ID m + 1)) ms 1"

definition OnboardMerchant ::
  "schema \<Rightarrow> bool \<Rightarrow> (int \<Rightarrow> string) \<Rightarrow> int \<Rightarrow> request_context \<Rightarrow> onboard_request decoded \<Rightarrow> merchant list \<Rightarrow> reply \<times> merchant list" where
  "OnboardMerchant sc fault show_time t c body ms = (case ctx_userID c of
       None \<Rightarrow> (refuse (Response UnauthorizedError) 401, ms)
     | Some userID \<Rightarrow> (case body of
         Undecodable \<Rightarrow> (refuse (Response InvalidRequestError) 400, ms)
       | Request req \<Rightarrow>
           if \<not> onboard_valid req then (refuse (Response ValidationError) 400, ms)
           else case sql_integer userID of
             None \<Rightarrow> (refuse ''Failed to Create Merchant'' 424, ms)
           | Some uid \<Rightarrow>
               if \<not> fault \<and> uid \<in> mc_UserID ` set ms then (refuse ''Merchant Already Exists for this User'' 409, ms)
               else let m = \<lparr>mc_ID = fresh_id ms, mc_UserID = uid, mc_BusinessName = on_BusinessName req,
                   mc_BusinessType = on_BusinessType req, mc_TaxID = on_TaxID req, mc_AccountID = None,
                   mc_Status = ''pending'', mc_CommissionRate = on_CommissionRate req,
                   mc_SettlementCycle = on_SettlementCycle req, mc_CreatedAt = t, mc_UpdatedAt = t\<rparr>
                 in case statement sc fault (ms @ [m]) of
                   None \<Rightarrow> (refuse ''Failed to Create Merchant'' 424, ms)
                 | Some ms' \<Rightarrow> (Plain (merchant_json show_time m), ms')))"

definition keep_empty :: "string \<Rightarrow> string \<Rightarrow> string" where
  "keep_empty new old = (if new = [] then old else new)"

definition UpdateMerchant ::
  "schema \<Rightarrow> bool \<Rightarrow> int \<Rightarrow> request_context \<Rightarrow> update_request decoded \<Rightarrow> merchant list \<Rightarrow> reply \<times> merchant list" where
  "UpdateMerchant sc fault t c body ms = (case ctx_userID c of
       None \<Rightarrow> (refuse (Response UnauthorizedError) 401, ms)
     | Some userID \<Rightarrow> (case body of
         Undecodable \<Rightarrow> (refuse (Response InvalidRequestError) 400, ms)
       | Request req \<Rightarrow>
           if \<not> update_valid req then (refuse (Response ValidationError) 400, ms)
           else case (case sql_integer userID of None \<Rightarrow> None
               | Some uid \<Rightarrow> update_rows sc fault (\<lambda>m. mc_UserID m = uid)
                   (\<lambda>m. m\<lparr>mc_BusinessName := keep_empty (up_BusinessName req) (mc_BusinessName m),
                     mc_BusinessType := keep_empty (up_BusinessType req) (mc_BusinessType m),
                     mc_CommissionRate := (if 0 < up_CommissionRate req then up_CommissionRate req else mc_CommissionRate m),
                     mc_SettlementCycle := keep_empty (up_SettlementCycle req) (mc_SettlementCycle m),
                     mc_UpdatedAt := t\<rparr>) ms) of
             None \<Rightarrow> (refuse ''Failed to update merchant'' 424, ms)
           | Some (rows, ms') \<Rightarrow> if rows = 0 then (refuse ''Merchant not found'' 404, ms') else (NoBody, ms')))"

definition UpdateMerchantStatus ::
  "schema \<Rightarrow> bool \<Rightarrow> int \<Rightarrow> status_request decoded \<Rightarrow> merchant list \<Rightarrow> reply \<times> merchant list" where
  "UpdateMerchantStatus sc fault t body ms = (case body of
       Undecodable \<Rightarrow> (refuse (Response InvalidRequestError) 400, ms)
     | Request req \<Rightarrow>
         if \<not> status_valid req then (refuse (Response ValidationError) 400, ms)
         else case update_rows sc fault (\<lambda>m. mc_ID m = st_MerchantID req)
             (\<lambda>m. m\<lparr>mc_Status := st_Status req, mc_UpdatedAt := t\<rparr>) ms of
           None \<Rightarrow> (refuse ''Failed to update merchant status'' 424, ms)
         | Some (rows, ms') \<Rightarrow> if rows = 0 then (refuse ''Merchant not found'' 404, ms')
             else (Plain (JObj [(''message'', JStr ''Merchant status updated''), (''status'', JStr (st_Status req))]), ms'))"

text \<open>A missing user is answered with 401, and the handler goes on: the answers are a list.\<close>

definition with_merchant :: "request_context \<Rightarrow> (int \<Rightarrow> reply \<times> 'a) \<Rightarrow> reply list \<times> 'a" where
  "with_merchant c handler = (case ExtractUserMerchantInfoFromContext c of (early, userID, merchantID) \<Rightarrow>
     (case handler merchantID of (r, x) \<Rightarrow> ((case early of None \<Rightarrow> [] | Some e \<Rightarrow> [Envelope e]) @ [r], x)))"

definition UpdateMerchantBusinessAccount ::
  "schema \<Rightarrow> bool \<Rightarrow> request_context \<Rightarrow> string \<Rightarrow> merchant list \<Rightarrow> reply list \<times> merchant list" where
  "UpdateMerchantBusinessAccount sc fault c accountNumber ms = with_merchant c (\<lambda>merchantID.
     case update_rows sc (fault \<or> \<not> sc_account sc) (\<lambda>m. mc_ID m = merchantID)
         (\<lambda>m. m\<lparr>mc_AccountID := Some accountNumber\<rparr>) ms of
       None \<Rightarrow> (refuse ''Internal server error'' 500, ms)
     | Some (rows, ms') \<Rightarrow> if rows = 0 then (refuse ''Merchant not found'' 404, ms')
         else (Envelope (SendSuccessResponse ''Business Account Updated Successfully'' JNull 200), ms'))"

definition ListMerchants :: "bool \<Rightarrow> (int \<Rightarrow> string) \<Rightarrow> string \<Rightarrow> merchant list \<Rightarrow> reply" where
  "ListMerchants fault show_time status ms =
     (if fault then refuse ''Internal server error'' 424
      else Plain (JArr (map (merchant_json show_time) (sort_key (\<lambda>m. - mc_CreatedAt m)
        (filter (\<lambda>m. status = [] \<or> mc_Status m = status) ms)))))"

section \<open>Statistics\<close>

text \<open>The columns of the transactions that the statistics read, and a column of an answer.\<close>

record payment_row =
  py_credit :: "string option"
  py_status :: string
  py_amount :: int
  py_created :: int

datatype sql_value = SqlNull | SqlText string

definition decimal2 :: "int \<Rightarrow> string" where
  "decimal2 n = (if n < 0 then ''-'' else []) @ show_nat (nat \<bar>n\<bar> div 100) @ ''.'' @ show_pad 2 (nat \<bar>n\<bar> mod 100)"

text \<open>\<open>COALESCE(SUM(amount), 0)\<close>: without amounts the integer 0.\<close>

definition sql_sum :: "int list \<Rightarrow> string" where
  "sql_sum ns = (if ns = [] then ''0'' else decimal2 (sum_list ns))"

record stat_row =
  sr_status :: sql_value
  sr_count :: nat
  sr_total :: string
  sr_rate :: int
  sr_today_count :: nat
  sr_today_volume :: string
  sr_total_count :: nat
  sr_total_volume :: string

definition stat_of :: "int \<Rightarrow> int \<Rightarrow> string \<Rightarrow> payment_row list \<Rightarrow> stat_row" where
  "stat_of today rate status ps =
     (let done = filter (\<lambda>p. py_status p = ''COMPLETED'') ps; current = filter (\<lambda>p. today \<le> py_created p) done
      in \<lparr>sr_status = SqlText status, sr_count = length ps, sr_total = sql_sum (map py_amount ps), sr_rate = rate,
          sr_today_count = length current, sr_today_volume = sql_sum (map py_amount current),
          sr_total_count = length done, sr_total_volume = sql_sum (map py_amount done)\<rparr>)"

text \<open>The \<open>LEFT JOIN\<close> gives one row of nulls to a merchant without transactions.\<close>

definition stat_rows :: "int \<Rightarrow> int \<Rightarrow> payment_row list \<Rightarrow> merchant list \<Rightarrow> stat_row list" where
  "stat_rows today merchantID ps ms = concat (map (\<lambda>m.
     let mine = filter (\<lambda>p. py_credit p = mc_AccountID m \<and> mc_AccountID m \<noteq> None) ps
     in if mine = [] then [\<lparr>sr_status = SqlNull, sr_count = 1, sr_total = ''0'', sr_rate = mc_CommissionRate m,
            sr_today_count = 0, sr_today_volume = ''0'', sr_total_count = 0, sr_total_volume = ''0''\<rparr>]
        else map (\<lambda>s. stat_of today (mc_CommissionRate m) s (filter (\<lambda>p. py_status p = s) mine))
          (remdups (map py_status mine)))
     (filter (\<lambda>m. mc_ID m = merchantID) ms))"

record breakdown =
  bd_Status :: string
  bd_TransactionCount :: int
  bd_TotalAmount :: int

record merchant_stats =
  ms_TodayCompletedCount :: int
  ms_TodayCompletedVolume :: int
  ms_TotalCompletedVolume :: int
  ms_TotalCompletedCount :: int
  ms_ByStatus :: "breakdown list"

text \<open>What one \<open>Scan\<close>, whose error is ignored, leaves in the variables: the breakdown, the rate and the four
  counters, each zero or as it was until its column is reached.\<close>

definition scan_row :: "int \<Rightarrow> stat_row \<Rightarrow> breakdown \<times> int \<times> int \<times> int \<times> int \<times> int" where
  "scan_row rate r = (case sr_status r of
       SqlNull \<Rightarrow> (\<lparr>bd_Status = [], bd_TransactionCount = 0, bd_TotalAmount = 0\<rparr>, rate, 0, 0, 0, 0)
     | SqlText s \<Rightarrow> let ss = \<lparr>bd_Status = s, bd_TransactionCount = int (sr_count r), bd_TotalAmount = 0\<rparr> in
         (case parse_int (sr_total r) of
           None \<Rightarrow> (ss, rate, 0, 0, 0, 0)
         | Some amount \<Rightarrow> let ss = ss\<lparr>bd_TotalAmount := amount\<rparr> in
             (case parse_int (sr_today_volume r) of
               None \<Rightarrow> (ss, sr_rate r, int (sr_today_count r), 0, 0, 0)
             | Some todayVolume \<Rightarrow>
                 (case parse_int (sr_total_volume r) of
                   None \<Rightarrow> (ss, sr_rate r, int (sr_today_count r), todayVolume, int (sr_total_count r), 0)
                 | Some totalVolume \<Rightarrow>
                     (ss, sr_rate r, int (sr_today_count r), todayVolume, int (sr_total_count r), totalVolume)))))"

definition add_row :: "stat_row \<Rightarrow> merchant_stats \<times> int \<Rightarrow> merchant_stats \<times> int" where
  "add_row r = (\<lambda>(stats, rate). case scan_row rate r of (ss, rate', todayCount, todayVolume, totalCount, totalVolume) \<Rightarrow>
     (stats\<lparr>ms_ByStatus := ms_ByStatus stats @ (if bd_Status ss = [] then [] else [ss]),
        ms_TodayCompletedCount := wrap64 (ms_TodayCompletedCount stats + todayCount),
        ms_TodayCompletedVolume := wrap64 (ms_TodayCompletedVolume stats + todayVolume),
        ms_TotalCompletedCount := wrap64 (ms_TotalCompletedCount stats + totalCount),
        ms_TotalCompletedVolume := wrap64 (ms_TotalCompletedVolume stats + totalVolume)\<rparr>, rate'))"

definition no_stats :: merchant_stats where
  "no_stats = \<lparr>ms_TodayCompletedCount = 0, ms_TodayCompletedVolume = 0, ms_TotalCompletedVolume = 0,
     ms_TotalCompletedCount = 0, ms_ByStatus = []\<rparr>"

text \<open>The statistics, and the two profits in ten thousandths of the volumes' unit; \<open>Inl\<close> is an error answer,
  which a failed query gives as well.\<close>

definition GetMerchantData ::
  "schema \<Rightarrow> bool \<Rightarrow> int \<Rightarrow> request_context \<Rightarrow> payment_row list \<Rightarrow> merchant list \<Rightarrow>
     http_response option \<times> (http_response + merchant_stats \<times> int \<times> int)" where
  "GetMerchantData sc fault today c ps ms = (case ExtractUserMerchantInfoFromContext c of (early, userID, merchantID) \<Rightarrow>
     (early,
      if fault \<or> \<not> sc_account sc then Inl (SendErrorResponse ''Merchant Not Found'' 404)
      else case fold add_row (stat_rows today merchantID ps ms) (no_stats, 0) of (stats, rate) \<Rightarrow>
        Inr (stats, ms_TodayCompletedVolume stats * rate, ms_TotalCompletedVolume stats * rate)))"

end
