(* ===== verification/Transaction_Query.thy ===== *)
theory Transaction_Query
  imports Merchants
begin

text \<open>
  Transaction history, \<open>src/internal/services/transaction_query_service.go\<close>.

  \<^item> The columns of table \<open>transactions\<close> that are read are a row; amounts are numbers of hundredths, and
    a row shows their whole part.  Profits are in millionths.
  \<^item> The filters are kept as the code makes them: clauses of SQL text with numbered arguments.
    \<open>clause_holds\<close> reads the three forms of clause back, and looks its number up among the arguments
    of the query; \<open>LIMIT\<close> and \<open>OFFSET\<close> are looked up by their numbers as well.
  \<^item> Rows created at the same instant come in the order of the table.
\<close>

section \<open>Rows\<close>

record history_row =
  hy_txid :: string
  hy_user :: "int option"
  hy_debit :: "string option"
  hy_credit :: "string option"
  hy_amount :: int
  hy_currency :: string
  hy_type :: "string option"
  hy_mode :: "string option"
  hy_fee :: int
  hy_status :: string
  hy_narration :: "string option"
  hy_created :: int

record transaction_history =
  th_TxID :: string
  th_FromAccount :: string
  th_ToAccount :: string
  th_MerchantID :: string
  th_Amount :: int
  th_Currency :: string
  th_PaymentMode :: string
  th_Fee :: int
  th_TxType :: string
  th_Status :: string
  th_Narration :: string
  th_CreatedAt :: int
  th_Profit :: "int option"
  th_SettlementDate :: "int option"

definition coalesce :: "'a option \<Rightarrow> 'a \<Rightarrow> 'a" where
  "coalesce x d = (case x of None \<Rightarrow> d | Some y \<Rightarrow> y)"

text \<open>\<open>int64\<close> of the parsed text cuts the decimals off.\<close>

definition whole :: "int \<Rightarrow> int" where
  "whole n = sgn n * (\<bar>n\<bar> div 100)"

definition decryptDebitID :: "(string \<Rightarrow> go_err + string) \<Rightarrow> string \<Rightarrow> string \<Rightarrow> string" where
  "decryptDebitID decryptPAN encrypted paymentMode =
     (if paymentMode \<noteq> ''CARD'' then encrypted
      else case decryptPAN encrypted of Inl _ \<Rightarrow> MaskPAN encrypted | Inr plain \<Rightarrow> plain)"

definition history :: "(string \<Rightarrow> go_err + string) \<Rightarrow> string \<Rightarrow> history_row \<Rightarrow> transaction_history" where
  "history decryptPAN kind r =
     \<lparr>th_TxID = hy_txid r,
      th_FromAccount = decryptDebitID decryptPAN (coalesce (hy_debit r) []) (coalesce (hy_mode r) ''CARD''),
      th_ToAccount = coalesce (hy_credit r) [], th_MerchantID = [], th_Amount = whole (hy_amount r),
      th_Currency = hy_currency r, th_PaymentMode = coalesce (hy_mode r) ''CARD'', th_Fee = whole (hy_fee r),
      th_TxType = coalesce (hy_type r) kind, th_Status = hy_status r, th_Narration = coalesce (hy_narration r) [],
      th_CreatedAt = hy_created r, th_Profit = None, th_SettlementDate = None\<rparr>"

text \<open>\<open>month_later\<close> is the calendar's.\<close>

definition settlement_date :: "(int \<Rightarrow> int) \<Rightarrow> string \<Rightarrow> int \<Rightarrow> int option" where
  "settlement_date month_later cycle created =
     (if cycle = ''DAILY'' then Some (created + 86400 * second)
      else if cycle = ''WEEKLY'' then Some (created + 7 * 86400 * second)
      else if cycle = ''MONTHLY'' then Some (month_later created)
      else None)"

definition merchant_history ::
  "(string \<Rightarrow> go_err + string) \<Rightarrow> (int \<Rightarrow> int) \<Rightarrow> history_row \<times> merchant \<Rightarrow> transaction_history" where
  "merchant_history decryptPAN month_later = (\<lambda>(r, m). (history decryptPAN ''CREDIT'' r)
     \<lparr>th_Profit := Some (hy_amount r * mc_CommissionRate m),
      th_SettlementDate := settlement_date month_later (mc_SettlementCycle m) (hy_created r)\<rparr>)"

section \<open>One transaction\<close>

text \<open>The credited account is read into the field of the merchant.\<close>

definition fetchTransaction ::
  "bool \<Rightarrow> (string \<Rightarrow> go_err + string) \<Rightarrow> string \<Rightarrow> int \<Rightarrow> history_row list \<Rightarrow> go_err + transaction_history" where
  "fetchTransaction fault decryptPAN txID userID rows =
     (if fault then Inl DbErr
      else case find (\<lambda>r. hy_txid r = txID \<and> hy_user r = Some userID) rows of
        None \<Rightarrow> Inl NoRows
      | Some r \<Rightarrow> Inr ((history decryptPAN ''DEBIT'' r)\<lparr>th_MerchantID := coalesce (hy_credit r) [], th_ToAccount := []\<rparr>))"

text \<open>Transactions joined with the merchants whose account they credit.\<close>

definition merchant_join :: "merchant list \<Rightarrow> history_row list \<Rightarrow> (history_row \<times> merchant) list" where
  "merchant_join ms rows = concat (map (\<lambda>r. map (Pair r) (filter (\<lambda>m. mc_AccountID m \<noteq> None \<and> mc_AccountID m = hy_credit r) ms)) rows)"

definition fetchMerchantTransaction ::
  "bool \<Rightarrow> (string \<Rightarrow> go_err + string) \<Rightarrow> (int \<Rightarrow> int) \<Rightarrow> string \<Rightarrow> int \<Rightarrow> merchant list \<Rightarrow> history_row list \<Rightarrow>
     go_err + transaction_history" where
  "fetchMerchantTransaction fault decryptPAN month_later txID merchantID ms rows =
     (if fault then Inl DbErr
      else case find (\<lambda>(r, m). hy_txid r = txID \<and> mc_ID m = merchantID) (merchant_join ms rows) of
        None \<Rightarrow> Inl NoRows
      | Some p \<Rightarrow> Inr (merchant_history decryptPAN month_later p))"

text \<open>The answer of a handler, after the one for a missing user, if any: an error or the value.\<close>

definition with_user :: "request_context \<Rightarrow> (int \<Rightarrow> int \<Rightarrow> 'a) \<Rightarrow> http_response option \<times> 'a" where
  "with_user c handler = (case ExtractUserMerchantInfoFromContext c of (early, userID, merchantID) \<Rightarrow>
     (early, handler userID merchantID))"

definition GetTransaction ::
  "schema \<Rightarrow> bool \<Rightarrow> (string \<Rightarrow> go_err + string) \<Rightarrow> (int \<Rightarrow> int) \<Rightarrow> request_context \<Rightarrow> string \<Rightarrow> merchant list \<Rightarrow>
     history_row list \<Rightarrow> http_response option \<times> (http_response + transaction_history)" where
  "GetTransaction sc fault decryptPAN month_later c txID ms rows = with_user c (\<lambda>userID merchantID.
     case (if merchantID \<noteq> 0
           then fetchMerchantTransaction (fault \<or> \<not> sc_account sc) decryptPAN month_later txID merchantID ms rows
           else fetchTransaction fault decryptPAN txID userID rows) of
       Inl e \<Rightarrow> Inl (if e = NoRows then SendErrorResponse ''Transaction Not Found'' 404
                else SendErrorResponse ''Failed To Fetch Transaction'' 424)
     | Inr x \<Rightarrow> Inr x)"

section \<open>Pages\<close>

definition defaultPageLimit :: int where
  "defaultPageLimit = 20"

definition maxPageLimit :: int where
  "maxPageLimit = 100"

definition parsePagination :: "string \<Rightarrow> string \<Rightarrow> int \<times> int" where
  "parsePagination pageText limitText =
     ((case parse_int pageText of Some p \<Rightarrow> if 0 < p then p else 1 | None \<Rightarrow> 1),
      (case parse_int limitText of
         Some l \<Rightarrow> if 0 < l then (if maxPageLimit < l then maxPageLimit else l) else defaultPageLimit
       | None \<Rightarrow> defaultPageLimit))"

record tx_filters =
  fl_Status :: string
  fl_StartDate :: string
  fl_EndDate :: string

datatype sql_arg = ArgInt int | ArgText string | ArgTime int

definition allowedStatuses :: "string list" where
  "allowedStatuses = [''PENDING'', ''SUCCESS'', ''COMPLETED'', ''FAILED'', ''REVERSED'']"

definition placeholder :: "nat \<Rightarrow> string" where
  "placeholder n = CHR ''$'' # show_nat n"

text \<open>The three parts of the filter; \<open>parse_time\<close> is \<open>time.Parse\<close> in the layout RFC 3339.\<close>

definition status_filter :: "tx_filters \<Rightarrow> (string \<times> sql_arg) list" where
  "status_filter f = (if fl_Status f \<noteq> [] \<and> ToUpper (fl_Status f) \<in> set allowedStatuses
     then [(''status = '', ArgText (ToUpper (fl_Status f)))] else [])"

definition date_filter :: "(string \<Rightarrow> int option) \<Rightarrow> string \<Rightarrow> string \<Rightarrow> (string \<times> sql_arg) list" where
  "date_filter parse_time operator date = (if date = [] then []
     else case parse_time date of None \<Rightarrow> [] | Some t \<Rightarrow> [(''created_at '' @ operator @ '' '', ArgTime t)])"

definition buildFilterClauses ::
  "(string \<Rightarrow> int option) \<Rightarrow> nat \<Rightarrow> tx_filters \<Rightarrow> string \<Rightarrow> string list \<times> sql_arg list" where
  "buildFilterClauses parse_time argIdx f tablePrefix =
     (let parts = status_filter f @ date_filter parse_time ''>='' (fl_StartDate f) @ date_filter parse_time ''<='' (fl_EndDate f)
      in (map (\<lambda>(i, c, a). tablePrefix @ c @ placeholder i) (zip [argIdx ..< argIdx + length parts] parts), map snd parts))"

section \<open>Reading the query\<close>

definition argument :: "sql_arg list \<Rightarrow> nat \<Rightarrow> sql_arg option" where
  "argument args n = (if 1 \<le> n \<and> n \<le> length args then Some (args ! (n - 1)) else None)"

text \<open>The text after the column and the operator is the number of the argument.\<close>

definition after_prefix :: "string \<Rightarrow> string \<Rightarrow> nat option" where
  "after_prefix p s = (if is_prefix (p @ ''$'') s then Some (read_nat (drop (length p + 1) s)) else None)"

definition clause_holds :: "string \<Rightarrow> sql_arg list \<Rightarrow> history_row \<Rightarrow> string \<Rightarrow> bool" where
  "clause_holds tablePrefix args r clause =
     (case after_prefix (tablePrefix @ ''status = '') clause of
        Some n \<Rightarrow> argument args n = Some (ArgText (hy_status r))
      | None \<Rightarrow> (case after_prefix (tablePrefix @ ''created_at >= '') clause of
          Some n \<Rightarrow> (case argument args n of Some (ArgTime t) \<Rightarrow> t \<le> hy_created r | _ \<Rightarrow> False)
        | None \<Rightarrow> (case after_prefix (tablePrefix @ ''created_at <= '') clause of
            Some n \<Rightarrow> (case argument args n of Some (ArgTime t) \<Rightarrow> hy_created r \<le> t | _ \<Rightarrow> False)
          | None \<Rightarrow> False)))"

text \<open>\<open>ORDER BY created_at DESC LIMIT \<dots> OFFSET \<dots>\<close>, with the count of all rows in every row: the answer has no
  count when it has no row.  A negative offset is refused.\<close>

definition page_of :: "('a \<Rightarrow> int) \<Rightarrow> sql_arg option \<Rightarrow> sql_arg option \<Rightarrow> 'a list \<Rightarrow> ('a \<times> int) list option" where
  "page_of created limitArg offsetArg rows = (case (limitArg, offsetArg) of
       (Some (ArgInt l), Some (ArgInt offset)) \<Rightarrow>
         if l < 0 \<or> offset < 0 then None
         else Some (map (\<lambda>r. (r, int (length rows))) (take (nat l) (drop (nat offset) (sort_key (\<lambda>r. - created r) rows))))
     | _ \<Rightarrow> None)"

record paginated_transactions =
  pt_Transactions :: "transaction_history list"
  pt_Total :: int
  pt_Page :: int
  pt_Limit :: int
  pt_HasMore :: bool

definition paginated :: "('a \<Rightarrow> transaction_history) \<Rightarrow> int \<Rightarrow> int \<Rightarrow> ('a \<times> int) list option \<Rightarrow> go_err + paginated_transactions" where
  "paginated show_row page limit answer = (case answer of
       None \<Rightarrow> Inl DbErr
     | Some rows \<Rightarrow> let n = (if rows = [] then 0 else snd (last rows)) in
         Inr \<lparr>pt_Transactions = map (show_row \<circ> fst) rows, pt_Total = n, pt_Page = page, pt_Limit = limit,
              pt_HasMore = (wrap64 (page * limit) < n)\<rparr>)"

definition fetchRecentUserTransactions ::
  "bool \<Rightarrow> (string \<Rightarrow> go_err + string) \<Rightarrow> (string \<Rightarrow> int option) \<Rightarrow> int \<Rightarrow> tx_filters \<Rightarrow> int \<Rightarrow> int \<Rightarrow> history_row list \<Rightarrow>
     go_err + paginated_transactions" where
  "fetchRecentUserTransactions fault decryptPAN parse_time userID f page limit rows =
     (let (clauses, filterArgs) = buildFilterClauses parse_time 2 f [];
          argIdx = 2 + length filterArgs;
          offset = wrap64 ((page - 1) * limit);
          args = [ArgInt userID] @ filterArgs @ [ArgInt limit, ArgInt offset];
          chosen = filter (\<lambda>r. map_option ArgInt (hy_user r) = argument args 1 \<and> list_all (clause_holds [] args r) clauses) rows
      in paginated (history decryptPAN ''DEBIT'') page limit
           (if fault then None else page_of hy_created (argument args argIdx) (argument args (argIdx + 1)) chosen))"

definition fetchRecentMerchantTransactions ::
  "bool \<Rightarrow> (string \<Rightarrow> go_err + string) \<Rightarrow> (string \<Rightarrow> int option) \<Rightarrow> (int \<Rightarrow> int) \<Rightarrow> int \<Rightarrow> tx_filters \<Rightarrow> int \<Rightarrow> int \<Rightarrow>
     merchant list \<Rightarrow> history_row list \<Rightarrow> go_err + paginated_transactions" where
  "fetchRecentMerchantTransactions fault decryptPAN parse_time month_later merchantID f page limit ms rows =
     (let (clauses, filterArgs) = buildFilterClauses parse_time 2 f ''t.'';
          argIdx = 2 + length filterArgs;
          offset = wrap64 ((page - 1) * limit);
          args = [ArgInt merchantID] @ filterArgs @ [ArgInt limit, ArgInt offset];
          chosen = filter (\<lambda>(r, m). Some (ArgInt (mc_ID m)) = argument args 1 \<and> list_all (clause_holds ''t.'' args r) clauses)
            (merchant_join ms rows)
      in paginated (merchant_history decryptPAN month_later) page limit
           (if fault then None else page_of (hy_created \<circ> fst) (argument args argIdx) (argument args (argIdx + 1)) chosen))"

definition GetRecentTransactions ::
  "schema \<Rightarrow> bool \<Rightarrow> (string \<Rightarrow> go_err + string) \<Rightarrow> (string \<Rightarrow> int option) \<Rightarrow> (int \<Rightarrow> int) \<Rightarrow> request_context \<Rightarrow> (string \<Rightarrow> string) \<Rightarrow>
     merchant list \<Rightarrow> history_row list \<Rightarrow> http_response option \<times> (http_response + paginated_transactions)" where
  "GetRecentTransactions sc fault decryptPAN parse_time month_later c query ms rows =
     (let (page, limit) = parsePagination (query ''page'') (query ''limit'');
          f = \<lparr>fl_Status = query ''status'', fl_StartDate = query ''startDate'', fl_EndDate = query ''endDate''\<rparr>
      in with_user c (\<lambda>userID merchantID.
        case (if merchantID = 0 then fetchRecentUserTransactions fault decryptPAN parse_time userID f page limit rows
              else fetchRecentMerchantTransactions (fault \<or> \<not> sc_account sc) decryptPAN parse_time month_later merchantID f
                page limit ms rows) of
          Inl e \<Rightarrow> Inl (SendErrorResponse ''Failed to Fetch Transactions'' 424)
        | Inr results \<Rightarrow> Inr results))"

end
