(* ===== verification/Query_Props.thy ===== *)
theory Query_Props
  imports Transaction_Query
begin

text \<open>
  Transaction history: the numbered SQL clauses say what the filters ask for, the pages together are the
  history, and a merchant reads the payments of whatever account it names.
\<close>

section \<open>The filters\<close>

text \<open>What the filters ask for.\<close>

definition wanted :: "(string \<Rightarrow> int option) \<Rightarrow> tx_filters \<Rightarrow> history_row \<Rightarrow> bool" where
  "wanted parse_time f r \<longleftrightarrow>
     (fl_Status f \<noteq> [] \<longrightarrow> ToUpper (fl_Status f) \<in> set allowedStatuses \<longrightarrow> hy_status r = ToUpper (fl_Status f)) \<and>
     (fl_StartDate f \<noteq> [] \<longrightarrow> (\<forall>t. parse_time (fl_StartDate f) = Some t \<longrightarrow> t \<le> hy_created r)) \<and>
     (fl_EndDate f \<noteq> [] \<longrightarrow> (\<forall>t. parse_time (fl_EndDate f) = Some t \<longrightarrow> hy_created r \<le> t))"

text \<open>What a part of the filter asks for.\<close>

definition part_holds :: "history_row \<Rightarrow> string \<times> sql_arg \<Rightarrow> bool" where
  "part_holds r p = (case snd p of
       ArgText s \<Rightarrow> hy_status r = s
     | ArgTime t \<Rightarrow> if fst p = ''created_at >= '' then t \<le> hy_created r else hy_created r \<le> t
     | ArgInt _ \<Rightarrow> False)"

definition part_ok :: "string \<times> sql_arg \<Rightarrow> bool" where
  "part_ok p \<longleftrightarrow> (fst p = ''status = '' \<and> (\<exists>s. snd p = ArgText s)) \<or>
     (fst p \<in> {''created_at >= '', ''created_at <= ''} \<and> (\<exists>t. snd p = ArgTime t))"

lemma is_prefix_append [simp]: "is_prefix (a @ p) (a @ s) = is_prefix p s"
  by (simp add: is_prefix_def)

lemma after_prefix_same: "after_prefix (tp @ c) (tp @ c @ placeholder n) = Some n"
  by (simp add: after_prefix_def placeholder_def is_prefix_def)

lemma after_prefix_other: "\<not> is_prefix (c @ ''$'') s \<Longrightarrow> after_prefix (tp @ c) (tp @ s) = None"
  by (simp add: after_prefix_def)

lemma other_clauses:
  "\<not> is_prefix (''status = '' @ ''$'') (''created_at >= '' @ s)" "\<not> is_prefix (''status = '' @ ''$'') (''created_at <= '' @ s)"
  "\<not> is_prefix (''created_at >= '' @ ''$'') (''created_at <= '' @ s)"
  by (simp_all add: is_prefix_def)

lemma clause_of_part:
  assumes "part_ok p" and "argument args n = Some (snd p)"
  shows "clause_holds tp args r (tp @ fst p @ placeholder n) = part_holds r p"
proof -
  obtain c a where p: "p = (c, a)" by fastforce
  from assms(1) consider s where "c = ''status = ''" "a = ArgText s" | t where "c = ''created_at >= ''" "a = ArgTime t"
    | t where "c = ''created_at <= ''" "a = ArgTime t" by (auto simp: part_ok_def p)
  then show ?thesis
  proof cases
    case 1
    with assms(2) show ?thesis
      unfolding clause_holds_def p 1 fst_conv after_prefix_same by (simp add: part_holds_def p) auto
  next
    case 2
    with assms(2) show ?thesis
      unfolding clause_holds_def p 2 fst_conv after_prefix_same after_prefix_other [OF other_clauses(1)]
      by (simp add: part_holds_def p)
  next
    case 3
    with assms(2) show ?thesis
      unfolding clause_holds_def p 3 fst_conv after_prefix_same after_prefix_other [OF other_clauses(2)]
        after_prefix_other [OF other_clauses(3)]
      by (simp add: part_holds_def p)
  qed
qed

definition parts_of :: "(string \<Rightarrow> int option) \<Rightarrow> tx_filters \<Rightarrow> (string \<times> sql_arg) list" where
  "parts_of parse_time f = status_filter f @ date_filter parse_time ''>='' (fl_StartDate f) @ date_filter parse_time ''<='' (fl_EndDate f)"

lemma parts_ok: "list_all part_ok (parts_of parse_time f)"
  by (auto simp: parts_of_def status_filter_def date_filter_def part_ok_def split: option.split)

lemma parts_wanted: "list_all (part_holds r) (parts_of parse_time f) = wanted parse_time f r"
  by (auto simp: parts_of_def status_filter_def date_filter_def part_holds_def wanted_def split: option.split)

lemma clauses_hold:
  assumes "buildFilterClauses parse_time 2 f tp = (clauses, filterArgs)" and "args = [a] @ filterArgs @ rest"
  shows "list_all (clause_holds tp args r) clauses = wanted parse_time f r"
proof -
  let ?ps = "parts_of parse_time f"
  have c: "clauses = map (\<lambda>(i, c, a). tp @ c @ placeholder i) (zip [2 ..< 2 + length ?ps] ?ps)" and g: "filterArgs = map snd ?ps"
    using assms(1) unfolding buildFilterClauses_def parts_of_def [symmetric] Let_def prod.inject by (elim conjE, simp only:)+
  have l: "length clauses = length ?ps" unfolding c length_map length_zip length_upt by simp
  have e: "clause_holds tp args r (clauses ! k) = part_holds r (?ps ! k)" if k: "k < length ?ps" for k
  proof -
    have n: "clauses ! k = tp @ fst (?ps ! k) @ placeholder (2 + k)"
    proof -
      have ix: "length [2 ..< 2 + length ?ps] = length ?ps" "[2 ..< 2 + length ?ps] ! k = 2 + k"
        using k by (simp_all only: length_upt nth_upt add_diff_cancel_left' nat_add_left_cancel_less)
      have "clauses ! k = (\<lambda>(i, c, a). tp @ c @ placeholder i) ([2 ..< 2 + length ?ps] ! k, ?ps ! k)"
        unfolding c using k ix(1) by (subst nth_map) (simp_all only: length_zip nth_zip min.idem)
      then show ?thesis unfolding ix(2) by (simp add: case_prod_unfold)
    qed
    have "args ! (k + 1) = snd (?ps ! k)" using k by (simp add: assms(2) g nth_append)
    then have "argument args (2 + k) = Some (snd (?ps ! k))" using k by (simp add: argument_def assms(2) g)
    moreover have "part_ok (?ps ! k)" using parts_ok k by (simp add: list_all_length)
    ultimately show ?thesis using n clause_of_part by metis
  qed
  have "list_all (clause_holds tp args r) clauses = list_all (part_holds r) ?ps"
    unfolding list_all_length using e l by simp
  then show ?thesis by (simp add: parts_wanted)
qed

lemma page_arguments:
  assumes "args = [a] @ filterArgs @ [l, offset]"
  shows "argument args 1 = Some a" "argument args (2 + length filterArgs) = Some l"
    "argument args (2 + length filterArgs + 1) = Some offset"
  using assms by (simp_all add: argument_def nth_append)

section \<open>The pages\<close>

text \<open>The transactions of a user that the filters ask for, the latest first.\<close>

definition history_of :: "(string \<Rightarrow> int option) \<Rightarrow> int \<Rightarrow> tx_filters \<Rightarrow> history_row list \<Rightarrow> history_row list" where
  "history_of parse_time userID f rows =
     sort_key (\<lambda>r. - hy_created r) (filter (\<lambda>r. hy_user r = Some userID \<and> wanted parse_time f r) rows)"

lemma paginated_page:
  "paginated g page limit (page_of created (Some (ArgInt l)) (Some (ArgInt offset)) xs) =
    (if l < 0 \<or> offset < 0 then Inl DbErr
     else Inr (let shown = take (nat l) (drop (nat offset) (sort_key (\<lambda>r. - created r) xs));
                   n = (if shown = [] then 0 else int (length xs))
       in \<lparr>pt_Transactions = map g shown, pt_Total = n, pt_Page = page, pt_Limit = limit,
           pt_HasMore = (wrap64 (page * limit) < n)\<rparr>))"
proof -
  have "map (g \<circ> fst) (map (\<lambda>r. (r, int (length xs))) ys) = map g ys" for ys by simp
  then show ?thesis by (simp add: paginated_def page_of_def Let_def last_map del: map_map)
qed

lemma user_page:
  assumes "1 \<le> page" and "0 < limit" and "in_int64 (page * limit)"
  shows "fetchRecentUserTransactions False decryptPAN parse_time userID f page limit rows =
    Inr (let h = history_of parse_time userID f rows; shown = take (nat limit) (drop (nat ((page - 1) * limit)) h);
             n = (if shown = [] then 0 else int (length h))
         in \<lparr>pt_Transactions = map (history decryptPAN ''DEBIT'') shown, pt_Total = n, pt_Page = page, pt_Limit = limit,
             pt_HasMore = (page * limit < n)\<rparr>)"
proof -
  obtain clauses filterArgs where b: "buildFilterClauses parse_time 2 f [] = (clauses, filterArgs)" by fastforce
  have "0 \<le> (page - 1) * limit" "(page - 1) * limit \<le> page * limit" using assms(1,2) by simp_all
  then have o: "wrap64 ((page - 1) * limit) = (page - 1) * limit" "0 \<le> (page - 1) * limit"
    using assms(3) by (simp_all add: wrap64_id in_int64_def)
  define args where "args = [ArgInt userID] @ filterArgs @ [ArgInt limit, ArgInt ((page - 1) * limit)]"
  have args': "ArgInt userID # filterArgs @ [ArgInt limit, ArgInt ((page - 1) * limit)] = args" by (simp add: args_def)
  note a = page_arguments [OF args_def]
  have "filter (\<lambda>r. map_option ArgInt (hy_user r) = argument args 1 \<and> list_all (clause_holds [] args r) clauses) rows =
      filter (\<lambda>r. hy_user r = Some userID \<and> wanted parse_time f r) rows"
    by (rule filter_cong) (auto simp: a [unfolded One_nat_def] clauses_hold [OF b args_def])
  then have "fetchRecentUserTransactions False decryptPAN parse_time userID f page limit rows =
      paginated (history decryptPAN ''DEBIT'') page limit (page_of hy_created (Some (ArgInt limit)) (Some (ArgInt ((page - 1) * limit)))
        (filter (\<lambda>r. hy_user r = Some userID \<and> wanted parse_time f r) rows))"
    by (simp add: fetchRecentUserTransactions_def b o args' a [unfolded One_nat_def] a [simplified] Let_def)
  then show ?thesis using assms o(2) by (simp add: paginated_page history_of_def wrap64_id Let_def)
qed

text \<open>Slices of the size of a page, put together.\<close>

lemma concat_slices: "concat (map (\<lambda>i. take n (drop (i * n) xs)) [0 ..< k]) = take (k * n) xs"
  by (induction k) (simp_all add: take_add [symmetric] add.commute)


section \<open>The history of any account\<close>

text \<open>Nothing ties the account of a merchant to the user: where the column exists, a merchant reads every
  transaction that credits the account it names.\<close>

lemma any_account_readable:
  assumes "sc_account sc" and "table_ok sc ms" and c: "ExtractUserMerchantInfoFromContext c = (None, u, mid)" and "mid \<noteq> 0"
    and "m \<in> set ms" and "mc_ID m = mid" and "r \<in> set rows" and "hy_credit r = Some a"
    and up: "UpdateMerchantBusinessAccount sc False c a ms = (replies, ms')"
  shows "\<exists>x. GetTransaction sc False decryptPAN month_later c (hy_txid r) ms' rows = (None, Inr x) \<and> th_TxID x = hy_txid r"
proof -
  let ?g = "\<lambda>m. if mc_ID m = mid then m\<lparr>mc_AccountID := Some a\<rparr> else m"
  have "map mc_UserID (map ?g ms) = map mc_UserID ms" "map mc_TaxID (map ?g ms) = map mc_TaxID ms" by simp_all
  moreover have "list_all (\<lambda>m. sc_status sc (mc_Status m) \<and> mc_SettlementCycle m \<in> set cycles) (map ?g ms)"
    using assms(2) by (auto simp: table_ok_def list_all_iff)
  ultimately have "table_ok sc (map ?g ms)" using assms(2) unfolding table_ok_def by (simp only: simp_thms)
  then have "update_rows sc False (\<lambda>m. mc_ID m = mid) (\<lambda>m. m\<lparr>mc_AccountID := Some a\<rparr>) ms =
      Some (length (filter (\<lambda>m. mc_ID m = mid) ms), map ?g ms)"
    by (simp add: update_rows_def statement_def)
  then have ms': "ms' = map ?g ms" using up assms(1)
    by (simp add: UpdateMerchantBusinessAccount_def with_merchant_def c split: if_splits)
  have "(r, ?g m) \<in> set (merchant_join ms' rows)"
    using assms(5-8) by (force simp: merchant_join_def ms')
  moreover have "(\<lambda>(x, m). hy_txid x = hy_txid r \<and> mc_ID m = mid) (r, ?g m)" using assms(6) by simp
  ultimately obtain p where p: "find (\<lambda>(x, m). hy_txid x = hy_txid r \<and> mc_ID m = mid) (merchant_join ms' rows) = Some p"
    by (metis (no_types, lifting) find_None_iff not_None_eq)
  then have "hy_txid (fst p) = hy_txid r" by (auto simp: find_Some_iff)
  moreover have "th_TxID (merchant_history decryptPAN month_later p) = hy_txid (fst p)"
    by (cases p) (simp add: merchant_history_def history_def)
  ultimately show ?thesis using p assms(1,4)
    by (simp add: GetTransaction_def with_user_def c fetchMerchantTransaction_def)
qed

definition sample_history :: "history_row list" where
  "sample_history = map (\<lambda>(i, s). \<lparr>hy_txid = s, hy_user = Some 7, hy_debit = Some ''2000000001'', hy_credit = None, hy_amount = 12345,
     hy_currency = ''NGN'', hy_type = None, hy_mode = Some ''QR'', hy_fee = 0, hy_status = ''COMPLETED'',
     hy_narration = None, hy_created = i\<rparr>) [(1, ''T1''), (3, ''T3''), (2, ''T2'')]"

abbreviation completed_only :: tx_filters where
  "completed_only \<equiv> \<lparr>fl_Status = ''completed'', fl_StartDate = [], fl_EndDate = []\<rparr>"


end
