(* ===== verification/Server.thy ===== *)
theory Server
  imports Auth Rate_Limit Callback_Auth
begin

text \<open>
  The server, \<open>src/cmd/server/main.go\<close>: its routes, and the way of a request through the middleware to a
  handler.

  \<^item> A route is a method, a pattern, the guards of its group and the name of its handler.  A pattern's
    segment \<open>{x}\<close> stands for any segment; a pattern that ends in a star for any rest.  The router
    prefers a pattern without variables; no two of them overlap otherwise.
  \<^item> The guards are the definitions of their own theories: \<open>AuthSessionMiddleware\<close>, \<open>RateLimiter\<close> and
    \<open>ISO20022CallbackAuth\<close>.  \<open>middleware.Heartbeat\<close> answers before any route is looked up, and so does the
    CORS middleware for a preflight request.  Headers, compression, request numbers, logging and the
    timeout of 60 seconds do not decide whether a handler runs, and are left out.
  \<^item> \<open>require_auth\<close> is the configured \<open>iso20022.callback.require_auth\<close>.
\<close>

section \<open>Routes\<close>

datatype guard = Session | Limited rate_config | CallbackSigned

record route =
  rt_method :: string
  rt_pattern :: string
  rt_guards :: "guard list"
  rt_handler :: string

definition group :: "guard list \<Rightarrow> string \<Rightarrow> (string \<times> string \<times> string) list \<Rightarrow> route list" where
  "group guards base rs = map (\<lambda>(m, p, h). \<lparr>rt_method = m, rt_pattern = base @ p, rt_guards = guards, rt_handler = h\<rparr>) rs"

definition page_routes :: "route list" where
  "page_routes = group [] []
    [(''GET'', ''/health'', ''HealthCheck''), (''GET'', ''/swagger/*'', ''swagger''), (''GET'', ''/openapi.yaml'', ''openapi''),
     (''*'', ''/static/*'', ''StaticFileServer''), (''GET'', ''/pay/qr'', ''QRLandingHandler'')]"

definition callback_routes :: "bool \<Rightarrow> route list" where
  "callback_routes require_auth = group (if require_auth then [CallbackSigned] else []) []
    [(''POST'', ''/pacs008'', ''ReceivePacs008''), (''POST'', ''/pacs002'', ''ReceivePacs002''),
     (''POST'', ''/pacs028'', ''ReceivePacs028''), (''POST'', ''/acmt023'', ''ReceiveAcmt023''),
     (''POST'', ''/acmt024'', ''ReceiveAcmt024''), (''POST'', ''/admi002'', ''ReceiveAdmi002'')]"

definition public_routes :: "route list" where
  "public_routes =
    group [] ''/api/v1''
      [(''GET'', ''/encryption/keys'', ''GetUserPublicKeys''), (''PUT'', ''/encryption/keys'', ''CreateNewKeysExternal'')] @
    group [Limited AuthStrict] ''/api/v1''
      [(''POST'', ''/auth/login'', ''UserLogin''), (''POST'', ''/auth/forgot-password'', ''ForgotPassword''),
       (''POST'', ''/auth/reset-password'', ''ResetPassword'')] @
    group [Limited AuthGeneral] ''/api/v1''
      [(''POST'', ''/auth'', ''RegisterNewUser''), (''POST'', ''/auth/refresh'', ''RefreshToken''),
       (''POST'', ''/auth/logout'', ''LogoutUser''), (''POST'', ''/account/validate-identity'', ''ValidateFacialIdentity'')] @
    group [] ''/api/v1''
      [(''GET'', ''/banks'', ''GetAllBanks''), (''GET'', ''/banks/nps-participants'', ''GetNPSParticipants''),
       (''GET'', ''/feedback'', ''HandleTransactionRating''), (''GET'', ''/feedback/referral'', ''HandleReferralSource''),
       (''GET'', ''/feedback/deletion-reason'', ''HandleDeletionReason''),
       (''GET'', ''/feedback/confirm-login'', ''HandleConfirmLogin'')]"

definition session_routes :: "route list" where
  "session_routes = group [Session] ''/api/v1''
    [(''PUT'', ''/auth'', ''EditUserProfile''), (''DELETE'', ''/auth'', ''DeleteUserProfile''),
     (''GET'', ''/auth/account'', ''GetUserAccount''), (''POST'', ''/account/send-otp'', ''GenerateUserOTP''),
     (''POST'', ''/account/link'', ''LinkAccount''), (''POST'', ''/account/unlink/{accountNumber}'', ''UnlinkAccount''),
     (''GET'', ''/account/name-enquiry'', ''AccountNameEnquiry''),
     (''GET'', ''/account/balance-enquiry'', ''AccountBalanceEnquiry''), (''PUT'', ''/account/limits'', ''UpdateUserLimits''),
     (''GET'', ''/account/virtual-account'', ''GetVirtualAccount''),
     (''GET'', ''/account/notifications'', ''GetUserNotifications''), (''POST'', ''/account/qr'', ''GenerateQRCode''),
     (''GET'', ''/account/qr'', ''ProcessQRCode''), (''POST'', ''/account/ussd'', ''GenerateUSSDCode''),
     (''GET'', ''/account/ussd'', ''ValidateUSSDCode''), (''POST'', ''/payment'', ''HandlePayment''),
     (''GET'', ''/payment/beneficiaries'', ''GetBeneficiaries''), (''GET'', ''/transaction'', ''GetRecentTransactions''),
     (''GET'', ''/transaction/{txId}'', ''GetTransaction''), (''GET'', ''/card/bin'', ''QueryCardBin''),
     (''POST'', ''/card/provision'', ''ProvisionCard''), (''POST'', ''/card/activate'', ''ActivateCard''),
     (''GET'', ''/card/{cardId}'', ''GetCard''), (''PUT'', ''/card/{cardId}/suspend'', ''SuspendCard''),
     (''GET'', ''/data-plans'', ''GetDataPlans''), (''GET'', ''/vouchers'', ''FetchVouchers''),
     (''POST'', ''/iso20022/convert'', ''ConvertToISO20022''), (''POST'', ''/iso20022/settlement'', ''ProcessSettlement'')]"

definition merchant_routes :: "route list" where
  "merchant_routes = group [Session] ''/api/v1''
    [(''GET'', ''/merchant'', ''GetMerchantData''), (''POST'', ''/merchant'', ''OnboardMerchant''),
     (''PATCH'', ''/merchant/account/{accountNumber}'', ''UpdateMerchantBusinessAccount''),
     (''PUT'', ''/merchant'', ''UpdateMerchant''), (''GET'', ''/merchant/list'', ''ListMerchants''),
     (''PUT'', ''/merchant/status'', ''UpdateMerchantStatus'')]"

definition routes :: "bool \<Rightarrow> route list" where
  "routes require_auth = page_routes @ callback_routes require_auth @ public_routes @ session_routes @ merchant_routes"

section \<open>Looking a route up\<close>

fun match_parts :: "string list \<Rightarrow> string list \<Rightarrow> bool" where
  "match_parts [] [] = True"
| "match_parts (p # ps) (s # ss) = (p = ''*'' \<or>
     ((if p \<noteq> [] \<and> hd p = CHR ''{'' then s \<noteq> [] else p = s) \<and> match_parts ps ss))"
| "match_parts _ _ = False"

definition matches :: "string \<Rightarrow> string \<Rightarrow> bool" where
  "matches pattern path = match_parts (split_char (CHR ''/'') pattern) (split_char (CHR ''/'') path)"

definition takes :: "string \<Rightarrow> route \<Rightarrow> bool" where
  "takes meth r \<longleftrightarrow> rt_method r = ''*'' \<or> rt_method r = meth"

definition find_route :: "route list \<Rightarrow> string \<Rightarrow> string \<Rightarrow> route option" where
  "find_route rs meth path = (case find (\<lambda>r. takes meth r \<and> rt_pattern r = path \<and> CHR ''{'' \<notin> set (rt_pattern r)) rs of
       Some r \<Rightarrow> Some r
     | None \<Rightarrow> find (\<lambda>r. takes meth r \<and> matches (rt_pattern r) path) rs)"

section \<open>The way of a request\<close>

record server_request =
  sq_method :: string
  sq_path :: string
  sq_ip :: string
  sq_authorization :: string
  sq_preflight :: bool
  sq_callback :: callback_request

record server_env =
  sv_auth :: auth_lib
  sv_auth_config :: auth_config
  sv_callback :: callback_config
  sv_require_auth :: bool

text \<open>What the callback's middleware sees of the request.\<close>

definition callback_of :: "server_request \<Rightarrow> callback_request" where
  "callback_of q = (sq_callback q)\<lparr>cq_path := sq_path q\<rparr>"

text \<open>A handler runs under the identity that a session granted, if its group asks for one.  \<open>NoRoute\<close> stands
  for every answer of the router itself: 404, 405, or the 400 of \<open>/api/v1\<close>.\<close>

datatype served = Heartbeat | Preflight | TooManyRequests rate_answer | NoRoute
  | NotAuthorized http_response | NotSigned string | Ran string "request_context option"

fun run_guards :: "server_env \<Rightarrow> server_request \<Rightarrow> string \<Rightarrow> guard list \<Rightarrow> request_context option \<Rightarrow> served go" where
  "run_guards env q handler [] c = ret (Ran handler c)"
| "run_guards env q handler (Session # gs) c =
     bind (AuthSessionMiddleware (sv_auth env) (sv_auth_config env) (sq_authorization q)) (\<lambda>r. case r of
       Inl e \<Rightarrow> ret (NotAuthorized e)
     | Inr (identity, preference) \<Rightarrow> run_guards env q handler gs (Some identity))"
| "run_guards env q handler (Limited cfg # gs) c =
     bind (RateLimiter cfg (sq_path q) (sq_ip q)) (\<lambda>a.
       if passes a then run_guards env q handler gs c else ret (TooManyRequests a))"
| "run_guards env q handler (CallbackSigned # gs) c =
     bind (gets now) (\<lambda>t. case ISO20022CallbackAuth (sv_callback env) t (callback_of q) of
       Some e \<Rightarrow> ret (NotSigned e)
     | None \<Rightarrow> run_guards env q handler gs c)"

definition serve :: "server_env \<Rightarrow> server_request \<Rightarrow> served go" where
  "serve env q =
     (if sq_method q \<in> {''GET'', ''HEAD''} \<and> ToLower (sq_path q) = ''/health'' then ret Heartbeat
      else bind (RateLimiter GlobalLimit (sq_path q) (sq_ip q)) (\<lambda>a.
        if \<not> passes a then ret (TooManyRequests a)
        else if sq_method q = ''OPTIONS'' \<and> sq_preflight q then ret Preflight
        else case find_route (routes (sv_require_auth env)) (sq_method q) (sq_path q) of
          Some r \<Rightarrow> run_guards env q (rt_handler r) (rt_guards r) None
        | None \<Rightarrow> ret NoRoute))"

end
