(* ===== verification/Server_Props.thy ===== *)
theory Server_Props
  imports Server Auth_Props
begin

text \<open>
  Who reaches a handler: the routes with their guards, checked one by one, and what a served request has
  brought.
\<close>

section \<open>Guards\<close>

lemma RateLimiter_frame:
  "RateLimiter cfg path ip w = (r, w') \<Longrightarrow> committed w' = committed w \<and> now w' = now w"
  by (auto simp: RateLimiter_def catching_def attempt_def bind_def increment_def redis_incr_expire_def redis_put_def
      ret_def Let_def split: if_splits outcome.splits)

lemma session_guard:
  assumes "run_guards env q h [Session] c w = (Done (Ran h' c'), w')"
  shows "h' = h \<and> (\<exists>identity preference. c' = Some identity \<and>
    AuthSessionMiddleware (sv_auth env) (sv_auth_config env) (sq_authorization q) w = (Done (Inr (identity, preference)), w'))"
  using assms by (auto simp: ret_def elim!: bind_DoneE split: sum.splits prod.splits)

lemma callback_guard:
  assumes "run_guards env q h [CallbackSigned] c w = (Done (Ran h' c'), w')"
  shows "h' = h \<and> c' = c \<and> ISO20022CallbackAuth (sv_callback env) (now w) (callback_of q) = None"
  using assms by (auto simp: ret_def gets_def elim!: bind_DoneE split: option.splits)

lemma limit_guard:
  assumes "run_guards env q h [Limited cfg] c w = (Done (Ran h' c'), w')"
  shows "h' = h \<and> c' = c"
  using assms by (auto simp: ret_def elim!: bind_DoneE split: if_splits)

section \<open>The table of routes\<close>

text \<open>The handlers that run without a session and without a signature.\<close>

definition open_handlers :: "string list" where
  "open_handlers = [''swagger'', ''openapi'', ''StaticFileServer'', ''QRLandingHandler'', ''GetUserPublicKeys'',
     ''CreateNewKeysExternal'', ''UserLogin'', ''ForgotPassword'', ''ResetPassword'', ''RegisterNewUser'', ''RefreshToken'',
     ''LogoutUser'', ''ValidateFacialIdentity'', ''GetAllBanks'', ''GetNPSParticipants'', ''HandleTransactionRating'',
     ''HandleReferralSource'', ''HandleDeletionReason'', ''HandleConfirmLogin'']"

definition callback_handlers :: "string list" where
  "callback_handlers = map rt_handler (callback_routes True)"

text \<open>Every route but the health check's is open, or has the guard of a session or of a callback.\<close>

definition well_guarded :: "route \<Rightarrow> bool" where
  "well_guarded r \<longleftrightarrow>
     (rt_handler r \<in> set open_handlers \<and> rt_guards r \<in> {[], [Limited AuthStrict], [Limited AuthGeneral]}) \<or>
     (rt_handler r \<in> set callback_handlers \<and> rt_guards r = [CallbackSigned]) \<or>
     (rt_handler r = ''HealthCheck'' \<and> rt_pattern r = ''/health'' \<and> rt_method r = ''GET'') \<or>
     (rt_guards r = [Session] \<and> rt_handler r \<notin> set open_handlers \<and> rt_handler r \<notin> set callback_handlers)"

lemma routes_guarded: "list_all well_guarded (routes True)"
  by code_simp

lemma find_route_mem: "find_route rs m p = Some r \<Longrightarrow> r \<in> set rs \<and> takes m r \<and> (rt_pattern r = p \<or> matches (rt_pattern r) p)"
  by (auto simp: find_route_def find_Some_iff split: option.splits)

text \<open>A path is what its parts say.\<close>

fun joined :: "char \<Rightarrow> string list \<Rightarrow> string" where
  "joined c [] = []"
| "joined c [p] = p"
| "joined c (p # q # ps) = p @ c # joined c (q # ps)"

lemma split_nonempty: "split_char c s \<noteq> []"
  by (induction s) (auto split: list.splits)

lemma joined_split: "joined c (split_char c s) = s"
proof (induction s)
  case (Cons a s)
  obtain p ps where s: "split_char c s = p # ps" using split_nonempty [of c s] by (cases "split_char c s") auto
  with Cons show ?case by (cases ps) auto
qed simp

lemma health_only: "matches ''/health'' p \<Longrightarrow> p = ''/health''"
proof -
  assume m: "matches ''/health'' p"
  have h: "split_char (CHR ''/'') ''/health'' = [[], ''health'']" by code_simp
  have e: "match_parts [[], ''health''] ps \<Longrightarrow> ps = [[], ''health'']" for ps
    by (cases ps; cases "tl ps"; cases "tl (tl ps)") auto
  from m have "split_char (CHR ''/'') p = [[], ''health'']" unfolding matches_def h by (rule e)
  then have "joined (CHR ''/'') [[], ''health''] = p" using joined_split [of "CHR ''/''" p] by simp
  then show ?thesis by simp
qed

section \<open>Reaching a handler\<close>

lemma serve_ran:
  assumes "serve env q w = (Done (Ran h c), w')"
  shows "\<exists>r w1. find_route (routes (sv_require_auth env)) (sq_method q) (sq_path q) = Some r \<and>
    \<not> (sq_method q = ''GET'' \<and> ToLower (sq_path q) = ''/health'') \<and> committed w1 = committed w \<and> now w1 = now w \<and>
    run_guards env q (rt_handler r) (rt_guards r) None w1 = (Done (Ran h c), w')"
proof -
  have n: "\<not> (sq_method q \<in> {''GET'', ''HEAD''} \<and> ToLower (sq_path q) = ''/health'')"
    using assms by (auto simp: serve_def ret_def)
  have "bind (RateLimiter GlobalLimit (sq_path q) (sq_ip q)) (\<lambda>a.
        if \<not> passes a then ret (TooManyRequests a)
        else if sq_method q = ''OPTIONS'' \<and> sq_preflight q then ret Preflight
        else case find_route (routes (sv_require_auth env)) (sq_method q) (sq_path q) of
          Some r \<Rightarrow> run_guards env q (rt_handler r) (rt_guards r) None
        | None \<Rightarrow> ret NoRoute) w = (Done (Ran h c), w')"
    using assms unfolding serve_def if_not_P [OF n] .
  then obtain a w1 where a: "RateLimiter GlobalLimit (sq_path q) (sq_ip q) w = (Done a, w1)"
    and k: "(if \<not> passes a then ret (TooManyRequests a)
        else if sq_method q = ''OPTIONS'' \<and> sq_preflight q then ret Preflight
        else case find_route (routes (sv_require_auth env)) (sq_method q) (sq_path q) of
          Some r \<Rightarrow> run_guards env q (rt_handler r) (rt_guards r) None
        | None \<Rightarrow> ret NoRoute) w1 = (Done (Ran h c), w')"
    by (elim bind_DoneE)
  from k n show ?thesis using RateLimiter_frame [OF a]
    by (auto simp: ret_def split: if_splits option.splits)
qed


text \<open>A signed-in user asks for the own account.\<close>

definition account_request :: server_request where
  "account_request = \<lparr>sq_method = ''GET'', sq_path = ''/api/v1/auth/account'', sq_ip = ''1.2.3.4'',
     sq_authorization = ''Bearer T'', sq_preflight = False,
     sq_callback = \<lparr>cq_path = [], cq_signature = [], cq_body = Inr [], cq_tls = None\<rparr>\<rparr>"

definition sample_server :: server_env where
  "sample_server = \<lparr>sv_auth = sample_auth, sv_auth_config = sample_auth_config,
     sv_callback = \<lparr>cb_tls_enabled = False, cb_secret = ''k'', cb_allowed_issuers = [], cb_whitelisted_serials = []\<rparr>,
     sv_require_auth = True\<rparr>"


end
