(* ===== verification/Notifications.thy ===== *)
theory Notifications
  imports NIP_Services Auth
begin

text \<open>
  Notifications, \<open>src/internal/services/notification_service.go\<close>: which message goes to whom over which
  channel.

  \<^item> The mail server, the gateway of text messages, the push service and the templates are the
    parameter \<open>outside\<close>.  What the code hands to them is the list of \<open>outgoing\<close> messages.
  \<^item> A goroutine that sends a message is the pair of its channel and the message; \<open>deliver\<close> is its body.
  \<^item> The setting of a user is the row of table \<open>notifications\<close>, \<open>preferences\<close> of \<open>Store\<close>.  The column
    \<open>push_token\<close> of \<open>users\<close> is a parameter, \<open>None\<close> being SQL null.
\<close>

section \<open>Types\<close>

datatype channel = ChannelPush | ChannelEmail | ChannelSMS

datatype notification_type = PaymentReceived | PaymentSent | PaymentFailed | PaymentPending
  | TransactionOTP | ForgotPasswordCode | ValidateAccount

record notification_payload =
  np_UserID :: int
  np_Type :: notification_type
  np_Title :: string
  np_Body :: string
  np_Data :: "(string \<times> string) list"
  np_Email :: string
  np_PhoneNumber :: string
  np_ExpoPushToken :: string
  np_FeedbackURL :: string
  np_BaseURL :: string

record otp_email_data =
  oe_Title :: string
  oe_OTP :: string
  oe_ExpiresIn :: string
  oe_FeedbackURL :: string
  oe_BaseURL :: string

record account_email_data =
  ae_Title :: string
  ae_FirstName :: string
  ae_LastName :: string
  ae_Email :: string
  ae_Device :: string
  ae_Date :: string
  ae_BaseURL :: string
  ae_SupportURL :: string
  ae_FeedbackURL :: string
  ae_UserID :: int

datatype template_data = OtpData otp_email_data | AccountData account_email_data
  | PayloadData notification_payload | NoData

text \<open>The part of \<open>models.User\<close> that the service fills and reads.\<close>

record notified_user =
  nu_ID :: int
  nu_Email :: string
  nu_PhoneNumber :: string
  nu_FirstName :: string
  nu_LastName :: string
  nu_ExpoPushToken :: string
  nu_DevicePush :: bool
  nu_SMS :: bool
  nu_UseEmail :: bool
  nu_PreferredChannels :: "channel list"

record notification_config =
  nc_smtpHost :: string
  nc_smtpPort :: int
  nc_smtpUser :: string
  nc_smtpPassword :: string
  nc_smtpFrom :: string
  nc_smtpName :: string
  nc_smtpUseSSL :: bool
  nc_templatesDir :: string
  nc_smsURL :: string
  nc_baseURL :: string
  nc_supportURL :: string

record mail =
  ml_From :: "string \<times> string"
  ml_To :: string
  ml_Subject :: string
  ml_Body :: string

record push_message =
  pm_To :: "string list"
  pm_Title :: string
  pm_Body :: string
  pm_Data :: "(string \<times> string) list"

datatype outgoing = Mail mail | Sms string json | Push push_message

record outside =
  os_parse :: "string \<Rightarrow> string list \<Rightarrow> go_err option"
  os_execute :: "string \<Rightarrow> string list \<Rightarrow> template_data \<Rightarrow> go_err + string"
  os_dial_and_send :: "notification_config \<Rightarrow> mail \<Rightarrow> go_err option"
  os_request :: "string \<Rightarrow> go_err option"
  os_post :: "string \<Rightarrow> json \<Rightarrow> go_err option"
  os_publish :: "push_message \<Rightarrow> go_err option"
  os_date :: "int \<Rightarrow> string"

type_synonym sending = "go_err option \<times> outgoing list"

section \<open>Templates and messages\<close>

definition renderTemplate :: "notification_config \<Rightarrow> outside \<Rightarrow> string \<Rightarrow> template_data \<Rightarrow> go_err + string" where
  "renderTemplate cfg out name data =
     (let dir = (if nc_templatesDir cfg = [] then ''./internal/templates/email'' else nc_templatesDir cfg)
      in case os_parse out dir [''base.html'', name] of
        Some e \<Rightarrow> Inl (Wrap (''parse template '' @ name @ '': '') e)
      | None \<Rightarrow> (case os_execute out dir [''base.html'', name] data of
          Inl e \<Rightarrow> Inl (Wrap (''execute template '' @ name @ '': '') e)
        | Inr body \<Rightarrow> Inr body))"

definition renderEmailTemplate :: "notification_config \<Rightarrow> outside \<Rightarrow> string \<Rightarrow> notification_payload \<Rightarrow> go_err + string" where
  "renderEmailTemplate cfg out name p = renderTemplate cfg out name (PayloadData p)"

definition no_smtp :: "notification_config \<Rightarrow> bool" where
  "no_smtp cfg \<longleftrightarrow> nc_smtpHost cfg = [] \<or> nc_smtpUser cfg = []"

definition new_mail :: "notification_config \<Rightarrow> string \<Rightarrow> string \<Rightarrow> string \<Rightarrow> mail" where
  "new_mail cfg email subject body =
     \<lparr>ml_From = (nc_smtpFrom cfg, nc_smtpName cfg), ml_To = email, ml_Subject = subject, ml_Body = body\<rparr>"

definition dial_and_send :: "notification_config \<Rightarrow> outside \<Rightarrow> mail \<Rightarrow> sending" where
  "dial_and_send cfg out mail = (os_dial_and_send out cfg mail, [Mail mail])"

text \<open>The common body of the senders: skip without a server, render, send.\<close>

definition send_rendered ::
  "notification_config \<Rightarrow> outside \<Rightarrow> string \<Rightarrow> string \<Rightarrow> go_err + string \<Rightarrow> sending" where
  "send_rendered cfg out email subject rendered =
     (if no_smtp cfg then (None, [])
      else case rendered of
        Inl e \<Rightarrow> (Some e, [])
      | Inr body \<Rightarrow> dial_and_send cfg out (new_mail cfg email subject body))"

definition sendPush :: "outside \<Rightarrow> notification_payload \<Rightarrow> sending" where
  "sendPush out p =
     (let m = \<lparr>pm_To = [np_ExpoPushToken p], pm_Title = np_Title p, pm_Body = np_Body p, pm_Data = np_Data p\<rparr>
      in (os_publish out m, [Push m]))"

definition sendPaymentNotificationEmail :: "notification_config \<Rightarrow> outside \<Rightarrow> notification_payload \<Rightarrow> sending" where
  "sendPaymentNotificationEmail cfg out p =
     send_rendered cfg out (np_Email p) (np_Title p) (renderEmailTemplate cfg out ''payment_notification.html'' p)"

definition sendSMSNotificationAlert :: "notification_config \<Rightarrow> outside \<Rightarrow> notification_payload \<Rightarrow> sending" where
  "sendSMSNotificationAlert cfg out p =
     (if nc_smsURL cfg = [] then (None, [])
      else case os_request out (nc_smsURL cfg) of
        Some e \<Rightarrow> (Some e, [])
      | None \<Rightarrow> let body = JObj [(''message'', JStr (np_Title p @ [char_of (10 :: nat)] @ np_Body p)), (''to'', JStr (np_PhoneNumber p))]
          in (os_post out (nc_smsURL cfg) body, [Sms (nc_smsURL cfg) body]))"

definition otp_title :: "notification_type \<Rightarrow> string" where
  "otp_title k = (case k of
       TransactionOTP \<Rightarrow> ''Your Secure Transaction 2FA Code''
     | ForgotPasswordCode \<Rightarrow> ''Your Forgot Password Verification Code''
     | ValidateAccount \<Rightarrow> ''Verify User Account Code''
     | _ \<Rightarrow> [])"

definition otp_data :: "notification_config \<Rightarrow> string \<Rightarrow> string \<Rightarrow> otp_email_data" where
  "otp_data cfg otp expiresIn = \<lparr>oe_Title = ''Your Verification Code'', oe_OTP = otp, oe_ExpiresIn = expiresIn,
     oe_FeedbackURL = [], oe_BaseURL = nc_baseURL cfg\<rparr>"

definition SendOTPEmail :: "notification_config \<Rightarrow> outside \<Rightarrow> string \<Rightarrow> string \<Rightarrow> string \<Rightarrow> notification_type \<Rightarrow> sending" where
  "SendOTPEmail cfg out email otp expiresIn k =
     send_rendered cfg out email (otp_title k) (renderTemplate cfg out ''otp.html'' (OtpData (otp_data cfg otp expiresIn)))"

text \<open>The text message carries the rendered page; it is sent by a goroutine, whose error is dropped.\<close>

definition SendOTPSmS :: "notification_config \<Rightarrow> outside \<Rightarrow> string \<Rightarrow> string \<Rightarrow> string \<Rightarrow> notification_type \<Rightarrow> sending" where
  "SendOTPSmS cfg out phoneNumber otp expiresIn k =
     (if nc_smsURL cfg = [] then (None, [])
      else case renderTemplate cfg out ''otp.html'' (OtpData (otp_data cfg otp expiresIn)) of
        Inl e \<Rightarrow> (Some e, [])
      | Inr body \<Rightarrow> (None, snd (sendSMSNotificationAlert cfg out
          \<lparr>np_UserID = 0, np_Type = k, np_Title = otp_title k, np_Body = body, np_Data = [], np_Email = [],
           np_PhoneNumber = phoneNumber, np_ExpoPushToken = [], np_FeedbackURL = [], np_BaseURL = []\<rparr>)))"

text \<open>Neither the missing server nor a failed template ends this one: it goes on with an empty body.\<close>

definition SendFeedbackReceivedEmail :: "notification_config \<Rightarrow> outside \<Rightarrow> string \<Rightarrow> outgoing list" where
  "SendFeedbackReceivedEmail cfg out email =
     snd (dial_and_send cfg out (new_mail cfg email ''Your Feedback Received''
       (case renderTemplate cfg out ''feedback.html'' NoData of Inl _ \<Rightarrow> [] | Inr body \<Rightarrow> body)))"

definition account_data :: "notification_config \<Rightarrow> outside \<Rightarrow> int \<Rightarrow> string \<Rightarrow> notified_user \<Rightarrow> account_email_data" where
  "account_data cfg out t title user = \<lparr>ae_Title = title, ae_FirstName = nu_FirstName user, ae_LastName = [], ae_Email = [],
     ae_Device = [], ae_Date = os_date out t, ae_BaseURL = nc_baseURL cfg, ae_SupportURL = nc_supportURL cfg,
     ae_FeedbackURL = [], ae_UserID = nu_ID user\<rparr>"

definition SendRegisterEmail :: "notification_config \<Rightarrow> outside \<Rightarrow> int \<Rightarrow> notified_user \<Rightarrow> sending" where
  "SendRegisterEmail cfg out t user =
     send_rendered cfg out (nu_Email user) ''Welcome to RuralPay'' (renderTemplate cfg out ''register.html''
       (AccountData ((account_data cfg out t ''Welcome to RuralPay'' user)\<lparr>ae_LastName := nu_LastName user, ae_Email := nu_Email user\<rparr>)))"

definition SendLoginEmail :: "notification_config \<Rightarrow> outside \<Rightarrow> int \<Rightarrow> notified_user \<Rightarrow> string \<Rightarrow> sending" where
  "SendLoginEmail cfg out t user device =
     send_rendered cfg out (nu_Email user) ''RuralPay Account Login'' (renderTemplate cfg out ''login.html''
       (AccountData ((account_data cfg out t ''New Login Detected On Your Account'' user)\<lparr>ae_Device := device\<rparr>)))"

definition SendDeleteAccountEmail :: "notification_config \<Rightarrow> outside \<Rightarrow> int \<Rightarrow> notified_user \<Rightarrow> sending" where
  "SendDeleteAccountEmail cfg out t user =
     send_rendered cfg out (nu_Email user) ''Your RuralPay Account Has Been Deleted'' (renderTemplate cfg out ''delete_account.html''
       (AccountData (account_data cfg out t ''Account Deleted'' user)))"

section \<open>Preferences\<close>

definition unknown_user :: "int \<Rightarrow> notified_user" where
  "unknown_user uid = \<lparr>nu_ID = uid, nu_Email = [], nu_PhoneNumber = [], nu_FirstName = [], nu_LastName = [], nu_ExpoPushToken = [],
     nu_DevicePush = False, nu_SMS = False, nu_UseEmail = False, nu_PreferredChannels = []\<rparr>"

text \<open>The user joined with the row of the preferences, if there is one; a missing column reads as false.\<close>

definition preferences_query :: "(int \<Rightarrow> string option) \<Rightarrow> int \<Rightarrow> db \<Rightarrow> notified_user option" where
  "preferences_query push_token uid d = map_option (\<lambda>u.
     let p = find (\<lambda>p. pf_user p = uid) (preferences d); flag = (\<lambda>column. case p of None \<Rightarrow> False | Some r \<Rightarrow> column r)
     in (unknown_user uid)\<lparr>nu_Email := usr_email u, nu_PhoneNumber := usr_phone u, nu_FirstName := usr_first_name u,
       nu_ExpoPushToken := (case push_token uid of None \<Rightarrow> [] | Some s \<Rightarrow> s),
       nu_DevicePush := flag pf_push, nu_SMS := flag pf_sms, nu_UseEmail := flag pf_email\<rparr>)
     (find (\<lambda>u. usr_id u = uid) (users d))"

definition chosen_channels :: "notified_user \<Rightarrow> channel list" where
  "chosen_channels user =
     (let channels = (if nu_DevicePush user \<and> nu_ExpoPushToken user \<noteq> [] then [ChannelPush] else []) @
        (if nu_UseEmail user then [ChannelEmail] else []) @ (if nu_SMS user then [ChannelSMS] else [])
      in if channels = [] then [ChannelEmail] else channels)"

definition GetUserPreferences :: "(int \<Rightarrow> string option) \<Rightarrow> int \<Rightarrow> notified_user go" where
  "GetUserPreferences push_token uid =
     catching (bind (db_run (\<lambda>d. Some (preferences_query push_token uid d, d))) scan_one)
       (\<lambda>_. ret ((unknown_user uid)\<lparr>nu_PreferredChannels := [ChannelEmail]\<rparr>))
       (\<lambda>user. ret (user\<lparr>nu_PreferredChannels := chosen_channels user\<rparr>))"

section \<open>Payments\<close>

text \<open>\<open>%.2f\<close> of \<open>float64(n)\<close>.\<close>

definition show_amount :: "int \<Rightarrow> string" where
  "show_amount n = (if n < 0 then ''-'' else []) @ show_nat (float64_nat (nat \<bar>n\<bar>)) @ ''.00''"

definition notice_title :: "notification_type \<Rightarrow> string" where
  "notice_title k = (case k of PaymentReceived \<Rightarrow> ''Payment Received'' | PaymentSent \<Rightarrow> ''Payment Sent''
     | PaymentFailed \<Rightarrow> ''Payment Failed'' | PaymentPending \<Rightarrow> ''Payment Pending'' | _ \<Rightarrow> [])"

definition notice_body :: "notification_type \<Rightarrow> transaction_record \<Rightarrow> string" where
  "notice_body k t = (case k of
       PaymentReceived \<Rightarrow> ''You Received '' @ tr_Currency t @ '' '' @ show_amount (tr_Amount t) @ '' From '' @ tr_OriginatorAccount t
     | PaymentSent \<Rightarrow> ''There Was a Debit Transaction On Your Account of '' @ tr_Currency t @ '' '' @ show_amount (tr_Amount t)
     | PaymentFailed \<Rightarrow> ''Payment of '' @ tr_Currency t @ '' '' @ show_amount (tr_Amount t) @ '' Failed To '' @
         show_v (meta_get (tr_Metadata t) ''beneficiaryName'')
     | PaymentPending \<Rightarrow> ''Payment of '' @ tr_Currency t @ '' '' @ show_amount (tr_Amount t) @ '' is Pending''
     | _ \<Rightarrow> [])"

definition statusClass :: "notification_type \<Rightarrow> string" where
  "statusClass k = (case k of PaymentReceived \<Rightarrow> ''received'' | PaymentSent \<Rightarrow> ''sent''
     | PaymentFailed \<Rightarrow> ''failed'' | PaymentPending \<Rightarrow> ''pending'' | _ \<Rightarrow> [])"

text \<open>The number of the user is not put into the payload: it stays 0.\<close>

definition buildPaymentPayload ::
  "notification_config \<Rightarrow> outside \<Rightarrow> (int \<Rightarrow> string option) \<Rightarrow> int \<Rightarrow> transaction_record \<Rightarrow> notification_type \<Rightarrow> notification_payload go" where
  "buildPaymentPayload cfg out push_token userId t k = bind (GetUserPreferences push_token userId) (\<lambda>user. ret
     \<lparr>np_UserID = 0, np_Type = k, np_Title = notice_title k, np_Body = notice_body k t,
      np_Data = [(''transactionId'', tr_TransactionID t), (''amount'', show_amount (tr_Amount t)), (''currency'', tr_Currency t),
        (''status'', tr_Status t), (''statusClass'', statusClass k), (''senderFirstName'', nu_FirstName user),
        (''beneficiaryName'', show_v (meta_get (tr_Metadata t) ''beneficiaryName'')),
        (''beneficiaryBankName'', show_v (meta_get (tr_Metadata t) ''beneficiaryBankName'')),
        (''beneficiaryAcct'', tr_BeneficiaryAccount t), (''fee'', show_amount (tr_Fee t)),
        (''reference'', show_v (meta_get (tr_Metadata t) ''reference'')), (''date'', os_date out (tr_CreatedAt t))],
      np_Email = nu_Email user, np_PhoneNumber = nu_PhoneNumber user, np_ExpoPushToken = nu_ExpoPushToken user,
      np_FeedbackURL = nc_baseURL cfg @ ''/api/v1/feedback?transaction_id='' @ tr_TransactionID t @ ''&email='' @ nu_Email user,
      np_BaseURL = nc_baseURL cfg\<rparr>)"

definition dispatch :: "notification_payload \<Rightarrow> channel \<Rightarrow> (channel \<times> notification_payload) list" where
  "dispatch p ch = (if (case ch of ChannelPush \<Rightarrow> np_ExpoPushToken p | ChannelEmail \<Rightarrow> np_Email p | ChannelSMS \<Rightarrow> np_PhoneNumber p) \<noteq> []
     then [(ch, p)] else [])"

definition Route :: "(int \<Rightarrow> string option) \<Rightarrow> notification_payload \<Rightarrow> (channel \<times> notification_payload) list go" where
  "Route push_token p = bind (GetUserPreferences push_token (np_UserID p)) (\<lambda>user.
     ret (concat (map (dispatch p) (nu_PreferredChannels user))))"

definition deliver :: "notification_config \<Rightarrow> outside \<Rightarrow> channel \<times> notification_payload \<Rightarrow> sending" where
  "deliver cfg out = (\<lambda>(ch, p). case ch of ChannelPush \<Rightarrow> sendPush out p
     | ChannelEmail \<Rightarrow> sendPaymentNotificationEmail cfg out p | ChannelSMS \<Rightarrow> sendSMSNotificationAlert cfg out p)"

definition SendPaymentNotification ::
  "notification_config \<Rightarrow> outside \<Rightarrow> (int \<Rightarrow> string option) \<Rightarrow> int \<Rightarrow> transaction_record \<Rightarrow> notification_type \<Rightarrow>
     (channel \<times> notification_payload) list go" where
  "SendPaymentNotification cfg out push_token userId t k =
     bind (buildPaymentPayload cfg out push_token userId t k) (Route push_token)"

section \<open>The list of notifications\<close>

record notice_row =
  nr_ID :: string
  nr_user :: int
  nr_Title :: string
  nr_Type :: string
  nr_Message :: string
  nr_Read :: bool
  nr_created :: int

text \<open>The age of a message.  The quotients are exact enough in \<open>float64\<close> to be rounded like the true ones.\<close>

definition FormatTime :: "(int \<Rightarrow> string) \<Rightarrow> int \<Rightarrow> int \<Rightarrow> string" where
  "FormatTime show_day now_ns t =
     (let d = now_ns - t; sign = (if d < 0 then ''-'' else [])
      in if d < 3600 * second then sign @ show_nat (round_even (nat \<bar>d\<bar>) (nat (60 * second))) @ '' min ago''
         else if d < 86400 * second then show_nat (round_even (nat d) (nat (3600 * second))) @ '' hr ago''
         else show_day t)"

definition notice_json :: "(int \<Rightarrow> string) \<Rightarrow> int \<Rightarrow> notice_row \<Rightarrow> json" where
  "notice_json show_day t r = JObj [(''id'', JStr (nr_ID r)), (''title'', JStr (nr_Title r)), (''type'', JStr (nr_Type r)),
     (''message'', JStr (nr_Message r)), (''time'', JStr (FormatTime show_day t (nr_created r))), (''read'', JBool (nr_Read r))]"

text \<open>\<open>messages\<close> are the rows of table \<open>notifications\<close> in a schema where it holds messages.  In the one of the
  migrations it holds the preferences and has none of the columns: \<open>None\<close>, and the statement is refused.\<close>

definition GetUserNotifications ::
  "(int \<Rightarrow> string) \<Rightarrow> notice_row list option \<Rightarrow> request_context \<Rightarrow> (http_response option \<times> http_response) go" where
  "GetUserNotifications show_day messages c = (case ExtractUserMerchantInfoFromContext c of (early, userID, merchantID) \<Rightarrow>
     catching (db_run (\<lambda>d. map_option (\<lambda>rows. (take 50 (sort_key (\<lambda>r. - nr_created r) (filter (\<lambda>r. nr_user r = userID) rows)), d)) messages))
       (\<lambda>_. ret (early, SendErrorResponse ''Failed to fetch user notifications'' 424))
       (\<lambda>rows. bind (gets now) (\<lambda>t. ret (early, SendSuccessResponse (show_nat (length rows) @ '' Notifications Found'')
         (JArr (map (notice_json show_day t) rows)) 200))))"

section \<open>Who is notified\<close>

lemma channels_nonempty: "chosen_channels u \<noteq> [] \<and> distinct (chosen_channels u)"
  by (simp add: chosen_channels_def Let_def)

text \<open>A channel is used because the user asked for it, or it is the mail of the one who asked for none.\<close>

lemma channel_wanted:
  "ch \<in> set (chosen_channels u) \<longleftrightarrow>
    (case ch of ChannelPush \<Rightarrow> nu_DevicePush u \<and> nu_ExpoPushToken u \<noteq> []
     | ChannelSMS \<Rightarrow> nu_SMS u
     | ChannelEmail \<Rightarrow> nu_UseEmail u \<or> \<not> nu_SMS u \<and> \<not> (nu_DevicePush u \<and> nu_ExpoPushToken u \<noteq> []))"
  by (cases ch) (auto simp: chosen_channels_def Let_def)

lemma preferences_found:
  assumes "GetUserPreferences push_token uid w = (r, w')"
  shows "committed w' = committed w \<and>
    (r = Done ((unknown_user uid)\<lparr>nu_PreferredChannels := [ChannelEmail]\<rparr>) \<or>
     (\<exists>u user. u \<in> set (users (committed w)) \<and> usr_id u = uid \<and> nu_Email user = usr_email u \<and> r = Done user))"
proof -
  define m where "m = bind (db_run (\<lambda>d. Some (preferences_query push_token uid d, d))) scan_one"
  have q: "\<exists>u. u \<in> set (users d) \<and> usr_id u = uid \<and> nu_Email user = usr_email u"
    if "preferences_query push_token uid d = Some user" for d user
  proof -
    from that obtain u where u: "find (\<lambda>u. usr_id u = uid) (users d) = Some u" and e: "nu_Email user = usr_email u"
      by (auto simp: preferences_query_def Let_def)
    have "u \<in> set (users d) \<and> usr_id u = uid" using u by (auto simp: find_Some_iff)
    with e show ?thesis by blast
  qed
  consider (bad) e where "m w = (Failed e, used_fault w)"
    | (good) user where "m w = (Done user, used_fault w)"
        "preferences_query push_token uid (committed w) = Some user"
    by (cases "preferences_query push_token uid (committed w)"; cases "next_fault w")
      (auto simp: m_def db_run_def bind_def scan_one_def ret_def fail_def used_fault_def)
  then show ?thesis
  proof cases
    case bad
    from assms show ?thesis by (simp add: GetUserPreferences_def m_def [symmetric] catching_def bind_def attempt_def bad ret_def) auto
  next
    case good
    from assms have "r = Done (user\<lparr>nu_PreferredChannels := chosen_channels user\<rparr>)" "w' = used_fault w"
      by (simp_all add: GetUserPreferences_def m_def [symmetric] catching_def bind_def attempt_def good(1) ret_def)
    with q [OF good(2)] show ?thesis by auto
  qed
qed

text \<open>Whatever a user prefers, the notice of a payment is a mail: the payload lacks the number of the
  user, the preferences are looked up for user 0, who does not exist, and the default is the mail.\<close>

theorem payments_noticed_by_mail:
  assumes "0 \<notin> usr_id ` set (users (committed w))"
    and run: "SendPaymentNotification cfg out push_token userId t k w = (r, w')"
  shows "r = Done [] \<or> (\<exists>p u. r = Done [(ChannelEmail, p)] \<and> u \<in> set (users (committed w)) \<and> usr_id u = userId \<and> np_Email p = usr_email u)"
proof -
  obtain r1 w1 where g: "GetUserPreferences push_token userId w = (r1, w1)" by (metis surj_pair)
  from preferences_found [OF g] obtain user where r1: "r1 = Done user" and c1: "committed w1 = committed w"
    and e: "nu_Email user = [] \<or> (\<exists>u. u \<in> set (users (committed w)) \<and> usr_id u = userId \<and> nu_Email user = usr_email u)"
    by (auto simp: unknown_user_def)
  obtain r2 w2 where g2: "GetUserPreferences push_token 0 w1 = (r2, w2)" by (metis surj_pair)
  from preferences_found [OF g2] assms(1) c1
  have r2: "r2 = Done ((unknown_user 0)\<lparr>nu_PreferredChannels := [ChannelEmail]\<rparr>)" by (auto simp: image_iff)
  obtain p where b: "buildPaymentPayload cfg out push_token userId t k w = (Done p, w1)"
    and p: "np_UserID p = 0" "np_Email p = nu_Email user"
    by (simp add: buildPaymentPayload_def bind_def g r1 ret_def)
  have "SendPaymentNotification cfg out push_token userId t k w = Route push_token p w1"
    by (simp add: SendPaymentNotification_def bind_def [of _ "Route push_token"] b)
  moreover have "fst (Route push_token p w1) = Done (dispatch p ChannelEmail)"
    by (simp add: Route_def p(1) bind_def g2 r2 ret_def)
  ultimately have "r = Done (dispatch p ChannelEmail)" using run by (metis fst_conv)
  with e p(2) show ?thesis by (auto simp: dispatch_def)
qed

end
