(* ===== verification/Feedback.thy ===== *)
theory Feedback
  imports Merchants Notifications "HOL-Library.AList"
begin

text \<open>
  The links in the mails, \<open>src/internal/handlers/feedback_handler.go\<close>: opinions on payments, sources of
  referral, reasons of deletion and confirmed logins.  None of them asks who the client is.

  \<^item> Table \<open>transaction_feedback\<close> is an association list from its unique key, the transaction and the
    address, to the rating; \<open>user_email_feedback\<close> a list of rows (user, type, value).
  \<^item> A statement is refused by an external failure, \<open>fault\<close>, or by the schema (\<open>src/migrations\<close> 034, 035):
    texts that are too long, numbers that are none, users that do not exist.
\<close>

record feedback_tables =
  fb_ratings :: "((string \<times> string) \<times> string) list"
  fb_notes :: "(int option \<times> string \<times> string) list"

definition ratings_ok :: "feedback_tables \<Rightarrow> bool" where
  "ratings_ok d \<longleftrightarrow> distinct (map fst (fb_ratings d)) \<and> snd ` set (fb_ratings d) \<subseteq> {''yes'', ''no''}"

section \<open>Ratings\<close>

definition upsert_rating :: "bool \<Rightarrow> string \<Rightarrow> string \<Rightarrow> string \<Rightarrow> feedback_tables \<Rightarrow> feedback_tables option" where
  "upsert_rating fault transactionID email rating d =
     (if fault \<or> 100 < rune_count transactionID \<or> 255 < rune_count email then None
      else Some (d\<lparr>fb_ratings := AList.update (transactionID, email) rating (fb_ratings d)\<rparr>))"

definition HandleTransactionRating ::
  "notification_config \<Rightarrow> outside \<Rightarrow> bool \<Rightarrow> string \<Rightarrow> string \<Rightarrow> string \<Rightarrow> feedback_tables \<Rightarrow>
     http_response \<times> outgoing list \<times> feedback_tables" where
  "HandleTransactionRating cfg out fault transactionID rating email d =
     (if transactionID = [] \<or> rating = [] then (SendErrorResponse ''transaction_id and rating are required'' 400, [], d)
      else if rating \<noteq> ''yes'' \<and> rating \<noteq> ''no'' then (SendErrorResponse ''rating must be yes or no'' 400, [], d)
      else case upsert_rating fault transactionID email rating d of
        None \<Rightarrow> (SendErrorResponse ''Failed to record feedback'' 500, [], d)
      | Some d' \<Rightarrow> (SendSuccessResponse ''Thank you for your feedback!'' JNull 200,
          if email \<noteq> [] then SendFeedbackReceivedEmail cfg out email else [], d'))"

section \<open>Notes\<close>

text \<open>\<open>NULLIF($1, '')::INTEGER\<close>, with the reference to the users.\<close>

definition note_user :: "int set \<Rightarrow> string \<Rightarrow> int option option" where
  "note_user known uid = (if uid = [] then Some None
     else case sql_integer (TrimSpace uid) of
       None \<Rightarrow> None
     | Some n \<Rightarrow> if n \<in> known then Some (Some n) else None)"

text \<open>\<open>ON CONFLICT DO NOTHING\<close> never applies: the table has no unique columns but its own number.\<close>

definition insert_note :: "bool \<Rightarrow> int set \<Rightarrow> string \<Rightarrow> string \<Rightarrow> string \<Rightarrow> feedback_tables \<Rightarrow> feedback_tables option" where
  "insert_note fault known uid kind note d = (case note_user known uid of
       None \<Rightarrow> None
     | Some u \<Rightarrow> if fault then None else Some (d\<lparr>fb_notes := fb_notes d @ [(u, kind, note)]\<rparr>))"

definition referral_sources :: "string list" where
  "referral_sources = [''friend'', ''social'', ''search'', ''other'']"

definition HandleReferralSource :: "bool \<Rightarrow> int set \<Rightarrow> string \<Rightarrow> string \<Rightarrow> feedback_tables \<Rightarrow> http_response \<times> feedback_tables" where
  "HandleReferralSource fault known source uid d =
     (if source \<notin> set referral_sources then (SendErrorResponse ''invalid source'' 400, d)
      else case insert_note fault known uid ''referral'' source d of
        None \<Rightarrow> (SendErrorResponse ''Failed to record referral source'' 500, d)
      | Some d' \<Rightarrow> (SendSuccessResponse ''Thanks for letting us know!'' JNull 200, d'))"

definition deletion_reasons :: "string list" where
  "deletion_reasons = [''too_expensive'', ''switching_app'', ''missing_features'', ''bad_experience'', ''other'']"

definition HandleDeletionReason :: "bool \<Rightarrow> int set \<Rightarrow> string \<Rightarrow> string \<Rightarrow> feedback_tables \<Rightarrow> http_response \<times> feedback_tables" where
  "HandleDeletionReason fault known reason uid d =
     (if reason \<notin> set deletion_reasons then (SendErrorResponse ''invalid reason'' 400, d)
      else case insert_note fault known uid ''deletion'' reason d of
        None \<Rightarrow> (SendErrorResponse ''Failed to record deletion reason'' 500, d)
      | Some d' \<Rightarrow> (SendSuccessResponse ''Thank you for your feedback. We hope to see you again!'' JNull 200, d'))"

text \<open>Nothing is recorded but a line of the log.\<close>

definition HandleConfirmLogin :: "string \<Rightarrow> http_response" where
  "HandleConfirmLogin confirm =
     (if confirm \<noteq> ''yes'' then SendErrorResponse ''invalid confirmation value'' 400
      else SendSuccessResponse (''Login confirmed. You'' @ CHR 0x27 # ''re all set!'') JNull 200)"

section \<open>One opinion for a payment and an address\<close>

lemma update_values: "snd ` set (AList.update k v al) \<subseteq> insert v (snd ` set al)"
  by (induction al) auto

lemma rating_recorded:
  assumes "ratings_ok d" and "HandleTransactionRating cfg out fault t rating email d = (answer, sent, d')"
  shows "ratings_ok d' \<and> fb_notes d' = fb_notes d \<and>
    (if hr_success answer then map_of (fb_ratings d') = (map_of (fb_ratings d))((t, email) \<mapsto> rating) else d' = d \<and> sent = [])"
proof (cases "d' = d \<and> \<not> hr_success answer \<and> sent = []")
  case True with assms(1) show ?thesis by simp
next
  case False
  with assms(2) have r: "rating \<in> {''yes'', ''no''}" and a: "hr_success answer"
    and d': "d' = d\<lparr>fb_ratings := AList.update (t, email) rating (fb_ratings d)\<rparr>"
    by (auto simp: HandleTransactionRating_def upsert_rating_def split: if_splits option.splits)
  have "ratings_ok d'" using assms(1) r update_values [of "(t, email)" rating "fb_ratings d"]
    by (auto simp: ratings_ok_def d' distinct_update)
  then show ?thesis by (simp add: a d' update_conv')
qed

text \<open>Anybody makes the service write to any address: the recipient comes from the link.\<close>

lemma mail_to_anyone:
  assumes "t \<noteq> []" and "rune_count t \<le> 100" and "email \<noteq> []" and "rune_count email \<le> 255"
  shows "\<exists>m. fst (snd (HandleTransactionRating cfg out False t ''yes'' email d)) = [Mail m] \<and> ml_To m = email"
  using assms by (simp add: HandleTransactionRating_def upsert_rating_def SendFeedbackReceivedEmail_def dial_and_send_def new_mail_def)

text \<open>A source of referral may be noted again and again.\<close>

lemma referral_repeated:
  assumes "source \<in> set referral_sources"
  shows "length (fb_notes (snd (HandleReferralSource False known source [] d))) = Suc (length (fb_notes d))"
  using assms by (simp add: HandleReferralSource_def insert_note_def note_user_def)

end
