(* ===== verification/Merchant_Props.thy ===== *)
theory Merchant_Props
  imports Merchants
begin

text \<open>
  What the merchant service does to its table, on any schema and on that of the migrations, and what its
  statistics show.
\<close>

section \<open>Sums are not read\<close>

lemma dot_not_int: "CHR ''.'' \<in> set s \<Longrightarrow> parse_int s = None"
proof -
  assume d: "CHR ''.'' \<in> set s"
  have n: "\<not> is_digit (CHR ''.'')" by (simp add: is_digit_def)
  have "\<not> list_all is_digit s" using d n by (auto simp: list_all_iff)
  moreover have "CHR ''.'' \<in> set (tl s)" if "hd s = CHR ''-'' \<or> hd s = CHR ''+''" using d that by (cases s) auto
  then have "\<not> list_all is_digit (tl s)" if "hd s = CHR ''-'' \<or> hd s = CHR ''+''" using n that by (auto simp: list_all_iff)
  ultimately show ?thesis by (auto simp: parse_int_def Let_def)
qed

lemma sum_not_read: "ns \<noteq> [] \<Longrightarrow> parse_int (sql_sum ns) = None"
  by (rule dot_not_int) (simp add: sql_sum_def decimal2_def)

lemma scan_status_row:
  assumes "ps \<noteq> []"
  shows "scan_row rate (stat_of today r s ps) = (\<lparr>bd_Status = s, bd_TransactionCount = int (length ps), bd_TotalAmount = 0\<rparr>, rate, 0, 0, 0, 0)"
proof -
  have "parse_int (sr_total (stat_of today r s ps)) = None"
    using assms sum_not_read [of "map py_amount ps"] by (simp add: stat_of_def Let_def)
  then show ?thesis by (simp add: scan_row_def stat_of_def Let_def)
qed

text \<open>A row of the answer counts a non-empty group, or is the row of nulls.\<close>

definition group_row :: "stat_row \<Rightarrow> bool" where
  "group_row r \<longleftrightarrow> sr_status r = SqlNull \<or> (\<exists>today rate s ps. ps \<noteq> [] \<and> r = stat_of today rate s ps)"

lemma stat_rows_groups: "list_all group_row (stat_rows today mid ps ms)"
proof -
  have g: "group_row (stat_of today rate s (filter (\<lambda>p. py_status p = s) mine))" if "s \<in> py_status ` set mine" for rate s mine
  proof -
    have "filter (\<lambda>p. py_status p = s) mine \<noteq> []" using that by (auto simp: filter_empty_conv)
    then show ?thesis unfolding group_row_def by blast
  qed
  show ?thesis by (auto simp: list_all_iff stat_rows_def Let_def intro: g simp del: filter_filter) (auto simp: group_row_def)
qed

lemma wrap64_zero: "wrap64 0 = 0"
  by (simp add: wrap64_id in_int64_def)

lemma add_group_row:
  assumes "group_row r" and "list_all (\<lambda>b. bd_TotalAmount b = 0) l"
  shows "\<exists>l'. add_row r (no_stats\<lparr>ms_ByStatus := l\<rparr>, 0) = (no_stats\<lparr>ms_ByStatus := l'\<rparr>, 0) \<and>
    list_all (\<lambda>b. bd_TotalAmount b = 0) l'"
proof (cases "sr_status r")
  case SqlNull
  then show ?thesis using assms(2) by (simp add: add_row_def scan_row_def no_stats_def wrap64_zero)
next
  case (SqlText x)
  with assms(1) obtain today rate s ps where "ps \<noteq> []" and r: "r = stat_of today rate s ps" by (auto simp: group_row_def)
  from scan_status_row [OF this(1)] assms(2) show ?thesis by (simp add: add_row_def r no_stats_def wrap64_zero)
qed

lemma add_group_rows:
  "list_all group_row rs \<Longrightarrow> list_all (\<lambda>b. bd_TotalAmount b = 0) l \<Longrightarrow>
    \<exists>l'. fold add_row rs (no_stats\<lparr>ms_ByStatus := l\<rparr>, 0) = (no_stats\<lparr>ms_ByStatus := l'\<rparr>, 0) \<and>
      list_all (\<lambda>b. bd_TotalAmount b = 0) l'"
proof (induction rs arbitrary: l)
  case (Cons r rs)
  from Cons.prems(1) have r: "group_row r" "list_all group_row rs" by simp_all
  from add_group_row [OF r(1) Cons.prems(2)] obtain l1 where
    "add_row r (no_stats\<lparr>ms_ByStatus := l\<rparr>, 0) = (no_stats\<lparr>ms_ByStatus := l1\<rparr>, 0)"
    "list_all (\<lambda>b. bd_TotalAmount b = 0) l1" by blast
  with Cons.IH [OF r(2)] show ?case by simp
qed auto

section \<open>Results\<close>

text \<open>A merchant's statistics are always zero.  Whatever was paid to the merchant, the volumes, the
  completed counts and the profits are zero, and so is the amount of every status: the sums arrive
  with two decimals and are read as integers, and the error is ignored.  A merchant that does not
  exist is answered in the same way, with success.\<close>

theorem merchant_statistics_empty:
  assumes "sc_account sc"
  shows "\<exists>l. snd (GetMerchantData sc False today c ps ms) = Inr (no_stats\<lparr>ms_ByStatus := l\<rparr>, 0, 0) \<and>
    list_all (\<lambda>b. bd_TotalAmount b = 0) l"
proof -
  obtain early userID merchantID where c: "ExtractUserMerchantInfoFromContext c = (early, userID, merchantID)"
    by (metis prod.exhaust)
  have n: "no_stats\<lparr>ms_ByStatus := []\<rparr> = no_stats" by (simp add: no_stats_def)
  from add_group_rows [OF stat_rows_groups, where l = "[]" and today1 = today and mid1 = merchantID and ps1 = ps and ms1 = ms]
  obtain l where "fold add_row (stat_rows today merchantID ps ms) (no_stats, 0) = (no_stats\<lparr>ms_ByStatus := l\<rparr>, 0)"
    "list_all (\<lambda>b. bd_TotalAmount b = 0) l" by (auto simp: n)
  then show ?thesis using assms by (simp add: GetMerchantData_def c) (simp add: no_stats_def)
qed

lemma updated_status: "update_rows sc fault hit f ms = Some r \<Longrightarrow> x \<in> set ms \<Longrightarrow> hit x \<Longrightarrow> sc_status sc (mc_Status (f x))"
  by (fastforce simp: update_rows_def statement_def table_ok_def list_all_iff split: if_splits)

lemma lower_case_status: "status_valid req \<Longrightarrow> \<not> sc_status migrated (st_Status req)"
  by (auto simp: status_valid_def migrated_def)

text \<open>On the schema of the migrations no merchant is ever created, activated, suspended, rejected or
  given an account.  The service writes its states in small letters, which the check of the
  column refuses, and the column of the account is dropped: the table stays as it is.\<close>

theorem merchants_frozen:
  "snd (OnboardMerchant migrated fault show_time t c onboard ms) = ms \<and>
   snd (UpdateMerchantStatus migrated fault t status ms) = ms \<and>
   snd (UpdateMerchantBusinessAccount migrated fault c accountNumber ms) = ms"
proof (intro conjI)
  have "statement migrated fault (ms @ [m]) = None" if "mc_Status m = ''pending''" for m
    using that by (simp add: statement_def table_ok_def migrated_def)
  then show "snd (OnboardMerchant migrated fault show_time t c onboard ms) = ms"
    by (auto simp: OnboardMerchant_def Let_def split: option.split decoded.split)
  have "update_rows migrated fault (\<lambda>m. mc_ID m = i) (\<lambda>m. m\<lparr>mc_Status := s, mc_UpdatedAt := t\<rparr>) ms \<noteq> Some (n, ms')"
    if "\<not> sc_status migrated s" "0 < n" for i s n ms'
  proof
    assume u: "update_rows migrated fault (\<lambda>m. mc_ID m = i) (\<lambda>m. m\<lparr>mc_Status := s, mc_UpdatedAt := t\<rparr>) ms = Some (n, ms')"
    then have "filter (\<lambda>m. mc_ID m = i) ms \<noteq> []" using that(2) by (auto simp: update_rows_def)
    then obtain x where "x \<in> set ms" "mc_ID x = i" by (auto simp: filter_empty_conv)
    then have "sc_status migrated (mc_Status (x\<lparr>mc_Status := s, mc_UpdatedAt := t\<rparr>))"
      by (intro updated_status [OF u]) simp_all
    with that(1) show False by simp
  qed
  moreover have "ms' = ms" if "update_rows migrated fault hit f ms = Some (0, ms')" for hit f ms'
  proof -
    from that have "filter hit ms = []" and "ms' = map (\<lambda>m. if hit m then f m else m) ms"
      by (auto simp: update_rows_def statement_def split: if_splits)
    then show "ms' = ms" by (simp add: filter_empty_conv map_idI)
  qed
  ultimately show "snd (UpdateMerchantStatus migrated fault t status ms) = ms"
    using lower_case_status
    by (fastforce simp: UpdateMerchantStatus_def split: decoded.split option.split)
  have "update_rows migrated True hit f ms = None" for hit f by (simp add: update_rows_def statement_def)
  then show "snd (UpdateMerchantBusinessAccount migrated fault c accountNumber ms) = ms"
    by (simp add: UpdateMerchantBusinessAccount_def with_merchant_def migrated_def split: prod.split)
qed

definition sample_shop :: merchant where
  "sample_shop = \<lparr>mc_ID = 3, mc_UserID = 7, mc_BusinessName = ''SHOP'', mc_BusinessType = ''RETAIL'', mc_TaxID = ''T-1'',
     mc_AccountID = Some ''2000000001'', mc_Status = ''ACTIVE'', mc_CommissionRate = 150, mc_SettlementCycle = ''DAILY'',
     mc_CreatedAt = 0, mc_UpdatedAt = 0\<rparr>"

definition sample_payment :: payment_row where
  "sample_payment = \<lparr>py_credit = Some ''2000000001'', py_status = ''COMPLETED'', py_amount = 50000, py_created = 10\<rparr>"

lemma merchant_statistics_empty_witness:
  "\<exists>l. snd (GetMerchantData \<lparr>sc_status = (\<lambda>_. True), sc_account = True\<rparr> False 0
      \<lparr>ctx_userID = Some ''7'', ctx_merchantID = Some ''3'', ctx_isAdmin = None\<rparr> [sample_payment] [sample_shop]) =
    Inr (no_stats\<lparr>ms_ByStatus := l\<rparr>, 0, 0)"
  using merchant_statistics_empty [of "\<lparr>sc_status = (\<lambda>_. True), sc_account = True\<rparr>" 0
      "\<lparr>ctx_userID = Some ''7'', ctx_merchantID = Some ''3'', ctx_isAdmin = None\<rparr>" "[sample_payment]" "[sample_shop]"]
  by auto

section \<open>The table under the service\<close>

definition merchant_identity :: "merchant \<Rightarrow> int \<times> int \<times> string \<times> int" where
  "merchant_identity m = (mc_ID m, mc_UserID m, mc_TaxID m, mc_CreatedAt m)"

definition rows_kept :: "(merchant \<Rightarrow> bool) \<Rightarrow> merchant list \<Rightarrow> merchant list \<Rightarrow> bool" where
  "rows_kept hit = list_all2 (\<lambda>m m'. m' = m \<or> hit m \<and> merchant_identity m' = merchant_identity m)"

lemma rows_kept_refl [simp]: "rows_kept hit ms ms"
  by (simp add: rows_kept_def list_all2_same)

lemma update_rows_kept:
  assumes "update_rows sc fault hit f ms = Some (n, ms')" and "\<And>m. merchant_identity (f m) = merchant_identity m"
  shows "table_ok sc ms' \<and> rows_kept hit ms ms'"
proof -
  from assms(1) have ms': "ms' = map (\<lambda>m. if hit m then f m else m) ms" and "table_ok sc ms'"
    by (auto simp: update_rows_def statement_def split: if_splits)
  moreover have "rows_kept hit ms ms'" by (auto simp: ms' rows_kept_def list_all2_map2 list_all2_same assms(2))
  ultimately show ?thesis by simp
qed

lemma onboarded:
  assumes "table_ok sc ms" and "ctx_userID c = Some u" and "sql_integer u = Some uid"
    and "OnboardMerchant sc fault show_time t c body ms = (r, ms')"
  shows "table_ok sc ms' \<and> (\<exists>joining. ms' = ms @ joining \<and> length joining \<le> 1 \<and> mc_UserID ` set joining \<subseteq> {uid} - mc_UserID ` set ms)"
proof (cases "ms' = ms")
  case True with assms(1) show ?thesis by simp
next
  case False
  with assms(2-4) obtain m where s: "statement sc fault (ms @ [m]) = Some ms'" and m: "mc_UserID m = uid"
    by (auto simp: OnboardMerchant_def Let_def split: decoded.splits if_splits option.splits)
  from s have ok: "table_ok sc ms'" and ms': "ms' = ms @ [m]" by (simp_all add: statement_def split: if_splits)
  then have "uid \<notin> mc_UserID ` set ms" using m by (auto simp: table_ok_def)
  with ok ms' m show ?thesis by auto
qed

lemma changed:
  assumes "table_ok sc ms" and "ctx_userID c = Some u" and "sql_integer u = Some uid"
    and "UpdateMerchant sc fault t c body ms = (r, ms')"
  shows "table_ok sc ms' \<and> rows_kept (\<lambda>m. mc_UserID m = uid) ms ms'"
  using assms update_rows_kept [of sc fault "\<lambda>m. mc_UserID m = uid" _ ms]
  by (fastforce simp: UpdateMerchant_def merchant_identity_def split: decoded.splits if_splits option.splits)

lemma status_changed:
  assumes "table_ok sc ms" and "UpdateMerchantStatus sc fault t (Request req) ms = (r, ms')"
  shows "table_ok sc ms' \<and> rows_kept (\<lambda>m. mc_ID m = st_MerchantID req) ms ms'"
  using assms update_rows_kept [of sc fault "\<lambda>m. mc_ID m = st_MerchantID req" _ ms]
  by (fastforce simp: UpdateMerchantStatus_def merchant_identity_def split: if_splits option.splits)



end
