(* ===== verification/Directory.thy ===== *)
theory Directory
  imports Merchant_Props Base64
begin

text \<open>
  Lists that a client reads: banks (\<open>src/internal/services/bank_service.go\<close>), vouchers
  (\<open>voucher_service.go\<close>), data plans (\<open>src/internal/handlers/data_plans.go\<close>) and beneficiaries
  (\<open>GetBeneficiaries\<close> of \<open>payment_handler.go\<close>).

  \<^item> The tables are lists of rows, in the order of their creation; a query fails by an external \<open>fault\<close>.
    Names are ordered byte by byte.
  \<^item> Files are a partial function from cleaned paths to contents; \<open>filepath.Join\<close> is modelled.
  \<^item> Beneficiaries are kept in Redis as JSON text, by the encoder \<open>encode\<close>.
\<close>

section \<open>Logos\<close>

text \<open>\<open>filepath.Clean\<close> of a relative path, on its parts: the parts so far are reversed.\<close>

fun clean_parts :: "string list \<Rightarrow> string list \<Rightarrow> string list" where
  "clean_parts acc [] = rev acc"
| "clean_parts acc (p # ps) =
     (if p = [] \<or> p = ''.'' then clean_parts acc ps
      else if p = ''..'' then (if acc = [] \<or> hd acc = ''..'' then clean_parts (p # acc) ps else clean_parts (tl acc) ps)
      else clean_parts (p # acc) ps)"

fun join_slash :: "string list \<Rightarrow> string" where
  "join_slash [] = []"
| "join_slash [p] = p"
| "join_slash (p # q # ps) = p @ ''/'' @ join_slash (q # ps)"

definition logo_path :: "string \<Rightarrow> string" where
  "logo_path filename = join_slash (clean_parts [] ([''.'', ''static'', ''bank-logos''] @ split_char (CHR ''/'') filename))"

definition svgFormat :: string where
  "svgFormat = ''data:image/svg+xml;base64,''"

definition demoSVG :: string where
  "demoSVG = ''<svg xmlns=\"http://www.w3.org/2000/svg\" viewBox=\"0 0 200 200\"><rect width=\"200\" height=\"200\" fill=\"#f0f0f0\"/><path d=\"M100 60c-22.1 0-40 17.9-40 40s17.9 40 40 40 40-17.9 40-40-17.9-40-40-40zm0 65c-13.8 0-25-11.2-25-25s11.2-25 25-25 25 11.2 25 25-11.2 25-25 25z\" fill=\"#999\"/><text x=\"100\" y=\"170\" text-anchor=\"middle\" font-family=\"Arial\" font-size=\"14\" fill=\"#666\">BANK</text></svg>''"

definition LoadLogo :: "(string \<Rightarrow> string option) \<Rightarrow> string \<Rightarrow> string" where
  "LoadLogo files filename = svgFormat @ base64_encode (case files (logo_path filename) of Some data \<Rightarrow> data | None \<Rightarrow> demoSVG)"

section \<open>Banks\<close>

record bank_row =
  bk_code :: string
  bk_cbn :: string
  bk_name :: string
  bk_logo :: "string option"

record bank =
  ba_BankCode :: string
  ba_CBNCode :: string
  ba_Name :: string
  ba_LogoData :: string
  ba_UptimePrediction :: int

definition bank_of :: "(string \<Rightarrow> string option) \<Rightarrow> bank_row \<Rightarrow> bank" where
  "bank_of files r = \<lparr>ba_BankCode = bk_code r, ba_CBNCode = bk_cbn r, ba_Name = bk_name r,
     ba_LogoData = (case bk_logo r of Some f \<Rightarrow> LoadLogo files f | None \<Rightarrow> svgFormat @ base64_encode demoSVG),
     ba_UptimePrediction = 99\<rparr>"

definition bank_json :: "bank \<Rightarrow> json" where
  "bank_json b = JObj [(''bankCode'', JStr (ba_BankCode b)), (''cbnCode'', JStr (ba_CBNCode b)), (''name'', JStr (ba_Name b)),
     (''logoData'', JStr (ba_LogoData b)), (''uptimePrediction'', JInt (ba_UptimePrediction b))]"

text \<open>A Go slice that was never appended to is encoded as null.\<close>

definition json_list :: "json list \<Rightarrow> json" where
  "json_list xs = (if xs = [] then JNull else JArr xs)"

definition GetAllBanks :: "bool \<Rightarrow> (string \<Rightarrow> string option) \<Rightarrow> bank_row list \<Rightarrow> http_response" where
  "GetAllBanks fault files rows =
     (if fault then SendErrorResponse ''Failed to fetch banks'' 500
      else SendSuccessResponse ''Banks Fetched Successfully''
        (json_list (map (bank_json \<circ> bank_of files) (sort_key bk_name rows))) 200)"

definition GetBankByCode :: "bool \<Rightarrow> (string \<Rightarrow> string option) \<Rightarrow> bank_row list \<Rightarrow> string \<Rightarrow> http_response" where
  "GetBankByCode fault files rows code =
     (if fault then SendErrorResponse (Response InternalServiceError) 424
      else case find (\<lambda>r. bk_code r = code) rows of
        None \<Rightarrow> SendErrorResponse ''Bank not found'' 404
      | Some r \<Rightarrow> SendSuccessResponse ''Bank Fetched Successfully'' (bank_json (bank_of files r)) 200)"

record nps_participant =
  ns_InstitutionCode :: string
  ns_BICFIC :: string
  ns_Name :: string
  ns_CountryCode :: string
  ns_Status :: string
  ns_CategoryCode :: string
  ns_Currencies :: "string list"
  ns_Operations :: "string list"

text \<open>The HTTP client answers with a status and a body; the XML decoder is a parameter.\<close>

definition GetNPSParticipants ::
  "(string \<Rightarrow> go_err option) \<Rightarrow> (string \<Rightarrow> go_err + (nat \<times> string)) \<Rightarrow> (string \<Rightarrow> go_err + nps_participant list) \<Rightarrow> string \<Rightarrow>
     go_err + nps_participant list" where
  "GetNPSParticipants request do decode npsIP =
     (if npsIP = [] then Inl (Msg ''nibss.iso20022.base.url is not configured'')
      else let url = npsIP @ ''/nps/getParticipants'' in case request url of
        Some e \<Rightarrow> Inl (Wrap ''failed to create NPS request: '' e)
      | None \<Rightarrow> (case do url of
          Inl e \<Rightarrow> Inl (Wrap ''NPS getParticipants request failed: '' e)
        | Inr (status, body) \<Rightarrow>
            if status \<noteq> 200 then Inl (Msg (''NPS getParticipants returned status '' @ show_nat status))
            else (case decode body of
              Inl e \<Rightarrow> Inl (Wrap ''failed to decode NPS participants response: '' e)
            | Inr ps \<Rightarrow> Inr ps)))"

section \<open>Vouchers\<close>

text \<open>The discount is a number of hundredths, the column being \<open>NUMERIC(12, 2)\<close>.\<close>

record voucher_row =
  vr_ID :: int
  vr_code :: string
  vr_description :: string
  vr_discount :: int
  vr_type :: string
  vr_services :: "string list"

text \<open>\<open>Scan\<close> into a struct whose amount is an \<open>int64\<close>.\<close>

definition scan_voucher :: "voucher_row \<Rightarrow> json option" where
  "scan_voucher r = map_option (\<lambda>amount. JObj [(''id'', JInt (vr_ID r)), (''voucherCode'', JStr (vr_code r)),
     (''voucherDescription'', JStr (vr_description r)), (''voucherDiscountAmount'', JInt amount), (''voucherType'', JStr (vr_type r)),
     (''voucherAllowedServices'', JArr (map JStr (vr_services r)))]) (parse_int (decimal2 (vr_discount r)))"

definition FetchVouchers :: "bool \<Rightarrow> voucher_row list \<Rightarrow> http_response" where
  "FetchVouchers fault rows =
     (if fault then SendErrorResponse (Response InternalServiceError) 500
      else case those (map scan_voucher (rev rows)) of
        None \<Rightarrow> SendErrorResponse (Response InternalServiceError) 500
      | Some vs \<Rightarrow> SendSuccessResponse ''Vouchers Fetched Successfully'' (JArr vs) 200)"

text \<open>No voucher can be read, its discount having decimals: the list is shown only while it is empty.\<close>

lemma vouchers_unreadable: "hr_success (FetchVouchers fault rows) \<longleftrightarrow> \<not> fault \<and> rows = []"
proof -
  have "scan_voucher r = None" for r
    using dot_not_int [of "decimal2 (vr_discount r)"] by (simp add: scan_voucher_def decimal2_def)
  then have "those (map scan_voucher rs) = (if rs = [] then Some [] else None)" for rs by (cases rs) simp_all
  then show ?thesis by (simp add: FetchVouchers_def)
qed

section \<open>Data plans\<close>

definition GetDataPlans :: http_response where
  "GetDataPlans = SendSuccessResponse ''Data plans retrieved successfully''
     (JArr (map (\<lambda>(i, size, validity, price). JObj [(''id'', JStr i), (''size'', JStr size), (''validity'', JStr validity), (''price'', JInt price)])
       [(''1'', ''1GB'', ''1 Day'', 300), (''2'', ''2GB'', ''7 Days'', 500), (''3'', ''5GB'', ''30 Days'', 1500),
        (''4'', ''10GB'', ''30 Days'', 2500), (''5'', ''20GB'', ''30 Days'', 4500), (''6'', ''50GB'', ''30 Days'', 10000)])) 200"

section \<open>Beneficiaries\<close>

record beneficiary_row =
  bf_ID :: int
  bf_user :: int
  bf_account :: string
  bf_name :: string
  bf_bank_name :: string
  bf_bank_code :: string

text \<open>The logo is looked up by the code of the bank.\<close>

definition beneficiary_json :: "(string \<Rightarrow> string option) \<Rightarrow> beneficiary_row \<Rightarrow> json" where
  "beneficiary_json files r = JObj [(''id'', JInt (bf_ID r)), (''accountNumber'', JStr (bf_account r)), (''accountName'', JStr (bf_name r)),
     (''bankName'', JStr (bf_bank_name r)), (''bankCode'', JStr (bf_bank_code r)), (''bankLogo'', JStr (LoadLogo files (bf_bank_code r)))]"

datatype listing = CachedText string | Answered http_response

definition beneficiaries_key :: "int \<Rightarrow> string" where
  "beneficiaries_key userID = ''beneficiaries:'' @ show_int userID"

text \<open>\<open>has_redis\<close>: the client is not nil.  The errors of Redis are ignored.\<close>

definition GetBeneficiaries ::
  "bool \<Rightarrow> (string \<Rightarrow> string option) \<Rightarrow> (json \<Rightarrow> string) \<Rightarrow> bool \<Rightarrow> beneficiary_row list \<Rightarrow> request_context \<Rightarrow>
     (http_response option \<times> listing) go" where
  "GetBeneficiaries has_redis files encode fault rows c = (case ExtractUserMerchantInfoFromContext c of (early, userID, merchantID) \<Rightarrow>
     let cacheKey = beneficiaries_key userID;
         query = (if fault then ret (early, Answered (SendErrorResponse ''Failed to fetch beneficiaries'' 424))
           else let found = json_list (map (beneficiary_json files) (rev (filter (\<lambda>r. bf_user r = userID) rows)))
             in bind (if has_redis then ignoring (redis_set cacheKey (RStr (encode (JObj [(''beneficiaries'', found)]))) (600 * second)) else ret ())
               (\<lambda>_. ret (early, Answered (SendSuccessResponse ''Returning Beneficiaries'' found 200))))
     in if has_redis then catching (redis_get cacheKey) (\<lambda>_. query)
          (\<lambda>v. case v of RStr cached \<Rightarrow> ret (early, CachedText cached) | _ \<Rightarrow> query)
        else query)"

text \<open>The second answer within ten minutes is the cached text, an object, and not the envelope of the first.\<close>

lemma second_answer_differs:
  assumes r: "GetBeneficiaries True files encode fault rows c w = (Done (e, Answered a), w')" and "hr_success a" and "faults w = []"
  shows "\<exists>cached. fst (GetBeneficiaries True files encode fault' rows' c w') = Done (e, CachedText cached) \<and>
    cached = encode (JObj [(''beneficiaries'', hr_details a)])"
proof -
  obtain early u m where c: "ExtractUserMerchantInfoFromContext c = (early, u, m)" by (metis prod_cases3)
  have "redis_live (beneficiaries_key u) w' = Some (RStr (encode (JObj [(''beneficiaries'', hr_details a)]))) \<and> faults w' = [] \<and> e = early"
    using assms by (auto simp: GetBeneficiaries_def c Let_def catching_def bind_def attempt_def redis_get_def redis_set_def
        ignoring_def ret_def next_fault_def used_fault_def redis_put_def redis_live_def second_def SendSuccessResponse_def SendErrorResponse_def
        split: if_splits option.splits rvalue.splits prod.splits)
  then show ?thesis using r
    by (simp add: GetBeneficiaries_def c Let_def catching_def bind_def attempt_def redis_get_def next_fault_def ret_def)
qed

end
