(* ===== verification/Pages.thy ===== *)
theory Pages
  imports Handlers Commons Base64
begin

text \<open>
  The page behind a QR code (\<open>src/internal/handlers/qr_landing_handler.go\<close>), the health of the server
  (\<open>health_handler.go\<close>) and the transcription of speech (\<open>src/internal/services/voice_banking_service.go\<close>).

  \<^item> Templates, the random source, the answers to pings and the speech service are parameters.
  \<^item> The regular expression of a token is its set of characters and its length.
\<close>

section \<open>The page of a code\<close>

record bank_entry =
  be_Name :: string
  be_Logo :: string
  be_Scheme :: string
  be_Route :: string
  be_FallbackURL :: string

definition qrBanks :: "bank_entry list" where
  "qrBanks = map (\<lambda>(n, l, s, u). \<lparr>be_Name = n, be_Logo = l, be_Scheme = s, be_Route = [], be_FallbackURL = u\<rparr>)
    [(''GTBank'', ''gtbank.svg'', ''gtworld'', ''https://gtbank.com/gtworld''),
     (''Zenith Bank'', ''zenith.svg'', ''zenithmobile'', ''https://zenithbank.com/mobile''),
     (''Access Bank'', ''access-bank.svg'', ''accessbank'', ''https://accessbankplc.com/app''),
     (''First Bank'', ''firstbank.svg'', ''firstmobile'', ''https://firstbanknigeria.com/app''),
     (''UBA'', ''uba.svg'', ''ubamobile'', ''https://ubagroup.com/app''),
     (''FCMB'', ''fcmb.svg'', ''fcmbmobile'', ''https://fcmb.com/app''),
     (''Kuda'', ''kuda.svg'', ''kudabank'', ''https://kuda.com/app''),
     (''Moniepoint'', ''moniepoint.svg'', ''moniepoint'', ''https://moniepoint.com/app''),
     (''Wema / ALAT'', ''wema.svg'', ''alat'', ''https://alat.ng/app''),
     (''Sterling Bank'', ''sterling.svg'', ''sterlingmobile'', ''https://sterling.ng/app''),
     (''Polaris Bank'', ''polaris.svg'', ''polarismobile'', ''https://polarisbanklimited.com/app''),
     (''Keystone Bank'', ''keystone.svg'', ''keystonemobile'', ''https://keystonebankng.com/app''),
     (''Providus Bank'', ''providus.svg'', ''providusmobile'', ''https://providusbank.com/app''),
     (''Union Bank'', ''unionbank.svg'', ''unionmobile'', ''https://unionbankng.com/app''),
     (''Standard Chartered'', ''standard-chartered.svg'', ''scmobile'', ''https://sc.com/ng/app''),
     (''PocketApp'', ''pocketapp.svg'', ''pocketapp'', ''https://pocketapp.com.ng/app''),
     (''Paystack-Titan'', ''paystack-titan.svg'', ''paystack'', ''https://paystack.com/app''),
     (''Paycom (OPay)'', ''paycom.svg'', ''opay'', ''https://opay-inc.com/app'')]"

definition url_safe :: "char \<Rightarrow> bool" where
  "url_safe c \<longleftrightarrow> is_alnum c \<or> c = CHR ''-'' \<or> c = CHR ''_''"

definition qr_token :: "string \<Rightarrow> bool" where
  "qr_token s \<longleftrightarrow> 1 \<le> length s \<and> length s \<le> 128 \<and> list_all url_safe s"

record app_config =
  ap_scheme :: string
  ap_qr_route :: string
  ap_domain :: string

definition or_default :: "string \<Rightarrow> string \<Rightarrow> string" where
  "or_default s d = (if s = [] then d else s)"

definition ruralPayEntry :: "app_config \<Rightarrow> string \<Rightarrow> bank_entry" where
  "ruralPayEntry cfg token =
     (let route = or_default (ap_qr_route cfg) ''pay/qr''
      in \<lparr>be_Name = ''RuralPay'', be_Logo = ''RuralPay.png'', be_Scheme = or_default (ap_scheme cfg) ''ruralpay'', be_Route = route,
          be_FallbackURL = ''https://'' @ or_default (ap_domain cfg) ''app.ruralpay.com'' @ ''/'' @ route @ ''?token='' @ token\<rparr>)"

text \<open>\<open>base64.RawURLEncoding\<close>: the other alphabet, and no padding.\<close>

definition raw_url_encode :: "string \<Rightarrow> string" where
  "raw_url_encode bs = map (\<lambda>c. if c = CHR ''+'' then CHR ''-'' else if c = CHR ''/'' then CHR ''_'' else c)
     (filter (\<lambda>c. c \<noteq> CHR ''='') (base64_encode bs))"

definition page_nonce :: "go_err + string \<Rightarrow> go_err + string" where
  "page_nonce random = (case random of Inl e \<Rightarrow> Inl e | Inr b \<Rightarrow> Inr (raw_url_encode b))"

record landing_data =
  ld_Token :: string
  ld_Nonce :: string
  ld_Banks :: "bank_entry list"

datatype page = PageError string int | Page string string

definition quoted :: "string \<Rightarrow> string" where
  "quoted s = CHR 0x27 # s @ [CHR 0x27]"

definition nonce_policy :: "string \<Rightarrow> string" where
  "nonce_policy nonce = ''default-src '' @ quoted ''self'' @ ''; script-src '' @ quoted ''self'' @ '' '' @ quoted (''nonce-'' @ nonce)
     @ ''; style-src '' @ quoted ''self''"

definition QRLandingHandler ::
  "app_config \<Rightarrow> (landing_data \<Rightarrow> go_err + string) \<Rightarrow> go_err + string \<Rightarrow> string \<Rightarrow> page" where
  "QRLandingHandler cfg execute random token = (case page_nonce random of
       Inl _ \<Rightarrow> PageError ''internal error'' 500
     | Inr nonce \<Rightarrow>
         if \<not> qr_token token then PageError ''invalid token'' 400
         else (case execute \<lparr>ld_Token = token, ld_Nonce = nonce, ld_Banks = ruralPayEntry cfg token # qrBanks\<rparr> of
           Inl _ \<Rightarrow> PageError ''internal error'' 500
         | Inr body \<Rightarrow> Page (nonce_policy nonce) body))"

text \<open>What the client can put into a page has only letters, digits, hyphens and underscores, and so has the
  nonce: neither can end the quoted word or the address it stands in.\<close>

lemma alphabet_safe:
  "\<forall>c \<in> set std_alphabet. url_safe (if c = CHR ''+'' then CHR ''-'' else if c = CHR ''/'' then CHR ''_'' else c)"
  by code_simp

lemma raw_url_safe: "list_all url_safe (raw_url_encode bs)"
  using encode_chars [of _ bs] alphabet_safe by (fastforce simp: raw_url_encode_def list_all_iff)

lemma landing_page_safe:
  assumes "QRLandingHandler cfg execute random token = Page csp body"
  shows "qr_token token \<and> (\<exists>nonce. list_all url_safe nonce \<and> csp = nonce_policy nonce)"
proof -
  from assms obtain b where "page_nonce random = Inr (raw_url_encode b)" and t: "qr_token token" and "csp = nonce_policy (raw_url_encode b)"
    by (auto simp: QRLandingHandler_def page_nonce_def split: sum.splits if_splits)
  with raw_url_safe show ?thesis by blast
qed

section \<open>Health\<close>

record service_status =
  ss_Status :: string
  ss_Error :: string

text \<open>\<open>None\<close> is a client that was never made; otherwise the answer to the ping.\<close>

definition checkService :: "string \<Rightarrow> string \<Rightarrow> string option option \<Rightarrow> service_status" where
  "checkService absent_status absent_text ping = (case ping of
       None \<Rightarrow> \<lparr>ss_Status = absent_status, ss_Error = absent_text\<rparr>
     | Some (Some e) \<Rightarrow> \<lparr>ss_Status = ''unhealthy'', ss_Error = e\<rparr>
     | Some None \<Rightarrow> \<lparr>ss_Status = ''healthy'', ss_Error = []\<rparr>)"

definition checkDatabase :: "string option option \<Rightarrow> service_status" where
  "checkDatabase = checkService ''unhealthy'' ''database connection not initialized''"

definition checkRedis :: "string option option \<Rightarrow> service_status" where
  "checkRedis = checkService ''degraded'' ''Redis client not initialized''"

record health_status =
  hs_code :: int
  hs_Status :: string
  hs_Services :: "(string \<times> service_status) list"

definition HealthCheck :: "string option option \<Rightarrow> string option option \<Rightarrow> health_status" where
  "HealthCheck db_ping redis_ping =
     (let d = checkDatabase db_ping; r = checkRedis redis_ping;
          healthy = (ss_Status d = ''healthy'' \<and> ss_Status r = ''healthy'')
      in \<lparr>hs_code = (if healthy then 200 else 503), hs_Status = (if healthy then ''healthy'' else ''unhealthy''),
          hs_Services = [(''database'', d), (''redis'', r)]\<rparr>)"

lemma healthy_iff: "hs_code (HealthCheck d r) = 200 \<longleftrightarrow> d = Some None \<and> r = Some None"
  by (auto simp: HealthCheck_def checkDatabase_def checkRedis_def checkService_def Let_def split: option.splits)

section \<open>Speech\<close>

record transcribe_request =
  ts_Audio :: string
  ts_Encoding :: string
  ts_SampleRate :: int
  ts_LanguageCode :: string

definition supported_encodings :: "string list" where
  "supported_encodings = [''LINEAR16'', ''FLAC'', ''MULAW'', ''AMR'', ''AMR_WB'', ''OGG_OPUS'', ''SPEEX_WITH_HEADER_BYTE'', ''WEBM_OPUS'']"

text \<open>The constants of the speech library have the names of the switch's cases.\<close>

definition parseEncoding :: "string \<Rightarrow> go_err + string" where
  "parseEncoding encoding =
     (if ToUpper encoding \<in> set supported_encodings then Inr (ToUpper encoding)
      else Inl (Msg (''unsupported encoding: '' @ encoding)))"

definition decode_audio :: "string \<Rightarrow> go_err + string" where
  "decode_audio audio = (case base64_decode audio of
       None \<Rightarrow> Inl (Wrap ''failed to decode audio: '' (ExtErr ''illegal base64 data''))
     | Some bs \<Rightarrow> if bs = [] then Inl (Msg ''audio data is empty'') else Inr bs)"

text \<open>Confidences are \<open>float32\<close>, of type \<open>'c\<close>; \<open>average\<close> is their sum divided by their number.\<close>

definition mockTranscribe :: "'c \<Rightarrow> transcribe_request \<Rightarrow> go_err + (string \<times> 'c)" where
  "mockTranscribe point95 req = (case decode_audio (ts_Audio req) of
       Inl e \<Rightarrow> Inl e
     | Inr _ \<Rightarrow> Inr (''Mock transcription: Check my balance'', point95))"

text \<open>A client recognizes audio in an encoding, at a rate and in a language: a list of results, each a list
  of alternatives.\<close>

type_synonym 'c speech_client = "string \<Rightarrow> int \<Rightarrow> string \<Rightarrow> string \<Rightarrow> go_err + (string \<times> 'c) list list"

definition wrap32 :: "int \<Rightarrow> int" where
  "wrap32 n = signed_take_bit 31 n"

definition Transcribe ::
  "'c speech_client option \<Rightarrow> 'c \<Rightarrow> ('c list \<Rightarrow> 'c) \<Rightarrow> transcribe_request \<Rightarrow> go_err + (string \<times> 'c)" where
  "Transcribe client point95 average req = (case client of
       None \<Rightarrow> mockTranscribe point95 req
     | Some recognize \<Rightarrow> (case decode_audio (ts_Audio req) of
         Inl e \<Rightarrow> Inl e
       | Inr audioBytes \<Rightarrow> (case parseEncoding (ts_Encoding req) of
           Inl e \<Rightarrow> Inl e
         | Inr encoding \<Rightarrow> (case recognize encoding (wrap32 (ts_SampleRate req)) (ts_LanguageCode req) audioBytes of
             Inl e \<Rightarrow> Inl (Wrap ''recognition failed: '' e)
           | Inr results \<Rightarrow>
               if results = [] then Inl (Msg ''no transcription results'')
               else let firsts = map hd (filter (\<lambda>r. r \<noteq> []) results) in
                 if firsts = [] then Inl (Msg ''no alternatives in results'')
                 else Inr (TrimSpace (concat (map (\<lambda>a. fst a @ '' '') firsts)), average (map snd firsts))))))"

text \<open>The body, if it can be decoded, and whether something follows the object.\<close>

definition TranscribeAudio ::
  "'c speech_client option \<Rightarrow> 'c \<Rightarrow> ('c list \<Rightarrow> 'c) \<Rightarrow> request_context \<Rightarrow> (transcribe_request \<times> bool) option \<Rightarrow>
     http_response + (string \<times> 'c)" where
  "TranscribeAudio client point95 average c body =
     (if ctx_userID c = None \<or> ctx_userID c = Some [] then Inl (SendErrorResponse (Response UnauthorizedError) 401)
      else case body of
        None \<Rightarrow> Inl (SendErrorResponse (Response InvalidRequestError) 400)
      | Some (req, rest) \<Rightarrow>
          if rest then Inl (SendErrorResponse (Response SingleObjectError) 400)
          else if ts_Audio req = [] then Inl (SendErrorResponse ''Audio is required'' 400)
          else case Transcribe client point95 average (req\<lparr>ts_Encoding := or_default (ts_Encoding req) ''LINEAR16'',
              ts_SampleRate := (if ts_SampleRate req = 0 then 16000 else ts_SampleRate req),
              ts_LanguageCode := or_default (ts_LanguageCode req) ''en-US''\<rparr>) of
            Inl _ \<Rightarrow> Inl (SendErrorResponse (Response ProcessingFailed) 424)
          | Inr x \<Rightarrow> Inr x)"

end
