(* ===== verification/Connection.thy ===== *)
theory Connection
  imports Text
begin

text \<open>
  The connection to the database, \<open>src/internal/database/postgres.go\<close>: its settings, the attempts to reach
  it, and the cleaning of texts for the log.

  \<^item> The answers of the server to the pings, one after the other, are the function \<open>pings\<close>: \<open>None\<close> is an
    answer, \<open>Some e\<close> an error.  The result has the time slept, in nanoseconds.
  \<^item> \<open>open_db\<close> is \<open>sql.Open\<close>.  Settings not given have the defaults of \<open>GetConfig\<close>.
  \<^item> Texts are UTF-8.  The control characters are those of Latin-1, which are all there are; the bytes 128 to 159 are control
    characters only as the second byte of a sequence that starts with 194.
\<close>

section \<open>Settings\<close>

record db_config =
  dc_Host :: string
  dc_Port :: string
  dc_User :: string
  dc_Password :: string
  dc_Name :: string
  dc_SSLMode :: string
  dc_MaxOpenConns :: int
  dc_MaxIdleConns :: int
  dc_ConnMaxLifetime :: int

definition nanoseconds :: "int \<Rightarrow> int" where
  "nanoseconds s = s * 10 ^ 9"

definition setting :: "(string \<Rightarrow> 'a option) \<Rightarrow> string \<Rightarrow> 'a \<Rightarrow> 'a" where
  "setting given key preset = (case given key of None \<Rightarrow> preset | Some v \<Rightarrow> v)"

definition GetConfig :: "(string \<Rightarrow> string option) \<Rightarrow> (string \<Rightarrow> int option) \<Rightarrow> db_config" where
  "GetConfig texts numbers =
     \<lparr>dc_Host = setting texts ''database.host'' ''localhost'', dc_Port = setting texts ''database.port'' ''5432'',
      dc_User = setting texts ''database.user'' ''postgres'', dc_Password = setting texts ''database.password'' [],
      dc_Name = setting texts ''database.name'' ''ruralpay'', dc_SSLMode = setting texts ''database.ssl_mode'' ''disable'',
      dc_MaxOpenConns = setting numbers ''database.max_open_conns'' 25,
      dc_MaxIdleConns = setting numbers ''database.max_idle_conns'' 5,
      dc_ConnMaxLifetime = setting numbers ''database.conn_max_lifetime'' (nanoseconds 300)\<rparr>"

definition connStr :: "db_config \<Rightarrow> string" where
  "connStr c = ''host='' @ dc_Host c @ '' port='' @ dc_Port c @ '' user='' @ dc_User c @ '' password='' @ dc_Password c
     @ '' dbname='' @ dc_Name c @ '' sslmode='' @ dc_SSLMode c"

section \<open>Attempts\<close>

definition maxRetries :: nat where
  "maxRetries = 5"

definition initialDelay :: int where
  "initialDelay = nanoseconds 5"

definition maxDelay :: int where
  "maxDelay = nanoseconds 60"

text \<open>The loop from an attempt on.\<close>

function retry_from :: "(nat \<Rightarrow> go_err option) \<Rightarrow> nat \<Rightarrow> int \<Rightarrow> int \<Rightarrow> go_err option \<times> int" where
  "retry_from pings trial delay slept =
     (if maxRetries < trial then (None, slept)
      else case pings trial of
        None \<Rightarrow> (None, slept)
      | Some e \<Rightarrow>
          if trial = maxRetries
          then (Some (Wrap (''database unreachable after '' @ show_nat maxRetries @ '' attempts: '') e), slept)
          else retry_from pings (trial + 1) (min (delay * 2) maxDelay) (slept + delay))"
  by pat_completeness auto
termination by (relation "measure (\<lambda>(_, trial, _, _). Suc maxRetries - trial)") auto

declare retry_from.simps [simp del]

definition connectWithRetry :: "(nat \<Rightarrow> go_err option) \<Rightarrow> go_err option \<times> int" where
  "connectWithRetry pings = retry_from pings 1 initialDelay 0"

definition InitDB ::
  "(string \<Rightarrow> go_err + 'conn) \<Rightarrow> (nat \<Rightarrow> go_err option) \<Rightarrow> db_config \<Rightarrow> go_err + 'conn \<times> int \<times> int \<times> int \<times> int" where
  "InitDB open_db pings c = (case open_db (connStr c) of
       Inl e \<Rightarrow> Inl (Wrap ''failed to open database: '' e)
     | Inr conn \<Rightarrow> (case fst (connectWithRetry pings) of
         Some e \<Rightarrow> Inl (Wrap ''failed to connect to database: '' e)
       | None \<Rightarrow> Inr (conn, dc_MaxOpenConns c, dc_MaxIdleConns c, dc_ConnMaxLifetime c, nanoseconds 120)))"

text \<open>The attempts succeed exactly if one of the first five pings is answered, and sleep for 75 seconds at
  most: 5, 10, 20 and 40.\<close>

lemma connection_attempts:
  "(fst (connectWithRetry pings) = None \<longleftrightarrow> None \<in> pings ` {1..5}) \<and>
   0 \<le> snd (connectWithRetry pings) \<and> snd (connectWithRetry pings) \<le> nanoseconds 75"
proof -
  have s: "{1..5::nat} = {1, 2, 3, 4, 5}" by auto
  show ?thesis unfolding s connectWithRetry_def
    by (cases "pings 1"; cases "pings 2"; cases "pings 3"; cases "pings 4"; cases "pings 5")
      (simp_all add: retry_from.simps maxRetries_def initialDelay_def maxDelay_def nanoseconds_def del: One_nat_def)
qed

section \<open>Texts for the log\<close>

text \<open>The runes of a text, as far as their being control characters needs them: the code points below 160
  are one byte, or the byte 194 and one more.\<close>

fun sanitizeLogValue :: "string \<Rightarrow> string" where
  "sanitizeLogValue [] = []"
| "sanitizeLogValue [c] = (if (of_char c :: nat) < 32 \<or> of_char c = (127 :: nat) then [] else [c])"
| "sanitizeLogValue (c # d # s) =
     (if (of_char c :: nat) < 32 \<or> of_char c = (127 :: nat) then sanitizeLogValue (d # s)
      else if of_char c = (194 :: nat) \<and> (128 \<le> (of_char d :: nat) \<and> (of_char d :: nat) < 160) then sanitizeLogValue s
      else c # sanitizeLogValue (d # s))"

lemma no_line_breaks: "c \<in> set (sanitizeLogValue s) \<Longrightarrow> 32 \<le> (of_char c :: nat) \<and> of_char c \<noteq> (127 :: nat)"
  by (induction s rule: sanitizeLogValue.induct) (auto split: if_splits)

end
