(* ===== verification/QR_Image.thy ===== *)
theory QR_Image
  imports Main
begin

text \<open>
  The picture of a code, \<open>addLogoToQR\<close> of \<open>src/internal/services/qr_service.go\<close>: a logo on a green disc in
  the middle of it.

  \<^item> A pixel is Go's \<open>color.RGBA\<close>: four bytes, the colours multiplied by the opacity.  \<open>over\<close> is the
    arithmetic of \<open>draw.Over\<close> between two such pictures, in 16 bits.
  \<^item> A picture starts at the origin, as those of the QR library do; the logo has bounds of its own.
  \<^item> The circles compare halves of integers, exact in \<open>float64\<close>; they are compared here without the halves.
\<close>

section \<open>Pictures\<close>

type_synonym rgba = "nat \<times> nat \<times> nat \<times> nat"

record picture =
  pc_width :: int
  pc_height :: int
  pc_at :: "int \<Rightarrow> int \<Rightarrow> rgba"

record logo_file =
  lo_min_x :: int
  lo_min_y :: int
  lo_dx :: int
  lo_dy :: int
  lo_at :: "int \<Rightarrow> int \<Rightarrow> rgba"

definition clear :: rgba where
  "clear = (0, 0, 0, 0)"

definition limeGreen :: rgba where
  "limeGreen = (50, 205, 50, 255)"

definition over_channel :: "nat \<Rightarrow> nat \<Rightarrow> nat \<Rightarrow> nat" where
  "over_channel alpha s d = ((d * ((65535 - alpha * 257) * 257) div 65535 + s * 257) div 256) mod 256"

definition over :: "rgba \<Rightarrow> rgba \<Rightarrow> rgba" where
  "over = (\<lambda>(sr, sg, sb, sa) (dr, dg, db, da).
     (over_channel sa sr dr, over_channel sa sg dg, over_channel sa sb db, over_channel sa sa da))"

definition inside :: "int \<Rightarrow> int \<Rightarrow> int \<Rightarrow> int \<Rightarrow> bool" where
  "inside w h x y \<longleftrightarrow> 0 \<le> x \<and> x < w \<and> 0 \<le> y \<and> y < h"

text \<open>\<open>draw.Draw(dst, src.Bounds().Add(p), src, image.Point{}, draw.Over)\<close>.\<close>

definition draw_over :: "int \<Rightarrow> int \<Rightarrow> picture \<Rightarrow> picture \<Rightarrow> picture" where
  "draw_over px py src dst = dst\<lparr>pc_at := (\<lambda>x y.
     if inside (pc_width src) (pc_height src) (x - px) (y - py) \<and> inside (pc_width dst) (pc_height dst) x y
     then over (pc_at src (x - px) (y - py)) (pc_at dst x y) else pc_at dst x y)\<rparr>"

section \<open>The logo\<close>

definition disc :: "int \<Rightarrow> int \<Rightarrow> int \<Rightarrow> bool" where
  "disc diameter x y \<longleftrightarrow> (2 * x - diameter)\<^sup>2 + (2 * y - diameter)\<^sup>2 \<le> diameter\<^sup>2"

text \<open>A square picture of which only a disc is painted.\<close>

definition rounded :: "int \<Rightarrow> (int \<Rightarrow> int \<Rightarrow> rgba) \<Rightarrow> picture" where
  "rounded n paint = \<lparr>pc_width = n, pc_height = n,
     pc_at = (\<lambda>x y. if inside n n x y \<and> disc n x y then paint x y else clear)\<rparr>"

definition scaled :: "int \<Rightarrow> logo_file \<Rightarrow> int \<Rightarrow> int \<Rightarrow> rgba" where
  "scaled n logo x y = lo_at logo (lo_min_x logo + x * lo_dx logo div n) (lo_min_y logo + y * lo_dy logo div n)"

text \<open>Go divides towards zero.\<close>

definition half :: "int \<Rightarrow> int" where
  "half n = sgn n * (\<bar>n\<bar> div 2)"

definition badge_size :: "picture \<Rightarrow> int" where
  "badge_size qr = pc_width qr div 5 + 16"

definition badge :: "logo_file \<Rightarrow> picture \<Rightarrow> picture" where
  "badge logo qr = (let logoSize = pc_width qr div 5
     in draw_over 8 8 (rounded logoSize (scaled logoSize logo)) (rounded (badge_size qr) (\<lambda>_ _. limeGreen)))"

text \<open>A logo that cannot be opened or decoded leaves the picture as it is.\<close>

definition addLogoToQR :: "logo_file option \<Rightarrow> picture \<Rightarrow> picture" where
  "addLogoToQR file qr = (case file of
       None \<Rightarrow> qr
     | Some logo \<Rightarrow> draw_over (half (pc_width qr - badge_size qr)) (half (pc_height qr - badge_size qr)) (badge logo qr) qr)"

section \<open>What stays of the code\<close>

definition byte_pixel :: "rgba \<Rightarrow> bool" where
  "byte_pixel = (\<lambda>(r, g, b, a). r < 256 \<and> g < 256 \<and> b < 256 \<and> a < 256)"

lemma over_channel_clear: "d < 256 \<Longrightarrow> over_channel 0 0 d = d"
proof -
  assume "d < 256"
  have "d * (65535 * 257) div 65535 = d * 257" by (simp add: mult.assoc [symmetric] mult.commute)
  moreover have "d * 257 div 256 = d" using \<open>d < 256\<close> by simp
  ultimately show ?thesis using \<open>d < 256\<close> by (simp add: over_channel_def)
qed

lemma over_clear: "byte_pixel d \<Longrightarrow> over clear d = d"
  by (cases d) (simp add: over_def clear_def byte_pixel_def over_channel_clear)

lemma over_limeGreen: "over limeGreen d = limeGreen"
  by (cases d) (simp add: over_def limeGreen_def over_channel_def)

text \<open>The disc of the logo lies in the green disc, eight pixels from its edge.\<close>

lemma disc_inner: "disc l (x - 8) (y - 8) \<Longrightarrow> 0 \<le> l \<Longrightarrow> disc (l + 16) x y"
proof -
  assume d: "disc l (x - 8) (y - 8)" and l: "0 \<le> l"
  have "l\<^sup>2 \<le> (l + 16)\<^sup>2" using l by (intro power_mono) simp_all
  moreover have "2 * (x - 8) - l = 2 * x - (l + 16)" "2 * (y - 8) - l = 2 * y - (l + 16)" by simp_all
  ultimately show ?thesis using d unfolding disc_def by (metis order_trans)
qed

lemma badge_clear:
  assumes "\<not> disc (badge_size qr) x y" and "0 \<le> pc_width qr"
  shows "pc_at (badge logo qr) x y = clear"
proof -
  have "\<not> disc (pc_width qr div 5) (x - 8) (y - 8)"
    using disc_inner [of "pc_width qr div 5" x y] assms by (auto simp: badge_size_def pos_imp_zdiv_nonneg_iff)
  moreover have "byte_pixel clear" by (simp add: byte_pixel_def clear_def)
  ultimately show ?thesis using assms(1)
    by (simp add: badge_def draw_over_def rounded_def Let_def over_clear)
qed

text \<open>The code outside the disc in its middle is not touched.\<close>

lemma logo_leaves_code:
  assumes "0 \<le> pc_width qr" and "byte_pixel (pc_at qr x y)"
    and "\<not> disc (badge_size qr) (x - half (pc_width qr - badge_size qr)) (y - half (pc_height qr - badge_size qr))"
  shows "pc_at (addLogoToQR file qr) x y = pc_at qr x y"
  using assms by (simp add: addLogoToQR_def draw_over_def badge_clear over_clear split: option.split)

lemma logo_keeps_size:
  "pc_width (addLogoToQR file qr) = pc_width qr" "pc_height (addLogoToQR file qr) = pc_height qr"
  by (simp_all add: addLogoToQR_def draw_over_def split: option.split)

text \<open>In a square picture of at least 60 pixels the disc stays in the middle: the outer quarter of the rows
  and columns, where the finder patterns are, keeps every pixel.\<close>

lemma disc_bounds: "disc n x y \<Longrightarrow> 0 \<le> n \<Longrightarrow> 0 \<le> x \<and> x \<le> n \<and> 0 \<le> y \<and> y \<le> n"
proof -
  assume d: "disc n x y" and n: "0 \<le> n"
  have "(2 * x - n)\<^sup>2 \<le> n\<^sup>2" "(2 * y - n)\<^sup>2 \<le> n\<^sup>2"
    using d zero_le_power2 [of "2 * x - n"] zero_le_power2 [of "2 * y - n"] unfolding disc_def by linarith+
  then have "\<bar>2 * x - n\<bar> \<le> n" "\<bar>2 * y - n\<bar> \<le> n" using n by (simp_all add: abs_le_square_iff [symmetric])
  then show ?thesis by auto
qed

lemma logo_in_the_middle:
  assumes "60 \<le> pc_width qr" and "pc_height qr = pc_width qr" and "byte_pixel (pc_at qr x y)"
    and out: "x < pc_width qr div 4 \<or> y < pc_width qr div 4 \<or> pc_width qr - pc_width qr div 4 < x \<or> pc_width qr - pc_width qr div 4 < y"
  shows "pc_at (addLogoToQR file qr) x y = pc_at qr x y"
proof (rule logo_leaves_code)
  let ?w = "pc_width qr"
  have h: "half (?w - badge_size qr) = (?w - badge_size qr) div 2" using assms(1) by (simp add: half_def badge_size_def sgn_if)
  show "\<not> disc (badge_size qr) (x - half (?w - badge_size qr)) (y - half (pc_height qr - badge_size qr))"
  proof
    assume "disc (badge_size qr) (x - half (?w - badge_size qr)) (y - half (pc_height qr - badge_size qr))"
    from disc_bounds [OF this] have "(?w - badge_size qr) div 2 \<le> x \<and> x \<le> (?w - badge_size qr) div 2 + badge_size qr"
      "(?w - badge_size qr) div 2 \<le> y \<and> y \<le> (?w - badge_size qr) div 2 + badge_size qr"
      using assms(1,2) h by (simp_all add: badge_size_def)
    with out show False using assms(1) unfolding badge_size_def by linarith
  qed
qed (use assms in simp_all)

end
