(* ===== verification/Spec2Isabelle.thy ===== *)
theory Spec2Isabelle
  imports Ledger_Props Lock_Props Bank_Transfer USSD_Props QR_Props Auth_Props Port_Props Callback_Props Gateway_Props Routing_Props Circuit_Breaker Query_Props Server_Props Feedback Directory Pages Connection QR_Image
begin

text \<open>
  A verification development of the RuralPay backend: a payment server in Go (\<open>src/cmd/server\<close>,
  \<open>src/internal\<close>) that keeps accounts in PostgreSQL, short-lived state in Redis, and talks to the Nigerian
  interbank switch over three protocols (NIP over SOAP, ISO 20022 with callbacks, ISO 8583 for cards).

  \<^bold>\<open>The parts and how they meet.\<close>  A request comes in through the router and its middleware (\<open>Server\<close>:
  heartbeat, counters of \<open>Rate_Limit\<close>, sessions of \<open>Auth\<close>, signatures of \<open>Callback_Auth\<close>) and ends in a handler.
  Payments go through one endpoint (\<open>Payment_Routing\<close>) to a provider: USSD, QR and voice
  (\<open>Providers\<close> on \<open>Provider_Base\<close>), airtime and data (\<open>Providers\<close>), transfers to other banks
  (\<open>Bank_Transfer\<close>) and cards (\<open>Card\<close>).  Providers move money by the ledger (\<open>Ledger\<close>) or by their own
  statements, take one-time codes and tokens (\<open>USSD\<close>, \<open>QR\<close>), write the audit log (\<open>Audit_Log\<close>) and call the
  switch: \<open>NIP\<close> and \<open>NIP_Services\<close>, \<open>ISO20022\<close> and \<open>ISO_Services\<close>, whose calls wait for the callbacks
  (\<open>Callbacks\<close>) in the port \<open>Callback_Port\<close>, or \<open>NIBSS_Client\<close> with the messages of \<open>ISO8583\<close>.

  \<^bold>\<open>Foundations.\<close>
  \<^item> \<open>Prelude\<close>: 64-bit integers, outcomes (value, error, panic), programs that thread a state, and the
    rules by which an invariant follows a program.  \<open>Text\<close>, \<open>Base64\<close>, \<open>SHA256\<close>: the parts of Go's
    library that the code computes with.  \<open>Models\<close>: the structures of \<open>src/internal/models\<close>, the answers
    and the error texts of \<open>src/internal/utils/response.go\<close>.
  \<^item> \<open>Store\<close>: the world.  Tables are lists of rows, Redis is a map with expiry, \<open>faults\<close> is a list of
    coins that decides which external call fails; every theorem that does not fix it holds for any failures.
    The interface of the keys is the locale \<open>kv_store\<close>.  \<open>Tx\<close>: programs inside one SQL transaction, and the
    locales \<open>tx_request\<close> (a request commits one change or none) and \<open>single_use\<close> (one accepted use per key),
    which the providers, the codes and the account handlers interpret.  \<open>Handlers\<close>: errors become answers.
  \<^item> \<open>Commons\<close>: \<open>utils/commons.go\<close>, \<open>mask.go\<close> and \<open>services/validation.go\<close>.

  \<^bold>\<open>Money.\<close>
  \<^item> \<open>Ledger\<close> (\<open>services/ledger_service.go\<close>) against the abstract ledger \<open>Ledger_Spec\<close>; \<open>Ledger_Props\<close>: refinement,
    exact success condition, atomicity, the double-entry invariant over all runs, reversal as an inverse.
    \<open>Ledger_Locks\<close> runs the same statements concurrently under the row locks, by an inductive step relation;
    \<open>Lock_Props\<close>: serializability, termination without deadlock (locale \<open>ordered_locking\<close>), and the
    deadlock of reversals.
  \<^item> \<open>Providers\<close> (\<open>providers/*_provider.go\<close>) against the locale \<open>money_mover\<close> of \<open>Provider_Spec\<close>; \<open>Provider_Props\<close>: the
    effect of a payment and solvency over all runs.  \<open>USSD\<close>, \<open>USSD_Props\<close> (\<open>services/ussd_service.go\<close>): a code is
    used once, across both components that take it.  \<open>QR\<close>, \<open>QR_Props\<close> (\<open>services/qr_service.go\<close>): payload,
    CRC over 16-bit words, tokens; \<open>QR_Image\<close>: the logo on the picture, which leaves the finder patterns
    alone.  \<open>Bank_Transfer\<close>: the cleaned request, the fee in floating point, the
    transfer.  \<open>Payment_Routing\<close>, \<open>Routing_Props\<close> (\<open>handlers/payment_handler.go\<close>): the JSON body member by
    member, and the modes that cannot be reached.
  \<^item> \<open>Merchants\<close>, \<open>Merchant_Props\<close>; \<open>Transaction_Query\<close>, \<open>Query_Props\<close>: the table of merchants under its
    constraints, and the history with its numbered SQL clauses and pages.

  \<^bold>\<open>Users and keys.\<close>
  \<^item> \<open>Auth\<close>, \<open>Auth_Handlers\<close>, \<open>Auth_Props\<close> (\<open>services/user_service.go\<close>, \<open>middleware/auth.go\<close>): what the
    session middleware lets through, what logout and deletion end.  \<open>Accounts\<close>, \<open>Account_Access\<close>,
    \<open>Account_Props\<close> (\<open>services/account_service.go\<close>): the invariant of accounts and limits, the second factor.
  \<^item> \<open>HSM\<close>, \<open>HSM_Service\<close>, \<open>HSM_Props\<close> (\<open>hsm/hsm.go\<close>, \<open>services/hsm_key_service.go\<close>): the key table, its files
    and its lock; restart, PINs, the keys of the clients, and the rotation that blocks.
  \<^item> \<open>Notifications\<close>, \<open>Feedback\<close>, \<open>Directory\<close>, \<open>Pages\<close>, \<open>Connection\<close>: messages and their routing, the links in the
    mails, the lists a client reads, the landing page, health and speech, the attempts to reach the database.

  \<^bold>\<open>The switch.\<close>
  \<^item> \<open>NIP\<close>, \<open>NIP_Services\<close>, \<open>NIP_Props\<close>: the three posts of a call, the messages of a transfer and what stands
    at the switch when it fails.
  \<^item> \<open>Sealing\<close>, \<open>ISO20022\<close>, \<open>Callbacks\<close>, \<open>Callback_Props\<close>: sealed messages, the six callbacks, and which
    call a callback wakes.  \<open>Callback_Port\<close>, \<open>Port_Props\<close>: the map of waiting calls under every schedule of
    calls and callbacks, as a step relation: the first callback decides, and nothing hangs.
  \<^item> \<open>Callback_Auth\<close>, \<open>Rate_Limit\<close>, \<open>Gateway_Props\<close>, \<open>Server\<close>, \<open>Server_Props\<close>: signatures, counters, and the
    theorem that every handler but the open ones runs only behind its guard.
  \<^item> \<open>DES\<close> (bit for bit, with the locale \<open>block_cipher\<close>), \<open>ISO8583\<close>, \<open>NIBSS_Client\<close>, \<open>NIBSS_Props\<close>, \<open>Card\<close>,
    \<open>Card_Props\<close>, \<open>Circuit_Breaker\<close>: padding and encryption round trips, the key exchange, and why no card
    payment settles.

  \<^bold>\<open>Bounds.\<close>  Go's \<open>int64\<close> and \<open>int\<close> are integers with \<open>wrap64\<close> written at every operation that the code does on
  them; SQL arithmetic that leaves its column is a refused statement.  Every function is total: loops are structural
  recursion or have a measure, so that no model has fuel; runs of concurrent programs are step relations, and
  that they end is proved.

  \<^bold>\<open>Parameters.\<close>  Code that is not in the repository is an argument: RSA, AES-GCM, Argon2, JWT, the codecs of
  JSON, XML, PEM and X.509, the ISO 8583 message library, HTTP and sockets, the mail server, templates, images,
  the random source and the clock.  What is relied on of them is a named hypothesis of the theorem,
  and its witness has a concrete instance.

  \<^bold>\<open>Not modelled.\<close>  \<open>src/docs/docs.go\<close> is generated text.  \<open>services/iso8583_service_old.go\<close> is commented out as
  a whole, \<open>hsm/hardware_hsm.go\<close> returns constant errors, \<open>src/examples\<close> prints.  Logging
  (\<open>logger/logger.go\<close>, \<open>middleware/logs.go\<close>, \<open>LogMessageAsXML\<close>), response headers and static files
  (\<open>middleware/security.go\<close>, \<open>static.go\<close>) do not decide what a handler does.  Configuration
  (\<open>config/svc_config.go\<close>) binds names to variables of the environment; its values are parameters where they are
  read.  The construction of the services in \<open>main.go\<close> is modelled where it decides something: a service or client
  that is never set is absent in the model.  Functions that nothing calls are left out
  (\<open>CreateSession\<close>, \<open>RotateRefreshToken\<close>, \<open>ISO20022CallbackAuthOptional\<close>).
\<close>

end
